(* ===== verification/Prelude.thy ===== *)
theory Prelude
  imports Main
begin

text \<open>
  What every component of the development shares: the collections of facts that
  carry the component proofs, and generic lemmas on lists and options.

  \<^item> \<open>rust_text\<close> collects the computation rules of the string functions;
  \<^item> \<open>effect_simps\<close> collects the computation rules of the state-and-error
    computations of theory \<open>Fallible\<close>;
  \<^item> \<open>obeys_intros\<close> collects the closure rules of relations between the state
    before and after a computation;
  \<^item> \<open>row_simps\<close> collects the lookup-after-update facts of the SQLite tables.
\<close>

named_theorems rust_text "computation rules of the text functions"
named_theorems effect_simps "computation rules of the fallible computations"
named_theorems obeys_intros "closure rules of before/after relations"
named_theorems row_simps "lookup after update in the tables"

section \<open>Lists\<close>

lemma find_Some_in_set: "find P xs = Some x \<Longrightarrow> x \<in> set xs \<and> P x"
  by (induction xs) (auto split: if_splits)

lemma find_None_iff_none: "find P xs = None \<longleftrightarrow> (\<forall>x \<in> set xs. \<not> P x)"
  by (induction xs) auto

lemma find_Some_ex: "(\<exists>x \<in> set xs. P x) \<longleftrightarrow> (\<exists>x. find P xs = Some x)"
  by (induction xs) auto

lemma filter_hd_find: "(case filter P xs of [] \<Rightarrow> None | y # _ \<Rightarrow> Some y) = find P xs"
  by (induction xs) auto

lemma last_filter_in: "filter P xs \<noteq> [] \<Longrightarrow> last (filter P xs) \<in> set xs \<and> P (last (filter P xs))"
  using last_in_set [of "filter P xs"] by auto

lemma length_filter_le1_unique:
  assumes "length (filter P xs) \<le> 1" "x \<in> set xs" "y \<in> set xs" "P x" "P y"
  shows "x = y"
proof -
  from assms have "x \<in> set (filter P xs)" "y \<in> set (filter P xs)" by auto
  with assms(1) show ?thesis
    by (cases "filter P xs") (auto simp: le_Suc_eq)
qed

section \<open>Association lists in insertion order\<close>

text \<open>A \<open>HashMap\<close> built by collecting a list keeps, for each key, the last entry.\<close>

definition last_entry :: "('v \<Rightarrow> 'k) \<Rightarrow> 'v list \<Rightarrow> 'k \<Rightarrow> 'v option" where
  "last_entry key xs k = find (\<lambda>x. key x = k) (rev xs)"

lemma last_entry_Nil [simp]: "last_entry key [] k = None"
  by (simp add: last_entry_def)

lemma last_entry_snoc [simp]:
  "last_entry key (xs @ [x]) k = (if key x = k then Some x else last_entry key xs k)"
  by (simp add: last_entry_def)

lemma last_entry_SomeD: "last_entry key xs k = Some x \<Longrightarrow> x \<in> set xs \<and> key x = k"
  unfolding last_entry_def by (drule find_Some_in_set) simp

lemma last_entry_None: "last_entry key xs k = None \<longleftrightarrow> (\<forall>x \<in> set xs. key x \<noteq> k)"
  by (simp add: last_entry_def find_None_iff_none)

lemma last_entry_unique:
  assumes "distinct (map key xs)" "x \<in> set xs"
  shows "last_entry key xs (key x) = Some x"
proof (cases "last_entry key xs (key x)")
  case None
  with assms(2) show ?thesis by (auto simp: last_entry_None)
next
  case (Some y)
  then have "y \<in> set xs" "key y = key x" by (auto dest: last_entry_SomeD)
  with assms have "y = x" by (auto dest: inj_onD simp: distinct_map)
  with Some show ?thesis by simp
qed

end
