(* ===== verification/Domain.thy ===== *)
theory Domain
  imports Rust_Text "HOL-Library.Word"
begin

text \<open>
  The shared types of \<open>crates/domain/src/lib.rs\<close>: one datatype per enum, one record
  per struct, with the source's constructors and fields (fields carry a prefix naming
  their struct). An \<open>i64\<close> is an \<open>int\<close> (none of the arithmetic on one can leave the
  range), a \<open>u64\<close> or \<open>u32\<close> is a word of its width, an \<open>f64\<close>, which the program only
  passes on, is its 64 bits; a \<open>serde_json::Value\<close> is the datatype \<open>json\<close>. The routing phase has
  its textual form here, as it is stored in SQLite.
\<close>

section \<open>JSON values\<close>

datatype json =
    JNull
  | JBool bool
  | JInt int
  | JFloat string
  | JStr string
  | JArr "json list"
  | JObj "(string \<times> json) list"

text \<open>
  A number that is no integer is kept as the text \<open>serde_json\<close> prints for it. The compact
  printing of a value:
\<close>

definition hex_digit :: "nat \<Rightarrow> char" where
  "hex_digit n = (if n < 10 then digit_char n else ''0123456789abcdef'' ! n)"

definition json_escape_char :: "char \<Rightarrow> string" where
  "json_escape_char c =
     (if c = CHR 0x22 then [CHR 0x5C, CHR 0x22]
      else if c = CHR 0x5C then [CHR 0x5C, CHR 0x5C]
      else if c = CHR 0x08 then [CHR 0x5C, CHR ''b'']
      else if c = CHR 0x09 then [CHR 0x5C, CHR ''t'']
      else if c = CHR 0x0A then [CHR 0x5C, CHR ''n'']
      else if c = CHR 0x0C then [CHR 0x5C, CHR ''f'']
      else if c = CHR 0x0D then [CHR 0x5C, CHR ''r'']
      else if of_char c < (32 :: nat)
           then [CHR 0x5C, CHR ''u'', CHR ''0'', CHR ''0'',
                 hex_digit (of_char c div 16), hex_digit (of_char c mod 16)]
      else [c])"

definition json_quote :: "string \<Rightarrow> string" where
  "json_quote s = [CHR 0x22] @ concat (map json_escape_char s) @ [CHR 0x22]"

fun json_text :: "json \<Rightarrow> string" where
  "json_text JNull = ''null''"
| "json_text (JBool b) = (if b then ''true'' else ''false'')"
| "json_text (JInt i) = show_int i"
| "json_text (JFloat t) = t"
| "json_text (JStr s) = json_quote s"
| "json_text (JArr xs) = ''['' @ join '','' (map json_text xs) @ '']''"
| "json_text (JObj kvs) = ''{'' @ join '','' (map (\<lambda>kv. json_quote (fst kv) @ '':'' @ json_text (snd kv)) kvs) @ ''}''"

definition jopt :: "string option \<Rightarrow> json" where
  "jopt x = (case x of None \<Rightarrow> JNull | Some s \<Rightarrow> JStr s)"

section \<open>Layers\<close>

datatype layer_state =
  LsOk | LsMissing | LsDrift | LsStarting | LsFailed | LsWaiting | LsDisabled | LsUnknown

record layer_status =
  ls_state :: layer_state
  ls_label :: string
  ls_detail :: "string option"

definition layer_ok :: "string \<Rightarrow> layer_status" where
  "layer_ok label = \<lparr>ls_state = LsOk, ls_label = label, ls_detail = None\<rparr>"

definition layer_unknown :: "string \<Rightarrow> layer_status" where
  "layer_unknown label = \<lparr>ls_state = LsUnknown, ls_label = label, ls_detail = None\<rparr>"

section \<open>Tunnel plans\<close>

record tunnel_plan =
  tp_id :: int
  tp_name :: string
  tp_local_ip :: string
  tp_local_port :: int
  tp_protocol :: string
  tp_domain :: string
  tp_dns_managed :: bool
  tp_record_id :: "string option"
  tp_enabled :: bool
  tp_created_at :: string
  tp_updated_at :: string

record tunnel_plan_input =
  ti_name :: string
  ti_local_ip :: string
  ti_local_port :: int
  ti_protocol :: string
  ti_domain :: string
  ti_dns_managed :: bool

record tunnel_row =
  tr_plan :: tunnel_plan
  tr_chmlfrp :: layer_status
  tr_frpc :: layer_status
  tr_cloudflare :: layer_status
  tr_overall :: layer_status

section \<open>Routing\<close>

datatype routing_phase = Idle | Failover | DnsSwitching | DegradedDns | Failed

fun phase_as_str :: "routing_phase \<Rightarrow> string" where
  "phase_as_str Idle = ''idle''"
| "phase_as_str Failover = ''failover''"
| "phase_as_str DnsSwitching = ''dns_switching''"
| "phase_as_str DegradedDns = ''degraded_dns''"
| "phase_as_str Failed = ''failed''"

definition phase_from_str :: "string \<Rightarrow> string + routing_phase" where
  "phase_from_str value =
     (if value = ''idle'' then Inr Idle
      else if value = ''failover'' then Inr Failover
      else if value = ''dns_switching'' then Inr DnsSwitching
      else if value = ''degraded_dns'' then Inr DegradedDns
      else if value = ''failed'' then Inr Failed
      else Inl (''unknown routing phase: '' @ value))"

text \<open>
  C40: the textual form of a routing phase is lossless and unambiguous: a string parses
  to a phase exactly when it is the string that phase prints, so what SQLite stores is
  read back as the phase that was written and any other text is an error.
\<close>
theorem phase_text_exact: "phase_from_str s = Inr p \<longleftrightarrow> s = phase_as_str p"
  by (cases p) (auto simp: phase_from_str_def)

record routing_state =
  rs_active_node :: "string option"
  rs_standby_node :: "string option"
  rs_quarantine_days :: int
  rs_failover_enabled :: bool
  rs_phase :: routing_phase
  rs_revision :: int
  rs_updated_at :: string

record routing_update =
  ru_active_node :: "string option"
  ru_standby_node :: "string option"
  ru_quarantine_days :: int
  ru_failover_enabled :: bool

section \<open>Nodes\<close>

record node_summary =
  ns_id :: int
  ns_name :: string
  ns_area :: string
  ns_web_supported :: bool
  ns_state :: string
  ns_real_ip :: "string option"
  ns_host :: "string option"
  ns_load1 :: "64 word option"
  ns_bandwidth :: "64 word option"
  ns_quarantined_until :: "string option"

section \<open>FRPC events and runtime\<close>

datatype fault_domain = FdLocal | FdConfig | FdAuth | FdNetwork | FdNode | FdUnknown

datatype frpc_event_type =
    LoginSuccess
  | ProxyAdded
  | ProxyStarted
  | LocalServiceFailure
  | ConfigMismatch
  | LocalDuplicateProxy
  | ServerProxyConflict
  | ServerConnectionFailure
  | AuthFailure
  | NetworkAmbiguous
  | Info
  | UnknownError

record frpc_event =
  ev_at :: int
  ev_generation :: "64 word"
  ev_raw :: string
  ev_proxy_name :: "string option"
  ev_type :: frpc_event_type
  ev_fault_domain :: fault_domain
  ev_severity :: string
  ev_triggers_failover :: bool

record frpc_tunnel_state =
  ft_tunnel_name :: string
  ft_state :: layer_status
  ft_last_event :: "frpc_event option"

record frpc_runtime_status =
  rt_running :: bool
  rt_pid :: "32 word option"
  rt_connected :: bool
  rt_config_path :: string
  rt_config_revision :: "int option"
  rt_started_at :: "string option"
  rt_last_error :: "string option"

section \<open>Providers and activity\<close>

record provider_health =
  ph_configured :: bool
  ph_connected :: bool
  ph_message :: string

record provider_settings_view =
  pv_chmlfrp_base_url :: string
  pv_chmlfrp_token_configured :: bool
  pv_cloudflare_api_base :: string
  pv_cloudflare_api_token_configured :: bool
  pv_cloudflare_zone_id :: string
  pv_updated_at :: string

record provider_settings_update =
  pu_chmlfrp_base_url :: string
  pu_chmlfrp_token :: "string option"
  pu_clear_chmlfrp_token :: bool
  pu_cloudflare_api_base :: string
  pu_cloudflare_api_token :: "string option"
  pu_clear_cloudflare_api_token :: bool
  pu_cloudflare_zone_id :: string

record activity_event =
  ae_id :: int
  ae_job_id :: "string option"
  ae_kind :: string
  ae_level :: string
  ae_message :: string
  ae_tunnel_name :: "string option"
  ae_node_name :: "string option"
  ae_details :: json
  ae_created_at :: string

end
