(* ===== verification/Chmlfrp.thy ===== *)
theory Chmlfrp
  imports Domain
begin

text \<open>
  The data of the ChmlFrp API and the pure functions on it
  (\<open>crates/chmlfrp/src/lib.rs\<close>): response envelopes, remote tunnels, the mutation
  payloads and the comparison of a remote tunnel with a plan. The client that sends the
  requests is in theory \<open>Clients\<close>.
\<close>

section \<open>Responses\<close>

record 'a envelope =
  en_msg :: string
  en_code :: int
  en_state :: string
  en_data :: "'a option"

record node_list_item =
  ni_id :: int
  ni_name :: string
  ni_area :: string
  ni_web :: string

record node_info =
  nd_id :: int
  nd_name :: string
  nd_area :: string
  nd_state :: string
  nd_real_ip :: string
  nd_ip :: string
  nd_load1 :: "64 word"
  nd_bandwidth :: "64 word"
  nd_web :: string

record remote_tunnel =
  rm_id :: int
  rm_name :: string
  rm_node :: string
  rm_local_ip :: string
  rm_local_port :: int
  rm_endpoint :: string
  rm_port_type :: string
  rm_band_domain :: "string option"
  rm_encryption :: string
  rm_compression :: string
  rm_extra_params :: "string option"
  rm_state :: string

definition ensure_success :: "'a envelope \<Rightarrow> string + unit" where
  "ensure_success r =
     (if eq_ignore_ascii_case (en_state r) ''success'' \<or> en_code r = 200 then Inr ()
      else Inl (''ChmlFrp error code='' @ show_int (en_code r) @ '' state='' @ en_state r
                @ '': '' @ en_msg r))"

text \<open>The two lenient field decoders.\<close>

definition string_or_number :: "json \<Rightarrow> string" where
  "string_or_number v =
     (case v of JNull \<Rightarrow> [] | JStr s \<Rightarrow> s | JInt i \<Rightarrow> show_int i | JFloat t \<Rightarrow> t | _ \<Rightarrow> json_text v)"

definition string_or_bool :: "json \<Rightarrow> string" where
  "string_or_bool v =
     (case v of JNull \<Rightarrow> [] | JStr s \<Rightarrow> s | JBool b \<Rightarrow> (if b then ''true'' else ''false'')
      | JInt i \<Rightarrow> show_int i | JFloat t \<Rightarrow> t | _ \<Rightarrow> json_text v)"

section \<open>Configuration of the client\<close>

record chml_config =
  cc_base_url :: string
  cc_token :: string

definition normalize_base_url :: "string \<Rightarrow> string" where
  "normalize_base_url v = trim_end_matches {CHR ''/''} (trim v)"

definition nonempty :: "string \<Rightarrow> string option" where
  "nonempty v = (if trim v \<noteq> [] then Some v else None)"

definition chml_new :: "string \<Rightarrow> string \<Rightarrow> chml_config" where
  "chml_new base token = \<lparr>cc_base_url = normalize_base_url base, cc_token = token\<rparr>"

definition chml_configured :: "chml_config \<Rightarrow> bool" where
  "chml_configured c \<longleftrightarrow> trim (cc_token c) \<noteq> []"

section \<open>Remote tunnels\<close>

definition parse_boolish :: "string \<Rightarrow> bool" where
  "parse_boolish v \<longleftrightarrow> to_ascii_lowercase v \<in> {''1'', ''true'', ''yes'', ''on''}"

definition web_protocol :: "string \<Rightarrow> bool" where
  "web_protocol p \<longleftrightarrow> to_ascii_lowercase p \<in> {''http'', ''https''}"

definition remote_port_number :: "remote_tunnel \<Rightarrow> int" where
  "remote_port_number t = (case parse_i64 (rm_endpoint t) of None \<Rightarrow> 0 | Some p \<Rightarrow> p)"

definition effective_domain :: "remote_tunnel \<Rightarrow> string" where
  "effective_domain t =
     (case rm_band_domain t of
        Some d \<Rightarrow> d
      | None \<Rightarrow> if web_protocol (rm_port_type t) then rm_endpoint t else [])"

definition matches_plan_on_node :: "remote_tunnel \<Rightarrow> tunnel_plan \<Rightarrow> string \<Rightarrow> bool" where
  "matches_plan_on_node t plan node \<longleftrightarrow>
     rm_node t = node
     \<and> rm_local_ip t = tp_local_ip plan
     \<and> rm_local_port t = tp_local_port plan
     \<and> eq_ignore_ascii_case (rm_port_type t) (tp_protocol plan)
     \<and> (\<not> web_protocol (tp_protocol plan)
        \<or> eq_ignore_ascii_case (effective_domain t) (tp_domain plan))"

section \<open>Mutations\<close>

record remote_tunnel_mutation =
  mu_tunnel_name :: string
  mu_node :: string
  mu_port_type :: string
  mu_local_ip :: string
  mu_local_port :: int
  mu_remote_port :: int
  mu_domain :: string
  mu_encryption :: bool
  mu_compression :: bool
  mu_extra_params :: string

record tunnel_mutation =
  tm_token :: string
  tm_tunnelname :: string
  tm_node :: string
  tm_porttype :: string
  tm_localip :: string
  tm_localport :: int
  tm_remoteport :: int
  tm_encryption :: bool
  tm_compression :: bool
  tm_extraparams :: string
  tm_banddomain :: string

definition from_remote_input :: "string \<Rightarrow> remote_tunnel_mutation \<Rightarrow> tunnel_mutation" where
  "from_remote_input token input =
     (let is_web = web_protocol (mu_port_type input) in
      \<lparr>tm_token = token, tm_tunnelname = trim (mu_tunnel_name input),
       tm_node = trim (mu_node input), tm_porttype = to_ascii_lowercase (trim (mu_port_type input)),
       tm_localip = trim (mu_local_ip input), tm_localport = mu_local_port input,
       tm_remoteport = (if is_web then 0 else mu_remote_port input),
       tm_encryption = mu_encryption input, tm_compression = mu_compression input,
       tm_extraparams = mu_extra_params input,
       tm_banddomain = (if is_web then trim (mu_domain input) else [])\<rparr>)"

definition from_plan :: "string \<Rightarrow> tunnel_plan \<Rightarrow> string \<Rightarrow> int \<Rightarrow> tunnel_mutation" where
  "from_plan token plan node remote_port =
     \<lparr>tm_token = token, tm_tunnelname = tp_name plan, tm_node = node,
      tm_porttype = to_ascii_lowercase (tp_protocol plan), tm_localip = tp_local_ip plan,
      tm_localport = tp_local_port plan, tm_remoteport = remote_port, tm_encryption = False,
      tm_compression = True, tm_extraparams = [], tm_banddomain = tp_domain plan\<rparr>"

text \<open>The payload \<open>sync_tunnel\<close> sends to move an existing tunnel to a node.\<close>

definition sync_payload :: "string \<Rightarrow> remote_tunnel \<Rightarrow> tunnel_plan \<Rightarrow> string \<Rightarrow> tunnel_mutation" where
  "sync_payload token remote plan target_node =
     (let is_web = web_protocol (tp_protocol plan) in
      \<lparr>tm_token = token, tm_tunnelname = tp_name plan, tm_node = target_node,
       tm_porttype = to_ascii_lowercase (tp_protocol plan), tm_localip = tp_local_ip plan,
       tm_localport = tp_local_port plan,
       tm_remoteport = (if is_web then 0 else remote_port_number remote),
       tm_encryption = parse_boolish (rm_encryption remote),
       tm_compression = parse_boolish (rm_compression remote),
       tm_extraparams = (case rm_extra_params remote of None \<Rightarrow> [] | Some p \<Rightarrow> p),
       tm_banddomain = (if is_web then tp_domain plan else effective_domain remote)\<rparr>)"

section \<open>Facts\<close>

text \<open>
  What a provider that stores a payload as it was sent reports for the tunnel afterwards;
  the port travels as a number and comes back through the lenient decoder.
\<close>

definition stored_tunnel :: "remote_tunnel \<Rightarrow> tunnel_mutation \<Rightarrow> remote_tunnel" where
  "stored_tunnel old m =
     old\<lparr>rm_name := tm_tunnelname m, rm_node := tm_node m, rm_port_type := tm_porttype m,
       rm_local_ip := tm_localip m, rm_local_port := tm_localport m,
       rm_endpoint := string_or_number
         (if web_protocol (tm_porttype m) then JStr (tm_banddomain m) else JInt (tm_remoteport m)),
       rm_band_domain := Some (tm_banddomain m),
       rm_encryption := string_or_bool (JBool (tm_encryption m)),
       rm_compression := string_or_bool (JBool (tm_compression m)),
       rm_extra_params := Some (tm_extraparams m)\<rparr>"

lemma web_protocol_lower [simp]: "web_protocol (to_ascii_lowercase p) = web_protocol p"
  by (simp add: web_protocol_def)

lemma parse_boolish_bool [simp]: "parse_boolish (string_or_bool (JBool b)) = b"
  by (cases b) (simp_all add: string_or_bool_def parse_boolish_def to_ascii_lowercase_def, code_simp+)

lemma stored_port:
  "in_i64 (tm_remoteport m) \<Longrightarrow> \<not> web_protocol (tm_porttype m) \<Longrightarrow>
   remote_port_number (stored_tunnel old m) = tm_remoteport m"
  by (simp add: remote_port_number_def stored_tunnel_def string_or_number_def parse_show_int)

lemma parse_i64_in_range: "parse_i64 s = Some i \<Longrightarrow> in_i64 i"
  by (auto simp: parse_i64_def Let_def split: list.splits if_splits option.splits)

lemma remote_port_in_range: "in_i64 (remote_port_number t)"
  by (auto simp: remote_port_number_def in_i64_def i64_min_def i64_max_def
      dest!: parse_i64_in_range split: option.splits)


end
