(* ===== verification/Cloudflare.thy ===== *)
theory Cloudflare
  imports Domain
begin

text \<open>
  The data of the Cloudflare API and the pure functions on it
  (\<open>crates/cloudflare/src/lib.rs\<close>): response envelopes, zones, DNS records and their
  mutations. The client that sends the requests is in theory \<open>Clients\<close>.
\<close>

record cf_config =
  fc_base_url :: string
  fc_token :: string
  fc_zone_id :: string

record cloudflare_zone =
  zn_id :: string
  zn_name :: string
  zn_status :: string

record dns_record =
  dr_id :: string
  dr_name :: string
  dr_type :: string
  dr_content :: string
  dr_proxied :: bool
  dr_ttl :: int
  dr_priority :: "int option"
  dr_comment :: "string option"
  dr_created_on :: "string option"
  dr_modified_on :: "string option"

record dns_record_mutation =
  dm_type :: string
  dm_name :: string
  dm_content :: string
  dm_ttl :: int
  dm_proxied :: "bool option"
  dm_priority :: "int option"
  dm_comment :: "string option"

record 'a cf_envelope =
  ce_success :: bool
  ce_result :: "'a option"
  ce_errors :: "json list"
  ce_total_pages :: "64 word option"

definition cf_normalize_base_url :: "string \<Rightarrow> string" where
  "cf_normalize_base_url v = trim_end_matches {CHR ''/''} (trim v)"

definition cf_new :: "string \<Rightarrow> string \<Rightarrow> string \<Rightarrow> cf_config" where
  "cf_new base token zone =
     \<lparr>fc_base_url = cf_normalize_base_url base, fc_token = token, fc_zone_id = zone\<rparr>"

definition cf_configured :: "cf_config \<Rightarrow> bool" where
  "cf_configured c \<longleftrightarrow> trim (fc_token c) \<noteq> [] \<and> trim (fc_zone_id c) \<noteq> []"

definition cf_token_configured :: "cf_config \<Rightarrow> bool" where
  "cf_token_configured c \<longleftrightarrow> trim (fc_token c) \<noteq> []"

definition cf_ensure_success :: "'a cf_envelope \<Rightarrow> string + 'a" where
  "cf_ensure_success r =
     (if ce_success r
      then (case ce_result r of
              None \<Rightarrow> Inl ''Cloudflare success response missing result''
            | Some x \<Rightarrow> Inr x)
      else Inl (''Cloudflare API error: '' @ json_text (JArr (ce_errors r))))"

definition is_a_record :: "dns_record \<Rightarrow> bool" where
  "is_a_record r \<longleftrightarrow> eq_ignore_ascii_case (dr_type r) ''A''"

text \<open>The record a missing A record is created from.\<close>

definition managed_a_record :: "string \<Rightarrow> string \<Rightarrow> dns_record_mutation" where
  "managed_a_record name ip =
     \<lparr>dm_type = ''A'', dm_name = name, dm_content = ip, dm_ttl = 1, dm_proxied = Some False,
      dm_priority = None, dm_comment = Some ''Managed by Ashan FRP Control Center''\<rparr>"

text \<open>A record as the JSON value the activity log keeps, keys in the order of \<open>serde_json\<close>.\<close>

definition dns_record_json :: "dns_record \<Rightarrow> json" where
  "dns_record_json r =
     JObj [(''comment'', jopt (dr_comment r)), (''content'', JStr (dr_content r)),
           (''created_on'', jopt (dr_created_on r)), (''id'', JStr (dr_id r)),
           (''modified_on'', jopt (dr_modified_on r)), (''name'', JStr (dr_name r)),
           (''priority'', case dr_priority r of None \<Rightarrow> JNull | Some p \<Rightarrow> JInt p),
           (''proxied'', JBool (dr_proxied r)), (''ttl'', JInt (dr_ttl r)), (''type'', JStr (dr_type r))]"

end
