(* ===== verification/Literals.thy ===== *)
theory Literals
  imports Main
begin

text \<open>
  The non-ASCII string literals of the program, as their UTF-8 bytes. Each comment gives
  the meaning of the literal.
\<close>


section \<open>Log patterns (crates/frpc-log)\<close>

definition pat_login_success :: string where
  \<comment> \<open>logged in to the server\<close>
  "pat_login_success =
    [CHR 0xE6, CHR 0x88, CHR 0x90, CHR 0xE5, CHR 0x8A, CHR 0x9F, CHR 0xE7, CHR 0x99, CHR 0xBB, CHR 0xE5,
     CHR 0xBD, CHR 0x95, CHR 0xE8, CHR 0x87, CHR 0xB3, CHR 0xE6, CHR 0x9C, CHR 0x8D, CHR 0xE5, CHR 0x8A,
     CHR 0xA1, CHR 0xE5, CHR 0x99, CHR 0xA8]"

definition pat_proxy_added :: string where
  \<comment> \<open>proxy added\<close>
  "pat_proxy_added =
    [CHR 0xE4, CHR 0xBB, CHR 0xA3, CHR 0xE7, CHR 0x90, CHR 0x86, CHR 0xE5, CHR 0xB7, CHR 0xB2, CHR 0xE6,
     CHR 0xB7, CHR 0xBB, CHR 0xE5, CHR 0x8A, CHR 0xA0]"

definition pat_mapping_started :: string where
  \<comment> \<open>mapping started\<close>
  "pat_mapping_started =
    [CHR 0xE6, CHR 0x98, CHR 0xA0, CHR 0xE5, CHR 0xB0, CHR 0x84, CHR 0xE5, CHR 0x90, CHR 0xAF, CHR 0xE5,
     CHR 0x8A, CHR 0xA8, CHR 0xE6, CHR 0x88, CHR 0x90, CHR 0xE5, CHR 0x8A, CHR 0x9F]"

definition pat_config_mismatch :: string where
  \<comment> \<open>config file does not match the record\<close>
  "pat_config_mismatch =
    [CHR 0xE9, CHR 0x85, CHR 0x8D, CHR 0xE7, CHR 0xBD, CHR 0xAE, CHR 0xE6, CHR 0x96, CHR 0x87, CHR 0xE4,
     CHR 0xBB, CHR 0xB6, CHR 0xE4, CHR 0xB8, CHR 0x8E, CHR 0xE8, CHR 0xAE, CHR 0xB0, CHR 0xE5, CHR 0xBD,
     CHR 0x95, CHR 0xE4, CHR 0xB8, CHR 0x8D, CHR 0xE5, CHR 0x8C, CHR 0xB9, CHR 0xE9, CHR 0x85, CHR 0x8D]"

definition pat_client_proxy_error :: string where
  \<comment> \<open>client proxy parameter error\<close>
  "pat_client_proxy_error =
    [CHR 0xE5, CHR 0xAE, CHR 0xA2, CHR 0xE6, CHR 0x88, CHR 0xB7, CHR 0xE7, CHR 0xAB, CHR 0xAF, CHR 0xE4,
     CHR 0xBB, CHR 0xA3, CHR 0xE7, CHR 0x90, CHR 0x86, CHR 0xE5, CHR 0x8F, CHR 0x82, CHR 0xE6, CHR 0x95,
     CHR 0xB0, CHR 0xE9, CHR 0x94, CHR 0x99, CHR 0xE8, CHR 0xAF, CHR 0xAF]"

definition pat_port_occupied :: string where
  \<comment> \<open>tunnel port occupied\<close>
  "pat_port_occupied =
    [CHR 0xE9, CHR 0x9A, CHR 0xA7, CHR 0xE9, CHR 0x81, CHR 0x93, CHR 0xE7, CHR 0xAB, CHR 0xAF, CHR 0xE5,
     CHR 0x8F, CHR 0xA3, CHR 0xE8, CHR 0xA2, CHR 0xAB, CHR 0xE5, CHR 0x8D, CHR 0xA0, CHR 0xE7, CHR 0x94,
     CHR 0xA8]"

definition pat_local_service :: string where
  \<comment> \<open>local service\<close>
  "pat_local_service =
    [CHR 0xE6, CHR 0x9C, CHR 0xAC, CHR 0xE5, CHR 0x9C, CHR 0xB0, CHR 0xE6, CHR 0x9C, CHR 0x8D, CHR 0xE5,
     CHR 0x8A, CHR 0xA1]"

definition pat_no_local_software :: string where
  \<comment> \<open>no software behind the local port\<close>
  "pat_no_local_software =
    [CHR 0xE5, CHR 0x86, CHR 0x85, CHR 0xE7, CHR 0xBD, CHR 0x91, CHR 0xE7, CHR 0xAB, CHR 0xAF, CHR 0xE5,
     CHR 0x8F, CHR 0xA3, CHR 0xE6, CHR 0x97, CHR 0xA0, CHR 0xE8, CHR 0xBD, CHR 0xAF, CHR 0xE4, CHR 0xBB,
     CHR 0xB6, CHR 0xE6, CHR 0x94, CHR 0xAF, CHR 0xE6, CHR 0x8C, CHR 0x81]"

definition pat_failed :: string where
  \<comment> \<open>failed\<close>
  "pat_failed =
    [CHR 0xE5, CHR 0xA4, CHR 0xB1, CHR 0xE8, CHR 0xB4, CHR 0xA5]"

section \<open>Labels of the runtime manager (crates/frpc-runtime)\<close>

definition lbl_node_fault :: string where
  \<comment> \<open>node fault\<close>
  "lbl_node_fault =
    [CHR 0xE8, CHR 0x8A, CHR 0x82, CHR 0xE7, CHR 0x82, CHR 0xB9, CHR 0xE6, CHR 0x95, CHR 0x85, CHR 0xE9,
     CHR 0x9A, CHR 0x9C]"

definition lbl_normal :: string where
  \<comment> \<open>normal\<close>
  "lbl_normal =
    [CHR 0xE6, CHR 0xAD, CHR 0xA3, CHR 0xE5, CHR 0xB8, CHR 0xB8]"

definition lbl_starting :: string where
  \<comment> \<open>starting\<close>
  "lbl_starting =
    [CHR 0xE5, CHR 0x90, CHR 0xAF, CHR 0xE5, CHR 0x8A, CHR 0xA8, CHR 0xE4, CHR 0xB8, CHR 0xAD]"

definition lbl_local_service_fault :: string where
  \<comment> \<open>local service fault\<close>
  "lbl_local_service_fault =
    [CHR 0xE6, CHR 0x9C, CHR 0xAC, CHR 0xE5, CHR 0x9C, CHR 0xB0, CHR 0xE6, CHR 0x9C, CHR 0x8D, CHR 0xE5,
     CHR 0x8A, CHR 0xA1, CHR 0xE5, CHR 0xBC, CHR 0x82, CHR 0xE5, CHR 0xB8, CHR 0xB8]"

definition lbl_server_conflict :: string where
  \<comment> \<open>server-side conflict\<close>
  "lbl_server_conflict =
    [CHR 0xE6, CHR 0x9C, CHR 0x8D, CHR 0xE5, CHR 0x8A, CHR 0xA1, CHR 0xE7, CHR 0xAB, CHR 0xAF, CHR 0xE5,
     CHR 0x86, CHR 0xB2, CHR 0xE7, CHR 0xAA, CHR 0x81]"

definition lbl_config_fault :: string where
  \<comment> \<open>config fault\<close>
  "lbl_config_fault =
    [CHR 0xE9, CHR 0x85, CHR 0x8D, CHR 0xE7, CHR 0xBD, CHR 0xAE, CHR 0xE5, CHR 0xBC, CHR 0x82, CHR 0xE5,
     CHR 0xB8, CHR 0xB8]"

section \<open>Labels of the status view (apps/server/src/reconcile.rs)\<close>

definition lbl_not_configured :: string where
  \<comment> \<open>not configured\<close>
  "lbl_not_configured =
    [CHR 0xE6, CHR 0x9C, CHR 0xAA, CHR 0xE9, CHR 0x85, CHR 0x8D, CHR 0xE7, CHR 0xBD, CHR 0xAE]"

definition lbl_api_unavailable :: string where
  \<comment> \<open>API unavailable\<close>
  "lbl_api_unavailable =
    [CHR 0x41, CHR 0x50, CHR 0x49, CHR 0x20, CHR 0xE4, CHR 0xB8, CHR 0x8D, CHR 0xE5, CHR 0x8F, CHR 0xAF,
     CHR 0xE7, CHR 0x94, CHR 0xA8]"

definition lbl_missing :: string where
  \<comment> \<open>does not exist\<close>
  "lbl_missing =
    [CHR 0xE4, CHR 0xB8, CHR 0x8D, CHR 0xE5, CHR 0xAD, CHR 0x98, CHR 0xE5, CHR 0x9C, CHR 0xA8]"

definition lbl_node_mismatch :: string where
  \<comment> \<open>node differs\<close>
  "lbl_node_mismatch =
    [CHR 0xE8, CHR 0x8A, CHR 0x82, CHR 0xE7, CHR 0x82, CHR 0xB9, CHR 0xE4, CHR 0xB8, CHR 0x8D, CHR 0xE4,
     CHR 0xB8, CHR 0x80, CHR 0xE8, CHR 0x87, CHR 0xB4]"

definition lbl_actual_node :: string where
  \<comment> \<open>actual node:\<close>
  "lbl_actual_node =
    [CHR 0xE5, CHR 0xAE, CHR 0x9E, CHR 0xE9, CHR 0x99, CHR 0x85, CHR 0xE8, CHR 0x8A, CHR 0x82, CHR 0xE7,
     CHR 0x82, CHR 0xB9, CHR 0x3A, CHR 0x20]"

definition lbl_config_drift :: string where
  \<comment> \<open>configuration differs\<close>
  "lbl_config_drift =
    [CHR 0xE9, CHR 0x85, CHR 0x8D, CHR 0xE7, CHR 0xBD, CHR 0xAE, CHR 0xE4, CHR 0xB8, CHR 0x8D, CHR 0xE4,
     CHR 0xB8, CHR 0x80, CHR 0xE8, CHR 0x87, CHR 0xB4]"

definition lbl_exists :: string where
  \<comment> \<open>exists\<close>
  "lbl_exists =
    [CHR 0xE5, CHR 0xB7, CHR 0xB2, CHR 0xE5, CHR 0xAD, CHR 0x98, CHR 0xE5, CHR 0x9C, CHR 0xA8]"

definition lbl_not_managed :: string where
  \<comment> \<open>not managed\<close>
  "lbl_not_managed =
    [CHR 0xE4, CHR 0xB8, CHR 0x8D, CHR 0xE7, CHR 0xAE, CHR 0xA1, CHR 0xE7, CHR 0x90, CHR 0x86]"

definition lbl_a_conflict :: string where
  \<comment> \<open>A record conflict\<close>
  "lbl_a_conflict =
    [CHR 0x41, CHR 0x20, CHR 0xE8, CHR 0xAE, CHR 0xB0, CHR 0xE5, CHR 0xBD, CHR 0x95, CHR 0xE5, CHR 0x86,
     CHR 0xB2, CHR 0xE7, CHR 0xAA, CHR 0x81]"

definition lbl_found :: string where
  \<comment> \<open>found\<close>
  "lbl_found =
    [CHR 0xE5, CHR 0x8F, CHR 0x91, CHR 0xE7, CHR 0x8E, CHR 0xB0, CHR 0x20]"

definition lbl_same_name_a :: string where
  \<comment> \<open>A records of the same name\<close>
  "lbl_same_name_a =
    [CHR 0x20, CHR 0xE6, CHR 0x9D, CHR 0xA1, CHR 0xE5, CHR 0x90, CHR 0x8C, CHR 0xE5, CHR 0x90, CHR 0x8D,
     CHR 0x20, CHR 0x41, CHR 0x20, CHR 0xE8, CHR 0xAE, CHR 0xB0, CHR 0xE5, CHR 0xBD, CHR 0x95]"

definition lbl_ip_mismatch :: string where
  \<comment> \<open>IP differs\<close>
  "lbl_ip_mismatch =
    [CHR 0x49, CHR 0x50, CHR 0x20, CHR 0xE4, CHR 0xB8, CHR 0x8D, CHR 0xE4, CHR 0xB8, CHR 0x80, CHR 0xE8,
     CHR 0x87, CHR 0xB4]"

definition lbl_actual :: string where
  \<comment> \<open>actual:\<close>
  "lbl_actual =
    [CHR 0xE5, CHR 0xAE, CHR 0x9E, CHR 0xE9, CHR 0x99, CHR 0x85, CHR 0x3A, CHR 0x20]"

definition lbl_frpc_not_running :: string where
  \<comment> \<open>FRPC not running\<close>
  "lbl_frpc_not_running =
    [CHR 0x46, CHR 0x52, CHR 0x50, CHR 0x43, CHR 0x20, CHR 0xE6, CHR 0x9C, CHR 0xAA, CHR 0xE8, CHR 0xBF,
     CHR 0x90, CHR 0xE8, CHR 0xA1, CHR 0x8C]"

definition lbl_node_connection_fault :: string where
  \<comment> \<open>node connection fault\<close>
  "lbl_node_connection_fault =
    [CHR 0xE8, CHR 0x8A, CHR 0x82, CHR 0xE7, CHR 0x82, CHR 0xB9, CHR 0xE8, CHR 0xBF, CHR 0x9E, CHR 0xE6,
     CHR 0x8E, CHR 0xA5, CHR 0xE5, CHR 0xBC, CHR 0x82, CHR 0xE5, CHR 0xB8, CHR 0xB8]"

definition lbl_waiting_logs :: string where
  \<comment> \<open>waiting for tunnel logs\<close>
  "lbl_waiting_logs =
    [CHR 0xE7, CHR 0xAD, CHR 0x89, CHR 0xE5, CHR 0xBE, CHR 0x85, CHR 0xE9, CHR 0x9A, CHR 0xA7, CHR 0xE9,
     CHR 0x81, CHR 0x93, CHR 0xE6, CHR 0x97, CHR 0xA5, CHR 0xE5, CHR 0xBF, CHR 0x97]"

definition lbl_connecting :: string where
  \<comment> \<open>connecting\<close>
  "lbl_connecting =
    [CHR 0xE8, CHR 0xBF, CHR 0x9E, CHR 0xE6, CHR 0x8E, CHR 0xA5, CHR 0xE4, CHR 0xB8, CHR 0xAD]"

definition lbl_switching :: string where
  \<comment> \<open>global node switch in progress\<close>
  "lbl_switching =
    [CHR 0xE5, CHR 0x85, CHR 0xA8, CHR 0xE5, CHR 0xB1, CHR 0x80, CHR 0xE8, CHR 0x8A, CHR 0x82, CHR 0xE7,
     CHR 0x82, CHR 0xB9, CHR 0xE5, CHR 0x88, CHR 0x87, CHR 0xE6, CHR 0x8D, CHR 0xA2, CHR 0xE4, CHR 0xB8,
     CHR 0xAD]"

definition lbl_dns_pending :: string where
  \<comment> \<open>global DNS not converged yet\<close>
  "lbl_dns_pending =
    [CHR 0xE5, CHR 0x85, CHR 0xA8, CHR 0xE5, CHR 0xB1, CHR 0x80, CHR 0x20, CHR 0x44, CHR 0x4E, CHR 0x53,
     CHR 0x20, CHR 0xE5, CHR 0xBE, CHR 0x85, CHR 0xE6, CHR 0x94, CHR 0xB6, CHR 0xE6, CHR 0x95, CHR 0x9B]"

definition lbl_global_fault :: string where
  \<comment> \<open>global state fault\<close>
  "lbl_global_fault =
    [CHR 0xE5, CHR 0x85, CHR 0xA8, CHR 0xE5, CHR 0xB1, CHR 0x80, CHR 0xE7, CHR 0x8A, CHR 0xB6, CHR 0xE6,
     CHR 0x80, CHR 0x81, CHR 0xE5, CHR 0xBC, CHR 0x82, CHR 0xE5, CHR 0xB8, CHR 0xB8]"

definition lbl_chml_not_deployed :: string where
  \<comment> \<open>ChmlFrp not deployed\<close>
  "lbl_chml_not_deployed =
    [CHR 0x43, CHR 0x68, CHR 0x6D, CHR 0x6C, CHR 0x46, CHR 0x72, CHR 0x70, CHR 0x20, CHR 0xE6, CHR 0x9C,
     CHR 0xAA, CHR 0xE9, CHR 0x83, CHR 0xA8, CHR 0xE7, CHR 0xBD, CHR 0xB2]"

definition lbl_chml_to_sync :: string where
  \<comment> \<open>ChmlFrp to be synchronised\<close>
  "lbl_chml_to_sync =
    [CHR 0x43, CHR 0x68, CHR 0x6D, CHR 0x6C, CHR 0x46, CHR 0x72, CHR 0x70, CHR 0x20, CHR 0xE5, CHR 0xBE,
     CHR 0x85, CHR 0xE5, CHR 0x90, CHR 0x8C, CHR 0xE6, CHR 0xAD, CHR 0xA5]"

definition lbl_chml_unavailable :: string where
  \<comment> \<open>ChmlFrp API unavailable\<close>
  "lbl_chml_unavailable =
    [CHR 0x43, CHR 0x68, CHR 0x6D, CHR 0x6C, CHR 0x46, CHR 0x72, CHR 0x70, CHR 0x20, CHR 0x41, CHR 0x50,
     CHR 0x49, CHR 0x20, CHR 0xE4, CHR 0xB8, CHR 0x8D, CHR 0xE5, CHR 0x8F, CHR 0xAF, CHR 0xE7, CHR 0x94,
     CHR 0xA8]"

definition lbl_chml_not_configured :: string where
  \<comment> \<open>ChmlFrp not configured\<close>
  "lbl_chml_not_configured =
    [CHR 0x43, CHR 0x68, CHR 0x6D, CHR 0x6C, CHR 0x46, CHR 0x72, CHR 0x70, CHR 0x20, CHR 0xE6, CHR 0x9C,
     CHR 0xAA, CHR 0xE9, CHR 0x85, CHR 0x8D, CHR 0xE7, CHR 0xBD, CHR 0xAE]"

definition lbl_frpc_fault :: string where
  \<comment> \<open>FRPC fault\<close>
  "lbl_frpc_fault =
    [CHR 0x46, CHR 0x52, CHR 0x50, CHR 0x43, CHR 0x20, CHR 0xE5, CHR 0xBC, CHR 0x82, CHR 0xE5, CHR 0xB8,
     CHR 0xB8]"

definition lbl_dns_fault :: string where
  \<comment> \<open>DNS fault\<close>
  "lbl_dns_fault =
    [CHR 0x44, CHR 0x4E, CHR 0x53, CHR 0x20, CHR 0xE5, CHR 0xBC, CHR 0x82, CHR 0xE5, CHR 0xB8, CHR 0xB8]"

definition lbl_dns_to_sync :: string where
  \<comment> \<open>DNS to be synchronised\<close>
  "lbl_dns_to_sync =
    [CHR 0x44, CHR 0x4E, CHR 0x53, CHR 0x20, CHR 0xE5, CHR 0xBE, CHR 0x85, CHR 0xE5, CHR 0x90, CHR 0x8C,
     CHR 0xE6, CHR 0xAD, CHR 0xA5]"

definition lbl_cf_unavailable :: string where
  \<comment> \<open>Cloudflare API unavailable\<close>
  "lbl_cf_unavailable =
    [CHR 0x43, CHR 0x6C, CHR 0x6F, CHR 0x75, CHR 0x64, CHR 0x66, CHR 0x6C, CHR 0x61, CHR 0x72, CHR 0x65,
     CHR 0x20, CHR 0x41, CHR 0x50, CHR 0x49, CHR 0x20, CHR 0xE4, CHR 0xB8, CHR 0x8D, CHR 0xE5, CHR 0x8F,
     CHR 0xAF, CHR 0xE7, CHR 0x94, CHR 0xA8]"

definition lbl_cf_not_configured :: string where
  \<comment> \<open>Cloudflare not configured\<close>
  "lbl_cf_not_configured =
    [CHR 0x43, CHR 0x6C, CHR 0x6F, CHR 0x75, CHR 0x64, CHR 0x66, CHR 0x6C, CHR 0x61, CHR 0x72, CHR 0x65,
     CHR 0x20, CHR 0xE6, CHR 0x9C, CHR 0xAA, CHR 0xE9, CHR 0x85, CHR 0x8D, CHR 0xE7, CHR 0xBD, CHR 0xAE]"

definition lbl_wait_frpc :: string where
  \<comment> \<open>waiting for FRPC verification\<close>
  "lbl_wait_frpc =
    [CHR 0xE7, CHR 0xAD, CHR 0x89, CHR 0xE5, CHR 0xBE, CHR 0x85, CHR 0x20, CHR 0x46, CHR 0x52, CHR 0x50,
     CHR 0x43, CHR 0x20, CHR 0xE9, CHR 0xAA, CHR 0x8C, CHR 0xE8, CHR 0xAF, CHR 0x81]"

definition lbl_checking :: string where
  \<comment> \<open>checking\<close>
  "lbl_checking =
    [CHR 0xE6, CHR 0xA3, CHR 0x80, CHR 0xE6, CHR 0x9F, CHR 0xA5, CHR 0xE4, CHR 0xB8, CHR 0xAD]"

section \<open>Activity and error texts of the reconciler (apps/server/src/reconcile.rs)\<close>

definition txt_no_active_node :: string where
  \<comment> \<open>no global active node configured\<close>
  "txt_no_active_node =
    [CHR 0xE6, CHR 0x9C, CHR 0xAA, CHR 0xE9, CHR 0x85, CHR 0x8D, CHR 0xE7, CHR 0xBD, CHR 0xAE, CHR 0xE5,
     CHR 0x85, CHR 0xA8, CHR 0xE5, CHR 0xB1, CHR 0x80, CHR 0xE6, CHR 0xB4, CHR 0xBB, CHR 0xE5, CHR 0x8A,
     CHR 0xA8, CHR 0xE8, CHR 0x8A, CHR 0x82, CHR 0xE7, CHR 0x82, CHR 0xB9]"

definition txt_no_enabled_plan :: string where
  \<comment> \<open>no enabled tunnel plan\<close>
  "txt_no_enabled_plan =
    [CHR 0xE6, CHR 0xB2, CHR 0xA1, CHR 0xE6, CHR 0x9C, CHR 0x89, CHR 0xE5, CHR 0x90, CHR 0xAF, CHR 0xE7,
     CHR 0x94, CHR 0xA8, CHR 0xE7, CHR 0x9A, CHR 0x84, CHR 0xE8, CHR 0xAE, CHR 0xA1, CHR 0xE5, CHR 0x88,
     CHR 0x92, CHR 0xE9, CHR 0x9A, CHR 0xA7, CHR 0xE9, CHR 0x81, CHR 0x93]"

definition txt_reconcile_start :: string where
  \<comment> \<open>global reconcile starts; all planned tunnels use the active node\<close>
  "txt_reconcile_start =
    [CHR 0xE5, CHR 0xBC, CHR 0x80, CHR 0xE5, CHR 0xA7, CHR 0x8B, CHR 0xE5, CHR 0x85, CHR 0xA8, CHR 0xE5,
     CHR 0xB1, CHR 0x80, CHR 0xE4, CHR 0xB8, CHR 0x80, CHR 0xE8, CHR 0x87, CHR 0xB4, CHR 0xE6, CHR 0x80,
     CHR 0xA7, CHR 0xE5, CHR 0x90, CHR 0x8C, CHR 0xE6, CHR 0xAD, CHR 0xA5, CHR 0xEF, CHR 0xBC, CHR 0x9B,
     CHR 0xE6, CHR 0x89, CHR 0x80, CHR 0xE6, CHR 0x9C, CHR 0x89, CHR 0xE8, CHR 0xAE, CHR 0xA1, CHR 0xE5,
     CHR 0x88, CHR 0x92, CHR 0xE9, CHR 0x9A, CHR 0xA7, CHR 0xE9, CHR 0x81, CHR 0x93, CHR 0xE7, CHR 0xBB,
     CHR 0x9F, CHR 0xE4, CHR 0xB8, CHR 0x80, CHR 0xE4, CHR 0xBD, CHR 0xBF, CHR 0xE7, CHR 0x94, CHR 0xA8,
     CHR 0xE5, CHR 0xBD, CHR 0x93, CHR 0xE5, CHR 0x89, CHR 0x8D, CHR 0xE6, CHR 0xB4, CHR 0xBB, CHR 0xE5,
     CHR 0x8A, CHR 0xA8, CHR 0xE8, CHR 0x8A, CHR 0x82, CHR 0xE7, CHR 0x82, CHR 0xB9]"

definition txt_restart_skipped :: string where
  \<comment> \<open>FRPC config unchanged and process running, restart skipped\<close>
  "txt_restart_skipped =
    [CHR 0x46, CHR 0x52, CHR 0x50, CHR 0x43, CHR 0x20, CHR 0xE9, CHR 0x85, CHR 0x8D, CHR 0xE7, CHR 0xBD,
     CHR 0xAE, CHR 0xE6, CHR 0x9C, CHR 0xAA, CHR 0xE5, CHR 0x8F, CHR 0x98, CHR 0xE5, CHR 0x8C, CHR 0x96,
     CHR 0xE4, CHR 0xB8, CHR 0x94, CHR 0xE8, CHR 0xBF, CHR 0x9B, CHR 0xE7, CHR 0xA8, CHR 0x8B, CHR 0xE8,
     CHR 0xBF, CHR 0x90, CHR 0xE8, CHR 0xA1, CHR 0x8C, CHR 0xE4, CHR 0xB8, CHR 0xAD, CHR 0xEF, CHR 0xBC,
     CHR 0x8C, CHR 0xE8, CHR 0xB7, CHR 0xB3, CHR 0xE8, CHR 0xBF, CHR 0x87, CHR 0xE4, CHR 0xB8, CHR 0x8D,
     CHR 0xE5, CHR 0xBF, CHR 0x85, CHR 0xE8, CHR 0xA6, CHR 0x81, CHR 0xE7, CHR 0x9A, CHR 0x84, CHR 0xE9,
     CHR 0x87, CHR 0x8D, CHR 0xE5, CHR 0x90, CHR 0xAF]"

definition txt_reconcile_done :: string where
  \<comment> \<open>global reconcile done\<close>
  "txt_reconcile_done =
    [CHR 0xE5, CHR 0x85, CHR 0xA8, CHR 0xE5, CHR 0xB1, CHR 0x80, CHR 0xE4, CHR 0xB8, CHR 0x80, CHR 0xE8,
     CHR 0x87, CHR 0xB4, CHR 0xE6, CHR 0x80, CHR 0xA7, CHR 0xE5, CHR 0x90, CHR 0x8C, CHR 0xE6, CHR 0xAD,
     CHR 0xA5, CHR 0xE5, CHR 0xAE, CHR 0x8C, CHR 0xE6, CHR 0x88, CHR 0x90]"

section \<open>Activity texts of the coordinator (apps/server/src/coordinator.rs)\<close>

definition txt_provider_saved :: string where
  \<comment> \<open>provider settings updated from the WebUI and active\<close>
  "txt_provider_saved =
    [CHR 0x50, CHR 0x72, CHR 0x6F, CHR 0x76, CHR 0x69, CHR 0x64, CHR 0x65, CHR 0x72, CHR 0x20, CHR 0xE9,
     CHR 0x85, CHR 0x8D, CHR 0xE7, CHR 0xBD, CHR 0xAE, CHR 0xE5, CHR 0xB7, CHR 0xB2, CHR 0xE4, CHR 0xBB,
     CHR 0x8E, CHR 0x20, CHR 0x57, CHR 0x65, CHR 0x62, CHR 0x55, CHR 0x49, CHR 0x20, CHR 0xE6, CHR 0x9B,
     CHR 0xB4, CHR 0xE6, CHR 0x96, CHR 0xB0, CHR 0xE5, CHR 0xB9, CHR 0xB6, CHR 0xE7, CHR 0xAB, CHR 0x8B,
     CHR 0xE5, CHR 0x8D, CHR 0xB3, CHR 0xE7, CHR 0x94, CHR 0x9F, CHR 0xE6, CHR 0x95, CHR 0x88]"

definition txt_ambiguous_confirmed :: string where
  \<comment> \<open>ambiguous network fault confirmed by the ChmlFrp node state, promoted to a node fault\<close>
  "txt_ambiguous_confirmed =
    [CHR 0x46, CHR 0x52, CHR 0x50, CHR 0x43, CHR 0x20, CHR 0xE6, CHR 0xA8, CHR 0xA1, CHR 0xE7, CHR 0xB3,
     CHR 0x8A, CHR 0xE7, CHR 0xBD, CHR 0x91, CHR 0xE7, CHR 0xBB, CHR 0x9C, CHR 0xE6, CHR 0x95, CHR 0x85,
     CHR 0xE9, CHR 0x9A, CHR 0x9C, CHR 0xE7, CHR 0xBB, CHR 0x8F, CHR 0x20, CHR 0x43, CHR 0x68, CHR 0x6D,
     CHR 0x6C, CHR 0x46, CHR 0x72, CHR 0x70, CHR 0x20, CHR 0xE8, CHR 0x8A, CHR 0x82, CHR 0xE7, CHR 0x82,
     CHR 0xB9, CHR 0xE7, CHR 0x8A, CHR 0xB6, CHR 0xE6, CHR 0x80, CHR 0x81, CHR 0xE7, CHR 0xA1, CHR 0xAE,
     CHR 0xE8, CHR 0xAE, CHR 0xA4, CHR 0xEF, CHR 0xBC, CHR 0x8C, CHR 0xE6, CHR 0x8F, CHR 0x90, CHR 0xE5,
     CHR 0x8D, CHR 0x87, CHR 0xE4, CHR 0xB8, CHR 0xBA, CHR 0xE8, CHR 0x8A, CHR 0x82, CHR 0xE7, CHR 0x82,
     CHR 0xB9, CHR 0xE7, CHR 0xBA, CHR 0xA7, CHR 0xE6, CHR 0x95, CHR 0x85, CHR 0xE9, CHR 0x9A, CHR 0x9C]"

definition txt_failover_failed :: string where
  \<comment> \<open>global failover failed\<close>
  "txt_failover_failed =
    [CHR 0xE5, CHR 0x85, CHR 0xA8, CHR 0xE5, CHR 0xB1, CHR 0x80, CHR 0xE6, CHR 0x95, CHR 0x85, CHR 0xE9,
     CHR 0x9A, CHR 0x9C, CHR 0xE5, CHR 0x88, CHR 0x87, CHR 0xE6, CHR 0x8D, CHR 0xA2, CHR 0xE5, CHR 0xA4,
     CHR 0xB1, CHR 0xE8, CHR 0xB4, CHR 0xA5]"

definition txt_node_fault_confirmed :: string where
  \<comment> \<open>node fault confirmed, old active node quarantined, global switch starts\<close>
  "txt_node_fault_confirmed =
    [CHR 0xE7, CHR 0xA1, CHR 0xAE, CHR 0xE8, CHR 0xAE, CHR 0xA4, CHR 0xE8, CHR 0x8A, CHR 0x82, CHR 0xE7,
     CHR 0x82, CHR 0xB9, CHR 0xE7, CHR 0xBA, CHR 0xA7, CHR 0xE6, CHR 0x95, CHR 0x85, CHR 0xE9, CHR 0x9A,
     CHR 0x9C, CHR 0xEF, CHR 0xBC, CHR 0x8C, CHR 0xE6, CHR 0x97, CHR 0xA7, CHR 0xE6, CHR 0xB4, CHR 0xBB,
     CHR 0xE5, CHR 0x8A, CHR 0xA8, CHR 0xE8, CHR 0x8A, CHR 0x82, CHR 0xE7, CHR 0x82, CHR 0xB9, CHR 0xE8,
     CHR 0xBF, CHR 0x9B, CHR 0xE5, CHR 0x85, CHR 0xA5, CHR 0xE9, CHR 0x9A, CHR 0x94, CHR 0xE7, CHR 0xA6,
     CHR 0xBB, CHR 0xE5, CHR 0xB9, CHR 0xB6, CHR 0xE5, CHR 0x90, CHR 0xAF, CHR 0xE5, CHR 0x8A, CHR 0xA8,
     CHR 0xE5, CHR 0x85, CHR 0xA8, CHR 0xE5, CHR 0xB1, CHR 0x80, CHR 0xE5, CHR 0x88, CHR 0x87, CHR 0xE6,
     CHR 0x8D, CHR 0xA2]"

definition txt_manual_failover :: string where
  \<comment> \<open>manual global switch; the old node is not quarantined\<close>
  "txt_manual_failover =
    [CHR 0xE4, CHR 0xBA, CHR 0xBA, CHR 0xE5, CHR 0xB7, CHR 0xA5, CHR 0xE8, CHR 0xA7, CHR 0xA6, CHR 0xE5,
     CHR 0x8F, CHR 0x91, CHR 0xE5, CHR 0x85, CHR 0xA8, CHR 0xE5, CHR 0xB1, CHR 0x80, CHR 0xE5, CHR 0x88,
     CHR 0x87, CHR 0xE6, CHR 0x8D, CHR 0xA2, CHR 0xEF, CHR 0xBC, CHR 0x9B, CHR 0xE6, CHR 0x97, CHR 0xA7,
     CHR 0xE8, CHR 0x8A, CHR 0x82, CHR 0xE7, CHR 0x82, CHR 0xB9, CHR 0xE4, CHR 0xB8, CHR 0x8D, CHR 0xE8,
     CHR 0xBF, CHR 0x9B, CHR 0xE5, CHR 0x85, CHR 0xA5, CHR 0xE6, CHR 0x95, CHR 0x85, CHR 0xE9, CHR 0x9A,
     CHR 0x9C, CHR 0xE9, CHR 0x9A, CHR 0x94, CHR 0xE7, CHR 0xA6, CHR 0xBB]"

definition txt_candidate_chosen :: string where
  \<comment> \<open>candidate chosen, trying to migrate everything\<close>
  "txt_candidate_chosen =
    [CHR 0xE9, CHR 0x80, CHR 0x89, CHR 0xE6, CHR 0x8B, CHR 0xA9, CHR 0xE5, CHR 0x85, CHR 0xA8, CHR 0xE5,
     CHR 0xB1, CHR 0x80, CHR 0xE5, CHR 0x80, CHR 0x99, CHR 0xE9, CHR 0x80, CHR 0x89, CHR 0xE8, CHR 0x8A,
     CHR 0x82, CHR 0xE7, CHR 0x82, CHR 0xB9, CHR 0xEF, CHR 0xBC, CHR 0x8C, CHR 0xE5, CHR 0xB0, CHR 0x9D,
     CHR 0xE8, CHR 0xAF, CHR 0x95, CHR 0xE6, CHR 0x95, CHR 0xB4, CHR 0xE4, CHR 0xBD, CHR 0x93, CHR 0xE8,
     CHR 0xBF, CHR 0x81, CHR 0xE7, CHR 0xA7, CHR 0xBB]"

definition txt_failover_done :: string where
  \<comment> \<open>global failover done\<close>
  "txt_failover_done =
    [CHR 0xE5, CHR 0x85, CHR 0xA8, CHR 0xE5, CHR 0xB1, CHR 0x80, CHR 0xE6, CHR 0x95, CHR 0x85, CHR 0xE9,
     CHR 0x9A, CHR 0x9C, CHR 0xE5, CHR 0x88, CHR 0x87, CHR 0xE6, CHR 0x8D, CHR 0xA2, CHR 0xE5, CHR 0xAE,
     CHR 0x8C, CHR 0xE6, CHR 0x88, CHR 0x90]"

definition txt_candidate_node_fault :: string where
  \<comment> \<open>candidate had a confirmed node fault; quarantined, forward recovery continues\<close>
  "txt_candidate_node_fault =
    [CHR 0xE5, CHR 0x80, CHR 0x99, CHR 0xE9, CHR 0x80, CHR 0x89, CHR 0xE8, CHR 0x8A, CHR 0x82, CHR 0xE7,
     CHR 0x82, CHR 0xB9, CHR 0xE5, CHR 0x87, CHR 0xBA, CHR 0xE7, CHR 0x8E, CHR 0xB0, CHR 0xE6, CHR 0x98,
     CHR 0x8E, CHR 0xE7, CHR 0xA1, CHR 0xAE, CHR 0x20, CHR 0x4E, CHR 0x6F, CHR 0x64, CHR 0x65, CHR 0x20,
     CHR 0xE7, CHR 0xBA, CHR 0xA7, CHR 0xE8, CHR 0xBF, CHR 0x90, CHR 0xE8, CHR 0xA1, CHR 0x8C, CHR 0xE6,
     CHR 0x95, CHR 0x85, CHR 0xE9, CHR 0x9A, CHR 0x9C, CHR 0xEF, CHR 0xBC, CHR 0x9B, CHR 0xE9, CHR 0x9A,
     CHR 0x94, CHR 0xE7, CHR 0xA6, CHR 0xBB, CHR 0xE5, CHR 0xB9, CHR 0xB6, CHR 0xE7, CHR 0xBB, CHR 0xA7,
     CHR 0xE7, CHR 0xBB, CHR 0xAD, CHR 0x20, CHR 0x46, CHR 0x6F, CHR 0x72, CHR 0x77, CHR 0x61, CHR 0x72,
     CHR 0x64, CHR 0x20, CHR 0x52, CHR 0x65, CHR 0x63, CHR 0x6F, CHR 0x76, CHR 0x65, CHR 0x72, CHR 0x79]"

definition txt_migration_failed :: string where
  \<comment> \<open>migration failed in the provider/config/DNS stage; the candidate is not blamed\<close>
  "txt_migration_failed =
    [CHR 0xE5, CHR 0x85, CHR 0xA8, CHR 0xE5, CHR 0xB1, CHR 0x80, CHR 0xE8, CHR 0xBF, CHR 0x81, CHR 0xE7,
     CHR 0xA7, CHR 0xBB, CHR 0xE5, CHR 0x9C, CHR 0xA8, CHR 0x20, CHR 0x50, CHR 0x72, CHR 0x6F, CHR 0x76,
     CHR 0x69, CHR 0x64, CHR 0x65, CHR 0x72, CHR 0x2F, CHR 0xE9, CHR 0x85, CHR 0x8D, CHR 0xE7, CHR 0xBD,
     CHR 0xAE, CHR 0x2F, CHR 0x44, CHR 0x4E, CHR 0x53, CHR 0x20, CHR 0xE9, CHR 0x98, CHR 0xB6, CHR 0xE6,
     CHR 0xAE, CHR 0xB5, CHR 0xE5, CHR 0xA4, CHR 0xB1, CHR 0xE8, CHR 0xB4, CHR 0xA5, CHR 0xEF, CHR 0xBC,
     CHR 0x9B, CHR 0xE6, CHR 0x9C, CHR 0xAA, CHR 0xE8, CHR 0xAF, CHR 0xAF, CHR 0xE5, CHR 0x88, CHR 0xA4,
     CHR 0xE5, CHR 0x80, CHR 0x99, CHR 0xE9, CHR 0x80, CHR 0x89, CHR 0xE8, CHR 0x8A, CHR 0x82, CHR 0xE7,
     CHR 0x82, CHR 0xB9, CHR 0xE6, CHR 0x95, CHR 0x85, CHR 0xE9, CHR 0x9A, CHR 0x9C]"

definition txt_all_candidates_failed :: string where
  \<comment> \<open>every candidate had a confirmed node fault; FRPC stopped, waiting for manual recovery\<close>
  "txt_all_candidates_failed =
    [CHR 0xE6, CHR 0x89, CHR 0x80, CHR 0xE6, CHR 0x9C, CHR 0x89, CHR 0xE5, CHR 0x80, CHR 0x99, CHR 0xE9,
     CHR 0x80, CHR 0x89, CHR 0xE8, CHR 0x8A, CHR 0x82, CHR 0xE7, CHR 0x82, CHR 0xB9, CHR 0xE5, CHR 0x9D,
     CHR 0x87, CHR 0xE5, CHR 0x8F, CHR 0x91, CHR 0xE7, CHR 0x94, CHR 0x9F, CHR 0xE6, CHR 0x98, CHR 0x8E,
     CHR 0xE7, CHR 0xA1, CHR 0xAE, CHR 0x20, CHR 0x4E, CHR 0x6F, CHR 0x64, CHR 0x65, CHR 0x20, CHR 0xE7,
     CHR 0xBA, CHR 0xA7, CHR 0xE6, CHR 0x95, CHR 0x85, CHR 0xE9, CHR 0x9A, CHR 0x9C, CHR 0xEF, CHR 0xBC,
     CHR 0x9B, CHR 0x46, CHR 0x52, CHR 0x50, CHR 0x43, CHR 0x20, CHR 0xE5, CHR 0xB7, CHR 0xB2, CHR 0xE5,
     CHR 0x81, CHR 0x9C, CHR 0xE6, CHR 0xAD, CHR 0xA2, CHR 0xEF, CHR 0xBC, CHR 0x8C, CHR 0xE7, CHR 0xAD,
     CHR 0x89, CHR 0xE5, CHR 0xBE, CHR 0x85, CHR 0xE4, CHR 0xBA, CHR 0xBA, CHR 0xE5, CHR 0xB7, CHR 0xA5,
     CHR 0xE6, CHR 0x81, CHR 0xA2, CHR 0xE5, CHR 0xA4, CHR 0x8D]"

definition txt_manual_recovered :: string where
  \<comment> \<open>manual switch failed; original active node restored\<close>
  "txt_manual_recovered =
    [CHR 0xE6, CHR 0x89, CHR 0x8B, CHR 0xE5, CHR 0x8A, CHR 0xA8, CHR 0xE5, CHR 0x88, CHR 0x87, CHR 0xE6,
     CHR 0x8D, CHR 0xA2, CHR 0xE5, CHR 0xA4, CHR 0xB1, CHR 0xE8, CHR 0xB4, CHR 0xA5, CHR 0xEF, CHR 0xBC,
     CHR 0x9B, CHR 0xE5, CHR 0xB7, CHR 0xB2, CHR 0xE6, CHR 0x81, CHR 0xA2, CHR 0xE5, CHR 0xA4, CHR 0x8D,
     CHR 0xE5, CHR 0x8E, CHR 0x9F, CHR 0xE6, CHR 0xB4, CHR 0xBB, CHR 0xE5, CHR 0x8A, CHR 0xA8, CHR 0xE8,
     CHR 0x8A, CHR 0x82, CHR 0xE7, CHR 0x82, CHR 0xB9]"

definition txt_manual_recovery_failed :: string where
  \<comment> \<open>manual switch failed and restoring the original node failed; FRPC stopped\<close>
  "txt_manual_recovery_failed =
    [CHR 0xE6, CHR 0x89, CHR 0x8B, CHR 0xE5, CHR 0x8A, CHR 0xA8, CHR 0xE5, CHR 0x88, CHR 0x87, CHR 0xE6,
     CHR 0x8D, CHR 0xA2, CHR 0xE5, CHR 0xA4, CHR 0xB1, CHR 0xE8, CHR 0xB4, CHR 0xA5, CHR 0xE4, CHR 0xB8,
     CHR 0x94, CHR 0xE5, CHR 0x8E, CHR 0x9F, CHR 0xE6, CHR 0xB4, CHR 0xBB, CHR 0xE5, CHR 0x8A, CHR 0xA8,
     CHR 0xE8, CHR 0x8A, CHR 0x82, CHR 0xE7, CHR 0x82, CHR 0xB9, CHR 0xE6, CHR 0x81, CHR 0xA2, CHR 0xE5,
     CHR 0xA4, CHR 0x8D, CHR 0xE5, CHR 0xA4, CHR 0xB1, CHR 0xE8, CHR 0xB4, CHR 0xA5, CHR 0xEF, CHR 0xBC,
     CHR 0x9B, CHR 0x46, CHR 0x52, CHR 0x50, CHR 0x43, CHR 0x20, CHR 0xE5, CHR 0xB7, CHR 0xB2, CHR 0xE5,
     CHR 0x81, CHR 0x9C, CHR 0xE6, CHR 0xAD, CHR 0xA2]"

definition txt_migrate_start :: string where
  \<comment> \<open>ChmlFrp: migration of all tunnels starts\<close>
  "txt_migrate_start =
    [CHR 0x43, CHR 0x68, CHR 0x6D, CHR 0x6C, CHR 0x46, CHR 0x72, CHR 0x70, CHR 0xEF, CHR 0xBC, CHR 0x9A,
     CHR 0xE5, CHR 0xBC, CHR 0x80, CHR 0xE5, CHR 0xA7, CHR 0x8B, CHR 0xE7, CHR 0xBB, CHR 0x9F, CHR 0xE4,
     CHR 0xB8, CHR 0x80, CHR 0xE8, CHR 0xBF, CHR 0x81, CHR 0xE7, CHR 0xA7, CHR 0xBB, CHR 0xE5, CHR 0x85,
     CHR 0xA8, CHR 0xE9, CHR 0x83, CHR 0xA8, CHR 0xE9, CHR 0x9A, CHR 0xA7, CHR 0xE9, CHR 0x81, CHR 0x93]"

definition txt_config_loaded :: string where
  \<comment> \<open>FRPC: complete target config loaded, waiting for verification\<close>
  "txt_config_loaded =
    [CHR 0x46, CHR 0x52, CHR 0x50, CHR 0x43, CHR 0xEF, CHR 0xBC, CHR 0x9A, CHR 0xE5, CHR 0xB7, CHR 0xB2,
     CHR 0xE5, CHR 0x8A, CHR 0xA0, CHR 0xE8, CHR 0xBD, CHR 0xBD, CHR 0xE7, CHR 0x9B, CHR 0xAE, CHR 0xE6,
     CHR 0xA0, CHR 0x87, CHR 0xE8, CHR 0x8A, CHR 0x82, CHR 0xE7, CHR 0x82, CHR 0xB9, CHR 0xE5, CHR 0xAE,
     CHR 0x8C, CHR 0xE6, CHR 0x95, CHR 0xB4, CHR 0xE9, CHR 0x85, CHR 0x8D, CHR 0xE7, CHR 0xBD, CHR 0xAE,
     CHR 0xEF, CHR 0xBC, CHR 0x8C, CHR 0xE7, CHR 0xAD, CHR 0x89, CHR 0xE5, CHR 0xBE, CHR 0x85, CHR 0xE8,
     CHR 0xBF, CHR 0x90, CHR 0xE8, CHR 0xA1, CHR 0x8C, CHR 0xE9, CHR 0xAA, CHR 0x8C, CHR 0xE8, CHR 0xAF,
     CHR 0x81]"

definition txt_dns_update :: string where
  \<comment> \<open>Cloudflare: all managed A records updated after FRPC verification\<close>
  "txt_dns_update =
    [CHR 0x43, CHR 0x6C, CHR 0x6F, CHR 0x75, CHR 0x64, CHR 0x66, CHR 0x6C, CHR 0x61, CHR 0x72, CHR 0x65,
     CHR 0xEF, CHR 0xBC, CHR 0x9A, CHR 0x46, CHR 0x52, CHR 0x50, CHR 0x43, CHR 0x20, CHR 0xE6, CHR 0x96,
     CHR 0xB0, CHR 0xE9, CHR 0x93, CHR 0xBE, CHR 0xE8, CHR 0xB7, CHR 0xAF, CHR 0xE9, CHR 0xAA, CHR 0x8C,
     CHR 0xE8, CHR 0xAF, CHR 0x81, CHR 0xE5, CHR 0x90, CHR 0x8E, CHR 0xE7, CHR 0xBB, CHR 0x9F, CHR 0xE4,
     CHR 0xB8, CHR 0x80, CHR 0xE6, CHR 0x9B, CHR 0xB4, CHR 0xE6, CHR 0x96, CHR 0xB0, CHR 0xE5, CHR 0x85,
     CHR 0xA8, CHR 0xE9, CHR 0x83, CHR 0xA8, CHR 0xE5, CHR 0x8F, CHR 0x97, CHR 0xE7, CHR 0xAE, CHR 0xA1,
     CHR 0x20, CHR 0x41, CHR 0x20, CHR 0xE8, CHR 0xAE, CHR 0xB0, CHR 0xE5, CHR 0xBD, CHR 0x95]"

definition txt_rollback_done :: string where
  \<comment> \<open>ChmlFrp precommit stage failed, all changed tunnels restored\<close>
  "txt_rollback_done =
    [CHR 0x43, CHR 0x68, CHR 0x6D, CHR 0x6C, CHR 0x46, CHR 0x72, CHR 0x70, CHR 0x20, CHR 0xE9, CHR 0xA2,
     CHR 0x84, CHR 0xE6, CHR 0x8F, CHR 0x90, CHR 0xE4, CHR 0xBA, CHR 0xA4, CHR 0xE9, CHR 0x98, CHR 0xB6,
     CHR 0xE6, CHR 0xAE, CHR 0xB5, CHR 0xE5, CHR 0xA4, CHR 0xB1, CHR 0xE8, CHR 0xB4, CHR 0xA5, CHR 0xEF,
     CHR 0xBC, CHR 0x8C, CHR 0xE5, CHR 0xB7, CHR 0xB2, CHR 0xE8, CHR 0xA1, CHR 0xA5, CHR 0xE5, CHR 0x81,
     CHR 0xBF, CHR 0xE6, CHR 0x81, CHR 0xA2, CHR 0xE5, CHR 0xA4, CHR 0x8D, CHR 0xE6, CHR 0x89, CHR 0x80,
     CHR 0xE6, CHR 0x9C, CHR 0x89, CHR 0xE5, CHR 0xB7, CHR 0xB2, CHR 0xE4, CHR 0xBF, CHR 0xAE, CHR 0xE6,
     CHR 0x94, CHR 0xB9, CHR 0xE9, CHR 0x9A, CHR 0xA7, CHR 0xE9, CHR 0x81, CHR 0x93]"

definition txt_rollback_incomplete :: string where
  \<comment> \<open>ChmlFrp compensation incomplete, manual check needed\<close>
  "txt_rollback_incomplete =
    [CHR 0x43, CHR 0x68, CHR 0x6D, CHR 0x6C, CHR 0x46, CHR 0x72, CHR 0x70, CHR 0x20, CHR 0xE8, CHR 0xA1,
     CHR 0xA5, CHR 0xE5, CHR 0x81, CHR 0xBF, CHR 0xE6, CHR 0x81, CHR 0xA2, CHR 0xE5, CHR 0xA4, CHR 0x8D,
     CHR 0xE4, CHR 0xB8, CHR 0x8D, CHR 0xE5, CHR 0xAE, CHR 0x8C, CHR 0xE6, CHR 0x95, CHR 0xB4, CHR 0xEF,
     CHR 0xBC, CHR 0x8C, CHR 0xE9, CHR 0x9C, CHR 0x80, CHR 0xE8, CHR 0xA6, CHR 0x81, CHR 0xE4, CHR 0xBA,
     CHR 0xBA, CHR 0xE5, CHR 0xB7, CHR 0xA5, CHR 0xE6, CHR 0xA3, CHR 0x80, CHR 0xE6, CHR 0x9F, CHR 0xA5]"

section \<open>Texts of the HTTP API (apps/server/src/api.rs)\<close>

definition txt_connected :: string where
  \<comment> \<open>connected\<close>
  "txt_connected =
    [CHR 0xE5, CHR 0xB7, CHR 0xB2, CHR 0xE8, CHR 0xBF, CHR 0x9E, CHR 0xE6, CHR 0x8E, CHR 0xA5]"

definition txt_delete_chml_unconfigured :: string where
  \<comment> \<open>cannot delete safely: ChmlFrp is not configured\<close>
  "txt_delete_chml_unconfigured =
    [CHR 0xE6, CHR 0x97, CHR 0xA0, CHR 0xE6, CHR 0xB3, CHR 0x95, CHR 0xE5, CHR 0xAE, CHR 0x89, CHR 0xE5,
     CHR 0x85, CHR 0xA8, CHR 0xE5, CHR 0x88, CHR 0xA0, CHR 0xE9, CHR 0x99, CHR 0xA4, CHR 0xEF, CHR 0xBC,
     CHR 0x9A, CHR 0x43, CHR 0x68, CHR 0x6D, CHR 0x6C, CHR 0x46, CHR 0x72, CHR 0x70, CHR 0x20, CHR 0xE6,
     CHR 0x9C, CHR 0xAA, CHR 0xE9, CHR 0x85, CHR 0x8D, CHR 0xE7, CHR 0xBD, CHR 0xAE, CHR 0xEF, CHR 0xBC,
     CHR 0x8C, CHR 0xE6, CHR 0x97, CHR 0xA0, CHR 0xE6, CHR 0xB3, CHR 0x95, CHR 0xE7, CHR 0xA1, CHR 0xAE,
     CHR 0xE8, CHR 0xAE, CHR 0xA4, CHR 0xE8, CHR 0xBF, CHR 0x9C, CHR 0xE7, CHR 0xAB, CHR 0xAF, CHR 0xE9,
     CHR 0x9A, CHR 0xA7, CHR 0xE9, CHR 0x81, CHR 0x93, CHR 0xE6, CHR 0x98, CHR 0xAF, CHR 0xE5, CHR 0x90,
     CHR 0xA6, CHR 0xE4, CHR 0xBB, CHR 0x8D, CHR 0xE5, CHR 0xAD, CHR 0x98, CHR 0xE5, CHR 0x9C, CHR 0xA8]"

definition txt_delete_remote_exists_a :: string where
  \<comment> \<open>cannot delete the plan: ChmlFrp tunnel\<close>
  "txt_delete_remote_exists_a =
    [CHR 0xE6, CHR 0x97, CHR 0xA0, CHR 0xE6, CHR 0xB3, CHR 0x95, CHR 0xE5, CHR 0x88, CHR 0xA0, CHR 0xE9,
     CHR 0x99, CHR 0xA4, CHR 0xE8, CHR 0xAE, CHR 0xA1, CHR 0xE5, CHR 0x88, CHR 0x92, CHR 0xEF, CHR 0xBC,
     CHR 0x9A, CHR 0x43, CHR 0x68, CHR 0x6D, CHR 0x6C, CHR 0x46, CHR 0x72, CHR 0x70, CHR 0x20, CHR 0xE9,
     CHR 0x9A, CHR 0xA7, CHR 0xE9, CHR 0x81, CHR 0x93, CHR 0x20, CHR 0x27]"

definition txt_delete_remote_exists_b :: string where
  \<comment> \<open>still exists, clean it up first\<close>
  "txt_delete_remote_exists_b =
    [CHR 0x27, CHR 0x20, CHR 0xE4, CHR 0xBB, CHR 0x8D, CHR 0xE5, CHR 0xAD, CHR 0x98, CHR 0xE5, CHR 0x9C,
     CHR 0xA8, CHR 0xEF, CHR 0xBC, CHR 0x8C, CHR 0xE8, CHR 0xAF, CHR 0xB7, CHR 0xE5, CHR 0x85, CHR 0x88,
     CHR 0xE6, CHR 0xB8, CHR 0x85, CHR 0xE7, CHR 0x90, CHR 0x86, CHR 0xE8, CHR 0xBF, CHR 0x9C, CHR 0xE7,
     CHR 0xAB, CHR 0xAF, CHR 0xE8, CHR 0xB5, CHR 0x84, CHR 0xE6, CHR 0xBA, CHR 0x90]"

definition txt_delete_cf_unconfigured :: string where
  \<comment> \<open>cannot delete safely: the plan manages DNS but Cloudflare is not configured\<close>
  "txt_delete_cf_unconfigured =
    [CHR 0xE6, CHR 0x97, CHR 0xA0, CHR 0xE6, CHR 0xB3, CHR 0x95, CHR 0xE5, CHR 0xAE, CHR 0x89, CHR 0xE5,
     CHR 0x85, CHR 0xA8, CHR 0xE5, CHR 0x88, CHR 0xA0, CHR 0xE9, CHR 0x99, CHR 0xA4, CHR 0xEF, CHR 0xBC,
     CHR 0x9A, CHR 0xE8, CHR 0xAF, CHR 0xA5, CHR 0xE8, CHR 0xAE, CHR 0xA1, CHR 0xE5, CHR 0x88, CHR 0x92,
     CHR 0xE7, CHR 0xAE, CHR 0xA1, CHR 0xE7, CHR 0x90, CHR 0x86, CHR 0x20, CHR 0x44, CHR 0x4E, CHR 0x53,
     CHR 0xEF, CHR 0xBC, CHR 0x8C, CHR 0xE4, CHR 0xBD, CHR 0x86, CHR 0x20, CHR 0x43, CHR 0x6C, CHR 0x6F,
     CHR 0x75, CHR 0x64, CHR 0x66, CHR 0x6C, CHR 0x61, CHR 0x72, CHR 0x65, CHR 0x20, CHR 0xE6, CHR 0x9C,
     CHR 0xAA, CHR 0xE9, CHR 0x85, CHR 0x8D, CHR 0xE7, CHR 0xBD, CHR 0xAE]"

definition txt_delete_dns_exists_a :: string where
  \<comment> \<open>cannot delete the plan: Cloudflare A record\<close>
  "txt_delete_dns_exists_a =
    [CHR 0xE6, CHR 0x97, CHR 0xA0, CHR 0xE6, CHR 0xB3, CHR 0x95, CHR 0xE5, CHR 0x88, CHR 0xA0, CHR 0xE9,
     CHR 0x99, CHR 0xA4, CHR 0xE8, CHR 0xAE, CHR 0xA1, CHR 0xE5, CHR 0x88, CHR 0x92, CHR 0xEF, CHR 0xBC,
     CHR 0x9A, CHR 0x43, CHR 0x6C, CHR 0x6F, CHR 0x75, CHR 0x64, CHR 0x66, CHR 0x6C, CHR 0x61, CHR 0x72,
     CHR 0x65, CHR 0x20, CHR 0x41, CHR 0x20, CHR 0xE8, CHR 0xAE, CHR 0xB0, CHR 0xE5, CHR 0xBD, CHR 0x95,
     CHR 0x20, CHR 0x27]"

definition txt_delete_dns_exists_b :: string where
  \<comment> \<open>still exists\<close>
  "txt_delete_dns_exists_b =
    [CHR 0x27, CHR 0x20, CHR 0xE4, CHR 0xBB, CHR 0x8D, CHR 0xE5, CHR 0xAD, CHR 0x98, CHR 0xE5, CHR 0x9C,
     CHR 0xA8]"

definition txt_provider_busy :: string where
  \<comment> \<open>a global operation is running; change provider settings afterwards\<close>
  "txt_provider_busy =
    [CHR 0xE5, CHR 0x85, CHR 0xA8, CHR 0xE5, CHR 0xB1, CHR 0x80, CHR 0xE5, CHR 0x90, CHR 0x8C, CHR 0xE6,
     CHR 0xAD, CHR 0xA5, CHR 0x2F, CHR 0xE6, CHR 0x95, CHR 0x85, CHR 0xE9, CHR 0x9A, CHR 0x9C, CHR 0xE5,
     CHR 0x88, CHR 0x87, CHR 0xE6, CHR 0x8D, CHR 0xA2, CHR 0xE6, CHR 0xAD, CHR 0xA3, CHR 0xE5, CHR 0x9C,
     CHR 0xA8, CHR 0xE8, CHR 0xBF, CHR 0x90, CHR 0xE8, CHR 0xA1, CHR 0x8C, CHR 0xEF, CHR 0xBC, CHR 0x8C,
     CHR 0xE8, CHR 0xAF, CHR 0xB7, CHR 0xE5, CHR 0x9C, CHR 0xA8, CHR 0xE6, CHR 0x93, CHR 0x8D, CHR 0xE4,
     CHR 0xBD, CHR 0x9C, CHR 0xE7, CHR 0xBB, CHR 0x93, CHR 0xE6, CHR 0x9D, CHR 0x9F, CHR 0xE5, CHR 0x90,
     CHR 0x8E, CHR 0xE5, CHR 0x86, CHR 0x8D, CHR 0xE4, CHR 0xBF, CHR 0xAE, CHR 0xE6, CHR 0x94, CHR 0xB9,
     CHR 0x20, CHR 0x50, CHR 0x72, CHR 0x6F, CHR 0x76, CHR 0x69, CHR 0x64, CHR 0x65, CHR 0x72, CHR 0x20,
     CHR 0xE9, CHR 0x85, CHR 0x8D, CHR 0xE7, CHR 0xBD, CHR 0xAE]"

definition txt_enter_chml_token :: string where
  \<comment> \<open>enter the ChmlFrp API token\<close>
  "txt_enter_chml_token =
    [CHR 0xE8, CHR 0xAF, CHR 0xB7, CHR 0xE8, CHR 0xBE, CHR 0x93, CHR 0xE5, CHR 0x85, CHR 0xA5, CHR 0x20,
     CHR 0x43, CHR 0x68, CHR 0x6D, CHR 0x6C, CHR 0x46, CHR 0x72, CHR 0x70, CHR 0x20, CHR 0x41, CHR 0x50,
     CHR 0x49, CHR 0x20, CHR 0x54, CHR 0x6F, CHR 0x6B, CHR 0x65, CHR 0x6E]"

definition txt_enter_cf_token :: string where
  \<comment> \<open>enter the Cloudflare API token\<close>
  "txt_enter_cf_token =
    [CHR 0xE8, CHR 0xAF, CHR 0xB7, CHR 0xE8, CHR 0xBE, CHR 0x93, CHR 0xE5, CHR 0x85, CHR 0xA5, CHR 0x20,
     CHR 0x43, CHR 0x6C, CHR 0x6F, CHR 0x75, CHR 0x64, CHR 0x66, CHR 0x6C, CHR 0x61, CHR 0x72, CHR 0x65,
     CHR 0x20, CHR 0x41, CHR 0x50, CHR 0x49, CHR 0x20, CHR 0x54, CHR 0x6F, CHR 0x6B, CHR 0x65, CHR 0x6E]"

definition txt_chml_ok :: string where
  \<comment> \<open>ChmlFrp API reachable, token valid\<close>
  "txt_chml_ok =
    [CHR 0x43, CHR 0x68, CHR 0x6D, CHR 0x6C, CHR 0x46, CHR 0x72, CHR 0x70, CHR 0x20, CHR 0x41, CHR 0x50,
     CHR 0x49, CHR 0x20, CHR 0xE8, CHR 0xBF, CHR 0x9E, CHR 0xE6, CHR 0x8E, CHR 0xA5, CHR 0xE6, CHR 0x88,
     CHR 0x90, CHR 0xE5, CHR 0x8A, CHR 0x9F, CHR 0xEF, CHR 0xBC, CHR 0x8C, CHR 0x54, CHR 0x6F, CHR 0x6B,
     CHR 0x65, CHR 0x6E, CHR 0x20, CHR 0xE6, CHR 0x9C, CHR 0x89, CHR 0xE6, CHR 0x95, CHR 0x88]"

definition txt_cf_choose_zone :: string where
  \<comment> \<open>Cloudflare token valid; choose a zone\<close>
  "txt_cf_choose_zone =
    [CHR 0x43, CHR 0x6C, CHR 0x6F, CHR 0x75, CHR 0x64, CHR 0x66, CHR 0x6C, CHR 0x61, CHR 0x72, CHR 0x65,
     CHR 0x20, CHR 0x54, CHR 0x6F, CHR 0x6B, CHR 0x65, CHR 0x6E, CHR 0x20, CHR 0xE6, CHR 0x9C, CHR 0x89,
     CHR 0xE6, CHR 0x95, CHR 0x88, CHR 0xEF, CHR 0xBC, CHR 0x9B, CHR 0xE8, CHR 0xAF, CHR 0xB7, CHR 0xE9,
     CHR 0x80, CHR 0x89, CHR 0xE6, CHR 0x8B, CHR 0xA9, CHR 0x20, CHR 0x5A, CHR 0x6F, CHR 0x6E, CHR 0x65,
     CHR 0x20, CHR 0xE5, CHR 0x90, CHR 0x8E, CHR 0xE5, CHR 0x86, CHR 0x8D, CHR 0xE6, CHR 0xB5, CHR 0x8B,
     CHR 0xE8, CHR 0xAF, CHR 0x95, CHR 0x20, CHR 0x44, CHR 0x4E, CHR 0x53, CHR 0x20, CHR 0xE8, CHR 0xAF,
     CHR 0xBB, CHR 0xE5, CHR 0x8F, CHR 0x96]"

definition txt_cf_ok :: string where
  \<comment> \<open>Cloudflare token and zone readable\<close>
  "txt_cf_ok =
    [CHR 0x43, CHR 0x6C, CHR 0x6F, CHR 0x75, CHR 0x64, CHR 0x66, CHR 0x6C, CHR 0x61, CHR 0x72, CHR 0x65,
     CHR 0x20, CHR 0x54, CHR 0x6F, CHR 0x6B, CHR 0x65, CHR 0x6E, CHR 0x20, CHR 0xE4, CHR 0xB8, CHR 0x8E,
     CHR 0x20, CHR 0x5A, CHR 0x6F, CHR 0x6E, CHR 0x65, CHR 0x20, CHR 0xE8, CHR 0xAF, CHR 0xBB, CHR 0xE5,
     CHR 0x8F, CHR 0x96, CHR 0xE6, CHR 0xB5, CHR 0x8B, CHR 0xE8, CHR 0xAF, CHR 0x95, CHR 0xE6, CHR 0x88,
     CHR 0x90, CHR 0xE5, CHR 0x8A, CHR 0x9F]"

definition txt_not_empty :: string where
  \<comment> \<open>must not be empty\<close>
  "txt_not_empty =
    [CHR 0x20, CHR 0xE4, CHR 0xB8, CHR 0x8D, CHR 0xE8, CHR 0x83, CHR 0xBD, CHR 0xE4, CHR 0xB8, CHR 0xBA,
     CHR 0xE7, CHR 0xA9, CHR 0xBA]"

definition txt_need_https :: string where
  \<comment> \<open>must use https://; http:// only for loopback\<close>
  "txt_need_https =
    [CHR 0x20, CHR 0xE5, CHR 0xBF, CHR 0x85, CHR 0xE9, CHR 0xA1, CHR 0xBB, CHR 0xE4, CHR 0xBD, CHR 0xBF,
     CHR 0xE7, CHR 0x94, CHR 0xA8, CHR 0x20, CHR 0x68, CHR 0x74, CHR 0x74, CHR 0x70, CHR 0x73, CHR 0x3A,
     CHR 0x2F, CHR 0x2F, CHR 0xEF, CHR 0xBC, CHR 0x9B, CHR 0xE4, CHR 0xBB, CHR 0x85, CHR 0xE6, CHR 0x9C,
     CHR 0xAC, CHR 0xE6, CHR 0x9C, CHR 0xBA, CHR 0xE5, CHR 0x9B, CHR 0x9E, CHR 0xE7, CHR 0x8E, CHR 0xAF,
     CHR 0xE5, CHR 0x9C, CHR 0xB0, CHR 0xE5, CHR 0x9D, CHR 0x80, CHR 0xE5, CHR 0x85, CHR 0x81, CHR 0xE8,
     CHR 0xAE, CHR 0xB8, CHR 0x20, CHR 0x68, CHR 0x74, CHR 0x74, CHR 0x70, CHR 0x3A, CHR 0x2F, CHR 0x2F]"

definition txt_name_managed :: string where
  \<comment> \<open>a managed tunnel has this name; edit the plan and reconcile\<close>
  "txt_name_managed =
    [CHR 0xE5, CHR 0x90, CHR 0x8C, CHR 0xE5, CHR 0x90, CHR 0x8D, CHR 0xE9, CHR 0x9A, CHR 0xA7, CHR 0xE9,
     CHR 0x81, CHR 0x93, CHR 0xE5, CHR 0xB7, CHR 0xB2, CHR 0xE7, CHR 0x94, CHR 0xB1, CHR 0x20, CHR 0x41,
     CHR 0x73, CHR 0x68, CHR 0x61, CHR 0x6E, CHR 0x20, CHR 0xE7, CHR 0xAE, CHR 0xA1, CHR 0xE7, CHR 0x90,
     CHR 0x86, CHR 0xEF, CHR 0xBC, CHR 0x9B, CHR 0xE8, CHR 0xAF, CHR 0xB7, CHR 0xE5, CHR 0x9C, CHR 0xA8,
     CHR 0xE8, CHR 0xAE, CHR 0xA1, CHR 0xE5, CHR 0x88, CHR 0x92, CHR 0xE9, CHR 0x9A, CHR 0xA7, CHR 0xE9,
     CHR 0x81, CHR 0x93, CHR 0xE4, CHR 0xB8, CHR 0xAD, CHR 0xE4, CHR 0xBF, CHR 0xAE, CHR 0xE6, CHR 0x94,
     CHR 0xB9, CHR 0xE5, CHR 0x90, CHR 0x8E, CHR 0xE6, CHR 0x89, CHR 0xA7, CHR 0xE8, CHR 0xA1, CHR 0x8C,
     CHR 0xE5, CHR 0x85, CHR 0xA8, CHR 0xE5, CHR 0xB1, CHR 0x80, CHR 0xE5, CHR 0x90, CHR 0x8C, CHR 0xE6,
     CHR 0xAD, CHR 0xA5]"

definition txt_remote_created :: string where
  \<comment> \<open>ChmlFrp remote tunnel created\<close>
  "txt_remote_created =
    [CHR 0xE5, CHR 0x88, CHR 0x9B, CHR 0xE5, CHR 0xBB, CHR 0xBA, CHR 0x20, CHR 0x43, CHR 0x68, CHR 0x6D,
     CHR 0x6C, CHR 0x46, CHR 0x72, CHR 0x70, CHR 0x20, CHR 0xE8, CHR 0xBF, CHR 0x9C, CHR 0xE7, CHR 0xAB,
     CHR 0xAF, CHR 0xE9, CHR 0x9A, CHR 0xA7, CHR 0xE9, CHR 0x81, CHR 0x93]"

definition txt_no_rename :: string where
  \<comment> \<open>direct remote edit cannot rename a tunnel\<close>
  "txt_no_rename =
    [CHR 0xE7, CHR 0x9B, CHR 0xB4, CHR 0xE6, CHR 0x8E, CHR 0xA5, CHR 0xE8, CHR 0xBF, CHR 0x9C, CHR 0xE7,
     CHR 0xAB, CHR 0xAF, CHR 0xE7, CHR 0xBC, CHR 0x96, CHR 0xE8, CHR 0xBE, CHR 0x91, CHR 0xE4, CHR 0xB8,
     CHR 0x8D, CHR 0xE6, CHR 0x94, CHR 0xAF, CHR 0xE6, CHR 0x8C, CHR 0x81, CHR 0xE9, CHR 0x87, CHR 0x8D,
     CHR 0xE5, CHR 0x91, CHR 0xBD, CHR 0xE5, CHR 0x90, CHR 0x8D, CHR 0xE9, CHR 0x9A, CHR 0xA7, CHR 0xE9,
     CHR 0x81, CHR 0x93, CHR 0xEF, CHR 0xBC, CHR 0x9B, CHR 0xE8, CHR 0xAF, CHR 0xB7, CHR 0xE4, CHR 0xBF,
     CHR 0x9D, CHR 0xE6, CHR 0x8C, CHR 0x81, CHR 0xE5, CHR 0x8E, CHR 0x9F, CHR 0xE9, CHR 0x9A, CHR 0xA7,
     CHR 0xE9, CHR 0x81, CHR 0x93, CHR 0xE5, CHR 0x90, CHR 0x8D]"

definition txt_tunnel_managed :: string where
  \<comment> \<open>the tunnel is managed; edit the plan and reconcile\<close>
  "txt_tunnel_managed =
    [CHR 0xE8, CHR 0xAF, CHR 0xA5, CHR 0xE9, CHR 0x9A, CHR 0xA7, CHR 0xE9, CHR 0x81, CHR 0x93, CHR 0xE5,
     CHR 0xB7, CHR 0xB2, CHR 0xE7, CHR 0x94, CHR 0xB1, CHR 0x20, CHR 0x41, CHR 0x73, CHR 0x68, CHR 0x61,
     CHR 0x6E, CHR 0x20, CHR 0xE7, CHR 0xAE, CHR 0xA1, CHR 0xE7, CHR 0x90, CHR 0x86, CHR 0xEF, CHR 0xBC,
     CHR 0x9B, CHR 0xE5, CHR 0x8F, CHR 0x97, CHR 0xE7, CHR 0xAE, CHR 0xA1, CHR 0xE9, CHR 0x9A, CHR 0xA7,
     CHR 0xE9, CHR 0x81, CHR 0x93, CHR 0xE5, CHR 0xBF, CHR 0x85, CHR 0xE9, CHR 0xA1, CHR 0xBB, CHR 0xE4,
     CHR 0xBF, CHR 0xAE, CHR 0xE6, CHR 0x94, CHR 0xB9, CHR 0xE8, CHR 0xAE, CHR 0xA1, CHR 0xE5, CHR 0x88,
     CHR 0x92, CHR 0xE5, CHR 0x90, CHR 0x8E, CHR 0xE6, CHR 0x89, CHR 0xA7, CHR 0xE8, CHR 0xA1, CHR 0x8C,
     CHR 0x20, CHR 0x47, CHR 0x4C, CHR 0x4F, CHR 0x42, CHR 0x41, CHR 0x4C, CHR 0x20, CHR 0x52, CHR 0x45,
     CHR 0x43, CHR 0x4F, CHR 0x4E, CHR 0x43, CHR 0x49, CHR 0x4C, CHR 0x45, CHR 0xEF, CHR 0xBC, CHR 0x8C,
     CHR 0xE4, CHR 0xB8, CHR 0x8D, CHR 0xE8, CHR 0x83, CHR 0xBD, CHR 0xE7, CHR 0x9B, CHR 0xB4, CHR 0xE6,
     CHR 0x8E, CHR 0xA5, CHR 0xE6, CHR 0x94, CHR 0xB9, CHR 0xE8, CHR 0xBF, CHR 0x9C, CHR 0xE7, CHR 0xAB,
     CHR 0xAF]"

definition txt_remote_updated :: string where
  \<comment> \<open>unmanaged ChmlFrp tunnel changed\<close>
  "txt_remote_updated =
    [CHR 0xE4, CHR 0xBF, CHR 0xAE, CHR 0xE6, CHR 0x94, CHR 0xB9, CHR 0xE6, CHR 0x9C, CHR 0xAA, CHR 0xE7,
     CHR 0xBA, CHR 0xB3, CHR 0xE7, CHR 0xAE, CHR 0xA1, CHR 0x20, CHR 0x43, CHR 0x68, CHR 0x6D, CHR 0x6C,
     CHR 0x46, CHR 0x72, CHR 0x70, CHR 0x20, CHR 0xE8, CHR 0xBF, CHR 0x9C, CHR 0xE7, CHR 0xAB, CHR 0xAF,
     CHR 0xE9, CHR 0x9A, CHR 0xA7, CHR 0xE9, CHR 0x81, CHR 0x93]"

definition txt_port_unparsable :: string where
  \<comment> \<open>the remote port cannot be parsed\<close>
  "txt_port_unparsable =
    [CHR 0xE5, CHR 0xBD, CHR 0x93, CHR 0xE5, CHR 0x89, CHR 0x8D, CHR 0x20, CHR 0x54, CHR 0x43, CHR 0x50,
     CHR 0x2F, CHR 0x55, CHR 0x44, CHR 0x50, CHR 0x20, CHR 0xE8, CHR 0xBF, CHR 0x9C, CHR 0xE7, CHR 0xAB,
     CHR 0xAF, CHR 0xE7, CHR 0xAB, CHR 0xAF, CHR 0xE5, CHR 0x8F, CHR 0xA3, CHR 0xE6, CHR 0x97, CHR 0xA0,
     CHR 0xE6, CHR 0xB3, CHR 0x95, CHR 0xE8, CHR 0xA7, CHR 0xA3, CHR 0xE6, CHR 0x9E, CHR 0x90, CHR 0xEF,
     CHR 0xBC, CHR 0x8C, CHR 0xE4, CHR 0xB8, CHR 0x8D, CHR 0xE8, CHR 0x83, CHR 0xBD, CHR 0xE6, CHR 0x89,
     CHR 0xA7, CHR 0xE8, CHR 0xA1, CHR 0x8C, CHR 0xE5, CHR 0xAE, CHR 0x89, CHR 0xE5, CHR 0x85, CHR 0xA8,
     CHR 0xE5, CHR 0x86, CHR 0x99, CHR 0xE5, CHR 0x85, CHR 0xA5, CHR 0xE6, CHR 0xB5, CHR 0x8B, CHR 0xE8,
     CHR 0xAF, CHR 0x95]"

definition txt_no_test_on_managed :: string where
  \<comment> \<open>no write test on managed tunnels\<close>
  "txt_no_test_on_managed =
    [CHR 0xE5, CHR 0x8F, CHR 0x97, CHR 0xE7, CHR 0xAE, CHR 0xA1, CHR 0xE9, CHR 0x9A, CHR 0xA7, CHR 0xE9,
     CHR 0x81, CHR 0x93, CHR 0xE7, CHR 0xA6, CHR 0x81, CHR 0xE6, CHR 0xAD, CHR 0xA2, CHR 0xE7, CHR 0x9B,
     CHR 0xB4, CHR 0xE6, CHR 0x8E, CHR 0xA5, CHR 0xE5, CHR 0x86, CHR 0x99, CHR 0xE6, CHR 0xB5, CHR 0x8B,
     CHR 0xE8, CHR 0xAF, CHR 0x95, CHR 0xEF, CHR 0xBC, CHR 0x9B, CHR 0xE8, CHR 0xAF, CHR 0xB7, CHR 0xE4,
     CHR 0xBB, CHR 0x85, CHR 0xE5, CHR 0xAF, CHR 0xB9, CHR 0x20, CHR 0x55, CHR 0x6E, CHR 0x6D, CHR 0x61,
     CHR 0x6E, CHR 0x61, CHR 0x67, CHR 0x65, CHR 0x64, CHR 0x20, CHR 0xE8, CHR 0xBF, CHR 0x9C, CHR 0xE7,
     CHR 0xAB, CHR 0xAF, CHR 0xE8, CHR 0xB5, CHR 0x84, CHR 0xE6, CHR 0xBA, CHR 0x90, CHR 0xE6, CHR 0x89,
     CHR 0xA7, CHR 0xE8, CHR 0xA1, CHR 0x8C, CHR 0xE6, CHR 0xB5, CHR 0x8B, CHR 0xE8, CHR 0xAF, CHR 0x95]"

definition txt_not_reread :: string where
  \<comment> \<open>the tunnel could not be read back after the write\<close>
  "txt_not_reread =
    [CHR 0xE5, CHR 0x86, CHR 0x99, CHR 0xE5, CHR 0x85, CHR 0xA5, CHR 0xE5, CHR 0x90, CHR 0x8E, CHR 0xE6,
     CHR 0x9C, CHR 0xAA, CHR 0xE8, CHR 0x83, CHR 0xBD, CHR 0xE9, CHR 0x87, CHR 0x8D, CHR 0xE6, CHR 0x96,
     CHR 0xB0, CHR 0xE8, CHR 0xAF, CHR 0xBB, CHR 0xE5, CHR 0x8F, CHR 0x96, CHR 0xE5, CHR 0x88, CHR 0xB0,
     CHR 0xE6, CHR 0xB5, CHR 0x8B, CHR 0xE8, CHR 0xAF, CHR 0x95, CHR 0xE9, CHR 0x9A, CHR 0xA7, CHR 0xE9,
     CHR 0x81, CHR 0x93]"

definition txt_not_preserved :: string where
  \<comment> \<open>the write succeeded but the configuration read back differs\<close>
  "txt_not_preserved =
    [CHR 0x43, CHR 0x68, CHR 0x6D, CHR 0x6C, CHR 0x46, CHR 0x72, CHR 0x70, CHR 0x20, CHR 0xE5, CHR 0x86,
     CHR 0x99, CHR 0x20, CHR 0x41, CHR 0x50, CHR 0x49, CHR 0x20, CHR 0xE8, CHR 0xBF, CHR 0x94, CHR 0xE5,
     CHR 0x9B, CHR 0x9E, CHR 0xE6, CHR 0x88, CHR 0x90, CHR 0xE5, CHR 0x8A, CHR 0x9F, CHR 0xEF, CHR 0xBC,
     CHR 0x8C, CHR 0xE4, CHR 0xBD, CHR 0x86, CHR 0xE9, CHR 0x87, CHR 0x8D, CHR 0xE6, CHR 0x96, CHR 0xB0,
     CHR 0xE8, CHR 0xAF, CHR 0xBB, CHR 0xE5, CHR 0x8F, CHR 0x96, CHR 0xE5, CHR 0x90, CHR 0x8E, CHR 0xE7,
     CHR 0x9A, CHR 0x84, CHR 0xE9, CHR 0x85, CHR 0x8D, CHR 0xE7, CHR 0xBD, CHR 0xAE, CHR 0xE4, CHR 0xB8,
     CHR 0x8E, CHR 0xE5, CHR 0x86, CHR 0x99, CHR 0xE5, CHR 0x85, CHR 0xA5, CHR 0xE5, CHR 0x89, CHR 0x8D,
     CHR 0xE4, CHR 0xB8, CHR 0x8D, CHR 0xE4, CHR 0xB8, CHR 0x80, CHR 0xE8, CHR 0x87, CHR 0xB4, CHR 0xEF,
     CHR 0xBC, CHR 0x9B, CHR 0xE8, CHR 0xAF, CHR 0xB7, CHR 0xE5, CHR 0x9C, CHR 0xA8, CHR 0xE5, CHR 0xAE,
     CHR 0x98, CHR 0xE6, CHR 0x96, CHR 0xB9, CHR 0xE9, CHR 0x9D, CHR 0xA2, CHR 0xE6, CHR 0x9D, CHR 0xBF,
     CHR 0xE6, CHR 0xA0, CHR 0xB8, CHR 0xE5, CHR 0xAF, CHR 0xB9, CHR 0xE8, CHR 0xAF, CHR 0xA5, CHR 0xE9,
     CHR 0x9A, CHR 0xA7, CHR 0xE9, CHR 0x81, CHR 0x93]"

definition txt_write_test_done :: string where
  \<comment> \<open>write-back test done, configuration unchanged\<close>
  "txt_write_test_done =
    [CHR 0xE5, CHR 0xAE, CHR 0x8C, CHR 0xE6, CHR 0x88, CHR 0x90, CHR 0xE6, CHR 0x9C, CHR 0xAA, CHR 0xE7,
     CHR 0xBA, CHR 0xB3, CHR 0xE7, CHR 0xAE, CHR 0xA1, CHR 0x20, CHR 0x43, CHR 0x68, CHR 0x6D, CHR 0x6C,
     CHR 0x46, CHR 0x72, CHR 0x70, CHR 0x20, CHR 0xE9, CHR 0x9A, CHR 0xA7, CHR 0xE9, CHR 0x81, CHR 0x93,
     CHR 0xE5, CHR 0x8E, CHR 0x9F, CHR 0xE5, CHR 0x80, CHR 0xBC, CHR 0xE5, CHR 0x86, CHR 0x99, CHR 0xE5,
     CHR 0x9B, CHR 0x9E, CHR 0xE6, CHR 0xB5, CHR 0x8B, CHR 0xE8, CHR 0xAF, CHR 0x95, CHR 0xEF, CHR 0xBC,
     CHR 0x9B, CHR 0xE9, CHR 0x87, CHR 0x8D, CHR 0xE6, CHR 0x96, CHR 0xB0, CHR 0xE8, CHR 0xAF, CHR 0xBB,
     CHR 0xE5, CHR 0x8F, CHR 0x96, CHR 0xE5, CHR 0x90, CHR 0x8E, CHR 0xE9, CHR 0x85, CHR 0x8D, CHR 0xE7,
     CHR 0xBD, CHR 0xAE, CHR 0xE4, CHR 0xB8, CHR 0x80, CHR 0xE8, CHR 0x87, CHR 0xB4]"

definition txt_write_test_ok :: string where
  \<comment> \<open>write API usable\<close>
  "txt_write_test_ok =
    [CHR 0xE5, CHR 0x86, CHR 0x99, CHR 0x20, CHR 0x41, CHR 0x50, CHR 0x49, CHR 0x20, CHR 0xE5, CHR 0x8F,
     CHR 0xAF, CHR 0xE7, CHR 0x94, CHR 0xA8, CHR 0xEF, CHR 0xBC, CHR 0x9B, CHR 0xE5, CHR 0x8E, CHR 0x9F,
     CHR 0xE5, CHR 0x80, CHR 0xBC, CHR 0xE5, CHR 0x86, CHR 0x99, CHR 0xE5, CHR 0x9B, CHR 0x9E, CHR 0xE5,
     CHR 0x90, CHR 0x8E, CHR 0xE9, CHR 0x87, CHR 0x8D, CHR 0xE6, CHR 0x96, CHR 0xB0, CHR 0xE8, CHR 0xAF,
     CHR 0xBB, CHR 0xE5, CHR 0x8F, CHR 0x96, CHR 0xE4, CHR 0xB8, CHR 0x80, CHR 0xE8, CHR 0x87, CHR 0xB4]"

definition txt_delete_unsupported_a :: string where
  \<comment> \<open>the ChmlFrp v2 delete endpoint is unavailable\<close>
  "txt_delete_unsupported_a =
    [CHR 0x43, CHR 0x68, CHR 0x6D, CHR 0x6C, CHR 0x46, CHR 0x72, CHR 0x70, CHR 0x20, CHR 0x76, CHR 0x32,
     CHR 0x20, CHR 0xE5, CHR 0x88, CHR 0xA0, CHR 0xE9, CHR 0x99, CHR 0xA4, CHR 0xE6, CHR 0x8E, CHR 0xA5,
     CHR 0xE5, CHR 0x8F, CHR 0xA3, CHR 0xE5, CHR 0xBD, CHR 0x93, CHR 0xE5, CHR 0x89, CHR 0x8D, CHR 0xE5,
     CHR 0xAE, CHR 0x98, CHR 0xE6, CHR 0x96, CHR 0xB9, CHR 0xE6, CHR 0xA0, CHR 0x87, CHR 0xE8, CHR 0xAE,
     CHR 0xB0, CHR 0xE4, CHR 0xB8, CHR 0xBA, CHR 0xE4, CHR 0xB8, CHR 0x8D, CHR 0xE5, CHR 0x8F, CHR 0xAF,
     CHR 0xE7, CHR 0x94, CHR 0xA8, CHR 0xEF, CHR 0xBC, CHR 0x8C, CHR 0xE5, CHR 0x9B, CHR 0xA0, CHR 0xE6,
     CHR 0xAD, CHR 0xA4, CHR 0xE6, CHR 0x8E, CHR 0xA7, CHR 0xE5, CHR 0x88, CHR 0xB6, CHR 0xE4, CHR 0xB8,
     CHR 0xAD, CHR 0xE5, CHR 0xBF, CHR 0x83, CHR 0xE4, CHR 0xB8, CHR 0x8D, CHR 0xE4, CHR 0xBC, CHR 0x9A,
     CHR 0xE8, CHR 0xB0, CHR 0x83, CHR 0xE7, CHR 0x94, CHR 0xA8, CHR 0xE6, CHR 0x9C, CHR 0xAA, CHR 0xE7,
     CHR 0xA8, CHR 0xB3, CHR 0xE5, CHR 0xAE, CHR 0x9A, CHR 0xE5, CHR 0x88, CHR 0xA0, CHR 0xE9, CHR 0x99,
     CHR 0xA4, CHR 0xE6, CHR 0x8E, CHR 0xA5, CHR 0xE5, CHR 0x8F, CHR 0xA3, CHR 0xEF, CHR 0xBC, CHR 0x9B,
     CHR 0x74, CHR 0x75, CHR 0x6E, CHR 0x6E, CHR 0x65, CHR 0x6C, CHR 0x5F, CHR 0x69, CHR 0x64, CHR 0x3D]"

definition txt_delete_unsupported_b :: string where
  \<comment> \<open>delete it in the official panel\<close>
  "txt_delete_unsupported_b =
    [CHR 0xE3, CHR 0x80, CHR 0x82, CHR 0xE8, CHR 0xAF, CHR 0xB7, CHR 0xE5, CHR 0x85, CHR 0x88, CHR 0xE5,
     CHR 0x9C, CHR 0xA8, CHR 0xE5, CHR 0xAE, CHR 0x98, CHR 0xE6, CHR 0x96, CHR 0xB9, CHR 0xE9, CHR 0x9D,
     CHR 0xA2, CHR 0xE6, CHR 0x9D, CHR 0xBF, CHR 0xE5, CHR 0x88, CHR 0xA0, CHR 0xE9, CHR 0x99, CHR 0xA4,
     CHR 0xEF, CHR 0xBC, CHR 0x8C, CHR 0xE9, CHR 0x9A, CHR 0x8F, CHR 0xE5, CHR 0x90, CHR 0x8E, CHR 0xE5,
     CHR 0x88, CHR 0xB7, CHR 0xE6, CHR 0x96, CHR 0xB0, CHR 0xE6, CHR 0x9C, CHR 0xAC, CHR 0xE9, CHR 0xA1,
     CHR 0xB5, CHR 0xE3, CHR 0x80, CHR 0x82]"

definition txt_already_managed :: string where
  \<comment> \<open>the ChmlFrp tunnel is already managed\<close>
  "txt_already_managed =
    [CHR 0xE8, CHR 0xAF, CHR 0xA5, CHR 0x20, CHR 0x43, CHR 0x68, CHR 0x6D, CHR 0x6C, CHR 0x46, CHR 0x72,
     CHR 0x70, CHR 0x20, CHR 0xE9, CHR 0x9A, CHR 0xA7, CHR 0xE9, CHR 0x81, CHR 0x93, CHR 0xE5, CHR 0xB7,
     CHR 0xB2, CHR 0xE7, CHR 0xBB, CHR 0x8F, CHR 0xE7, CHR 0xBA, CHR 0xB3, CHR 0xE7, CHR 0xAE, CHR 0xA1]"

definition txt_no_domain_for_dns :: string where
  \<comment> \<open>the tunnel has no domain for an A record\<close>
  "txt_no_domain_for_dns =
    [CHR 0xE8, CHR 0xAF, CHR 0xA5, CHR 0xE9, CHR 0x9A, CHR 0xA7, CHR 0xE9, CHR 0x81, CHR 0x93, CHR 0xE6,
     CHR 0xB2, CHR 0xA1, CHR 0xE6, CHR 0x9C, CHR 0x89, CHR 0xE5, CHR 0x8F, CHR 0xAF, CHR 0xE7, CHR 0x94,
     CHR 0xA8, CHR 0xE4, CHR 0xBA, CHR 0x8E, CHR 0x20, CHR 0x43, CHR 0x6C, CHR 0x6F, CHR 0x75, CHR 0x64,
     CHR 0x66, CHR 0x6C, CHR 0x61, CHR 0x72, CHR 0x65, CHR 0x20, CHR 0x41, CHR 0x20, CHR 0xE8, CHR 0xAE,
     CHR 0xB0, CHR 0xE5, CHR 0xBD, CHR 0x95, CHR 0xE7, CHR 0x9A, CHR 0x84, CHR 0xE5, CHR 0x9F, CHR 0x9F,
     CHR 0xE5, CHR 0x90, CHR 0x8D, CHR 0xEF, CHR 0xBC, CHR 0x8C, CHR 0xE4, CHR 0xB8, CHR 0x8D, CHR 0xE8,
     CHR 0x83, CHR 0xBD, CHR 0xE7, CHR 0x9B, CHR 0xB4, CHR 0xE6, CHR 0x8E, CHR 0xA5, CHR 0xE5, CHR 0x90,
     CHR 0xAF, CHR 0xE7, CHR 0x94, CHR 0xA8, CHR 0x20, CHR 0x44, CHR 0x4E, CHR 0x53, CHR 0x20, CHR 0xE7,
     CHR 0xBA, CHR 0xB3, CHR 0xE7, CHR 0xAE, CHR 0xA1]"

definition txt_imported :: string where
  \<comment> \<open>ChmlFrp tunnel imported as a plan\<close>
  "txt_imported =
    [CHR 0xE5, CHR 0xAF, CHR 0xBC, CHR 0xE5, CHR 0x85, CHR 0xA5, CHR 0x20, CHR 0x43, CHR 0x68, CHR 0x6D,
     CHR 0x6C, CHR 0x46, CHR 0x72, CHR 0x70, CHR 0x20, CHR 0xE7, CHR 0x8E, CHR 0xB0, CHR 0xE6, CHR 0x9C,
     CHR 0x89, CHR 0xE9, CHR 0x9A, CHR 0xA7, CHR 0xE9, CHR 0x81, CHR 0x93, CHR 0xE4, CHR 0xB8, CHR 0xBA,
     CHR 0x20, CHR 0x41, CHR 0x73, CHR 0x68, CHR 0x61, CHR 0x6E, CHR 0x20, CHR 0xE8, CHR 0xAE, CHR 0xA1,
     CHR 0xE5, CHR 0x88, CHR 0x92, CHR 0xEF, CHR 0xBC, CHR 0x9B, CHR 0xE5, CHR 0xAF, CHR 0xBC, CHR 0xE5,
     CHR 0x85, CHR 0xA5, CHR 0xE6, CHR 0x9C, CHR 0xAC, CHR 0xE8, CHR 0xBA, CHR 0xAB, CHR 0xE6, CHR 0x9C,
     CHR 0xAA, CHR 0xE4, CHR 0xBF, CHR 0xAE, CHR 0xE6, CHR 0x94, CHR 0xB9, CHR 0xE8, CHR 0xBF, CHR 0x9C,
     CHR 0xE7, CHR 0xAB, CHR 0xAF]"

definition txt_unmanaged :: string where
  \<comment> \<open>plan removed; remote resources unchanged\<close>
  "txt_unmanaged =
    [CHR 0xE8, CHR 0xA7, CHR 0xA3, CHR 0xE9, CHR 0x99, CHR 0xA4, CHR 0x20, CHR 0x41, CHR 0x73, CHR 0x68,
     CHR 0x61, CHR 0x6E, CHR 0x20, CHR 0xE7, CHR 0xBA, CHR 0xB3, CHR 0xE7, CHR 0xAE, CHR 0xA1, CHR 0xEF,
     CHR 0xBC, CHR 0x9B, CHR 0x43, CHR 0x68, CHR 0x6D, CHR 0x6C, CHR 0x46, CHR 0x72, CHR 0x70, CHR 0x20,
     CHR 0xE8, CHR 0xBF, CHR 0x9C, CHR 0xE7, CHR 0xAB, CHR 0xAF, CHR 0xE9, CHR 0x9A, CHR 0xA7, CHR 0xE9,
     CHR 0x81, CHR 0x93, CHR 0xE4, CHR 0xB8, CHR 0x8E, CHR 0x20, CHR 0x43, CHR 0x6C, CHR 0x6F, CHR 0x75,
     CHR 0x64, CHR 0x66, CHR 0x6C, CHR 0x61, CHR 0x72, CHR 0x65, CHR 0x20, CHR 0x44, CHR 0x4E, CHR 0x53,
     CHR 0x20, CHR 0xE5, CHR 0x9D, CHR 0x87, CHR 0xE4, CHR 0xBF, CHR 0x9D, CHR 0xE6, CHR 0x8C, CHR 0x81,
     CHR 0xE4, CHR 0xB8, CHR 0x8D, CHR 0xE5, CHR 0x8F, CHR 0x98]"

definition txt_bulk_imported :: string where
  \<comment> \<open>bulk import; DNS not managed by default\<close>
  "txt_bulk_imported =
    [CHR 0xE6, CHR 0x89, CHR 0xB9, CHR 0xE9, CHR 0x87, CHR 0x8F, CHR 0xE5, CHR 0xAF, CHR 0xBC, CHR 0xE5,
     CHR 0x85, CHR 0xA5, CHR 0x20, CHR 0x43, CHR 0x68, CHR 0x6D, CHR 0x6C, CHR 0x46, CHR 0x72, CHR 0x70,
     CHR 0x20, CHR 0xE7, CHR 0x8E, CHR 0xB0, CHR 0xE6, CHR 0x9C, CHR 0x89, CHR 0xE9, CHR 0x9A, CHR 0xA7,
     CHR 0xE9, CHR 0x81, CHR 0x93, CHR 0xEF, CHR 0xBC, CHR 0x9B, CHR 0xE9, CHR 0xBB, CHR 0x98, CHR 0xE8,
     CHR 0xAE, CHR 0xA4, CHR 0xE4, CHR 0xB8, CHR 0x8D, CHR 0xE8, CHR 0x87, CHR 0xAA, CHR 0xE5, CHR 0x8A,
     CHR 0xA8, CHR 0xE7, CHR 0xBA, CHR 0xB3, CHR 0xE7, CHR 0xAE, CHR 0xA1, CHR 0x20, CHR 0x44, CHR 0x4E,
     CHR 0x53]"

definition txt_routing_initialised :: string where
  \<comment> \<open>routing already initialised\<close>
  "txt_routing_initialised =
    [CHR 0xE5, CHR 0x85, CHR 0xA8, CHR 0xE5, CHR 0xB1, CHR 0x80, CHR 0xE8, CHR 0xB7, CHR 0xAF, CHR 0xE7,
     CHR 0x94, CHR 0xB1, CHR 0xE5, CHR 0xB7, CHR 0xB2, CHR 0xE7, CHR 0xBB, CHR 0x8F, CHR 0xE5, CHR 0x88,
     CHR 0x9D, CHR 0xE5, CHR 0xA7, CHR 0x8B, CHR 0xE5, CHR 0x8C, CHR 0x96, CHR 0xEF, CHR 0xBC, CHR 0x9B,
     CHR 0x41, CHR 0x43, CHR 0x54, CHR 0x49, CHR 0x56, CHR 0x45, CHR 0x20, CHR 0xE5, CHR 0x8F, CHR 0xAA,
     CHR 0xE8, CHR 0x83, CHR 0xBD, CHR 0xE9, CHR 0x80, CHR 0x9A, CHR 0xE8, CHR 0xBF, CHR 0x87, CHR 0x20,
     CHR 0x47, CHR 0x4C, CHR 0x4F, CHR 0x42, CHR 0x41, CHR 0x4C, CHR 0x5F, CHR 0x46, CHR 0x41, CHR 0x49,
     CHR 0x4C, CHR 0x4F, CHR 0x56, CHR 0x45, CHR 0x52, CHR 0x20, CHR 0xE8, CHR 0xBF, CHR 0x81, CHR 0xE7,
     CHR 0xA7, CHR 0xBB]"

definition txt_active_not_online :: string where
  \<comment> \<open>the ACTIVE node is not online:\<close>
  "txt_active_not_online =
    [CHR 0x41, CHR 0x43, CHR 0x54, CHR 0x49, CHR 0x56, CHR 0x45, CHR 0x20, CHR 0xE8, CHR 0x8A, CHR 0x82,
     CHR 0xE7, CHR 0x82, CHR 0xB9, CHR 0xE5, CHR 0xBD, CHR 0x93, CHR 0xE5, CHR 0x89, CHR 0x8D, CHR 0xE4,
     CHR 0xB8, CHR 0x8D, CHR 0xE6, CHR 0x98, CHR 0xAF, CHR 0x20, CHR 0x6F, CHR 0x6E, CHR 0x6C, CHR 0x69,
     CHR 0x6E, CHR 0x65, CHR 0xEF, CHR 0xBC, CHR 0x9A]"

definition txt_standby_not_online :: string where
  \<comment> \<open>the STANDBY node is not online:\<close>
  "txt_standby_not_online =
    [CHR 0x53, CHR 0x54, CHR 0x41, CHR 0x4E, CHR 0x44, CHR 0x42, CHR 0x59, CHR 0x20, CHR 0xE8, CHR 0x8A,
     CHR 0x82, CHR 0xE7, CHR 0x82, CHR 0xB9, CHR 0xE5, CHR 0xBD, CHR 0x93, CHR 0xE5, CHR 0x89, CHR 0x8D,
     CHR 0xE4, CHR 0xB8, CHR 0x8D, CHR 0xE6, CHR 0x98, CHR 0xAF, CHR 0x20, CHR 0x6F, CHR 0x6E, CHR 0x6C,
     CHR 0x69, CHR 0x6E, CHR 0x65, CHR 0xEF, CHR 0xBC, CHR 0x9A]"

definition txt_routing_bootstrap :: string where
  \<comment> \<open>ACTIVE / STANDBY initialised; reconcile to migrate\<close>
  "txt_routing_bootstrap =
    [CHR 0xE5, CHR 0x88, CHR 0x9D, CHR 0xE5, CHR 0xA7, CHR 0x8B, CHR 0xE5, CHR 0x8C, CHR 0x96, CHR 0xE5,
     CHR 0x85, CHR 0xA8, CHR 0xE5, CHR 0xB1, CHR 0x80, CHR 0x20, CHR 0x41, CHR 0x43, CHR 0x54, CHR 0x49,
     CHR 0x56, CHR 0x45, CHR 0x20, CHR 0x2F, CHR 0x20, CHR 0x53, CHR 0x54, CHR 0x41, CHR 0x4E, CHR 0x44,
     CHR 0x42, CHR 0x59, CHR 0xEF, CHR 0xBC, CHR 0x9B, CHR 0xE5, CHR 0xB0, CHR 0x9A, CHR 0xE6, CHR 0x9C,
     CHR 0xAA, CHR 0xE8, CHR 0x87, CHR 0xAA, CHR 0xE5, CHR 0x8A, CHR 0xA8, CHR 0xE8, CHR 0xBF, CHR 0x81,
     CHR 0xE7, CHR 0xA7, CHR 0xBB, CHR 0xE9, CHR 0x9A, CHR 0xA7, CHR 0xE9, CHR 0x81, CHR 0x93, CHR 0xEF,
     CHR 0xBC, CHR 0x8C, CHR 0xE9, CHR 0x9C, CHR 0x80, CHR 0xE6, CHR 0x89, CHR 0xA7, CHR 0xE8, CHR 0xA1,
     CHR 0x8C, CHR 0xE5, CHR 0x85, CHR 0xA8, CHR 0xE5, CHR 0xB1, CHR 0x80, CHR 0xE5, CHR 0x90, CHR 0x8C,
     CHR 0xE6, CHR 0xAD, CHR 0xA5]"

definition txt_domain_managed :: string where
  \<comment> \<open>the domain is managed\<close>
  "txt_domain_managed =
    [CHR 0xE8, CHR 0xAF, CHR 0xA5, CHR 0xE5, CHR 0x9F, CHR 0x9F, CHR 0xE5, CHR 0x90, CHR 0x8D, CHR 0xE5,
     CHR 0xB7, CHR 0xB2, CHR 0xE7, CHR 0x94, CHR 0xB1, CHR 0x20, CHR 0x41, CHR 0x73, CHR 0x68, CHR 0x61,
     CHR 0x6E, CHR 0x20, CHR 0x47, CHR 0x4C, CHR 0x4F, CHR 0x42, CHR 0x41, CHR 0x4C, CHR 0x20, CHR 0x48,
     CHR 0x41, CHR 0x20, CHR 0xE7, CHR 0xAE, CHR 0xA1, CHR 0xE7, CHR 0x90, CHR 0x86, CHR 0xEF, CHR 0xBC,
     CHR 0x9B, CHR 0xE8, CHR 0xAF, CHR 0xB7, CHR 0xE9, CHR 0x80, CHR 0x9A, CHR 0xE8, CHR 0xBF, CHR 0x87,
     CHR 0xE8, CHR 0xAE, CHR 0xA1, CHR 0xE5, CHR 0x88, CHR 0x92, CHR 0xE9, CHR 0x9A, CHR 0xA7, CHR 0xE9,
     CHR 0x81, CHR 0x93, CHR 0xE5, CHR 0x92, CHR 0x8C, CHR 0xE5, CHR 0x85, CHR 0xA8, CHR 0xE5, CHR 0xB1,
     CHR 0x80, CHR 0xE5, CHR 0x90, CHR 0x8C, CHR 0xE6, CHR 0xAD, CHR 0xA5, CHR 0xE7, CHR 0xBB, CHR 0xB4,
     CHR 0xE6, CHR 0x8A, CHR 0xA4, CHR 0x20, CHR 0x41, CHR 0x20, CHR 0xE8, CHR 0xAE, CHR 0xB0, CHR 0xE5,
     CHR 0xBD, CHR 0x95]"

definition txt_dns_created :: string where
  \<comment> \<open>Cloudflare DNS record created\<close>
  "txt_dns_created =
    [CHR 0xE5, CHR 0x88, CHR 0x9B, CHR 0xE5, CHR 0xBB, CHR 0xBA, CHR 0x20, CHR 0x43, CHR 0x6C, CHR 0x6F,
     CHR 0x75, CHR 0x64, CHR 0x66, CHR 0x6C, CHR 0x61, CHR 0x72, CHR 0x65, CHR 0x20, CHR 0x44, CHR 0x4E,
     CHR 0x53, CHR 0x20, CHR 0xE8, CHR 0xAE, CHR 0xB0, CHR 0xE5, CHR 0xBD, CHR 0x95]"

definition txt_dns_record :: string where
  \<comment> \<open>DNS record\<close>
  "txt_dns_record =
    [CHR 0x44, CHR 0x4E, CHR 0x53, CHR 0x20, CHR 0xE8, CHR 0xAE, CHR 0xB0, CHR 0xE5, CHR 0xBD, CHR 0x95,
     CHR 0x20, CHR 0x27]"

definition txt_by_tunnel :: string where
  \<comment> \<open>by tunnel\<close>
  "txt_by_tunnel =
    [CHR 0x27, CHR 0x20, CHR 0xE7, CHR 0x94, CHR 0xB1, CHR 0xE9, CHR 0x9A, CHR 0xA7, CHR 0xE9, CHR 0x81,
     CHR 0x93, CHR 0x20, CHR 0x27]"

definition txt_ha_unmanage_first_plan :: string where
  \<comment> \<open>is managed; unmanage it in the plan first\<close>
  "txt_ha_unmanage_first_plan =
    [CHR 0x27, CHR 0x20, CHR 0xE7, CHR 0x9A, CHR 0x84, CHR 0x20, CHR 0x47, CHR 0x4C, CHR 0x4F, CHR 0x42,
     CHR 0x41, CHR 0x4C, CHR 0x20, CHR 0x48, CHR 0x41, CHR 0x20, CHR 0xE7, CHR 0xAE, CHR 0xA1, CHR 0xE7,
     CHR 0x90, CHR 0x86, CHR 0xEF, CHR 0xBC, CHR 0x9B, CHR 0xE8, CHR 0xAF, CHR 0xB7, CHR 0xE5, CHR 0x85,
     CHR 0x88, CHR 0xE5, CHR 0x9C, CHR 0xA8, CHR 0xE8, CHR 0xAE, CHR 0xA1, CHR 0xE5, CHR 0x88, CHR 0x92,
     CHR 0xE9, CHR 0x9A, CHR 0xA7, CHR 0xE9, CHR 0x81, CHR 0x93, CHR 0xE4, CHR 0xB8, CHR 0xAD, CHR 0xE8,
     CHR 0xA7, CHR 0xA3, CHR 0xE9, CHR 0x99, CHR 0xA4, CHR 0x20, CHR 0x44, CHR 0x4E, CHR 0x53, CHR 0x20,
     CHR 0xE7, CHR 0xBA, CHR 0xB3, CHR 0xE7, CHR 0xAE, CHR 0xA1]"

definition txt_ha_unmanage_first :: string where
  \<comment> \<open>is managed; unmanage it first\<close>
  "txt_ha_unmanage_first =
    [CHR 0x27, CHR 0x20, CHR 0xE7, CHR 0x9A, CHR 0x84, CHR 0x20, CHR 0x47, CHR 0x4C, CHR 0x4F, CHR 0x42,
     CHR 0x41, CHR 0x4C, CHR 0x20, CHR 0x48, CHR 0x41, CHR 0x20, CHR 0xE7, CHR 0xAE, CHR 0xA1, CHR 0xE7,
     CHR 0x90, CHR 0x86, CHR 0xEF, CHR 0xBC, CHR 0x9B, CHR 0xE8, CHR 0xAF, CHR 0xB7, CHR 0xE5, CHR 0x85,
     CHR 0x88, CHR 0xE8, CHR 0xA7, CHR 0xA3, CHR 0xE9, CHR 0x99, CHR 0xA4, CHR 0x20, CHR 0x44, CHR 0x4E,
     CHR 0x53, CHR 0x20, CHR 0xE7, CHR 0xBA, CHR 0xB3, CHR 0xE7, CHR 0xAE, CHR 0xA1]"

definition txt_dns_updated :: string where
  \<comment> \<open>Cloudflare DNS record changed\<close>
  "txt_dns_updated =
    [CHR 0xE4, CHR 0xBF, CHR 0xAE, CHR 0xE6, CHR 0x94, CHR 0xB9, CHR 0x20, CHR 0x43, CHR 0x6C, CHR 0x6F,
     CHR 0x75, CHR 0x64, CHR 0x66, CHR 0x6C, CHR 0x61, CHR 0x72, CHR 0x65, CHR 0x20, CHR 0x44, CHR 0x4E,
     CHR 0x53, CHR 0x20, CHR 0xE8, CHR 0xAE, CHR 0xB0, CHR 0xE5, CHR 0xBD, CHR 0x95]"

definition txt_dns_deleted :: string where
  \<comment> \<open>Cloudflare DNS record deleted, snapshot recorded\<close>
  "txt_dns_deleted =
    [CHR 0xE5, CHR 0x88, CHR 0xA0, CHR 0xE9, CHR 0x99, CHR 0xA4, CHR 0x20, CHR 0x43, CHR 0x6C, CHR 0x6F,
     CHR 0x75, CHR 0x64, CHR 0x66, CHR 0x6C, CHR 0x61, CHR 0x72, CHR 0x65, CHR 0x20, CHR 0x44, CHR 0x4E,
     CHR 0x53, CHR 0x20, CHR 0xE8, CHR 0xAE, CHR 0xB0, CHR 0xE5, CHR 0xBD, CHR 0x95, CHR 0xEF, CHR 0xBC,
     CHR 0x9B, CHR 0xE5, CHR 0x88, CHR 0xA0, CHR 0xE9, CHR 0x99, CHR 0xA4, CHR 0xE5, CHR 0x89, CHR 0x8D,
     CHR 0xE5, CHR 0xBF, CHR 0xAB, CHR 0xE7, CHR 0x85, CHR 0xA7, CHR 0xE5, CHR 0xB7, CHR 0xB2, CHR 0xE8,
     CHR 0xAE, CHR 0xB0, CHR 0xE5, CHR 0xBD, CHR 0x95]"

definition txt_zone_needed :: string where
  \<comment> \<open>the CRUD test needs a saved zone\<close>
  "txt_zone_needed =
    [CHR 0x43, CHR 0x6C, CHR 0x6F, CHR 0x75, CHR 0x64, CHR 0x66, CHR 0x6C, CHR 0x61, CHR 0x72, CHR 0x65,
     CHR 0x20, CHR 0x43, CHR 0x52, CHR 0x55, CHR 0x44, CHR 0x20, CHR 0xE6, CHR 0xB5, CHR 0x8B, CHR 0xE8,
     CHR 0xAF, CHR 0x95, CHR 0xE9, CHR 0x9C, CHR 0x80, CHR 0xE8, CHR 0xA6, CHR 0x81, CHR 0xE5, CHR 0x85,
     CHR 0x88, CHR 0xE9, CHR 0x80, CHR 0x89, CHR 0xE6, CHR 0x8B, CHR 0xA9, CHR 0xE5, CHR 0xB9, CHR 0xB6,
     CHR 0xE4, CHR 0xBF, CHR 0x9D, CHR 0xE5, CHR 0xAD, CHR 0x98, CHR 0x20, CHR 0x5A, CHR 0x6F, CHR 0x6E,
     CHR 0x65]"

definition txt_zone_not_accessible :: string where
  \<comment> \<open>the zone is not accessible with the token\<close>
  "txt_zone_not_accessible =
    [CHR 0xE5, CHR 0xBD, CHR 0x93, CHR 0xE5, CHR 0x89, CHR 0x8D, CHR 0x20, CHR 0x5A, CHR 0x6F, CHR 0x6E,
     CHR 0x65, CHR 0x20, CHR 0x49, CHR 0x44, CHR 0x20, CHR 0xE4, CHR 0xB8, CHR 0x8D, CHR 0xE5, CHR 0x9C,
     CHR 0xA8, CHR 0x20, CHR 0x54, CHR 0x6F, CHR 0x6B, CHR 0x65, CHR 0x6E, CHR 0x20, CHR 0xE5, CHR 0x8F,
     CHR 0xAF, CHR 0xE8, CHR 0xAE, CHR 0xBF, CHR 0xE9, CHR 0x97, CHR 0xAE, CHR 0x20, CHR 0x5A, CHR 0x6F,
     CHR 0x6E, CHR 0x65, CHR 0x20, CHR 0xE4, CHR 0xB8, CHR 0xAD]"

definition txt_dns_crud_tested :: string where
  \<comment> \<open>temporary TXT record CRUD test done\<close>
  "txt_dns_crud_tested =
    [CHR 0xE5, CHR 0xAE, CHR 0x8C, CHR 0xE6, CHR 0x88, CHR 0x90, CHR 0x20, CHR 0x43, CHR 0x6C, CHR 0x6F,
     CHR 0x75, CHR 0x64, CHR 0x66, CHR 0x6C, CHR 0x61, CHR 0x72, CHR 0x65, CHR 0x20, CHR 0xE4, CHR 0xB8,
     CHR 0xB4, CHR 0xE6, CHR 0x97, CHR 0xB6, CHR 0x20, CHR 0x54, CHR 0x58, CHR 0x54, CHR 0x20, CHR 0xE8,
     CHR 0xAE, CHR 0xB0, CHR 0xE5, CHR 0xBD, CHR 0x95, CHR 0x20, CHR 0x43, CHR 0x52, CHR 0x55, CHR 0x44,
     CHR 0x20, CHR 0xE6, CHR 0xB5, CHR 0x8B, CHR 0xE8, CHR 0xAF, CHR 0x95, CHR 0xE5, CHR 0xB9, CHR 0xB6,
     CHR 0xE6, CHR 0xB8, CHR 0x85, CHR 0xE7, CHR 0x90, CHR 0x86, CHR 0xE6, CHR 0xB5, CHR 0x8B, CHR 0xE8,
     CHR 0xAF, CHR 0x95, CHR 0xE8, CHR 0xAE, CHR 0xB0, CHR 0xE5, CHR 0xBD, CHR 0x95]"

definition txt_quarantine_cleared :: string where
  \<comment> \<open>quarantine cleared manually; no failback\<close>
  "txt_quarantine_cleared =
    [CHR 0xE4, CHR 0xBA, CHR 0xBA, CHR 0xE5, CHR 0xB7, CHR 0xA5, CHR 0xE8, CHR 0xA7, CHR 0xA3, CHR 0xE9,
     CHR 0x99, CHR 0xA4, CHR 0xE8, CHR 0x8A, CHR 0x82, CHR 0xE7, CHR 0x82, CHR 0xB9, CHR 0xE9, CHR 0x9A,
     CHR 0x94, CHR 0xE7, CHR 0xA6, CHR 0xBB, CHR 0xEF, CHR 0xBC, CHR 0x9B, CHR 0xE8, CHR 0x8A, CHR 0x82,
     CHR 0xE7, CHR 0x82, CHR 0xB9, CHR 0xE4, CHR 0xBB, CHR 0x85, CHR 0xE9, CHR 0x87, CHR 0x8D, CHR 0xE6,
     CHR 0x96, CHR 0xB0, CHR 0xE8, CHR 0xBF, CHR 0x9B, CHR 0xE5, CHR 0x85, CHR 0xA5, CHR 0xE5, CHR 0x80,
     CHR 0x99, CHR 0xE9, CHR 0x80, CHR 0x89, CHR 0xE6, CHR 0xB1, CHR 0xA0, CHR 0xEF, CHR 0xBC, CHR 0x8C,
     CHR 0xE4, CHR 0xB8, CHR 0x8D, CHR 0xE8, CHR 0xA7, CHR 0xA6, CHR 0xE5, CHR 0x8F, CHR 0x91, CHR 0xE8,
     CHR 0x87, CHR 0xAA, CHR 0xE5, CHR 0x8A, CHR 0xA8, CHR 0xE5, CHR 0x9B, CHR 0x9E, CHR 0xE5, CHR 0x88,
     CHR 0x87]"

end
