(* ===== verification/Frpc_Log.thy ===== *)
theory Frpc_Log
  imports Domain Literals
begin

text \<open>
  \<open>crates/frpc-log/src/lib.rs\<close>: the classifier of FRPC log lines, the extraction of the
  proxy name from a line, and the check that a generated configuration declares every
  proxy name once. \<open>classify\<close> takes the time stamp \<open>Utc::now()\<close> as an argument. The
  pattern groups are named in the order the code tries them.
\<close>

section \<open>The classifier\<close>

definition contains_any :: "string \<Rightarrow> string list \<Rightarrow> bool" where
  "contains_any h ns \<longleftrightarrow> list_ex (\<lambda>n. contains h n) ns"

definition pats_login :: "string list" where
  "pats_login = [pat_login_success, ''login to server success'', ''login to server succeeded'']"

definition pats_added :: "string list" where
  "pats_added = [''proxy added'', pat_proxy_added]"

definition pats_started :: "string list" where
  "pats_started = [''start proxy success'', pat_mapping_started]"

definition pats_auth :: "string list" where
  "pats_auth = [''token in login doesn'' @ [CHR 0x27] @ ''t match'', ''authentication failed'',
     ''invalid token'', ''token mismatch'']"

definition pats_config :: "string list" where
  "pats_config = [pat_config_mismatch, pat_client_proxy_error, ''client proxy parameter'',
     ''proxy parameter error'']"

definition pats_conflict :: "string list" where
  "pats_conflict = [''already exist'', ''already exists'', ''proxy name conflict'', pat_port_occupied]"

definition pats_server :: "string list" where
  "pats_server = [''connection reset by peer'', ''session shutdown'', ''control connection closed'',
     ''server closed'', ''heartbeat timeout'', ''unexpected eof'']"

definition pats_network :: "string list" where
  "pats_network = [''connect to server error'', ''i/o timeout'', ''i/o deadline reached'',
     ''network is unreachable'', ''no route to host'']"

definition pats_local :: "string list" where
  "pats_local = [''connect to local service'', ''local service unavailable'', pat_local_service,
     pat_no_local_software]"

definition pats_error :: "string list" where
  "pats_error = [''[e]'', '' error'', ''failed'', pat_failed]"

text \<open>\<open>extract_proxy_name\<close>: the last bracketed group that is not a source file or a level.\<close>

fun bracket_groups :: "string option \<Rightarrow> string \<Rightarrow> string list" where
  "bracket_groups start [] = []"
| "bracket_groups start (c # cs) =
     (if c = CHR ''['' then bracket_groups (Some []) cs
      else if c = CHR '']'' then
        (case start of
           None \<Rightarrow> bracket_groups None cs
         | Some g \<Rightarrow> if g = [] then bracket_groups None cs else g # bracket_groups None cs)
      else bracket_groups (map_option (\<lambda>g. g @ [c]) start) cs)"

definition is_proxy_group :: "string \<Rightarrow> bool" where
  "is_proxy_group g =
     (let gl = to_ascii_lowercase g
      in \<not> ends_with gl ''.go'' \<and> \<not> contains gl ''service.go''
         \<and> gl \<notin> {''i'', ''w'', ''e'', ''d'', ''info'', ''warn'', ''error''})"

definition extract_proxy_name :: "string \<Rightarrow> string option" where
  "extract_proxy_name line = find is_proxy_group (rev (bracket_groups None line))"

definition classify :: "int \<Rightarrow> string \<Rightarrow> bool \<Rightarrow> frpc_event" where
  "classify now line local_config_has_duplicates =
     (let lower = to_ascii_lowercase line;
          e = \<lparr>ev_at = now, ev_generation = 0, ev_raw = line,
               ev_proxy_name = extract_proxy_name line, ev_type = Info,
               ev_fault_domain = FdUnknown, ev_severity = ''info'', ev_triggers_failover = False\<rparr>
      in if contains_any lower pats_login then e\<lparr>ev_type := LoginSuccess\<rparr>
         else if contains_any lower pats_added then e\<lparr>ev_type := ProxyAdded\<rparr>
         else if contains_any lower pats_started then e\<lparr>ev_type := ProxyStarted\<rparr>
         else if contains_any lower pats_auth then
           e\<lparr>ev_type := AuthFailure, ev_fault_domain := FdAuth, ev_severity := ''error''\<rparr>
         else if contains_any lower pats_config then
           e\<lparr>ev_type := ConfigMismatch, ev_fault_domain := FdConfig, ev_severity := ''error''\<rparr>
         else if contains_any lower pats_conflict then
           (if local_config_has_duplicates then
              e\<lparr>ev_type := LocalDuplicateProxy, ev_fault_domain := FdConfig, ev_severity := ''error''\<rparr>
            else
              e\<lparr>ev_type := ServerProxyConflict, ev_fault_domain := FdNode,
                ev_severity := ''critical'', ev_triggers_failover := True\<rparr>)
         else if contains_any lower pats_server then
           e\<lparr>ev_type := ServerConnectionFailure, ev_fault_domain := FdNode,
             ev_severity := ''critical'', ev_triggers_failover := True\<rparr>
         else if contains_any lower pats_network then
           e\<lparr>ev_type := NetworkAmbiguous, ev_fault_domain := FdNetwork, ev_severity := ''error''\<rparr>
         else if contains_any lower pats_local then
           e\<lparr>ev_type := LocalServiceFailure, ev_fault_domain := FdLocal, ev_severity := ''warning''\<rparr>
         else if contains_any lower pats_error then
           e\<lparr>ev_type := UnknownError, ev_severity := ''error''\<rparr>
         else e)"

section \<open>Duplicate proxy names\<close>

definition brackets :: "char set" where
  "brackets = {CHR ''['', CHR '']''}"

definition quotes :: "char set" where
  "quotes = {CHR 0x22, CHR 0x27}"

definition is_comment_line :: "string \<Rightarrow> bool" where
  "is_comment_line line \<longleftrightarrow> line = [] \<or> starts_with line ''#'' \<or> starts_with line '';''"

definition is_section_line :: "string \<Rightarrow> bool" where
  "is_section_line line \<longleftrightarrow>
     starts_with line ''['' \<and> ends_with line '']'' \<and> \<not> starts_with line ''[[''"

definition section_name :: "string \<Rightarrow> string" where
  "section_name line = trim (trim_matches brackets line)"

fun dup_scan :: "string set \<Rightarrow> bool \<Rightarrow> string list \<Rightarrow> bool" where
  "dup_scan seen in_toml_proxy [] = False"
| "dup_scan seen in_toml_proxy (raw # rest) =
     (let line = trim raw in
      if is_comment_line line then dup_scan seen in_toml_proxy rest
      else if line = ''[[proxies]]'' then dup_scan seen True rest
      else if starts_with line ''[['' \<and> ends_with line '']]'' then dup_scan seen False rest
      else if is_section_line line then
        (let name = section_name line in
         if name \<noteq> [] \<and> \<not> eq_ignore_ascii_case name ''common''
         then (if name \<in> seen then True else dup_scan (insert name seen) False rest)
         else dup_scan seen False rest)
      else
        (case (if in_toml_proxy then split_once (CHR ''='') line else None) of
           Some (key, value) \<Rightarrow>
             if trim key = ''name'' then
               (let name = trim_matches quotes (trim value) in
                if name \<noteq> []
                then (if name \<in> seen then True else dup_scan (insert name seen) in_toml_proxy rest)
                else dup_scan seen in_toml_proxy rest)
             else dup_scan seen in_toml_proxy rest
         | None \<Rightarrow> dup_scan seen in_toml_proxy rest))"

definition config_has_duplicate_proxy_names :: "string \<Rightarrow> bool" where
  "config_has_duplicate_proxy_names config = dup_scan {} False (lines config)"

section \<open>Facts about the classifier\<close>

lemma classify_simps [simp]:
  "ev_raw (classify now line dup) = line"
  "ev_at (classify now line dup) = now"
  "ev_generation (classify now line dup) = 0"
  "ev_proxy_name (classify now line dup) = extract_proxy_name line"
  by (simp_all add: classify_def Let_def)

definition positive_signal :: "frpc_event_type \<Rightarrow> bool" where
  "positive_signal t \<longleftrightarrow> t \<in> {LoginSuccess, ProxyAdded, ProxyStarted}"

lemma classify_trigger_cases:
  "ev_triggers_failover (classify now line dup) \<Longrightarrow>
     ev_fault_domain (classify now line dup) = FdNode
     \<and> (ev_type (classify now line dup) = ServerProxyConflict \<and> \<not> dup
        \<or> ev_type (classify now line dup) = ServerConnectionFailure)"
  by (auto simp: classify_def Let_def split: if_splits)

lemma classify_node_iff:
  "ev_fault_domain (classify now line dup) = FdNode \<longleftrightarrow> ev_triggers_failover (classify now line dup)"
  by (auto simp: classify_def Let_def split: if_splits)




text \<open>
  A line about the local service can trigger a global failover. FRPC reports a local
  application that resets its connection with the phrases of both groups, and the
  session-loss group is tried first, so the line is classified as a node fault although
  the documentation says local-service faults never trigger a node switch.
\<close>
theorem local_reset_line_triggers_failover:
  "contains_any ''[web] connect to local service [10.0.0.2:80] error: read: connection reset by peer'' pats_local
   \<and> ev_triggers_failover
       (classify 0 ''[web] connect to local service [10.0.0.2:80] error: read: connection reset by peer'' dup)
   \<and> ev_fault_domain
       (classify 0 ''[web] connect to local service [10.0.0.2:80] error: read: connection reset by peer'' dup) = FdNode"
  by code_simp

section \<open>Facts about the duplicate check\<close>

text \<open>The names a configuration declares, in order: the reference the scan is compared with.\<close>

fun declared_names :: "bool \<Rightarrow> string list \<Rightarrow> string list" where
  "declared_names in_toml [] = []"
| "declared_names in_toml (raw # rest) =
     (let line = trim raw in
      if is_comment_line line then declared_names in_toml rest
      else if line = ''[[proxies]]'' then declared_names True rest
      else if starts_with line ''[['' \<and> ends_with line '']]'' then declared_names False rest
      else if is_section_line line then
        (if section_name line = [] \<or> eq_ignore_ascii_case (section_name line) ''common'' then []
         else [section_name line]) @ declared_names False rest
      else
        (case (if in_toml then split_once (CHR ''='') line else None) of
           Some (key, value) \<Rightarrow>
             (if trim key = ''name'' \<and> trim_matches quotes (trim value) \<noteq> []
              then [trim_matches quotes (trim value)] else [])
         | None \<Rightarrow> []) @ declared_names in_toml rest)"

lemma dup_scan_iff:
  "dup_scan seen b ls \<longleftrightarrow> \<not> (distinct (declared_names b ls) \<and> set (declared_names b ls) \<inter> seen = {})"
proof (induction ls arbitrary: seen b)
  case Nil
  then show ?case by simp
next
  case (Cons raw rest)
  let ?kv = "if b then split_once (CHR ''='') (trim raw) else None"
  show ?case
  proof (cases ?kv)
    case None
    then show ?thesis by (simp add: Cons Let_def del: disjoint_iff) blast
  next
    case (Some kv)
    then show ?thesis
      by (cases kv) (simp add: Cons Let_def del: disjoint_iff, blast)
  qed
qed


text \<open>
  The duplicate check rejects a valid TOML configuration. A sub-table header inside a
  \<open>[[proxies]]\<close> table is taken for an INI section, so two differently named proxies that
  both have the sub-table \<open>[proxies.transport]\<close> count as a duplicate name.
\<close>
theorem toml_subtable_reported_as_duplicate:
  "config_has_duplicate_proxy_names
     (join [CHR 0x0A]
       [''[[proxies]]'', ''name = a'', ''[proxies.transport]'', ''useEncryption = true'',
        ''[[proxies]]'', ''name = b'', ''[proxies.transport]'', ''useEncryption = true''])"
  by code_simp

end
