(* ===== verification/Frpc_Runtime.thy ===== *)
theory Frpc_Runtime
  imports Frpc_Log "HOL-Library.AList"
begin

text \<open>
  The state of the FRPC process manager (\<open>crates/frpc-runtime/src/lib.rs\<close>) and what a log
  line does to it. The manager's fields are one record; a spawned reader task is the pair
  of arguments it passes with every line (whether the local configuration has duplicates,
  and the generation it was started for); the broadcast channel is the list of the events
  sent. Starting, stopping and waiting, which involve the operating system and time, are
  in theory \<open>Frpc_Manager\<close>. A line is accepted in one step.
\<close>

section \<open>State\<close>

record reader =
  rd_local_dup :: bool
  rd_generation :: "64 word"

record child_process =
  cp_handle :: nat
  cp_pid :: "32 word option"

record frpc_state =
  fm_binary :: string
  fm_config :: string
  fm_child :: "child_process option"
  fm_runtime :: frpc_runtime_status
  fm_tunnel_states :: "(string \<times> frpc_tunnel_state) list"
  fm_started :: "string set"
  fm_node_fault :: "frpc_event option"
  fm_startup_fault :: "frpc_event option"
  fm_logs :: "frpc_event list"
  fm_sent :: "frpc_event list"
  fm_max_logs :: nat
  fm_generation :: "64 word"
  fm_readers :: "reader list"

definition frpc_new :: "string \<Rightarrow> string \<Rightarrow> nat \<Rightarrow> frpc_state" where
  "frpc_new binary config max_logs =
     \<lparr>fm_binary = binary, fm_config = config, fm_child = None,
      fm_runtime = \<lparr>rt_running = False, rt_pid = None, rt_connected = False, rt_config_path = config,
        rt_config_revision = None, rt_started_at = None, rt_last_error = None\<rparr>,
      fm_tunnel_states = [], fm_started = {}, fm_node_fault = None, fm_startup_fault = None,
      fm_logs = [], fm_sent = [], fm_max_logs = max max_logs 100, fm_generation = 0, fm_readers = []\<rparr>"

datatype readiness_error =
    ReadyNode string
  | ReadyNonNode string
  | ReadyTimeout bool string

definition proxy_name_matches :: "string \<Rightarrow> string \<Rightarrow> bool" where
  "proxy_name_matches actual expected \<longleftrightarrow> actual = expected \<or> ends_with actual (''.'' @ expected)"

definition tunnel_started :: "frpc_state \<Rightarrow> string \<Rightarrow> bool" where
  "tunnel_started m expected \<longleftrightarrow> (\<exists>actual \<in> fm_started m. proxy_name_matches actual expected)"

section \<open>Accepting a line\<close>

definition record_runtime :: "frpc_event \<Rightarrow> frpc_state \<Rightarrow> frpc_state" where
  "record_runtime e m =
     (case ev_type e of
        LoginSuccess \<Rightarrow> m\<lparr>fm_runtime := (fm_runtime m)\<lparr>rt_connected := True, rt_last_error := None\<rparr>\<rparr>
      | ServerConnectionFailure \<Rightarrow>
          m\<lparr>fm_runtime := (fm_runtime m)\<lparr>rt_connected := False, rt_last_error := Some (ev_raw e)\<rparr>\<rparr>
      | AuthFailure \<Rightarrow> m\<lparr>fm_runtime := (fm_runtime m)\<lparr>rt_last_error := Some (ev_raw e)\<rparr>\<rparr>
      | ConfigMismatch \<Rightarrow> m\<lparr>fm_runtime := (fm_runtime m)\<lparr>rt_last_error := Some (ev_raw e)\<rparr>\<rparr>
      | _ \<Rightarrow> m)"

definition record_started :: "frpc_event \<Rightarrow> frpc_state \<Rightarrow> frpc_state" where
  "record_started e m =
     (case (ev_type e, ev_proxy_name e) of
        (ProxyStarted, Some name) \<Rightarrow> m\<lparr>fm_started := insert name (fm_started m)\<rparr>
      | _ \<Rightarrow> m)"

definition failed_layer :: "string \<Rightarrow> frpc_event \<Rightarrow> layer_status" where
  "failed_layer label e = \<lparr>ls_state = LsFailed, ls_label = label, ls_detail = Some (ev_raw e)\<rparr>"

definition record_fault :: "frpc_event \<Rightarrow> frpc_state \<Rightarrow> frpc_state" where
  "record_fault e m =
     (if ev_triggers_failover e \<and> ev_fault_domain e = FdNode
      then m\<lparr>fm_node_fault := Some e,
             fm_tunnel_states := map (\<lambda>(n, st).
               (n, st\<lparr>ft_state := failed_layer lbl_node_fault e, ft_last_event := Some e\<rparr>))
               (fm_tunnel_states m)\<rparr>
      else if ev_fault_domain e \<in> {FdAuth, FdConfig} then m\<lparr>fm_startup_fault := Some e\<rparr>
      else m)"

definition tunnel_layer :: "frpc_event \<Rightarrow> layer_status option" where
  "tunnel_layer e =
     (case ev_type e of
        ProxyStarted \<Rightarrow> Some (layer_ok lbl_normal)
      | ProxyAdded \<Rightarrow> Some \<lparr>ls_state = LsStarting, ls_label = lbl_starting, ls_detail = None\<rparr>
      | LocalServiceFailure \<Rightarrow> Some (failed_layer lbl_local_service_fault e)
      | ServerProxyConflict \<Rightarrow> Some (failed_layer lbl_server_conflict e)
      | ServerConnectionFailure \<Rightarrow> Some (failed_layer lbl_node_fault e)
      | ConfigMismatch \<Rightarrow> Some (failed_layer lbl_config_fault e)
      | LocalDuplicateProxy \<Rightarrow> Some (failed_layer lbl_config_fault e)
      | _ \<Rightarrow> None)"

definition record_tunnel :: "frpc_event \<Rightarrow> frpc_state \<Rightarrow> frpc_state" where
  "record_tunnel e m =
     (case ev_proxy_name e of
        None \<Rightarrow> m
      | Some name \<Rightarrow>
          (case tunnel_layer e of
             None \<Rightarrow> m
           | Some layer \<Rightarrow>
               m\<lparr>fm_tunnel_states := AList.update name
                   \<lparr>ft_tunnel_name = name, ft_state = layer, ft_last_event = Some e\<rparr>
                   (fm_tunnel_states m)\<rparr>))"

definition push_log :: "frpc_event \<Rightarrow> frpc_state \<Rightarrow> frpc_state" where
  "push_log e m =
     (let logs = fm_logs m @ [e]
      in m\<lparr>fm_logs := drop (length logs - fm_max_logs m) logs, fm_sent := fm_sent m @ [e]\<rparr>)"

definition accept_line :: "int \<Rightarrow> string \<Rightarrow> bool \<Rightarrow> 64 word \<Rightarrow> frpc_state \<Rightarrow> frpc_state" where
  "accept_line at line local_dup generation m =
     (if generation \<noteq> fm_generation m then m
      else let event = (classify at line local_dup)\<lparr>ev_generation := generation\<rparr>
           in push_log event (record_tunnel event (record_fault event
                (record_started event (record_runtime event m)))))"

text \<open>Lines arriving on the readers: reader number, text, time. A task that does not exist sends nothing.\<close>

fun deliver :: "(nat \<times> string \<times> int) list \<Rightarrow> frpc_state \<Rightarrow> frpc_state" where
  "deliver [] m = m"
| "deliver ((i, line, at) # rest) m =
     deliver rest
       (if i < length (fm_readers m)
        then accept_line at line (rd_local_dup (fm_readers m ! i)) (rd_generation (fm_readers m ! i)) m
        else m)"

definition recent_logs :: "nat \<Rightarrow> frpc_state \<Rightarrow> frpc_event list" where
  "recent_logs limit m = rev (take limit (rev (fm_logs m)))"

section \<open>What a line cannot change\<close>

text \<open>The fields only the operations of the manager write.\<close>

definition control_fields ::
  "frpc_state \<Rightarrow> string \<times> string \<times> child_process option \<times> 64 word \<times> reader list \<times> nat \<times> bool
     \<times> 32 word option \<times> int option" where
  "control_fields m =
     (fm_binary m, fm_config m, fm_child m, fm_generation m, fm_readers m, fm_max_logs m,
      rt_running (fm_runtime m), rt_pid (fm_runtime m), rt_config_revision (fm_runtime m))"

lemma control_record [simp]:
  "control_fields (record_runtime e m) = control_fields m"
  "control_fields (record_started e m) = control_fields m"
  "control_fields (record_fault e m) = control_fields m"
  "control_fields (record_tunnel e m) = control_fields m"
  "control_fields (push_log e m) = control_fields m"
  by (auto simp: control_fields_def record_runtime_def record_started_def record_fault_def
      record_tunnel_def push_log_def Let_def split: frpc_event_type.splits option.splits)

lemma control_accept_line [simp]: "control_fields (accept_line at line dup g m) = control_fields m"
  by (simp add: accept_line_def Let_def)

lemma control_deliver [simp]: "control_fields (deliver ls m) = control_fields m"
  by (induction ls m rule: deliver.induct) simp_all

lemma deliver_generation [simp]: "fm_generation (deliver ls m) = fm_generation m"
  and deliver_child [simp]: "fm_child (deliver ls m) = fm_child m"
  and deliver_readers [simp]: "fm_readers (deliver ls m) = fm_readers m"
  and deliver_paths [simp]: "fm_config (deliver ls m) = fm_config m" "fm_binary (deliver ls m) = fm_binary m"
  and deliver_running [simp]: "rt_running (fm_runtime (deliver ls m)) = rt_running (fm_runtime m)"
  and deliver_revision [simp]: "rt_config_revision (fm_runtime (deliver ls m)) = rt_config_revision (fm_runtime m)"
  using control_deliver [of ls m] by (simp_all add: control_fields_def)

lemma deliver_stale:
  "\<forall>r \<in> set (fm_readers m). rd_generation r \<noteq> fm_generation m \<Longrightarrow> deliver ls m = m"
  by (induction ls m rule: deliver.induct) (auto simp: accept_line_def)

end
