(* ===== verification/Fallible.thy ===== *)
theory Fallible
  imports Prelude
begin

text \<open>
  Computations that change a state and may fail, the shape of every \<open>async fn ... ->
  Result<_, _>\<close> of the program: from a state to a value or an error, and the state in
  which it ended. An error keeps the state the computation had reached when it returned
  early, as \<open>?\<close> does. The second half gives the two reasoning principles the
  components use: relations between the states before and after that every step obeys
  (a locale, interpreted by each component for its own relation), and weakest
  preconditions.
\<close>

type_synonym ('s, 'e, 'a) fallible = "'s \<Rightarrow> ('e + 'a) \<times> 's"

section \<open>Combinators\<close>

definition returnM :: "'a \<Rightarrow> ('s, 'e, 'a) fallible" where
  "returnM x s = (Inr x, s)"

definition failM :: "'e \<Rightarrow> ('s, 'e, 'a) fallible" where
  "failM e s = (Inl e, s)"

text \<open>\<open>m?\<close> followed by the rest of the function.\<close>

definition bindM :: "('s, 'e, 'a) fallible \<Rightarrow> ('a \<Rightarrow> ('s, 'e, 'b) fallible) \<Rightarrow> ('s, 'e, 'b) fallible" where
  "bindM m f s = (case m s of (r, s') \<Rightarrow> (case r of Inl e \<Rightarrow> (Inl e, s') | Inr x \<Rightarrow> f x s'))"

definition thenM :: "('s, 'e, 'a) fallible \<Rightarrow> ('s, 'e, 'b) fallible \<Rightarrow> ('s, 'e, 'b) fallible" where
  "thenM m k = bindM m (\<lambda>_. k)"

text \<open>\<open>match m { ... }\<close>: the outcome as a value.\<close>

definition attemptM :: "('s, 'e, 'a) fallible \<Rightarrow> ('s, 'e2, 'e + 'a) fallible" where
  "attemptM m s = (case m s of (r, s') \<Rightarrow> (Inr r, s'))"

text \<open>\<open>let _ = m;\<close>\<close>

definition ignoreM :: "('s, 'e, 'a) fallible \<Rightarrow> ('s, 'e2, unit) fallible" where
  "ignoreM m s = (case m s of (r, s') \<Rightarrow> (Inr (), s'))"

text \<open>\<open>map_err\<close>, \<open>context\<close> and the \<open>From\<close> conversion of \<open>?\<close>.\<close>

definition map_errM :: "('e \<Rightarrow> 'e2) \<Rightarrow> ('s, 'e, 'a) fallible \<Rightarrow> ('s, 'e2, 'a) fallible" where
  "map_errM f m s = (case m s of (r, s') \<Rightarrow> (case r of Inl e \<Rightarrow> (Inl (f e), s') | Inr x \<Rightarrow> (Inr x, s')))"

definition getM :: "('s \<Rightarrow> 'a) \<Rightarrow> ('s, 'e, 'a) fallible" where
  "getM f s = (Inr (f s), s)"

definition modifyM :: "('s \<Rightarrow> 's) \<Rightarrow> ('s, 'e, unit) fallible" where
  "modifyM f s = (Inr (), f s)"

definition ensureM :: "bool \<Rightarrow> 'e \<Rightarrow> ('s, 'e, unit) fallible" where
  "ensureM b e s = (if b then Inr () else Inl e, s)"

definition whenM :: "bool \<Rightarrow> ('s, 'e, unit) fallible \<Rightarrow> ('s, 'e, unit) fallible" where
  "whenM b m = (if b then m else returnM ())"

text \<open>\<open>for x in xs { f(x)?; }\<close>\<close>

fun forM :: "'a list \<Rightarrow> ('a \<Rightarrow> ('s, 'e, unit) fallible) \<Rightarrow> ('s, 'e, unit) fallible" where
  "forM [] f = returnM ()"
| "forM (x # xs) f = thenM (f x) (forM xs f)"

text \<open>A loop that collects one value per element.\<close>

fun mapM :: "'a list \<Rightarrow> ('a \<Rightarrow> ('s, 'e, 'b) fallible) \<Rightarrow> ('s, 'e, 'b list) fallible" where
  "mapM [] f = returnM []"
| "mapM (x # xs) f = bindM (f x) (\<lambda>y. bindM (mapM xs f) (\<lambda>ys. returnM (y # ys)))"

text \<open>A computation on a part of the state.\<close>

definition zoomM :: "('s \<Rightarrow> 'c) \<Rightarrow> ('c \<Rightarrow> 's \<Rightarrow> 's) \<Rightarrow> ('c, 'e, 'a) fallible \<Rightarrow> ('s, 'e, 'a) fallible" where
  "zoomM get put m s = (case m (get s) of (r, c) \<Rightarrow> (r, put c s))"

section \<open>Running a combinator\<close>

lemma run_returnM [effect_simps]: "returnM x s = (Inr x, s)"
  by (simp add: returnM_def)

lemma run_failM [effect_simps]: "failM e s = (Inl e, s)"
  by (simp add: failM_def)

lemma run_getM [effect_simps]: "getM f s = (Inr (f s), s)"
  by (simp add: getM_def)

lemma run_modifyM [effect_simps]: "modifyM f s = (Inr (), f s)"
  by (simp add: modifyM_def)

lemma run_ensureM [effect_simps]: "ensureM b e s = (if b then Inr () else Inl e, s)"
  by (simp add: ensureM_def)

lemma run_whenM [effect_simps]: "whenM b m s = (if b then m s else (Inr (), s))"
  by (simp add: whenM_def run_returnM)

lemma run_bindM [effect_simps]:
  "bindM m f s = (case m s of (Inl e, s') \<Rightarrow> (Inl e, s') | (Inr x, s') \<Rightarrow> f x s')"
  by (simp add: bindM_def split: prod.splits sum.splits)

lemma run_thenM [effect_simps]:
  "thenM m k s = (case m s of (Inl e, s') \<Rightarrow> (Inl e, s') | (Inr x, s') \<Rightarrow> k s')"
  by (simp add: thenM_def run_bindM)

lemma run_attemptM [effect_simps]: "attemptM m s = (Inr (fst (m s)), snd (m s))"
  by (simp add: attemptM_def split: prod.splits)

lemma run_ignoreM [effect_simps]: "ignoreM m s = (Inr (), snd (m s))"
  by (simp add: ignoreM_def split: prod.splits)

lemma run_map_errM [effect_simps]:
  "map_errM f m s = (map_sum f id (fst (m s)), snd (m s))"
  by (simp add: map_errM_def split: prod.splits sum.splits)

lemma run_zoomM [effect_simps]:
  "zoomM get put m s = (fst (m (get s)), put (snd (m (get s))) s)"
  by (simp add: zoomM_def split: prod.splits)

lemma bindM_assoc: "bindM (bindM m f) g = bindM m (\<lambda>x. bindM (f x) g)"
  by (rule ext) (simp add: run_bindM split: prod.splits sum.splits)

lemma bindM_returnM [simp]: "bindM (returnM x) f = f x"
  by (rule ext) (simp add: effect_simps)

lemma bindM_returnM_right [simp]: "bindM m returnM = m"
  by (rule ext) (simp add: effect_simps split: prod.splits sum.splits)

lemma forM_append: "forM (xs @ ys) f = thenM (forM xs f) (forM ys f)"
  by (induction xs) (auto simp: fun_eq_iff effect_simps split: prod.splits sum.splits)

text \<open>Rule inversion: what a successful or failed sequence says of its parts.\<close>

lemma bindM_InrE:
  assumes "bindM m f s = (Inr y, s')"
  obtains x t where "m s = (Inr x, t)" "f x t = (Inr y, s')"
  using assms by (auto simp: run_bindM split: prod.splits sum.splits)

lemma thenM_InrE:
  assumes "thenM m k s = (Inr y, s')"
  obtains x t where "m s = (Inr x, t)" "k t = (Inr y, s')"
  using assms by (auto simp: run_thenM split: prod.splits sum.splits)

lemma bindM_InlE:
  assumes "bindM m f s = (Inl e, s')"
  obtains "m s = (Inl e, s')" | x t where "m s = (Inr x, t)" "f x t = (Inl e, s')"
  using assms by (auto simp: run_bindM split: prod.splits sum.splits)

text \<open>When a computation succeeds, as equivalences to rewrite with.\<close>

lemma bindM_Inr_iff: "bindM m f s = (Inr y, s') \<longleftrightarrow> (\<exists>x t. m s = (Inr x, t) \<and> f x t = (Inr y, s'))"
  by (auto simp: run_bindM split: prod.splits sum.splits)

lemma thenM_Inr_iff: "thenM m k s = (Inr y, s') \<longleftrightarrow> (\<exists>x t. m s = (Inr x, t) \<and> k t = (Inr y, s'))"
  by (auto simp: run_thenM split: prod.splits sum.splits)

lemma simple_Inr_iffs:
  "returnM x s = (Inr y, s') \<longleftrightarrow> y = x \<and> s' = s"
  "failM e s = (Inr y, s') \<longleftrightarrow> False"
  "getM g s = (Inr y, s') \<longleftrightarrow> y = g s \<and> s' = s"
  "modifyM h s = (Inr u, s') \<longleftrightarrow> s' = h s"
  "ensureM b e s = (Inr u, s') \<longleftrightarrow> b \<and> s' = s"
  by (auto simp: effect_simps)

lemma map_errM_Inr_iff: "map_errM f m s = (Inr y, s') \<longleftrightarrow> m s = (Inr y, s')"
  by (cases "m s") (auto simp: map_errM_def split: sum.splits)

lemma whenM_Inr_iff: "whenM b m s = (Inr u, s') \<longleftrightarrow> (if b then m s = (Inr u, s') else s' = s)"
  by (auto simp: run_whenM)

lemma attemptM_Inr_iff: "attemptM m s = (Inr r, s') \<longleftrightarrow> m s = (r, s')"
  by (cases "m s") (auto simp: attemptM_def)

lemma ignoreM_Inr_iff: "ignoreM m s = (Inr u, s') \<longleftrightarrow> s' = snd (m s)"
  by (auto simp: run_ignoreM)

lemmas Inr_iffs =
  bindM_Inr_iff thenM_Inr_iff simple_Inr_iffs map_errM_Inr_iff whenM_Inr_iff attemptM_Inr_iff
  ignoreM_Inr_iff

section \<open>Relations every step obeys\<close>

definition obeys :: "('s \<Rightarrow> 's \<Rightarrow> bool) \<Rightarrow> ('s, 'e, 'a) fallible \<Rightarrow> bool" where
  "obeys le m \<longleftrightarrow> (\<forall>s. le s (snd (m s)))"

lemma obeysI: "(\<And>s. le s (snd (m s))) \<Longrightarrow> obeys le m"
  by (simp add: obeys_def)

lemma obeysD: "obeys le m \<Longrightarrow> le s (snd (m s))"
  by (simp add: obeys_def)

lemma obeys_run: "obeys le m \<Longrightarrow> m s = (r, s') \<Longrightarrow> le s s'"
  using obeysD [of le m s] by simp

text \<open>
  A relation between the state before and after that holds of no change and of two
  changes in a row is kept by everything built from computations that keep it: the
  contract between the primitive operations of a component and the code that calls them.
\<close>

locale step_order =
  fixes le :: "'s \<Rightarrow> 's \<Rightarrow> bool"
  assumes le_refl: "le s s"
    and le_trans: "le s t \<Longrightarrow> le t u \<Longrightarrow> le s u"
begin

lemma obeys_return: "obeys le (returnM x)"
  by (simp add: obeys_def effect_simps le_refl)

lemma obeys_fail: "obeys le (failM e)"
  by (simp add: obeys_def effect_simps le_refl)

lemma obeys_get: "obeys le (getM f)"
  by (simp add: obeys_def effect_simps le_refl)

lemma obeys_ensure: "obeys le (ensureM b e)"
  by (simp add: obeys_def effect_simps le_refl)

lemma obeys_modify: "(\<And>s. le s (f s)) \<Longrightarrow> obeys le (modifyM f)"
  by (simp add: obeys_def effect_simps)

lemma obeys_bind:
  assumes m: "obeys le m" and f: "\<And>x. obeys le (f x)"
  shows "obeys le (bindM m f)"
proof (rule obeysI)
  fix s
  have a: "le s (snd (m s))" by (rule obeysD [OF m])
  show "le s (snd (bindM m f s))"
  proof (cases "fst (m s)")
    case (Inl e)
    then have "snd (bindM m f s) = snd (m s)"
      by (cases "m s") (simp add: run_bindM)
    with a show ?thesis by simp
  next
    case (Inr x)
    then have "bindM m f s = f x (snd (m s))"
      by (cases "m s") (simp add: run_bindM)
    with le_trans [OF a obeysD [OF f]] show ?thesis by simp
  qed
qed

lemma obeys_then: "obeys le m \<Longrightarrow> obeys le k \<Longrightarrow> obeys le (thenM m k)"
  by (simp add: thenM_def obeys_bind)

lemma obeys_attempt: "obeys le m \<Longrightarrow> obeys le (attemptM m)"
  by (simp add: obeys_def run_attemptM)

lemma obeys_ignore: "obeys le m \<Longrightarrow> obeys le (ignoreM m)"
  by (simp add: obeys_def run_ignoreM)

lemma obeys_map_err: "obeys le m \<Longrightarrow> obeys le (map_errM f m)"
  by (simp add: obeys_def run_map_errM)

lemma obeys_when: "(b \<Longrightarrow> obeys le m) \<Longrightarrow> obeys le (whenM b m)"
  by (simp add: obeys_def effect_simps le_refl)

lemma obeys_forM: "(\<And>x. x \<in> set xs \<Longrightarrow> obeys le (f x)) \<Longrightarrow> obeys le (forM xs f)"
  by (induction xs) (auto intro: obeys_return obeys_then)

lemma obeys_mapM: "(\<And>x. x \<in> set xs \<Longrightarrow> obeys le (f x)) \<Longrightarrow> obeys le (mapM xs f)"
  by (induction xs) (auto intro!: obeys_return obeys_bind)

lemmas obeys_combinators =
  obeys_return obeys_fail obeys_get obeys_ensure obeys_bind obeys_then obeys_attempt
  obeys_ignore obeys_map_err obeys_when obeys_forM obeys_mapM

end

text \<open>Two relations every component uses: a projection that does not change.\<close>

definition keeps :: "('s \<Rightarrow> 'v) \<Rightarrow> 's \<Rightarrow> 's \<Rightarrow> bool" where
  "keeps f s s' \<longleftrightarrow> f s' = f s"

interpretation keeps: step_order "keeps f" for f :: "'s \<Rightarrow> 'v"
  by unfold_locales (simp_all add: keeps_def)

text \<open>A zoomed computation keeps every projection the put does not write.\<close>

lemma keeps_zoomM: "(\<And>c s. f (put c s) = f s) \<Longrightarrow> obeys (keeps f) (zoomM get put m)"
  by (simp add: obeys_def keeps_def run_zoomM)

section \<open>Weakest preconditions\<close>

definition wp :: "('s, 'e, 'a) fallible \<Rightarrow> ('a \<Rightarrow> 's \<Rightarrow> bool) \<Rightarrow> ('e \<Rightarrow> 's \<Rightarrow> bool) \<Rightarrow> 's \<Rightarrow> bool" where
  "wp m Q E s \<longleftrightarrow> (case m s of (Inl e, s') \<Rightarrow> E e s' | (Inr x, s') \<Rightarrow> Q x s')"

lemma wp_return [simp]: "wp (returnM x) Q E s \<longleftrightarrow> Q x s"
  by (simp add: wp_def effect_simps)

lemma wp_fail [simp]: "wp (failM e) Q E s \<longleftrightarrow> E e s"
  by (simp add: wp_def effect_simps)

lemma wp_get [simp]: "wp (getM f) Q E s \<longleftrightarrow> Q (f s) s"
  by (simp add: wp_def effect_simps)

lemma wp_modify [simp]: "wp (modifyM f) Q E s \<longleftrightarrow> Q () (f s)"
  by (simp add: wp_def effect_simps)

lemma wp_ensure [simp]: "wp (ensureM b e) Q E s \<longleftrightarrow> (if b then Q () s else E e s)"
  by (simp add: wp_def effect_simps)

lemma wp_bind [simp]: "wp (bindM m f) Q E s \<longleftrightarrow> wp m (\<lambda>x. wp (f x) Q E) E s"
  by (simp add: wp_def run_bindM split: prod.splits sum.splits)

lemma wp_then [simp]: "wp (thenM m k) Q E s \<longleftrightarrow> wp m (\<lambda>_. wp k Q E) E s"
  by (simp add: thenM_def)

lemma wp_attempt [simp]:
  "wp (attemptM m) Q E s \<longleftrightarrow> wp m (\<lambda>x. Q (Inr x)) (\<lambda>e. Q (Inl e)) s"
  by (simp add: wp_def attemptM_def split: prod.splits sum.splits)

lemma wp_ignore [simp]: "wp (ignoreM m) Q E s \<longleftrightarrow> wp m (\<lambda>_. Q ()) (\<lambda>_. Q ()) s"
  by (simp add: wp_def ignoreM_def split: prod.splits sum.splits)

lemma wp_map_err [simp]: "wp (map_errM f m) Q E s \<longleftrightarrow> wp m Q (\<lambda>e. E (f e)) s"
  by (simp add: wp_def map_errM_def split: prod.splits sum.splits)

lemma wp_when [simp]: "wp (whenM b m) Q E s \<longleftrightarrow> (if b then wp m Q E s else Q () s)"
  by (simp add: wp_def effect_simps)

lemma wp_mono:
  "wp m Q E s \<Longrightarrow> (\<And>x t. Q x t \<Longrightarrow> Q' x t) \<Longrightarrow> (\<And>e t. E e t \<Longrightarrow> E' e t) \<Longrightarrow> wp m Q' E' s"
  by (auto simp: wp_def split: prod.splits sum.splits)

lemma wp_conj: "wp m Q E s \<Longrightarrow> wp m Q' E' s \<Longrightarrow> wp m (\<lambda>x t. Q x t \<and> Q' x t) (\<lambda>e t. E e t \<and> E' e t) s"
  by (auto simp: wp_def split: prod.splits sum.splits)

lemma wp_obeys: "obeys le m \<Longrightarrow> wp m (\<lambda>_ t. le s t) (\<lambda>_ t. le s t) s"
  using obeysD [of le m s] by (auto simp: wp_def split: prod.splits sum.splits)

lemma wp_run:
  "wp m Q E s \<Longrightarrow> m s = (r, t) \<Longrightarrow> (case r of Inl e \<Rightarrow> E e t | Inr x \<Rightarrow> Q x t)"
  by (auto simp: wp_def split: sum.splits)

lemma wpI: "(\<And>x t. m s = (Inr x, t) \<Longrightarrow> Q x t) \<Longrightarrow> (\<And>e t. m s = (Inl e, t) \<Longrightarrow> E e t) \<Longrightarrow> wp m Q E s"
  by (auto simp: wp_def split: prod.splits sum.splits)

text \<open>A loop keeps an invariant its body keeps.\<close>

lemma wp_forM:
  assumes body: "\<And>x s. x \<in> set xs \<Longrightarrow> I s \<Longrightarrow> wp (f x) (\<lambda>_. I) E s" and "I s"
  shows "wp (forM xs f) (\<lambda>_. I) E s"
  using assms
proof (induction xs arbitrary: s)
  case Nil
  then show ?case by simp
next
  case (Cons x xs)
  have "wp (f x) (\<lambda>_. I) E s" using Cons.prems by simp
  then show ?case
    by (simp, elim wp_mono) (use Cons in auto)
qed

end
