(* ===== verification/Database.thy ===== *)
theory Database
  imports Domain Fallible
begin

text \<open>
  \<open>crates/database/src/lib.rs\<close> over the schema of \<open>migrations/\<close>. The state is one
  record with a list per table, in row order; SQL statements are written out as the list
  operations they perform, with the constraints of the schema checked where SQLite checks
  them (a statement that violates one changes nothing). \<open>CURRENT_TIMESTAMP\<close>,
  \<open>Utc::now()\<close> (nanoseconds) and chrono's \<open>to_rfc3339\<close> are arguments. Failures of
  SQLite itself are added where the operations are called (theory \<open>System\<close>).
\<close>

section \<open>Tables\<close>

record plan_row =
  pr_id :: int
  pr_name :: string
  pr_local_ip :: string
  pr_local_port :: int
  pr_protocol :: string
  pr_domain :: string
  pr_dns_managed :: int
  pr_record_id :: "string option"
  pr_enabled :: int
  pr_created_at :: string
  pr_updated_at :: string

record routing_row =
  rr_active_node :: "string option"
  rr_standby_node :: "string option"
  rr_quarantine_days :: int
  rr_failover_enabled :: int
  rr_state :: string
  rr_revision :: int
  rr_updated_at :: string

record quarantine_row =
  qr_node_name :: string
  qr_node_ip :: "string option"
  qr_reason :: string
  qr_trigger_tunnel :: "string option"
  qr_started_at :: string
  qr_until :: string

record revision_row =
  cr_id :: int
  cr_node_name :: string
  cr_sha256 :: string
  cr_config_text :: string

record provider_settings =
  ps_chmlfrp_base_url :: string
  ps_chmlfrp_token :: string
  ps_cloudflare_api_base :: string
  ps_cloudflare_api_token :: string
  ps_cloudflare_zone_id :: string
  ps_updated_at :: string

record provider_row =
  pv_settings :: provider_settings
  pv_bootstrap_complete :: int

record db_state =
  db_plans :: "plan_row list"
  db_plan_seq :: int
  db_routing :: routing_row
  db_quarantine :: "quarantine_row list"
  db_revisions :: "revision_row list"
  db_activity :: "activity_event list"
  db_providers :: provider_row

datatype db_error = UniqueViolation | CheckViolation | RowNotFound | BadPhase string | SqliteFault

type_synonym 'a db_op = "(db_state, db_error, 'a) fallible"

section \<open>Constraints of the schema\<close>

definition plan_check :: "plan_row \<Rightarrow> bool" where
  "plan_check r \<longleftrightarrow>
     1 \<le> pr_local_port r \<and> pr_local_port r \<le> 65535
     \<and> pr_protocol r \<in> {''http'', ''https'', ''tcp'', ''udp''}
     \<and> pr_dns_managed r \<in> {0, 1}
     \<and> pr_enabled r \<in> {0, 1}
     \<and> (pr_domain r \<noteq> [] \<or> (pr_protocol r \<in> {''tcp'', ''udp''} \<and> pr_dns_managed r = 0))"

definition plan_clash :: "plan_row \<Rightarrow> plan_row \<Rightarrow> bool" where
  "plan_clash r q \<longleftrightarrow>
     pr_name r = pr_name q
     \<or> (pr_dns_managed r = 1 \<and> pr_domain r \<noteq> [] \<and> pr_dns_managed q = 1
        \<and> pr_domain r = pr_domain q)"

section \<open>Provider settings\<close>

definition provider_settings :: "provider_settings db_op" where
  "provider_settings = getM (\<lambda>d. pv_settings (db_providers d))"

definition provider_view :: "provider_settings \<Rightarrow> provider_settings_view" where
  "provider_view p =
     \<lparr>pv_chmlfrp_base_url = ps_chmlfrp_base_url p,
      pv_chmlfrp_token_configured = (trim (ps_chmlfrp_token p) \<noteq> []),
      pv_cloudflare_api_base = ps_cloudflare_api_base p,
      pv_cloudflare_api_token_configured = (trim (ps_cloudflare_api_token p) \<noteq> []),
      pv_cloudflare_zone_id = ps_cloudflare_zone_id p,
      pv_updated_at = ps_updated_at p\<rparr>"

definition clean_url :: "string \<Rightarrow> string" where
  "clean_url u = trim_end_matches {CHR ''/''} (trim u)"

definition write_providers :: "provider_settings \<Rightarrow> unit db_op" where
  "write_providers p =
     modifyM (\<lambda>d. d\<lparr>db_providers := \<lparr>pv_settings = p, pv_bootstrap_complete = 1\<rparr>\<rparr>)"

definition seed_provider_settings_from_env ::
  "string \<Rightarrow> string \<Rightarrow> string \<Rightarrow> string \<Rightarrow> string \<Rightarrow> string \<Rightarrow> unit db_op" where
  "seed_provider_settings_from_env now chml_url chml_token cf_base cf_token cf_zone =
     bindM (getM (\<lambda>d. pv_bootstrap_complete (db_providers d))) (\<lambda>bootstrap_complete.
     if bootstrap_complete \<noteq> 0 then returnM ()
     else write_providers
       \<lparr>ps_chmlfrp_base_url = clean_url chml_url, ps_chmlfrp_token = trim chml_token,
        ps_cloudflare_api_base = clean_url cf_base, ps_cloudflare_api_token = trim cf_token,
        ps_cloudflare_zone_id = trim cf_zone, ps_updated_at = now\<rparr>)"

definition chosen_token :: "bool \<Rightarrow> string option \<Rightarrow> string \<Rightarrow> string" where
  "chosen_token clear new current =
     (if clear then []
      else case map_option trim new of
             None \<Rightarrow> current
           | Some value \<Rightarrow> if value \<noteq> [] then value else current)"

definition update_provider_settings :: "string \<Rightarrow> provider_settings_update \<Rightarrow> provider_settings db_op" where
  "update_provider_settings now input =
     bindM provider_settings (\<lambda>current.
     thenM (write_providers
       \<lparr>ps_chmlfrp_base_url = clean_url (pu_chmlfrp_base_url input),
        ps_chmlfrp_token = chosen_token (pu_clear_chmlfrp_token input) (pu_chmlfrp_token input)
          (ps_chmlfrp_token current),
        ps_cloudflare_api_base = clean_url (pu_cloudflare_api_base input),
        ps_cloudflare_api_token = chosen_token (pu_clear_cloudflare_api_token input)
          (pu_cloudflare_api_token input) (ps_cloudflare_api_token current),
        ps_cloudflare_zone_id = trim (pu_cloudflare_zone_id input), ps_updated_at = now\<rparr>)
     provider_settings)"

section \<open>Routing\<close>

definition routing_state :: "routing_state db_op" where
  "routing_state =
     bindM (getM db_routing) (\<lambda>row.
     case phase_from_str (rr_state row) of
       Inl msg \<Rightarrow> failM (BadPhase msg)
     | Inr phase \<Rightarrow> returnM
         \<lparr>rs_active_node = rr_active_node row, rs_standby_node = rr_standby_node row,
          rs_quarantine_days = rr_quarantine_days row,
          rs_failover_enabled = (rr_failover_enabled row \<noteq> 0), rs_phase = phase,
          rs_revision = rr_revision row, rs_updated_at = rr_updated_at row\<rparr>)"

definition update_routing_row :: "(routing_row \<Rightarrow> routing_row) \<Rightarrow> unit db_op" where
  "update_routing_row f = modifyM (\<lambda>d. d\<lparr>db_routing := f (db_routing d)\<rparr>)"

definition seed_routing_from_env ::
  "string \<Rightarrow> string option \<Rightarrow> string option \<Rightarrow> int \<Rightarrow> bool \<Rightarrow> unit db_op" where
  "seed_routing_from_env now active standby days enabled =
     bindM routing_state (\<lambda>current.
     whenM (rs_active_node current = None \<and> active \<noteq> None)
       (update_routing_row (\<lambda>r. r\<lparr>rr_active_node := active, rr_standby_node := standby,
          rr_quarantine_days := days, rr_failover_enabled := (if enabled then 1 else 0),
          rr_updated_at := now\<rparr>)))"

definition update_routing :: "string \<Rightarrow> routing_update \<Rightarrow> routing_state db_op" where
  "update_routing now input =
     thenM (update_routing_row (\<lambda>r. r\<lparr>rr_active_node := ru_active_node input,
        rr_standby_node := ru_standby_node input, rr_quarantine_days := ru_quarantine_days input,
        rr_failover_enabled := (if ru_failover_enabled input then 1 else 0),
        rr_revision := rr_revision r + 1, rr_updated_at := now\<rparr>))
     routing_state"

definition set_routing_phase :: "string \<Rightarrow> routing_phase \<Rightarrow> unit db_op" where
  "set_routing_phase now phase =
     update_routing_row (\<lambda>r. r\<lparr>rr_state := phase_as_str phase, rr_updated_at := now\<rparr>)"

definition promote_active_node :: "string \<Rightarrow> string \<Rightarrow> string option \<Rightarrow> unit db_op" where
  "promote_active_node now active standby =
     update_routing_row (\<lambda>r. r\<lparr>rr_active_node := Some active, rr_standby_node := standby,
        rr_state := ''dns_switching'', rr_revision := rr_revision r + 1, rr_updated_at := now\<rparr>)"

definition finalize_active_node :: "string \<Rightarrow> unit db_op" where
  "finalize_active_node now = set_routing_phase now Idle"

definition failed_phase :: "routing_phase \<Rightarrow> routing_phase" where
  "failed_phase phase =
     (case phase of Idle \<Rightarrow> Idle | DnsSwitching \<Rightarrow> DegradedDns | _ \<Rightarrow> Failed)"

definition mark_routing_failed :: "string \<Rightarrow> unit db_op" where
  "mark_routing_failed now =
     bindM routing_state (\<lambda>current. set_routing_phase now (failed_phase (rs_phase current)))"

section \<open>Tunnel plans\<close>

definition row_to_tunnel :: "plan_row \<Rightarrow> tunnel_plan" where
  "row_to_tunnel r =
     \<lparr>tp_id = pr_id r, tp_name = pr_name r, tp_local_ip = pr_local_ip r,
      tp_local_port = pr_local_port r, tp_protocol = pr_protocol r, tp_domain = pr_domain r,
      tp_dns_managed = (pr_dns_managed r \<noteq> 0), tp_record_id = pr_record_id r,
      tp_enabled = (pr_enabled r \<noteq> 0), tp_created_at = pr_created_at r,
      tp_updated_at = pr_updated_at r\<rparr>"

definition list_tunnels :: "tunnel_plan list db_op" where
  "list_tunnels = getM (\<lambda>d. map row_to_tunnel (sort_key pr_name (db_plans d)))"

definition get_tunnel :: "int \<Rightarrow> tunnel_plan db_op" where
  "get_tunnel tid =
     bindM (getM (\<lambda>d. find (\<lambda>r. pr_id r = tid) (db_plans d))) (\<lambda>row.
     case row of None \<Rightarrow> failM RowNotFound | Some r \<Rightarrow> returnM (row_to_tunnel r))"

definition int_of_bool :: "bool \<Rightarrow> int" where
  "int_of_bool b = (if b then 1 else 0)"

definition create_tunnel :: "string \<Rightarrow> tunnel_plan_input \<Rightarrow> tunnel_plan db_op" where
  "create_tunnel now input =
     bindM (getM (\<lambda>d. d)) (\<lambda>d.
     let tid = db_plan_seq d + 1;
         row = \<lparr>pr_id = tid, pr_name = trim (ti_name input), pr_local_ip = trim (ti_local_ip input),
                pr_local_port = ti_local_port input,
                pr_protocol = to_ascii_lowercase (ti_protocol input),
                pr_domain = to_ascii_lowercase (trim (ti_domain input)),
                pr_dns_managed = int_of_bool (ti_dns_managed input), pr_record_id = None,
                pr_enabled = 1, pr_created_at = now, pr_updated_at = now\<rparr>
     in if \<not> plan_check row then failM CheckViolation
        else if list_ex (plan_clash row) (db_plans d) then failM UniqueViolation
        else thenM (modifyM (\<lambda>d. d\<lparr>db_plans := db_plans d @ [row], db_plan_seq := tid\<rparr>))
               (get_tunnel tid))"

definition updated_row :: "string \<Rightarrow> tunnel_plan_input \<Rightarrow> plan_row \<Rightarrow> plan_row" where
  "updated_row now input r =
     r\<lparr>pr_name := trim (ti_name input), pr_local_ip := trim (ti_local_ip input),
       pr_local_port := ti_local_port input, pr_protocol := to_ascii_lowercase (ti_protocol input),
       pr_domain := to_ascii_lowercase (trim (ti_domain input)),
       pr_dns_managed := int_of_bool (ti_dns_managed input), pr_updated_at := now\<rparr>"

definition update_tunnel :: "string \<Rightarrow> int \<Rightarrow> tunnel_plan_input \<Rightarrow> tunnel_plan db_op" where
  "update_tunnel now tid input =
     bindM (getM db_plans) (\<lambda>rows.
     case find (\<lambda>r. pr_id r = tid) rows of
       None \<Rightarrow> get_tunnel tid
     | Some r \<Rightarrow>
         (let r' = updated_row now input r in
          if \<not> plan_check r' then failM CheckViolation
          else if list_ex (plan_clash r') (filter (\<lambda>q. pr_id q \<noteq> tid) rows) then failM UniqueViolation
          else thenM (modifyM (\<lambda>d. d\<lparr>db_plans :=
                  map (\<lambda>q. if pr_id q = tid then updated_row now input q else q) (db_plans d)\<rparr>))
                 (get_tunnel tid)))"

definition delete_tunnel :: "int \<Rightarrow> unit db_op" where
  "delete_tunnel tid = modifyM (\<lambda>d. d\<lparr>db_plans := filter (\<lambda>r. pr_id r \<noteq> tid) (db_plans d)\<rparr>)"

definition set_cloudflare_record_id :: "string \<Rightarrow> int \<Rightarrow> string \<Rightarrow> unit db_op" where
  "set_cloudflare_record_id now tid record_id =
     modifyM (\<lambda>d. d\<lparr>db_plans :=
       map (\<lambda>r. if pr_id r = tid then r\<lparr>pr_record_id := Some record_id, pr_updated_at := now\<rparr> else r)
         (db_plans d)\<rparr>)"

section \<open>Quarantine\<close>

definition day_ns :: int where
  "day_ns = 86400 * 1000000000"

definition upsert_quarantine :: "quarantine_row \<Rightarrow> quarantine_row list \<Rightarrow> quarantine_row list" where
  "upsert_quarantine row rows =
     (if list_ex (\<lambda>r. qr_node_name r = qr_node_name row) rows
      then map (\<lambda>r. if qr_node_name r = qr_node_name row then row else r) rows
      else rows @ [row])"

definition quarantine_node ::
  "(int \<Rightarrow> string) \<Rightarrow> int \<Rightarrow> string \<Rightarrow> string option \<Rightarrow> string \<Rightarrow> string option \<Rightarrow> int \<Rightarrow> unit db_op" where
  "quarantine_node to_rfc3339 now node ip reason trigger_tunnel days =
     (let until = now + max days 1 * day_ns
      in modifyM (\<lambda>d. d\<lparr>db_quarantine := upsert_quarantine
           \<lparr>qr_node_name = node, qr_node_ip = ip, qr_reason = reason,
            qr_trigger_tunnel = trigger_tunnel, qr_started_at = to_rfc3339 now,
            qr_until = to_rfc3339 until\<rparr> (db_quarantine d)\<rparr>))"

definition clear_quarantine :: "string \<Rightarrow> unit db_op" where
  "clear_quarantine node =
     modifyM (\<lambda>d. d\<lparr>db_quarantine := filter (\<lambda>r. qr_node_name r \<noteq> node) (db_quarantine d)\<rparr>)"

definition quarantine_until :: "(int \<Rightarrow> string) \<Rightarrow> int \<Rightarrow> string \<Rightarrow> string option db_op" where
  "quarantine_until to_rfc3339 now node =
     getM (\<lambda>d. map_option qr_until
       (find (\<lambda>r. qr_node_name r = node \<and> qr_until r > to_rfc3339 now) (db_quarantine d)))"

section \<open>Configuration revisions and activity\<close>

definition next_revision_id :: "revision_row list \<Rightarrow> int" where
  "next_revision_id rows = foldr (\<lambda>r m. max (cr_id r) m) rows 0 + 1"

definition save_config_revision :: "string \<Rightarrow> string \<Rightarrow> string \<Rightarrow> int db_op" where
  "save_config_revision node sha256 config =
     bindM (getM (\<lambda>d. next_revision_id (db_revisions d))) (\<lambda>tid.
     thenM (modifyM (\<lambda>d. d\<lparr>db_revisions := db_revisions d @
              [\<lparr>cr_id = tid, cr_node_name = node, cr_sha256 = sha256, cr_config_text = config\<rparr>]\<rparr>))
       (returnM tid))"

definition next_activity_id :: "activity_event list \<Rightarrow> int" where
  "next_activity_id rows = foldr (\<lambda>r m. max (ae_id r) m) rows 0 + 1"

definition activity ::
  "string \<Rightarrow> string option \<Rightarrow> string \<Rightarrow> string \<Rightarrow> string \<Rightarrow> string option \<Rightarrow> string option \<Rightarrow> json
   \<Rightarrow> unit db_op" where
  "activity now job_id kind level message tunnel_name node_name details =
     modifyM (\<lambda>d. d\<lparr>db_activity := db_activity d @
       [\<lparr>ae_id = next_activity_id (db_activity d), ae_job_id = job_id, ae_kind = kind,
         ae_level = level, ae_message = message, ae_tunnel_name = tunnel_name,
         ae_node_name = node_name, ae_details = details, ae_created_at = now\<rparr>]\<rparr>)"

definition clamp :: "int \<Rightarrow> int \<Rightarrow> int \<Rightarrow> int" where
  "clamp lo hi x = (if x < lo then lo else if hi < x then hi else x)"

definition recent_activity :: "int \<Rightarrow> activity_event list db_op" where
  "recent_activity limit =
     getM (\<lambda>d. take (nat (clamp 1 500 limit)) (rev (sort_key ae_id (db_activity d))))"

section \<open>The database after the migrations\<close>

definition initial_db :: "string \<Rightarrow> db_state" where
  "initial_db now =
     \<lparr>db_plans = [], db_plan_seq = 0,
      db_routing = \<lparr>rr_active_node = None, rr_standby_node = None, rr_quarantine_days = 30,
        rr_failover_enabled = 1, rr_state = ''idle'', rr_revision = 0, rr_updated_at = now\<rparr>,
      db_quarantine = [], db_revisions = [], db_activity = [],
      db_providers = \<lparr>pv_settings =
        \<lparr>ps_chmlfrp_base_url = ''https://cf-v2.uapis.cn'', ps_chmlfrp_token = [],
         ps_cloudflare_api_base = ''https://api.cloudflare.com/client/v4'',
         ps_cloudflare_api_token = [], ps_cloudflare_zone_id = [], ps_updated_at = now\<rparr>,
        pv_bootstrap_complete = 0\<rparr>\<rparr>"

end
