(* ===== verification/Database_Laws.thy ===== *)
theory Database_Laws
  imports Database
begin

text \<open>
  What the persistence layer promises: the well-formedness of the tables and that every
  operation preserves it (\<open>db_step\<close>, \<open>db_reachable\<close>), lookup-after-update facts for plans
  and quarantine, and the contract of the routing row that the coordinator relies on
  (locale \<open>routing_store\<close>, interpreted on the model's operations).
\<close>

section \<open>Running single operations\<close>

lemma run_routing_state [row_simps]:
  "routing_state d =
     (case phase_from_str (rr_state (db_routing d)) of
        Inl msg \<Rightarrow> Inl (BadPhase msg)
      | Inr phase \<Rightarrow> Inr
         \<lparr>rs_active_node = rr_active_node (db_routing d), rs_standby_node = rr_standby_node (db_routing d),
          rs_quarantine_days = rr_quarantine_days (db_routing d),
          rs_failover_enabled = (rr_failover_enabled (db_routing d) \<noteq> 0), rs_phase = phase,
          rs_revision = rr_revision (db_routing d), rs_updated_at = rr_updated_at (db_routing d)\<rparr>, d)"
  by (simp add: routing_state_def effect_simps split: sum.splits)

lemma run_set_routing_phase [row_simps]:
  "set_routing_phase now p d =
     (Inr (), d\<lparr>db_routing := (db_routing d)\<lparr>rr_state := phase_as_str p, rr_updated_at := now\<rparr>\<rparr>)"
  by (simp add: set_routing_phase_def update_routing_row_def effect_simps)

lemma run_promote [row_simps]:
  "promote_active_node now a s d =
     (Inr (), d\<lparr>db_routing := (db_routing d)\<lparr>rr_active_node := Some a, rr_standby_node := s,
        rr_state := ''dns_switching'', rr_revision := rr_revision (db_routing d) + 1,
        rr_updated_at := now\<rparr>\<rparr>)"
  by (simp add: promote_active_node_def update_routing_row_def effect_simps)

lemma run_finalize [row_simps]: "finalize_active_node now = set_routing_phase now Idle"
  by (simp add: finalize_active_node_def fun_eq_iff)

lemma phase_from_str_as_str [simp]: "phase_from_str (phase_as_str p) = Inr p"
  by (cases p) (simp_all add: phase_from_str_def)

lemma phase_from_str_InrD: "phase_from_str s = Inr p \<Longrightarrow> s = phase_as_str p"
  by (auto simp: phase_from_str_def split: if_splits)

lemma dns_switching_text [simp]: "phase_from_str ''dns_switching'' = Inr DnsSwitching"
  using phase_from_str_as_str [of DnsSwitching] by simp

lemma run_mark_routing_failed [row_simps]:
  "mark_routing_failed now d =
     (case phase_from_str (rr_state (db_routing d)) of
        Inl msg \<Rightarrow> (Inl (BadPhase msg), d)
      | Inr p \<Rightarrow> set_routing_phase now (failed_phase p) d)"
  by (simp add: mark_routing_failed_def effect_simps row_simps split: sum.splits)

section \<open>The contract of the routing row\<close>

text \<open>
  The coordinator sees the routing row through three observations (its phase, its active
  node, its revision) and changes it in three ways: setting the phase, promoting a
  target, recording a failure.
\<close>

locale routing_store =
  fixes phase :: "'d \<Rightarrow> routing_phase option"
    and active :: "'d \<Rightarrow> string option"
    and revision :: "'d \<Rightarrow> int"
    and set_phase :: "routing_phase \<Rightarrow> 'd \<Rightarrow> 'd"
    and promote :: "string \<Rightarrow> string option \<Rightarrow> 'd \<Rightarrow> 'd"
    and mark_failed :: "'d \<Rightarrow> 'd"
  assumes phase_set: "phase (set_phase p d) = Some p"
    and active_set: "active (set_phase p d) = active d"
    and revision_set: "revision (set_phase p d) = revision d"
    and phase_promote: "phase (promote a s d) = Some DnsSwitching"
    and active_promote: "active (promote a s d) = Some a"
    and revision_promote: "revision (promote a s d) = revision d + 1"
    and phase_mark: "phase (mark_failed d) = map_option failed_phase (phase d)"
    and active_mark: "active (mark_failed d) = active d"
    and revision_mark: "revision (mark_failed d) = revision d"
begin

lemma commit_then_finalize:
  "phase (set_phase Idle (promote a s d)) = Some Idle
   \<and> active (set_phase Idle (promote a s d)) = Some a
   \<and> revision (set_phase Idle (promote a s d)) = revision d + 1"
  by (simp add: phase_set active_set active_promote revision_set revision_promote)

lemma failure_after_commit:
  "phase (mark_failed (promote a s d)) = Some DegradedDns \<and> active (mark_failed (promote a s d)) = Some a"
  by (simp add: phase_mark phase_promote active_mark active_promote failed_phase_def)

lemma failure_before_commit:
  "phase (mark_failed (set_phase Failover d)) = Some Failed
   \<and> active (mark_failed (set_phase Failover d)) = active d
   \<and> revision (mark_failed (set_phase Failover d)) = revision d"
  by (simp add: phase_mark phase_set active_mark active_set revision_mark revision_set failed_phase_def)

lemma mark_failed_settles:
  "phase d = Some p \<Longrightarrow> \<exists>q. phase (mark_failed d) = Some q \<and> q \<noteq> Failover \<and> q \<noteq> DnsSwitching"
  by (cases p) (auto simp: phase_mark failed_phase_def)

end

text \<open>The observations on the model, and the operations as functions of the database.\<close>

definition db_phase :: "db_state \<Rightarrow> routing_phase option" where
  "db_phase d = (case phase_from_str (rr_state (db_routing d)) of Inl _ \<Rightarrow> None | Inr p \<Rightarrow> Some p)"

definition db_active :: "db_state \<Rightarrow> string option" where
  "db_active d = rr_active_node (db_routing d)"

definition db_revision :: "db_state \<Rightarrow> int" where
  "db_revision d = rr_revision (db_routing d)"

lemma db_phase_eq_Some: "db_phase d = Some p \<longleftrightarrow> rr_state (db_routing d) = phase_as_str p"
  by (auto simp: db_phase_def dest: phase_from_str_InrD split: sum.splits)

interpretation routing: routing_store db_phase db_active db_revision
  "\<lambda>p d. snd (set_routing_phase now p d)"
  "\<lambda>a s d. snd (promote_active_node now a s d)"
  "\<lambda>d. snd (mark_routing_failed now d)"
  for now :: string
  by unfold_locales
    (auto simp: row_simps db_phase_def db_active_def db_revision_def split: sum.splits)

text \<open>
  The commit protocol of the routing row. After a target is promoted, finalizing
  leaves the target active, the phase idle and the revision one higher; a failure recorded
  after the promotion leaves the target active with the phase degraded; a failure recorded
  before it leaves the active node and the revision as they were and the phase failed.
\<close>
theorem routing_commit_protocol:
  "db_phase (snd (finalize_active_node now (snd (promote_active_node now a s d)))) = Some Idle
   \<and> db_active (snd (finalize_active_node now (snd (promote_active_node now a s d)))) = Some a
   \<and> db_revision (snd (finalize_active_node now (snd (promote_active_node now a s d)))) = db_revision d + 1
   \<and> db_phase (snd (mark_routing_failed now (snd (promote_active_node now a s d)))) = Some DegradedDns
   \<and> db_active (snd (mark_routing_failed now (snd (promote_active_node now a s d)))) = Some a
   \<and> db_phase (snd (mark_routing_failed now (snd (set_routing_phase now Failover d)))) = Some Failed
   \<and> db_active (snd (mark_routing_failed now (snd (set_routing_phase now Failover d)))) = db_active d"
  using routing.commit_then_finalize [of now a s d] routing.failure_after_commit [of now a s d]
    routing.failure_before_commit [of now d]
  by (simp add: run_finalize)

section \<open>Well-formed tables\<close>

definition plans_wf :: "plan_row list \<Rightarrow> int \<Rightarrow> bool" where
  "plans_wf rows seq \<longleftrightarrow>
     distinct (map pr_id rows)
     \<and> (\<forall>r \<in> set rows. plan_check r \<and> 0 < pr_id r \<and> pr_id r \<le> seq)
     \<and> (\<forall>r \<in> set rows. \<forall>q \<in> set rows. plan_clash r q \<longrightarrow> pr_id r = pr_id q)"

definition db_wf :: "db_state \<Rightarrow> bool" where
  "db_wf d \<longleftrightarrow>
     plans_wf (db_plans d) (db_plan_seq d) \<and> 0 \<le> db_plan_seq d
     \<and> db_phase d \<noteq> None
     \<and> distinct (map qr_node_name (db_quarantine d))
     \<and> sorted_wrt (<) (map cr_id (db_revisions d))
     \<and> sorted_wrt (<) (map ae_id (db_activity d))"

text \<open>One step of the database: any operation, with any arguments, whatever it returns.\<close>

inductive db_step :: "db_state \<Rightarrow> db_state \<Rightarrow> bool" where
  create: "db_step d (snd (create_tunnel now input d))"
| update: "db_step d (snd (update_tunnel now tid input d))"
| delete: "db_step d (snd (delete_tunnel tid d))"
| set_record: "db_step d (snd (set_cloudflare_record_id now tid rid d))"
| seed_routing: "db_step d (snd (seed_routing_from_env now active standby days enabled d))"
| put_routing: "db_step d (snd (update_routing now ru d))"
| set_phase: "db_step d (snd (set_routing_phase now p d))"
| promote: "db_step d (snd (promote_active_node now node standby d))"
| mark_failed: "db_step d (snd (mark_routing_failed now d))"
| quarantine: "db_step d (snd (quarantine_node fmt t node ip reason tunnel days d))"
| unquarantine: "db_step d (snd (clear_quarantine node d))"
| save_revision: "db_step d (snd (save_config_revision node sha config d))"
| log: "db_step d (snd (activity now job kind level message tunnel_name node_name details d))"
| put_providers: "db_step d (snd (update_provider_settings now pu d))"
| seed_providers: "db_step d (snd (seed_provider_settings_from_env now a b c e f d))"

inductive db_reachable :: "db_state \<Rightarrow> bool" where
  start: "db_reachable (initial_db now)"
| step: "db_reachable d \<Longrightarrow> db_step d d' \<Longrightarrow> db_reachable d'"

section \<open>Every operation preserves well-formedness\<close>

lemma plan_clash_sym: "plan_clash r q \<longleftrightarrow> plan_clash q r"
  by (auto simp: plan_clash_def)

lemma plans_wf_append:
  assumes "plans_wf rows seq" "plan_check row" "\<not> list_ex (plan_clash row) rows" "pr_id row = seq + 1"
    and "0 \<le> seq"
  shows "plans_wf (rows @ [row]) (seq + 1)"
proof -
  have "\<not> plan_clash row r" "\<not> plan_clash r row" if "r \<in> set rows" for r
    using assms(3) that plan_clash_sym [of r row] by (auto simp: list_ex_iff)
  moreover have "pr_id r \<noteq> seq + 1 \<and> pr_id r \<le> seq + 1" if "r \<in> set rows" for r
    using assms(1) that by (auto simp: plans_wf_def)
  moreover have "pr_id row \<notin> pr_id ` set rows"
    using assms(1,4) by (force simp: plans_wf_def)
  ultimately show ?thesis
    using assms(1,2,4,5) unfolding plans_wf_def
    by (simp add: ball_Un)
qed

lemma plans_wf_filter: "plans_wf rows seq \<Longrightarrow> plans_wf (filter P rows) seq"
  by (auto simp: plans_wf_def distinct_map_filter)

text \<open>Rewriting rows one by one: only the row with the given id may change its key columns.\<close>

lemma plans_wf_map:
  assumes wf: "plans_wf rows seq"
    and ids: "\<And>r. pr_id (f r) = pr_id r"
    and check: "\<And>r. r \<in> set rows \<Longrightarrow> plan_check (f r)"
    and clash: "\<And>r q. r \<in> set rows \<Longrightarrow> q \<in> set rows \<Longrightarrow> plan_clash (f r) (f q) \<Longrightarrow> pr_id r = pr_id q"
  shows "plans_wf (map f rows) seq"
proof -
  have "distinct (map pr_id (map f rows))"
    using wf ids by (simp add: plans_wf_def comp_def)
  with wf ids check clash show ?thesis
    unfolding plans_wf_def by (simp del: map_map)
qed

lemma plans_wf_update_row:
  assumes wf: "plans_wf rows seq"
    and r: "find (\<lambda>r. pr_id r = tid) rows = Some r"
    and check: "plan_check (updated_row now input r)"
    and fresh: "\<not> list_ex (plan_clash (updated_row now input r)) (filter (\<lambda>q. pr_id q \<noteq> tid) rows)"
  shows "plans_wf (map (\<lambda>q. if pr_id q = tid then updated_row now input q else q) rows) seq"
proof (rule plans_wf_map [OF wf])
  from r have rm: "r \<in> set rows" "pr_id r = tid" by (auto dest: find_Some_in_set)
  have only: "q = r" if "q \<in> set rows" "pr_id q = tid" for q
    using wf rm that by (auto simp: plans_wf_def distinct_map dest: inj_onD)
  show "pr_id (if pr_id q = tid then updated_row now input q else q) = pr_id q" for q
    by (simp add: updated_row_def)
  show "plan_check (if pr_id q = tid then updated_row now input q else q)" if "q \<in> set rows" for q
    using that only check wf by (auto simp: plans_wf_def)
  show "pr_id q = pr_id q'"
    if "q \<in> set rows" "q' \<in> set rows"
      "plan_clash (if pr_id q = tid then updated_row now input q else q)
                  (if pr_id q' = tid then updated_row now input q' else q')" for q q'
    using that only fresh wf plan_clash_sym [of q "updated_row now input r"]
    by (auto simp: plans_wf_def list_ex_iff split: if_splits)
qed

lemma plans_wf_set_record:
  "plans_wf rows seq \<Longrightarrow>
   plans_wf (map (\<lambda>r. if pr_id r = tid then r\<lparr>pr_record_id := Some rid, pr_updated_at := now\<rparr> else r) rows) seq"
proof -
  let ?f = "\<lambda>r. if pr_id r = tid then r\<lparr>pr_record_id := Some rid, pr_updated_at := now\<rparr> else r"
  have check: "plan_check (?f r) = plan_check r" for r by (simp add: plan_check_def)
  have clash: "plan_clash (?f r) (?f q) = plan_clash r q" for r q by (simp add: plan_clash_def)
  assume wf: "plans_wf rows seq"
  show ?thesis
  proof (rule plans_wf_map [OF wf])
    show "pr_id (?f r) = pr_id r" for r by simp
    show "plan_check (?f r)" if "r \<in> set rows" for r
      using wf that unfolding check plans_wf_def by blast
    show "pr_id r = pr_id q"
      if "r \<in> set rows" "q \<in> set rows" "plan_clash (?f r) (?f q)" for r q
      using wf that unfolding clash plans_wf_def by blast
  qed
qed

lemma run_get_tunnel [row_simps]:
  "get_tunnel tid d =
     (case find (\<lambda>r. pr_id r = tid) (db_plans d) of
        None \<Rightarrow> (Inl RowNotFound, d) | Some r \<Rightarrow> (Inr (row_to_tunnel r), d))"
  by (simp add: get_tunnel_def effect_simps split: option.splits)

lemma snd_get_tunnel [simp]: "snd (get_tunnel tid d) = d"
  by (simp add: row_simps split: option.splits)

lemma distinct_upsert:
  "distinct (map qr_node_name rows) \<Longrightarrow> distinct (map qr_node_name (upsert_quarantine row rows))"
proof -
  assume d: "distinct (map qr_node_name rows)"
  have "qr_node_name \<circ> (\<lambda>r. if qr_node_name r = qr_node_name row then row else r) = qr_node_name"
    by (rule ext) simp
  with d show ?thesis
    by (auto simp: upsert_quarantine_def list_ex_iff)
qed

lemma max_id_bound: "r \<in> set rows \<Longrightarrow> f r \<le> foldr (\<lambda>r m. max (f r) m) rows (0::int)"
  by (induction rows) auto

lemma db_wf_create: "db_wf d \<Longrightarrow> db_wf (snd (create_tunnel now input d))"
  by (auto simp: create_tunnel_def effect_simps Let_def db_wf_def db_phase_def
      intro!: plans_wf_append)

lemma db_wf_update: "db_wf d \<Longrightarrow> db_wf (snd (update_tunnel now tid input d))"
proof (cases "find (\<lambda>r. pr_id r = tid) (db_plans d)")
  case None
  then show "db_wf d \<Longrightarrow> ?thesis" by (simp add: update_tunnel_def effect_simps)
next
  case (Some r)
  then show "db_wf d \<Longrightarrow> ?thesis"
    using plans_wf_update_row [of "db_plans d" "db_plan_seq d" tid r now input]
    by (simp add: update_tunnel_def effect_simps Let_def db_wf_def db_phase_def)
qed

lemma db_wf_revision: "db_wf d \<Longrightarrow> db_wf (snd (save_config_revision node sha config d))"
  using max_id_bound [of _ "db_revisions d" cr_id]
  by (fastforce simp: save_config_revision_def effect_simps next_revision_id_def db_wf_def
      db_phase_def sorted_wrt_append)

lemma db_wf_activity:
  "db_wf d \<Longrightarrow> db_wf (snd (activity now job kind level message tunnel_name node_name details d))"
  using max_id_bound [of _ "db_activity d" ae_id]
  by (fastforce simp: activity_def effect_simps next_activity_id_def db_wf_def db_phase_def
      sorted_wrt_append)

lemma db_wf_routing_ops:
  assumes "db_wf d"
  shows "db_wf (snd (set_routing_phase now p d))" "db_wf (snd (promote_active_node now a s d))"
    "db_wf (snd (mark_routing_failed now d))" "db_wf (snd (update_routing now ru d))"
    "db_wf (snd (seed_routing_from_env now act st days en d))"
  using assms
  by (auto simp: db_wf_def db_phase_def row_simps update_routing_def seed_routing_from_env_def
      update_routing_row_def effect_simps split: sum.splits)

lemma db_step_wf:
  assumes "db_step d d'" "db_wf d"
  shows "db_wf d'"
  using assms
proof (cases rule: db_step.cases)
  case delete
  with assms(2) show ?thesis
    by (simp add: delete_tunnel_def effect_simps db_wf_def db_phase_def plans_wf_filter)
next
  case set_record
  with assms(2) show ?thesis
    by (simp add: set_cloudflare_record_id_def effect_simps db_wf_def db_phase_def plans_wf_set_record)
next
  case quarantine
  with assms(2) show ?thesis
    by (simp add: quarantine_node_def effect_simps Let_def db_wf_def db_phase_def distinct_upsert)
next
  case unquarantine
  with assms(2) show ?thesis
    by (simp add: clear_quarantine_def effect_simps db_wf_def db_phase_def distinct_map_filter)
next
  case put_providers
  with assms(2) show ?thesis
    by (simp add: update_provider_settings_def provider_settings_def write_providers_def
        effect_simps db_wf_def db_phase_def)
next
  case seed_providers
  with assms(2) show ?thesis
    by (simp add: seed_provider_settings_from_env_def write_providers_def effect_simps db_wf_def
        db_phase_def)
qed (auto intro: db_wf_create db_wf_update db_wf_revision db_wf_activity db_wf_routing_ops)

lemma db_wf_initial: "db_wf (initial_db now)"
  by (simp add: db_wf_def initial_db_def plans_wf_def db_phase_def phase_from_str_def)

lemma db_reachable_wf: "db_reachable d \<Longrightarrow> db_wf d"
  by (induction rule: db_reachable.induct) (auto intro: db_wf_initial db_step_wf)

section \<open>What a reachable database guarantees\<close>

lemma list_tunnels_result: "fst (list_tunnels d) = Inr (map row_to_tunnel (sort_key pr_name (db_plans d)))"
  by (simp add: list_tunnels_def effect_simps)

lemma plan_clash_of_rows:
  "plan_check r \<Longrightarrow> plan_check q \<Longrightarrow>
   tp_name (row_to_tunnel r) = tp_name (row_to_tunnel q)
     \<or> tp_dns_managed (row_to_tunnel r) \<and> tp_dns_managed (row_to_tunnel q)
       \<and> tp_domain (row_to_tunnel r) = tp_domain (row_to_tunnel q)
   \<Longrightarrow> plan_clash r q"
  by (auto simp: row_to_tunnel_def plan_clash_def plan_check_def)

text \<open>
  C30: in every database that operations of the persistence layer can reach from the
  migrated schema, the listed plans are sorted by name; two listed plans with the same
  name, or two DNS-managed plans with the same domain, are the same plan; every local port
  is in 1..65535, every protocol is one of the four, and a web or DNS-managed plan has a
  domain.
\<close>
theorem reachable_plans_unique_and_checked:
  assumes "db_reachable d" "fst (list_tunnels d) = Inr plans"
  shows "sorted (map tp_name plans)
    \<and> (\<forall>p \<in> set plans. \<forall>q \<in> set plans.
         tp_name p = tp_name q \<or> tp_dns_managed p \<and> tp_dns_managed q \<and> tp_domain p = tp_domain q
         \<longrightarrow> p = q)
    \<and> (\<forall>p \<in> set plans. 1 \<le> tp_local_port p \<and> tp_local_port p \<le> 65535
         \<and> tp_protocol p \<in> {''http'', ''https'', ''tcp'', ''udp''}
         \<and> (tp_dns_managed p \<or> tp_protocol p \<in> {''http'', ''https''} \<longrightarrow> tp_domain p \<noteq> []))"
proof -
  have wf: "plans_wf (db_plans d) (db_plan_seq d)"
    using db_reachable_wf [OF assms(1)] by (simp add: db_wf_def)
  have plans: "plans = map row_to_tunnel (sort_key pr_name (db_plans d))"
    using assms(2) by (simp add: list_tunnels_result)
  have names: "map tp_name plans = map pr_name (sort_key pr_name (db_plans d))"
    by (simp add: plans row_to_tunnel_def)
  have same: "row_to_tunnel r = row_to_tunnel q"
    if "r \<in> set (db_plans d)" "q \<in> set (db_plans d)" "plan_clash r q" for r q
    using wf that by (auto simp: plans_wf_def distinct_map dest: inj_onD)
  have check: "plan_check r" if "r \<in> set (db_plans d)" for r
    using wf that by (auto simp: plans_wf_def)
  have "p = q"
    if pq: "p \<in> set plans" "q \<in> set plans"
      "tp_name p = tp_name q \<or> tp_dns_managed p \<and> tp_dns_managed q \<and> tp_domain p = tp_domain q" for p q
  proof -
    from pq(1,2) obtain r q' where rows: "r \<in> set (db_plans d)" "p = row_to_tunnel r"
        "q' \<in> set (db_plans d)" "q = row_to_tunnel q'"
      by (auto simp: plans)
    have "plan_clash r q'"
      by (rule plan_clash_of_rows [OF check [OF rows(1)] check [OF rows(3)]]) (use pq(3) rows in simp)
    from same [OF rows(1,3) this] rows show ?thesis by simp
  qed
  moreover have "1 \<le> tp_local_port p \<and> tp_local_port p \<le> 65535
      \<and> tp_protocol p \<in> {''http'', ''https'', ''tcp'', ''udp''}
      \<and> (tp_dns_managed p \<or> tp_protocol p \<in> {''http'', ''https''} \<longrightarrow> tp_domain p \<noteq> [])"
    if "p \<in> set plans" for p
  proof -
    from that obtain r where r: "r \<in> set (db_plans d)" "p = row_to_tunnel r"
      by (auto simp: plans)
    from check [OF r(1)] show ?thesis unfolding r(2)
      by (auto simp: row_to_tunnel_def plan_check_def)
  qed
  moreover have "sorted (map tp_name plans)" by (simp add: names)
  ultimately show ?thesis by blast
qed

definition example_input :: "string \<Rightarrow> string \<Rightarrow> bool \<Rightarrow> tunnel_plan_input" where
  "example_input name domain managed =
     \<lparr>ti_name = name, ti_local_ip = ''10.0.0.2'', ti_local_port = 80, ti_protocol = ''HTTP'',
      ti_domain = domain, ti_dns_managed = managed\<rparr>"

definition example_db :: db_state where
  "example_db =
     snd (create_tunnel ''t'' (example_input ''a'' '' A.example '' True)
       (snd (create_tunnel ''t'' (example_input ''b'' ''b.example'' True) (initial_db ''t''))))"

lemma example_db_reachable: "db_reachable example_db"
  unfolding example_db_def by (intro db_reachable.step [OF _ db_step.create] db_reachable.start)

theorem reachable_plans_unique_and_checked_witness:
  "map tp_name (case fst (list_tunnels example_db) of Inl _ \<Rightarrow> [] | Inr ps \<Rightarrow> ps) = [''a'', ''b'']
   \<and> sorted (map tp_name (case fst (list_tunnels example_db) of Inl _ \<Rightarrow> [] | Inr ps \<Rightarrow> ps))"
proof
  show "map tp_name (case fst (list_tunnels example_db) of Inl _ \<Rightarrow> [] | Inr ps \<Rightarrow> ps) = [''a'', ''b'']"
    by code_simp
  show "sorted (map tp_name (case fst (list_tunnels example_db) of Inl _ \<Rightarrow> [] | Inr ps \<Rightarrow> ps))"
    using reachable_plans_unique_and_checked [OF example_db_reachable list_tunnels_result]
    by (simp add: list_tunnels_result)
qed

text \<open>
  The routing row of a reachable database can always be read: its stored phase is
  one of the five texts, so \<open>routing_state\<close> never fails to parse it.
\<close>
theorem reachable_routing_readable:
  assumes "db_reachable d"
  shows "\<exists>rs. routing_state d = (Inr rs, d) \<and> rs_active_node rs = rr_active_node (db_routing d)
               \<and> phase_as_str (rs_phase rs) = rr_state (db_routing d)"
proof -
  from db_reachable_wf [OF assms] obtain p where "db_phase d = Some p" by (auto simp: db_wf_def)
  then show ?thesis by (simp add: row_simps db_phase_eq_Some)
qed

theorem reachable_routing_readable_witness:
  "\<exists>rs. routing_state example_db = (Inr rs, example_db)
        \<and> rs_active_node rs = rr_active_node (db_routing example_db)
        \<and> phase_as_str (rs_phase rs) = rr_state (db_routing example_db)"
  by (rule reachable_routing_readable [OF example_db_reachable])

section \<open>Creating and changing a plan\<close>

lemma find_append_new:
  "\<forall>x \<in> set xs. \<not> P x \<Longrightarrow> P y \<Longrightarrow> find P (xs @ [y]) = Some y"
  by (induction xs) auto

text \<open>
  C31: creating a plan either changes nothing and reports which constraint it violates, or
  appends exactly one row: the returned plan carries the trimmed name and address, the
  lower-case protocol and domain and a fresh id, it is enabled, it is found again under
  that id, and every earlier plan is still there unchanged.
\<close>
theorem create_tunnel_outcome:
  assumes "db_wf d"
  shows "case create_tunnel now input d of
       (Inl e, d') \<Rightarrow> d' = d \<and> e \<in> {CheckViolation, UniqueViolation}
     | (Inr p, d') \<Rightarrow>
         tp_name p = trim (ti_name input) \<and> tp_local_ip p = trim (ti_local_ip input)
         \<and> tp_domain p = to_ascii_lowercase (trim (ti_domain input))
         \<and> tp_protocol p = to_ascii_lowercase (ti_protocol input)
         \<and> tp_local_port p = ti_local_port input \<and> tp_dns_managed p = ti_dns_managed input
         \<and> tp_enabled p \<and> tp_record_id p = None
         \<and> tp_id p \<notin> pr_id ` set (db_plans d)
         \<and> get_tunnel (tp_id p) d' = (Inr p, d')
         \<and> map row_to_tunnel (db_plans d') = map row_to_tunnel (db_plans d) @ [p]"
proof -
  have fresh: "\<forall>r \<in> set (db_plans d). pr_id r \<noteq> db_plan_seq d + 1"
    using assms by (force simp: db_wf_def plans_wf_def)
  then have "db_plan_seq d + 1 \<notin> pr_id ` set (db_plans d)" by force
  moreover have "find (\<lambda>r. pr_id r = db_plan_seq d + 1) (db_plans d @ [row]) = Some row"
    if "pr_id row = db_plan_seq d + 1" for row
    using find_append_new [of "db_plans d" "\<lambda>r. pr_id r = db_plan_seq d + 1" row] fresh that by simp
  ultimately show ?thesis
    by (simp add: create_tunnel_def effect_simps row_simps Let_def row_to_tunnel_def int_of_bool_def)
qed

theorem create_tunnel_outcome_witness:
  "db_wf example_db
   \<and> (case create_tunnel ''u'' (example_input ''c'' '' C.example'' True) example_db of
        (Inl _, _) \<Rightarrow> False
      | (Inr p, d') \<Rightarrow> tp_domain p = ''c.example'' \<and> get_tunnel (tp_id p) d' = (Inr p, d'))"
proof
  show wf: "db_wf example_db" by (rule db_reachable_wf [OF example_db_reachable])
  have "isl (fst (create_tunnel ''u'' (example_input ''c'' '' C.example'' True) example_db)) = False"
    by code_simp
  moreover have "to_ascii_lowercase (trim '' C.example'') = ''c.example''" by code_simp
  ultimately show "case create_tunnel ''u'' (example_input ''c'' '' C.example'' True) example_db of
        (Inl _, _) \<Rightarrow> False
      | (Inr p, d') \<Rightarrow> tp_domain p = ''c.example'' \<and> get_tunnel (tp_id p) d' = (Inr p, d')"
    using create_tunnel_outcome [OF wf, where now = "''u''" and input = "example_input ''c'' '' C.example'' True"]
    by (auto simp: example_input_def split: prod.splits sum.splits)
qed



section \<open>Quarantine windows\<close>

lemma find_upsert:
  "find (\<lambda>r. qr_node_name r = n \<and> P r) (upsert_quarantine row rows) =
     (if n = qr_node_name row then if P row then Some row else None
      else find (\<lambda>r. qr_node_name r = n \<and> P r) rows)"
proof (cases "list_ex (\<lambda>r. qr_node_name r = qr_node_name row) rows")
  case True
  have map: "find (\<lambda>r. qr_node_name r = n \<and> P r)
        (map (\<lambda>r. if qr_node_name r = qr_node_name row then row else r) rows) =
      (if n = qr_node_name row
       then if P row \<and> list_ex (\<lambda>r. qr_node_name r = qr_node_name row) rows then Some row else None
       else find (\<lambda>r. qr_node_name r = n \<and> P r) rows)"
    by (induction rows) auto
  with True show ?thesis by (simp add: upsert_quarantine_def)
next
  case False
  then have "find (\<lambda>r. qr_node_name r = n \<and> P r) (rows @ [row]) =
      (if n = qr_node_name row then if P row then Some row else None
       else find (\<lambda>r. qr_node_name r = n \<and> P r) rows)"
    by (induction rows) auto
  with False show ?thesis by (simp add: upsert_quarantine_def)
qed

lemma find_filtered_name:
  "find (\<lambda>r. qr_node_name r = n \<and> P r) (filter (\<lambda>r. qr_node_name r \<noteq> m) rows) =
     (if n = m then None else find (\<lambda>r. qr_node_name r = n \<and> P r) rows)"
  by (induction rows) auto

text \<open>
  C33: a quarantined node is out for exactly its window. After \<open>quarantine_node\<close> at time
  \<open>now\<close>, the node counts as quarantined at \<open>t\<close> exactly when \<open>t\<close> lies before
  \<open>now\<close> plus the given number of days (at least one), whatever was stored before, and no
  other node is affected; after \<open>clear_quarantine\<close> it is not quarantined, and again no
  other node is affected. The printed timestamps are assumed to order as the instants do.
\<close>
theorem quarantine_window:
  assumes "strict_mono_on {lo..hi} to_rfc3339"
    and "{t, now + max days 1 * day_ns} \<subseteq> {lo..hi}"
  shows "fst (quarantine_until to_rfc3339 t n
             (snd (quarantine_node to_rfc3339 now node ip reason tunnel days d))) =
           (if n = node
            then Inr (if t < now + max days 1 * day_ns
                      then Some (to_rfc3339 (now + max days 1 * day_ns)) else None)
            else fst (quarantine_until to_rfc3339 t n d))
         \<and> fst (quarantine_until to_rfc3339 t n (snd (clear_quarantine node d))) =
           (if n = node then Inr None else fst (quarantine_until to_rfc3339 t n d))"
proof -
  have "to_rfc3339 t < to_rfc3339 (now + max days 1 * day_ns) \<longleftrightarrow> t < now + max days 1 * day_ns"
    using assms by (intro strict_mono_on_less) auto
  then show ?thesis
    by (simp add: quarantine_until_def quarantine_node_def clear_quarantine_def effect_simps Let_def
        find_upsert find_filtered_name)
qed

lemma replicate_mono: "a < b \<Longrightarrow> replicate a c < replicate b c"
proof (induction a arbitrary: b)
  case 0
  then show ?case by (cases b) auto
next
  case (Suc a)
  then show ?case by (cases b) auto
qed

theorem quarantine_window_witness:
  "fst (quarantine_until (\<lambda>t. replicate (nat t) CHR ''z'') (day_ns + 4) ''n1''
       (snd (quarantine_node (\<lambda>t. replicate (nat t) CHR ''z'') 5 ''n1'' None ''r'' None 0 (initial_db ''t''))))
     = Inr (Some (replicate (nat (day_ns + 5)) CHR ''z''))"
proof -
  have "strict_mono_on {0..2 * day_ns} (\<lambda>t. replicate (nat t) CHR ''z'')"
    by (auto intro!: strict_mono_onI replicate_mono)
  from quarantine_window [OF this, of "day_ns + 4" 5 0 "''n1''" "''n1''"]
  show ?thesis by (simp add: day_ns_def)
qed

section \<open>Provider settings\<close>

text \<open>
  The environment seeds the provider settings at most once: after a first seeding or
  any update through the panel, a later start with other environment values changes
  nothing, so a token cleared in the panel stays cleared. A blank or absent token in an
  update keeps the stored one.
\<close>
theorem provider_bootstrap_once:
  "snd (seed_provider_settings_from_env t2 a2 b2 c2 e2 f2 (snd (seed_provider_settings_from_env t a b c e f d)))
     = snd (seed_provider_settings_from_env t a b c e f d)
   \<and> snd (seed_provider_settings_from_env t2 a2 b2 c2 e2 f2 (snd (update_provider_settings now pu d)))
     = snd (update_provider_settings now pu d)
   \<and> ps_chmlfrp_token (pv_settings (db_providers (snd (update_provider_settings now pu d)))) =
       (if pu_clear_chmlfrp_token pu then []
        else if pu_chmlfrp_token pu = None \<or> trim (the (pu_chmlfrp_token pu)) = []
             then ps_chmlfrp_token (pv_settings (db_providers d))
             else trim (the (pu_chmlfrp_token pu)))
   \<and> ps_cloudflare_api_token (pv_settings (db_providers (snd (update_provider_settings now pu d)))) =
       (if pu_clear_cloudflare_api_token pu then []
        else if pu_cloudflare_api_token pu = None \<or> trim (the (pu_cloudflare_api_token pu)) = []
             then ps_cloudflare_api_token (pv_settings (db_providers d))
             else trim (the (pu_cloudflare_api_token pu)))"
  by (auto simp: seed_provider_settings_from_env_def update_provider_settings_def write_providers_def
      provider_settings_def chosen_token_def effect_simps split: option.splits)

section \<open>Activity\<close>

text \<open>
  The activity log is append-only and read newest first: on a well-formed database an
  appended event is the first one \<open>recent_activity\<close> returns, the events read before
  follow it in the same order (the oldest may fall off), and at least one and at most 500
  events are returned whatever limit is asked for, as far as there are any.
\<close>
theorem activity_newest_first:
  assumes "db_wf d"
  shows "\<exists>e rest old.
    fst (recent_activity limit (snd (activity now job kind level msg tn nn details d))) = Inr (e # rest)
    \<and> ae_message e = msg \<and> ae_kind e = kind \<and> ae_level e = level \<and> ae_job_id e = job
    \<and> ae_details e = details
    \<and> fst (recent_activity limit d) = Inr old
    \<and> rest = take (nat (clamp 1 500 limit) - 1) old
    \<and> length (e # rest) = min (nat (clamp 1 500 limit)) (length (db_activity d) + 1)"
proof -
  define new where "new = \<lparr>ae_id = next_activity_id (db_activity d), ae_job_id = job, ae_kind = kind,
         ae_level = level, ae_message = msg, ae_tunnel_name = tn,
         ae_node_name = nn, ae_details = details, ae_created_at = now\<rparr>"
  define n where "n = nat (clamp 1 500 limit)"
  have n: "n = Suc (n - 1)" by (auto simp: n_def clamp_def)
  have id_new: "ae_id e < ae_id new" if "e \<in> set (db_activity d)" for e
    using max_id_bound [OF that, of ae_id] by (simp add: new_def next_activity_id_def)
  have "sorted (map ae_id (db_activity d))"
    using assms by (auto simp: db_wf_def intro: strict_sorted_imp_sorted)
  moreover from this have "sorted (map ae_id (db_activity d @ [new]))"
    using id_new by (auto simp: sorted_append intro: less_imp_le)
  ultimately have sorts: "sort_key ae_id (db_activity d) = db_activity d"
      "sort_key ae_id (db_activity d @ [new]) = db_activity d @ [new]"
    by (simp_all only: sort_key_id_if_sorted)
  have "fst (recent_activity limit (snd (activity now job kind level msg tn nn details d)))
      = Inr (take n (new # rev (db_activity d)))"
    using sorts by (simp add: recent_activity_def activity_def effect_simps flip: new_def n_def)
  moreover have "fst (recent_activity limit d) = Inr (take n (rev (db_activity d)))"
    using sorts by (simp add: recent_activity_def effect_simps flip: n_def)
  moreover have "take n (new # rev (db_activity d)) = new # take (n - 1) (rev (db_activity d))"
    by (subst n) simp
  moreover have "take (n - 1) (take n (rev (db_activity d))) = take (n - 1) (rev (db_activity d))"
    by (simp add: min_def)
  moreover have "length (new # take (n - 1) (rev (db_activity d))) = min n (length (db_activity d) + 1)"
    using n by simp
  ultimately show ?thesis
    by (intro exI [of _ new] exI [of _ "take (n - 1) (rev (db_activity d))"]
        exI [of _ "take n (rev (db_activity d))"]) (simp add: new_def n_def)
qed

theorem activity_newest_first_witness:
  "\<exists>e rest. fst (recent_activity 0 (snd (activity ''t'' None ''k'' ''info'' ''m'' None None JNull
       (initial_db ''t'')))) = Inr (e # rest) \<and> ae_message e = ''m'' \<and> rest = []"
  using activity_newest_first [OF db_wf_initial, where limit = 0 and now = "''t''" and job = None
      and kind = "''k''" and level = "''info''" and msg = "''m''" and tn = None and nn = None
      and details = JNull]
  by (auto simp: clamp_def)

end
