(* ===== verification/System.thy ===== *)
theory System
  imports Chmlfrp Cloudflare Frpc_Runtime Database_Laws
begin

text \<open>
  The running program and the outside it talks to. The outside is a type \<open>'w\<close> of
  worlds with one function per kind of call (\<open>env\<close>): the two HTTP services, faults of
  SQLite, the clock, random ids, the file system and the operating system's processes.
  The state of the program (\<open>sys\<close>) is the record of what the source keeps in
  \<open>AppState\<close>, plus the world, a monotone clock and a trace of what was done to the
  outside (a ghost variable, read by no operation). Every call that waits lets time pass
  and lets the reader tasks of FRPC deliver lines (\<open>awaitM\<close>).
\<close>

section \<open>Requests\<close>

datatype request =
    ChTunnels chml_config
  | ChNodes chml_config
  | ChNodeInfo chml_config string
  | ChCreate chml_config tunnel_mutation
  | ChUpdate chml_config tunnel_mutation
  | ChConfig chml_config string string
  | CfRecords cf_config "64 word"
  | CfRecord cf_config string
  | CfCreate cf_config dns_record_mutation
  | CfUpdate cf_config string dns_record_mutation
  | CfPatchContent cf_config string string
  | CfDelete cf_config string
  | CfVerify cf_config
  | CfZones cf_config "64 word"

text \<open>Method and URL of a request.\<close>

definition zone_url :: "cf_config \<Rightarrow> string" where
  "zone_url c = fc_base_url c @ ''/zones/'' @ fc_zone_id c @ ''/dns_records''"

fun request_line :: "request \<Rightarrow> string \<times> string" where
  "request_line (ChTunnels c) = (''GET'', cc_base_url c @ ''/tunnel'')"
| "request_line (ChNodes c) = (''GET'', cc_base_url c @ ''/node'')"
| "request_line (ChNodeInfo c node) = (''GET'', cc_base_url c @ ''/nodeinfo'')"
| "request_line (ChCreate c m) = (''POST'', cc_base_url c @ ''/create_tunnel'')"
| "request_line (ChUpdate c m) = (''POST'', cc_base_url c @ ''/update_tunnel'')"
| "request_line (ChConfig c node names) = (''GET'', cc_base_url c @ ''/tunnel_config'')"
| "request_line (CfRecords c page) = (''GET'', zone_url c)"
| "request_line (CfRecord c rid) = (''GET'', zone_url c @ ''/'' @ rid)"
| "request_line (CfCreate c m) = (''POST'', zone_url c)"
| "request_line (CfUpdate c rid m) = (''PATCH'', zone_url c @ ''/'' @ rid)"
| "request_line (CfPatchContent c rid ip) = (''PATCH'', zone_url c @ ''/'' @ rid)"
| "request_line (CfDelete c rid) = (''DELETE'', zone_url c @ ''/'' @ rid)"
| "request_line (CfVerify c) = (''GET'', fc_base_url c @ ''/user/tokens/verify'')"
| "request_line (CfZones c page) = (''GET'', fc_base_url c @ ''/zones'')"

fun cloudflare_write :: "request \<Rightarrow> bool" where
  "cloudflare_write (CfCreate _ _) = True"
| "cloudflare_write (CfUpdate _ _ _) = True"
| "cloudflare_write (CfPatchContent _ _ _) = True"
| "cloudflare_write (CfDelete _ _) = True"
| "cloudflare_write _ = False"

fun chmlfrp_write :: "request \<Rightarrow> bool" where
  "chmlfrp_write (ChCreate _ _) = True"
| "chmlfrp_write (ChUpdate _ _) = True"
| "chmlfrp_write _ = False"

section \<open>The outside\<close>

text \<open>
  A reply: the request could not be sent, the status was an error, the body could not be
  decoded, or a decoded body.
\<close>

datatype 'a reply = SendFailed | BadStatus | Undecodable | Reply 'a

datatype db_fault = NoFault | FaultBefore | FaultAfter

datatype wait_result = StillRunning | ExitedWith string | WaitFailed string

datatype read_result = FileText string | FileMissing | FileError string

record 'w env =
  x_ch_tunnels :: "request \<Rightarrow> 'w \<Rightarrow> remote_tunnel list envelope reply \<times> 'w"
  x_ch_nodes :: "request \<Rightarrow> 'w \<Rightarrow> node_list_item list envelope reply \<times> 'w"
  x_ch_node_info :: "request \<Rightarrow> 'w \<Rightarrow> node_info envelope reply \<times> 'w"
  x_ch_created :: "request \<Rightarrow> 'w \<Rightarrow> remote_tunnel envelope reply \<times> 'w"
  x_ch_updated :: "request \<Rightarrow> 'w \<Rightarrow> json envelope reply \<times> 'w"
  x_ch_config :: "request \<Rightarrow> 'w \<Rightarrow> string envelope reply \<times> 'w"
  x_cf_records :: "request \<Rightarrow> 'w \<Rightarrow> dns_record list cf_envelope reply \<times> 'w"
  x_cf_record :: "request \<Rightarrow> 'w \<Rightarrow> dns_record cf_envelope reply \<times> 'w"
  x_cf_text :: "request \<Rightarrow> 'w \<Rightarrow> string cf_envelope reply \<times> 'w"
  x_cf_zones :: "request \<Rightarrow> 'w \<Rightarrow> cloudflare_zone list cf_envelope reply \<times> 'w"
  x_db_fault :: "'w \<Rightarrow> db_fault \<times> 'w"
  x_db_text :: "db_error \<Rightarrow> string"
  x_now :: "'w \<Rightarrow> int \<times> 'w"
  x_rfc3339 :: "int \<Rightarrow> string"
  x_sql_time :: "int \<Rightarrow> string"
  x_uuid :: "'w \<Rightarrow> string \<times> 'w"
  x_sha256_hex :: "string \<Rightarrow> string"
  x_exists :: "string \<Rightarrow> 'w \<Rightarrow> bool \<times> 'w"
  x_read :: "string \<Rightarrow> 'w \<Rightarrow> read_result \<times> 'w"
  x_mkdir :: "string \<Rightarrow> 'w \<Rightarrow> (string + unit) \<times> 'w"
  x_write :: "string \<Rightarrow> string \<Rightarrow> 'w \<Rightarrow> (string + unit) \<times> 'w"
  x_rename :: "string \<Rightarrow> string \<Rightarrow> 'w \<Rightarrow> (string + unit) \<times> 'w"
  x_spawn :: "string \<Rightarrow> string \<Rightarrow> 'w \<Rightarrow> child_process option \<times> 'w"
  x_try_wait :: "nat \<Rightarrow> 'w \<Rightarrow> wait_result \<times> 'w"
  x_kill :: "nat \<Rightarrow> 'w \<Rightarrow> unit \<times> 'w"
  x_pause :: "'w \<Rightarrow> (nat \<times> (nat \<times> string \<times> int) list) \<times> 'w"

section \<open>The program\<close>

datatype effect =
    FxHttp request
  | FxSpawn "64 word"
  | FxKill
  | FxReady "string list" "64 word"
  | FxPromote string "string option"

record 'w sys =
  sys_db :: db_state
  sys_chml :: chml_config
  sys_cf :: cf_config
  sys_frpc :: frpc_state
  sys_job :: "string option"
  sys_world :: 'w
  sys_instant :: nat
  sys_trace :: "effect list"

type_synonym ('w, 'e, 'a) act = "('w sys, 'e, 'a) fallible"

definition emit :: "effect \<Rightarrow> ('w, 'e, unit) act" where
  "emit fx = modifyM (\<lambda>s. s\<lparr>sys_trace := sys_trace s @ [fx]\<rparr>)"

text \<open>A call of the outside that takes no time.\<close>

definition callM :: "('w \<Rightarrow> 'a \<times> 'w) \<Rightarrow> ('w, 'e, 'a) act" where
  "callM f s = (case f (sys_world s) of (x, w) \<Rightarrow> (Inr x, s\<lparr>sys_world := w\<rparr>))"

text \<open>At an await, \<open>extra\<close> nanoseconds pass and readers deliver lines.\<close>

definition awaitM :: "'w env \<Rightarrow> ('w, 'e, unit) act" where
  "awaitM E s = (case x_pause E (sys_world s) of ((extra, ls), w) \<Rightarrow>
     (Inr (), s\<lparr>sys_world := w, sys_instant := sys_instant s + extra,
                sys_frpc := deliver ls (sys_frpc s)\<rparr>))"

definition millis :: "nat \<Rightarrow> nat" where
  "millis n = n * 1000000"

definition sleepM :: "'w env \<Rightarrow> nat \<Rightarrow> ('w, 'e, unit) act" where
  "sleepM E d = thenM (modifyM (\<lambda>s. s\<lparr>sys_instant := sys_instant s + d\<rparr>)) (awaitM E)"

definition nowM :: "'w env \<Rightarrow> ('w, 'e, int) act" where
  "nowM E = callM (x_now E)"

definition sql_nowM :: "'w env \<Rightarrow> ('w, 'e, string) act" where
  "sql_nowM E = bindM (nowM E) (\<lambda>t. returnM (x_sql_time E t))"

section \<open>Parts of the program\<close>

definition frpcM :: "(frpc_state, 'e, 'a) fallible \<Rightarrow> ('w, 'e, 'a) act" where
  "frpcM m = zoomM sys_frpc (\<lambda>f s. s\<lparr>sys_frpc := f\<rparr>) m"

definition dbM :: "'w env \<Rightarrow> 'a db_op \<Rightarrow> ('w, string, 'a) act" where
  "dbM E m =
     thenM (awaitM E)
     (bindM (callM (x_db_fault E)) (\<lambda>fault.
      if fault = FaultBefore then failM (x_db_text E SqliteFault)
      else bindM (map_errM (x_db_text E) (zoomM sys_db (\<lambda>d s. s\<lparr>sys_db := d\<rparr>) m)) (\<lambda>x.
           if fault = FaultAfter then failM (x_db_text E SqliteFault) else returnM x)))"

section \<open>HTTP\<close>

text \<open>
  Sending a request and reading its body; the three failures carry the context the source
  attaches to each stage.
\<close>

definition httpM ::
  "'w env \<Rightarrow> (request \<Rightarrow> 'w \<Rightarrow> 'a reply \<times> 'w) \<Rightarrow> request \<Rightarrow> string \<Rightarrow> string \<Rightarrow> string
   \<Rightarrow> ('w, string, 'a) act" where
  "httpM E call req send_ctx status_ctx decode_ctx =
     thenM (emit (FxHttp req))
     (bindM (callM (call req)) (\<lambda>r.
      thenM (awaitM E)
      (case r of
         SendFailed \<Rightarrow> failM send_ctx
       | BadStatus \<Rightarrow> failM status_ctx
       | Undecodable \<Rightarrow> failM decode_ctx
       | Reply x \<Rightarrow> returnM x)))"

text \<open>\<open>?\<close> on a value that is already there.\<close>

definition liftM :: "'e + 'a \<Rightarrow> ('s, 'e, 'a) fallible" where
  "liftM r = (case r of Inl e \<Rightarrow> failM e | Inr x \<Rightarrow> returnM x)"

definition context_err :: "string \<Rightarrow> ('s, string, 'a) fallible \<Rightarrow> ('s, string, 'a) fallible" where
  "context_err c m = map_errM (\<lambda>_. c) m"

section \<open>Frames\<close>

text \<open>
  What the primitives leave alone. \<open>quiet A\<close> relates the state before and after when
  only effects allowed by \<open>A\<close> were added to the trace.
\<close>

definition quiet :: "(effect \<Rightarrow> bool) \<Rightarrow> 'w sys \<Rightarrow> 'w sys \<Rightarrow> bool" where
  "quiet A s s' \<longleftrightarrow> (\<exists>t. sys_trace s' = sys_trace s @ t \<and> (\<forall>e \<in> set t. A e))"

lemma quiet_step_order: "step_order (quiet A)"
proof
  show "quiet A s s" for s :: "'a sys" by (simp add: quiet_def)
next
  fix s t u :: "'a sys"
  assume "quiet A s t" "quiet A t u"
  then obtain a b where "sys_trace t = sys_trace s @ a" "\<forall>e \<in> set a. A e"
      "sys_trace u = sys_trace t @ b" "\<forall>e \<in> set b. A e"
    unfolding quiet_def by blast
  then have "sys_trace u = sys_trace s @ (a @ b)" "\<forall>e \<in> set (a @ b). A e" by auto
  then show "quiet A s u" unfolding quiet_def by blast
qed

interpretation quiet: step_order "quiet A" for A :: "effect \<Rightarrow> bool"
  by (rule quiet_step_order)

lemma quiet_mono: "quiet A s s' \<Longrightarrow> (\<And>e. A e \<Longrightarrow> B e) \<Longrightarrow> quiet B s s'"
  by (auto simp: quiet_def)

lemma quiet_same: "sys_trace s' = sys_trace s \<Longrightarrow> quiet A s s'"
  by (simp add: quiet_def)

lemma obeys_quiet_mono: "obeys (quiet A) m \<Longrightarrow> (\<And>e. A e \<Longrightarrow> B e) \<Longrightarrow> obeys (quiet B) m"
  unfolding obeys_def using quiet_mono [where A = A and B = B] by blast

text \<open>Time does not run backwards.\<close>

definition later :: "'w sys \<Rightarrow> 'w sys \<Rightarrow> bool" where
  "later s s' \<longleftrightarrow> sys_instant s \<le> sys_instant s'"

interpretation later: step_order "later"
  by unfold_locales (auto simp: later_def)

lemma liftM_simps [simp]: "liftM (Inl e) = failM e" "liftM (Inr x) = returnM x"
  by (simp_all add: liftM_def)

lemma wp_lift [simp]: "wp (liftM r) Q E s \<longleftrightarrow> (case r of Inl e \<Rightarrow> E e s | Inr x \<Rightarrow> Q x s)"
  by (cases r) simp_all

lemma wp_context [simp]: "wp (context_err c m) Q E s \<longleftrightarrow> wp m Q (\<lambda>_. E c) s"
  by (simp add: context_err_def)

section \<open>The frame of an operation\<close>

text \<open>
  A relation between program states that survives everything the outside does on its own
  (the world, the clock, the lines of FRPC), every effect in \<open>A\<close>, every change of the
  database in \<open>D\<close> and every change of the process manager in \<open>F\<close>. Each operation of
  the program is shown once, for any such relation, to obey it when its effects and
  changes are allowed; the interpretations below turn that into what an operation leaves
  alone and into what it may do to the outside.
\<close>

locale frame = step_order R for R :: "'w sys \<Rightarrow> 'w sys \<Rightarrow> bool" +
  fixes A :: "effect \<Rightarrow> bool"
    and D :: "db_state \<Rightarrow> db_state \<Rightarrow> bool"
    and F :: "frpc_state \<Rightarrow> frpc_state \<Rightarrow> bool"
  assumes world: "R s (s\<lparr>sys_world := w\<rparr>)"
    and tick: "R s (s\<lparr>sys_instant := sys_instant s + n\<rparr>)"
    and lines: "R s (s\<lparr>sys_frpc := deliver ls (sys_frpc s)\<rparr>)"
    and effect: "A e \<Longrightarrow> R s (s\<lparr>sys_trace := sys_trace s @ [e]\<rparr>)"
    and database: "D (sys_db s) d \<Longrightarrow> R s (s\<lparr>sys_db := d\<rparr>)"
    and manager: "F (sys_frpc s) f \<Longrightarrow> R s (s\<lparr>sys_frpc := f\<rparr>)"
begin

lemma emit: "A fx \<Longrightarrow> obeys R (emit fx)"
  unfolding emit_def by (rule obeys_modify) (rule effect)

lemma call: "obeys R (callM f)"
  by (auto simp: obeys_def callM_def world split: prod.splits)

lemma await: "obeys R (awaitM E)"
proof (rule obeysI)
  fix s :: "'w sys"
  obtain extra ls w where p: "x_pause E (sys_world s) = ((extra, ls), w)" by (metis surj_pair)
  have "R s (s\<lparr>sys_world := w\<rparr>)" by (rule world)
  also have "R (s\<lparr>sys_world := w\<rparr>) (s\<lparr>sys_world := w, sys_instant := sys_instant s + extra\<rparr>)"
    using tick [of "s\<lparr>sys_world := w\<rparr>" extra] by simp
  finally (le_trans) have "R s (s\<lparr>sys_world := w, sys_instant := sys_instant s + extra\<rparr>)" .
  also have "R (s\<lparr>sys_world := w, sys_instant := sys_instant s + extra\<rparr>)
      (s\<lparr>sys_world := w, sys_instant := sys_instant s + extra, sys_frpc := deliver ls (sys_frpc s)\<rparr>)"
    using lines [of "s\<lparr>sys_world := w, sys_instant := sys_instant s + extra\<rparr>" ls] by simp
  finally (le_trans) show "R s (snd (awaitM E s))"
    by (simp add: awaitM_def p)
qed

lemma sleep: "obeys R (sleepM E d)"
  unfolding sleepM_def by (intro obeys_then obeys_modify tick await)

lemma now: "obeys R (nowM E)" "obeys R (sql_nowM E)"
  unfolding nowM_def sql_nowM_def by (intro obeys_combinators call)+

lemma lift: "obeys R (liftM r)"
  by (cases r) (simp_all add: obeys_combinators)

lemma context_error: "obeys R m \<Longrightarrow> obeys R (context_err c m)"
  unfolding context_err_def by (rule obeys_map_err)

lemma http: "A (FxHttp req) \<Longrightarrow> obeys R (httpM E call req a b c)"
  unfolding httpM_def
  by (intro obeys_then obeys_bind emit call await) (auto split: reply.splits intro: obeys_combinators)

lemma db:
  assumes "obeys D m"
  shows "obeys R (dbM E m)"
proof -
  have "obeys R (zoomM sys_db (\<lambda>d s. s\<lparr>sys_db := d\<rparr>) m)"
    using assms by (auto simp: obeys_def run_zoomM intro: database)
  then show ?thesis
    unfolding dbM_def
    by (intro obeys_then obeys_bind await call) (auto intro!: obeys_combinators split: if_splits)
qed

lemma frpc: "obeys F m \<Longrightarrow> obeys R (frpcM m)"
  by (auto simp: obeys_def frpcM_def run_zoomM intro: manager)

lemmas primitives =
  obeys_combinators call await sleep now lift context_error http db frpc emit

end

interpretation quiet_frame: frame "quiet A" A "\<lambda>_ _. True" "\<lambda>_ _. True" for A :: "effect \<Rightarrow> bool"
  by unfold_locales (auto simp: quiet_def)

interpretation db_frame: frame "keeps (\<lambda>s. f (sys_db s))" "\<lambda>_. True" "keeps f" "\<lambda>_ _. True"
  for f :: "db_state \<Rightarrow> 'v"
  by unfold_locales (auto simp: keeps_def)

interpretation control_frame: frame "keeps (\<lambda>s. f (control_fields (sys_frpc s)))" "\<lambda>_. True" "\<lambda>_ _. True"
    "keeps (\<lambda>m. f (control_fields m))"
  for f :: "_ \<Rightarrow> 'v"
  by unfold_locales (auto simp: keeps_def)

interpretation config_frame: frame "keeps (\<lambda>s. (sys_chml s, sys_cf s, sys_job s))" "\<lambda>_. True" "\<lambda>_ _. True" "\<lambda>_ _. True"
  by unfold_locales (auto simp: keeps_def)

interpretation clock_frame: frame later "\<lambda>_. True" "\<lambda>_ _. True" "\<lambda>_ _. True"
  by unfold_locales (auto simp: later_def)

end
