(* ===== verification/Clients.thy ===== *)
theory Clients
  imports System
begin

text \<open>
  The two HTTP clients (\<open>crates/chmlfrp/src/lib.rs\<close>, \<open>crates/cloudflare/src/lib.rs\<close>).
  An operation takes the client as \<open>self\<close>, a function that reads its configuration: the
  clients of the running program read it from the state at each call, one made for a
  probe is constant.
\<close>

section \<open>ChmlFrp\<close>

definition ch_require_token :: "('w sys \<Rightarrow> chml_config) \<Rightarrow> ('w, string, chml_config) act" where
  "ch_require_token self =
     bindM (getM self) (\<lambda>config.
     if trim (cc_token config) \<noteq> [] then returnM config
     else failM ''ChmlFrp token is not configured'')"

definition ch_list_tunnels ::
  "'w env \<Rightarrow> ('w sys \<Rightarrow> chml_config) \<Rightarrow> ('w, string, remote_tunnel list) act" where
  "ch_list_tunnels E self =
     bindM (ch_require_token self) (\<lambda>config.
     bindM (httpM E (x_ch_tunnels E) (ChTunnels config) ''list ChmlFrp tunnels''
              ''ChmlFrp tunnel-list HTTP status'' ''decode ChmlFrp tunnel-list response'') (\<lambda>response.
     thenM (liftM (ensure_success response))
       (returnM (case en_data response of None \<Rightarrow> [] | Some d \<Rightarrow> d))))"

definition ch_node_info ::
  "'w env \<Rightarrow> ('w sys \<Rightarrow> chml_config) \<Rightarrow> string \<Rightarrow> ('w, string, node_info) act" where
  "ch_node_info E self node =
     bindM (ch_require_token self) (\<lambda>config.
     bindM (httpM E (x_ch_node_info E) (ChNodeInfo config node) (''read ChmlFrp node '' @ node)
              (''ChmlFrp nodeinfo HTTP status for '' @ node)
              (''decode ChmlFrp nodeinfo response for '' @ node)) (\<lambda>response.
     thenM (liftM (ensure_success response))
       (case en_data response of
          None \<Rightarrow> failM ''ChmlFrp nodeinfo returned no data''
        | Some d \<Rightarrow> returnM d)))"

definition list_item_summary :: "node_list_item \<Rightarrow> node_info option \<Rightarrow> node_summary" where
  "list_item_summary item detail =
     \<lparr>ns_id = ni_id item, ns_name = ni_name item, ns_area = ni_area item,
      ns_web_supported = eq_ignore_ascii_case (ni_web item) ''yes'',
      ns_state = (case detail of None \<Rightarrow> ''unknown'' | Some v \<Rightarrow> nd_state v),
      ns_real_ip = map_option nd_real_ip detail, ns_host = map_option nd_ip detail,
      ns_load1 = map_option nd_load1 detail, ns_bandwidth = map_option nd_bandwidth detail,
      ns_quarantined_until = None\<rparr>"

definition ch_list_nodes ::
  "'w env \<Rightarrow> ('w sys \<Rightarrow> chml_config) \<Rightarrow> ('w, string, node_summary list) act" where
  "ch_list_nodes E self =
     bindM (getM self) (\<lambda>config.
     bindM (httpM E (x_ch_nodes E) (ChNodes config) ''list ChmlFrp nodes''
              ''ChmlFrp node-list HTTP status'' ''decode ChmlFrp node-list response'') (\<lambda>response.
     thenM (liftM (ensure_success response))
       (mapM (case en_data response of None \<Rightarrow> [] | Some d \<Rightarrow> d) (\<lambda>item.
          bindM (getM (\<lambda>s. chml_configured (self s))) (\<lambda>configured.
          bindM (if configured
                 then bindM (attemptM (ch_node_info E self (ni_name item)))
                        (\<lambda>r. returnM (case r of Inl _ \<Rightarrow> None | Inr v \<Rightarrow> Some v))
                 else returnM None) (\<lambda>detail.
          returnM (list_item_summary item detail)))))))"

definition ch_node_summary ::
  "'w env \<Rightarrow> ('w sys \<Rightarrow> chml_config) \<Rightarrow> string \<Rightarrow> ('w, string, node_summary) act" where
  "ch_node_summary E self node =
     bindM (ch_node_info E self node) (\<lambda>info.
     returnM
       \<lparr>ns_id = nd_id info,
        ns_name = (case nonempty (nd_name info) of None \<Rightarrow> node | Some n \<Rightarrow> n),
        ns_area = nd_area info,
        ns_web_supported = eq_ignore_ascii_case (nd_web info) ''yes'',
        ns_state = nd_state info, ns_real_ip = nonempty (nd_real_ip info),
        ns_host = nonempty (nd_ip info), ns_load1 = Some (nd_load1 info),
        ns_bandwidth = Some (nd_bandwidth info), ns_quarantined_until = None\<rparr>)"

definition ch_post_create ::
  "'w env \<Rightarrow> chml_config \<Rightarrow> tunnel_mutation \<Rightarrow> string \<Rightarrow> ('w, string, remote_tunnel) act" where
  "ch_post_create E config payload name =
     bindM (httpM E (x_ch_created E) (ChCreate config payload) (''create ChmlFrp tunnel '' @ name)
              (''ChmlFrp create_tunnel HTTP status for '' @ name)
              (''decode ChmlFrp create_tunnel response for '' @ name)) (\<lambda>response.
     thenM (liftM (ensure_success response))
       (case en_data response of
          None \<Rightarrow> failM ''ChmlFrp create_tunnel returned no data''
        | Some d \<Rightarrow> returnM d))"

definition ch_create_tunnel ::
  "'w env \<Rightarrow> ('w sys \<Rightarrow> chml_config) \<Rightarrow> tunnel_plan \<Rightarrow> string \<Rightarrow> ('w, string, remote_tunnel) act" where
  "ch_create_tunnel E self plan target_node =
     bindM (ch_require_token self) (\<lambda>config.
     ch_post_create E config (from_plan (cc_token config) plan target_node 0) (tp_name plan))"

definition ch_create_remote_tunnel ::
  "'w env \<Rightarrow> ('w sys \<Rightarrow> chml_config) \<Rightarrow> remote_tunnel_mutation \<Rightarrow> ('w, string, remote_tunnel) act" where
  "ch_create_remote_tunnel E self input =
     bindM (ch_require_token self) (\<lambda>config.
     ch_post_create E config (from_remote_input (cc_token config) input) (mu_tunnel_name input))"

definition ch_update_remote_tunnel ::
  "'w env \<Rightarrow> ('w sys \<Rightarrow> chml_config) \<Rightarrow> remote_tunnel_mutation \<Rightarrow> ('w, string, unit) act" where
  "ch_update_remote_tunnel E self input =
     bindM (ch_require_token self) (\<lambda>config.
     bindM (httpM E (x_ch_updated E)
              (ChUpdate config (from_remote_input (cc_token config) input))
              (''update ChmlFrp tunnel '' @ mu_tunnel_name input)
              (''ChmlFrp update_tunnel HTTP status for '' @ mu_tunnel_name input)
              (''decode ChmlFrp update_tunnel response for '' @ mu_tunnel_name input)) (\<lambda>response.
     liftM (ensure_success response)))"

definition ch_sync_tunnel ::
  "'w env \<Rightarrow> ('w sys \<Rightarrow> chml_config) \<Rightarrow> remote_tunnel \<Rightarrow> tunnel_plan \<Rightarrow> string \<Rightarrow> ('w, string, unit) act" where
  "ch_sync_tunnel E self remote plan target_node =
     bindM (ch_require_token self) (\<lambda>config.
     bindM (httpM E (x_ch_updated E)
              (ChUpdate config (sync_payload (cc_token config) remote plan target_node))
              (''sync ChmlFrp tunnel '' @ tp_name plan)
              (''ChmlFrp update_tunnel HTTP status for '' @ tp_name plan)
              (''decode ChmlFrp update_tunnel response for '' @ tp_name plan)) (\<lambda>response.
     context_err (''sync tunnel '' @ tp_name plan @ '' to global node '' @ target_node)
       (liftM (ensure_success response))))"

definition ch_generated_config ::
  "'w env \<Rightarrow> ('w sys \<Rightarrow> chml_config) \<Rightarrow> string \<Rightarrow> string list \<Rightarrow> ('w, string, string) act" where
  "ch_generated_config E self node tunnel_names =
     bindM (ch_require_token self) (\<lambda>config.
     bindM (httpM E (x_ch_config E) (ChConfig config node (join '','' tunnel_names))
              (''generate ChmlFrp config for node '' @ node)
              (''ChmlFrp tunnel_config HTTP status for '' @ node)
              (''decode ChmlFrp tunnel_config response for '' @ node)) (\<lambda>response.
     thenM (liftM (ensure_success response))
       (case en_data response of
          None \<Rightarrow> failM ''ChmlFrp tunnel_config returned no config''
        | Some d \<Rightarrow> returnM d)))"

definition ch_health :: "'w env \<Rightarrow> ('w sys \<Rightarrow> chml_config) \<Rightarrow> ('w, string, unit) act" where
  "ch_health E self = bindM (ch_list_tunnels E self) (\<lambda>_. returnM ())"

section \<open>Cloudflare\<close>

definition cf_require_token :: "('w sys \<Rightarrow> cf_config) \<Rightarrow> ('w, string, cf_config) act" where
  "cf_require_token self =
     bindM (getM self) (\<lambda>config.
     if trim (fc_token config) \<noteq> [] then returnM config
     else failM ''Cloudflare API token is not configured'')"

definition cf_require_config :: "('w sys \<Rightarrow> cf_config) \<Rightarrow> ('w, string, cf_config) act" where
  "cf_require_config self =
     bindM (cf_require_token self) (\<lambda>config.
     if trim (fc_zone_id config) \<noteq> [] then returnM config
     else failM ''Cloudflare zone id is not configured'')"

text \<open>
  One page: its entries and the number of pages the response reports (the page itself when
  it reports none), and the loop over the pages that both list operations have.
\<close>

definition page_result :: "64 word \<Rightarrow> 'a list cf_envelope \<Rightarrow> ('w, string, 'a list \<times> 64 word) act" where
  "page_result page response =
     (let total_pages = (case ce_total_pages response of None \<Rightarrow> page | Some n \<Rightarrow> n)
      in bindM (liftM (cf_ensure_success response)) (\<lambda>current. returnM (current, total_pages)))"

function paginate ::
  "(64 word \<Rightarrow> ('s, 'e, 'a list \<times> 64 word) fallible) \<Rightarrow> 64 word \<Rightarrow> 'a list \<Rightarrow> ('s, 'e, 'a list) fallible" where
  "paginate get page acc s =
     (case get page s of
        (Inl e, s') \<Rightarrow> (Inl e, s')
      | (Inr (current, total_pages), s') \<Rightarrow>
          if total_pages \<le> page then (Inr (acc @ current), s')
          else paginate get (page + 1) (acc @ current) s')"
  by pat_completeness auto
termination
proof (relation "measure (\<lambda>(get, page, acc, s). 2 ^ 64 - unat page)")
  fix page total_pages :: "64 word"
  assume "\<not> total_pages \<le> page"
  then have "unat page < unat total_pages" by (simp add: word_less_nat_alt not_le)
  moreover have "unat total_pages < 2 ^ 64" using unsigned_less [of total_pages] by simp
  ultimately have "unat (page + 1) = unat page + 1" by (simp add: unat_word_ariths)
  with \<open>unat page < unat total_pages\<close> \<open>unat total_pages < 2 ^ 64\<close>
  show "((get, page + 1, acc', s'), (get, page, acc, s)) \<in> measure (\<lambda>(get, page, acc, s). 2 ^ 64 - unat page)"
    for get acc acc' s s' by simp
qed simp

declare paginate.simps [simp del]

definition cf_records_page :: "'w env \<Rightarrow> cf_config \<Rightarrow> 64 word \<Rightarrow> ('w, string, dns_record list \<times> 64 word) act" where
  "cf_records_page E config page =
     bindM (httpM E (x_cf_records E) (CfRecords config page)
              (''list Cloudflare DNS records page '' @ show_nat (unat page))
              (''Cloudflare DNS-record HTTP status page '' @ show_nat (unat page))
              (''decode Cloudflare DNS-record response page '' @ show_nat (unat page)))
       (page_result page)"

definition cf_list_dns_records ::
  "'w env \<Rightarrow> ('w sys \<Rightarrow> cf_config) \<Rightarrow> ('w, string, dns_record list) act" where
  "cf_list_dns_records E self =
     bindM (cf_require_config self) (\<lambda>config. paginate (cf_records_page E config) 1 [])"

definition cf_list_a_records ::
  "'w env \<Rightarrow> ('w sys \<Rightarrow> cf_config) \<Rightarrow> ('w, string, dns_record list) act" where
  "cf_list_a_records E self =
     bindM (cf_list_dns_records E self) (\<lambda>records. returnM (filter is_a_record records))"

definition cf_get_dns_record ::
  "'w env \<Rightarrow> ('w sys \<Rightarrow> cf_config) \<Rightarrow> string \<Rightarrow> ('w, string, dns_record) act" where
  "cf_get_dns_record E self record_id =
     bindM (cf_require_config self) (\<lambda>config.
     bindM (httpM E (x_cf_record E) (CfRecord config record_id)
              (''read Cloudflare DNS record '' @ record_id)
              (''Cloudflare DNS-record HTTP status for '' @ record_id)
              (''decode Cloudflare DNS record '' @ record_id)) (\<lambda>response.
     liftM (cf_ensure_success response)))"

definition cf_create_dns_record ::
  "'w env \<Rightarrow> ('w sys \<Rightarrow> cf_config) \<Rightarrow> dns_record_mutation \<Rightarrow> ('w, string, dns_record) act" where
  "cf_create_dns_record E self input =
     bindM (cf_require_config self) (\<lambda>config.
     bindM (httpM E (x_cf_record E) (CfCreate config input)
              (''create Cloudflare DNS record '' @ dm_name input)
              (''Cloudflare DNS create HTTP status for '' @ dm_name input)
              (''decode Cloudflare DNS create for '' @ dm_name input)) (\<lambda>response.
     liftM (cf_ensure_success response)))"

definition cf_update_dns_record ::
  "'w env \<Rightarrow> ('w sys \<Rightarrow> cf_config) \<Rightarrow> string \<Rightarrow> dns_record_mutation \<Rightarrow> ('w, string, dns_record) act" where
  "cf_update_dns_record E self record_id input =
     bindM (cf_require_config self) (\<lambda>config.
     bindM (httpM E (x_cf_record E) (CfUpdate config record_id input)
              (''update Cloudflare DNS record '' @ record_id)
              (''Cloudflare DNS update HTTP status for '' @ record_id)
              (''decode Cloudflare DNS update for '' @ record_id)) (\<lambda>response.
     liftM (cf_ensure_success response)))"

definition cf_delete_dns_record ::
  "'w env \<Rightarrow> ('w sys \<Rightarrow> cf_config) \<Rightarrow> string \<Rightarrow> ('w, string, string) act" where
  "cf_delete_dns_record E self record_id =
     bindM (cf_require_config self) (\<lambda>config.
     bindM (httpM E (x_cf_text E) (CfDelete config record_id)
              (''delete Cloudflare DNS record '' @ record_id)
              (''Cloudflare DNS delete HTTP status for '' @ record_id)
              (''decode Cloudflare DNS delete for '' @ record_id)) (\<lambda>response.
     liftM (cf_ensure_success response)))"

definition upsert_request :: "cf_config \<Rightarrow> string \<Rightarrow> string \<Rightarrow> dns_record option \<Rightarrow> request" where
  "upsert_request config name ip existing =
     (case existing of
        Some record \<Rightarrow> CfPatchContent config (dr_id record) ip
      | None \<Rightarrow> CfCreate config (managed_a_record name ip))"

definition cf_upsert_a_record ::
  "'w env \<Rightarrow> ('w sys \<Rightarrow> cf_config) \<Rightarrow> string \<Rightarrow> string \<Rightarrow> dns_record option \<Rightarrow> ('w, string, dns_record) act" where
  "cf_upsert_a_record E self name ip existing =
     bindM (cf_require_config self) (\<lambda>config.
     bindM (httpM E (x_cf_record E) (upsert_request config name ip existing)
              (''write Cloudflare A record '' @ name)
              (''Cloudflare A-record HTTP status for '' @ name)
              (''decode Cloudflare A-record response for '' @ name)) (\<lambda>response.
     liftM (cf_ensure_success response)))"

definition cf_verify_token :: "'w env \<Rightarrow> ('w sys \<Rightarrow> cf_config) \<Rightarrow> ('w, string, string) act" where
  "cf_verify_token E self =
     bindM (cf_require_token self) (\<lambda>config.
     bindM (httpM E (x_cf_text E) (CfVerify config) ''verify Cloudflare API token''
              ''Cloudflare token verify HTTP status'' ''decode Cloudflare token verify response'') (\<lambda>response.
     bindM (liftM (cf_ensure_success response)) (\<lambda>status.
     if eq_ignore_ascii_case status ''active'' then returnM status
     else failM (''Cloudflare API token status is '' @ status))))"

definition cf_zones_page :: "'w env \<Rightarrow> cf_config \<Rightarrow> 64 word \<Rightarrow> ('w, string, cloudflare_zone list \<times> 64 word) act" where
  "cf_zones_page E config page =
     bindM (httpM E (x_cf_zones E) (CfZones config page)
              (''list Cloudflare zones page '' @ show_nat (unat page))
              (''Cloudflare zone-list HTTP status page '' @ show_nat (unat page))
              (''decode Cloudflare zone-list response page '' @ show_nat (unat page)))
       (page_result page)"

definition cf_list_zones ::
  "'w env \<Rightarrow> ('w sys \<Rightarrow> cf_config) \<Rightarrow> ('w, string, cloudflare_zone list) act" where
  "cf_list_zones E self =
     bindM (cf_require_token self) (\<lambda>config. paginate (cf_zones_page E config) 1 [])"

definition cf_health :: "'w env \<Rightarrow> ('w sys \<Rightarrow> cf_config) \<Rightarrow> ('w, string, unit) act" where
  "cf_health E self =
     thenM (cf_verify_token E self) (bindM (cf_list_a_records E self) (\<lambda>_. returnM ()))"

section \<open>What the clients do to the program and to the outside\<close>

text \<open>
  The clients change nothing but the world, and each sends exactly the requests it is
  named after. A frame whose relation allows all requests that only read is a
  \<open>reading_frame\<close>; the four writing operations ask for their own request to be allowed.
\<close>

fun harmless :: "effect \<Rightarrow> bool" where
  "harmless (FxHttp r) = (\<not> cloudflare_write r \<and> \<not> chmlfrp_write r)"
| "harmless _ = False"

locale reading_frame = frame R A D F for R :: "'w sys \<Rightarrow> 'w sys \<Rightarrow> bool" and A D F +
  assumes reads: "harmless e \<Longrightarrow> A e"
begin

lemma ch_require_token: "obeys R (ch_require_token self)"
  unfolding ch_require_token_def by (auto intro!: primitives)

lemma ch_list_tunnels: "obeys R (ch_list_tunnels E self)"
  unfolding ch_list_tunnels_def by (auto intro!: primitives ch_require_token reads split: option.splits)

lemma ch_node_info: "obeys R (ch_node_info E self node)"
  unfolding ch_node_info_def by (auto intro!: primitives ch_require_token reads split: option.splits)

lemma ch_list_nodes: "obeys R (ch_list_nodes E self)"
  unfolding ch_list_nodes_def by (auto intro!: primitives ch_node_info reads split: option.splits)

lemma ch_node_summary: "obeys R (ch_node_summary E self node)"
  unfolding ch_node_summary_def by (auto intro!: primitives ch_node_info reads)

lemma ch_post_create: "A (FxHttp (ChCreate c m)) \<Longrightarrow> obeys R (ch_post_create E c m name)"
  unfolding ch_post_create_def by (auto intro!: primitives split: option.splits)

lemma ch_create_tunnel:
  "(\<And>c. A (FxHttp (ChCreate c (from_plan (cc_token c) plan node 0)))) \<Longrightarrow>
   obeys R (ch_create_tunnel E self plan node)"
  unfolding ch_create_tunnel_def by (auto intro!: primitives ch_require_token ch_post_create)

lemma ch_create_remote_tunnel:
  "(\<And>c. A (FxHttp (ChCreate c (from_remote_input (cc_token c) input)))) \<Longrightarrow>
   obeys R (ch_create_remote_tunnel E self input)"
  unfolding ch_create_remote_tunnel_def by (auto intro!: primitives ch_require_token ch_post_create)

lemma ch_update_remote_tunnel:
  "(\<And>c. A (FxHttp (ChUpdate c (from_remote_input (cc_token c) input)))) \<Longrightarrow>
   obeys R (ch_update_remote_tunnel E self input)"
  unfolding ch_update_remote_tunnel_def by (auto intro!: primitives ch_require_token)

lemma ch_sync_tunnel:
  "(\<And>c. A (FxHttp (ChUpdate c (sync_payload (cc_token c) remote plan node)))) \<Longrightarrow>
   obeys R (ch_sync_tunnel E self remote plan node)"
  unfolding ch_sync_tunnel_def by (auto intro!: primitives ch_require_token)

lemma ch_generated_config: "obeys R (ch_generated_config E self node names)"
  unfolding ch_generated_config_def by (auto intro!: primitives ch_require_token reads split: option.splits)

lemma ch_health: "obeys R (ch_health E self)"
  unfolding ch_health_def by (auto intro!: primitives ch_list_tunnels)

lemma cf_require_token: "obeys R (cf_require_token self)"
  unfolding cf_require_token_def by (auto intro!: primitives)

lemma cf_require_config: "obeys R (cf_require_config self)"
  unfolding cf_require_config_def by (auto intro!: primitives cf_require_token)

lemma paginate:
  assumes "\<And>page. obeys R (get page)"
  shows "obeys R (paginate get page acc)"
proof (rule obeysI)
  show "R s (snd (paginate get page acc s))" for s
    using assms
  proof (induction get page acc s rule: paginate.induct)
    case (1 get page acc s)
    have step: "R s (snd (get page s))" by (rule obeysD [OF 1(2)])
    show ?case
    proof (cases "get page s")
      case (Pair r s')
      then show ?thesis
        using step 1(1) [of r s'] 1(2) by (auto simp: paginate.simps split: sum.splits intro: le_trans)
    qed
  qed
qed

lemma page_result: "obeys R (page_result page r)"
  unfolding page_result_def Let_def by (auto intro!: primitives)

lemma cf_list_dns_records: "obeys R (cf_list_dns_records E self)"
  unfolding cf_list_dns_records_def cf_records_page_def
  by (auto intro!: primitives cf_require_config paginate page_result reads)

lemma cf_list_a_records: "obeys R (cf_list_a_records E self)"
  unfolding cf_list_a_records_def by (auto intro!: primitives cf_list_dns_records)

lemma cf_get_dns_record: "obeys R (cf_get_dns_record E self rid)"
  unfolding cf_get_dns_record_def by (auto intro!: primitives cf_require_config reads)

lemma cf_create_dns_record:
  "(\<And>c. A (FxHttp (CfCreate c input))) \<Longrightarrow> obeys R (cf_create_dns_record E self input)"
  unfolding cf_create_dns_record_def by (auto intro!: primitives cf_require_config)

lemma cf_update_dns_record:
  "(\<And>c. A (FxHttp (CfUpdate c rid input))) \<Longrightarrow> obeys R (cf_update_dns_record E self rid input)"
  unfolding cf_update_dns_record_def by (auto intro!: primitives cf_require_config)

lemma cf_delete_dns_record:
  "(\<And>c. A (FxHttp (CfDelete c rid))) \<Longrightarrow> obeys R (cf_delete_dns_record E self rid)"
  unfolding cf_delete_dns_record_def by (auto intro!: primitives cf_require_config)

lemma cf_upsert_a_record:
  "(\<And>c. A (FxHttp (upsert_request c name ip existing))) \<Longrightarrow> obeys R (cf_upsert_a_record E self name ip existing)"
  unfolding cf_upsert_a_record_def by (auto intro!: primitives cf_require_config)

lemma cf_verify_token: "obeys R (cf_verify_token E self)"
  unfolding cf_verify_token_def by (auto intro!: primitives cf_require_token reads)

lemma cf_list_zones: "obeys R (cf_list_zones E self)"
  unfolding cf_list_zones_def cf_zones_page_def
  by (auto intro!: primitives cf_require_token paginate page_result reads)

lemma cf_health: "obeys R (cf_health E self)"
  unfolding cf_health_def by (auto intro!: primitives cf_verify_token cf_list_a_records)

lemmas reading =
  ch_list_tunnels ch_node_info ch_list_nodes ch_node_summary ch_generated_config ch_health
  cf_list_dns_records cf_list_a_records cf_get_dns_record cf_verify_token cf_list_zones cf_health

end

text \<open>
  The frames of the program: the effects an operation adds to the trace when it may read
  and do what \<open>B\<close> allows, a part of the database it keeps, a control field of the
  process manager it keeps, the client configurations, and the clock.
\<close>

definition reads_or :: "(effect \<Rightarrow> bool) \<Rightarrow> effect \<Rightarrow> bool" where
  "reads_or B e \<longleftrightarrow> harmless e \<or> B e"

interpretation traced: reading_frame "quiet (reads_or B)" "reads_or B" "\<lambda>_ _. True" "\<lambda>_ _. True"
  for B :: "effect \<Rightarrow> bool"
  by unfold_locales (auto simp: reads_or_def)

interpretation db_kept: reading_frame "keeps (\<lambda>s. f (sys_db s))" "\<lambda>_. True" "keeps f" "\<lambda>_ _. True"
  for f :: "db_state \<Rightarrow> 'v"
  by unfold_locales simp

interpretation control_kept: reading_frame "keeps (\<lambda>s. f (control_fields (sys_frpc s)))" "\<lambda>_. True" "\<lambda>_ _. True"
    "keeps (\<lambda>m. f (control_fields m))"
  for f :: "_ \<Rightarrow> 'v"
  by unfold_locales simp

interpretation config_kept: reading_frame "keeps (\<lambda>s. (sys_chml s, sys_cf s, sys_job s))" "\<lambda>_. True"
    "\<lambda>_ _. True" "\<lambda>_ _. True"
  by unfold_locales simp

interpretation clock: reading_frame later "\<lambda>_. True" "\<lambda>_ _. True" "\<lambda>_ _. True"
  by unfold_locales simp

section \<open>Pagination\<close>

lemma paginate_collects:
  assumes "\<And>p s. fst (get p s) = Inr (pages (unat p), last_page)" "page \<le> last_page"
  shows "fst (paginate get page acc s) = Inr (acc @ concat (map pages [unat page ..< unat last_page + 1]))"
  using assms
proof (induction get page acc s rule: paginate.induct)
  case (1 get page acc s)
  obtain s' where g: "get page s = (Inr (pages (unat page), last_page), s')"
    using 1(2) [of page s] by (cases "get page s") simp
  have le: "unat page \<le> unat last_page" using 1(3) by (simp add: word_le_nat_alt)
  show ?case
  proof (cases "last_page \<le> page")
    case True
    with 1(3) have "page = last_page" by simp
    then show ?thesis using g by (simp add: paginate.simps [of get last_page acc s])
  next
    case False
    then have lt: "unat page < unat last_page" by (simp add: word_less_nat_alt not_le)
    moreover have "unat last_page < 2 ^ 64" using unsigned_less [of last_page] by simp
    ultimately have up: "unat (page + 1) = unat page + 1" by (simp add: unat_word_ariths)
    with lt have "page + 1 \<le> last_page" by (simp add: word_le_nat_alt)
    from 1(1) [OF g [symmetric] refl refl False 1(2) this]
    have "fst (paginate get page acc s) =
        Inr ((acc @ pages (unat page)) @ concat (map pages [unat page + 1 ..< unat last_page + 1]))"
      using False by (simp add: paginate.simps [of get page acc] g up)
    with lt show ?thesis by (simp add: upt_conv_Cons)
  qed
qed

lemma fst_bindM: "fst (bindM m f s) = (case fst (m s) of Inl e \<Rightarrow> Inl e | Inr x \<Rightarrow> fst (f x (snd (m s))))"
  by (cases "m s") (simp add: run_bindM split: sum.splits)

lemma fst_thenM: "fst (thenM m k s) = (case fst (m s) of Inl e \<Rightarrow> Inl e | Inr x \<Rightarrow> fst (k (snd (m s))))"
  by (simp add: thenM_def fst_bindM)

lemma fst_emit [simp]: "fst (emit fx s) = Inr ()"
  by (simp add: emit_def effect_simps)

lemma fst_awaitM [simp]: "fst (awaitM E s) = Inr ()"
  by (simp add: awaitM_def split: prod.splits)

lemma fst_callM: "fst (callM f s) = Inr (fst (f (sys_world s)))"
  by (simp add: callM_def split: prod.splits)

lemma fst_httpM:
  assumes "\<And>w. fst (call req w) = r"
  shows "fst (httpM E call req a b c s) =
    (case r of SendFailed \<Rightarrow> Inl a | BadStatus \<Rightarrow> Inl b | Undecodable \<Rightarrow> Inl c | Reply x \<Rightarrow> Inr x)"
  by (simp add: httpM_def fst_bindM fst_thenM fst_callM assms run_failM run_returnM split: reply.splits)

text \<open>
  C29: listing DNS records reads the whole zone. When the service answers page \<open>p\<close> with
  the records \<open>pages p\<close> and reports \<open>n\<close> pages in all, the operation returns the
  records of pages 1 to \<open>n\<close> in order, each page once.
\<close>
theorem cf_list_reads_every_page:
  assumes "trim (fc_token (self s)) \<noteq> []" "trim (fc_zone_id (self s)) \<noteq> []"
    and "\<And>p w. fst (x_cf_records E (CfRecords (self s) p) w) =
           Reply \<lparr>ce_success = True, ce_result = Some (pages (unat p)), ce_errors = [],
                  ce_total_pages = Some n\<rparr>"
    and "0 < n"
  shows "fst (cf_list_dns_records E self s) = Inr (concat (map pages [1 ..< unat n + 1]))"
proof -
  have page: "fst (cf_records_page E (self s) p t) = Inr (pages (unat p), n)" for p t
    by (simp add: cf_records_page_def fst_bindM page_result_def cf_ensure_success_def run_returnM
        fst_httpM [of "x_cf_records E" "CfRecords (self s) p", OF assms(3)])
  have "1 \<le> n" using assms(4) by (simp add: word_less_nat_alt word_le_nat_alt)
  from paginate_collects [of "cf_records_page E (self s)" pages n 1 "[]", OF page this]
  show ?thesis
    using assms(1,2)
    by (simp add: cf_list_dns_records_def cf_require_config_def cf_require_token_def fst_bindM run_returnM run_getM)
qed

end
