(* ===== verification/Frpc_Manager.thy ===== *)
theory Frpc_Manager
  imports Clients
begin

text \<open>
  The operations of \<open>FrpcManager\<close> that involve the operating system and time
  (\<open>crates/frpc-runtime/src/lib.rs\<close>): status, start, stop, restart, the configuration
  file, and the readiness wait, with the facts the coordinator relies on.
\<close>

section \<open>Paths\<close>

definition rsplit_once :: "char \<Rightarrow> string \<Rightarrow> (string \<times> string) option" where
  "rsplit_once c s = (case split_once c (rev s) of None \<Rightarrow> None | Some (b, a) \<Rightarrow> Some (rev a, rev b))"

text \<open>\<open>Path::parent\<close> and \<open>Path::with_extension\<close> on paths without repeated or trailing separators.\<close>

definition path_parent :: "string \<Rightarrow> string option" where
  "path_parent p =
     (if p = [] \<or> p = ''/'' then None
      else case rsplit_once CHR ''/'' p of
             None \<Rightarrow> Some []
           | Some (dir, _) \<Rightarrow> Some (if dir = [] then ''/'' else dir))"

definition with_extension :: "string \<Rightarrow> string \<Rightarrow> string" where
  "with_extension p ext =
     (case (case rsplit_once CHR ''/'' p of None \<Rightarrow> ([], p) | Some (d, n) \<Rightarrow> (d @ ''/'', n)) of
        (dir, name) \<Rightarrow>
          dir @ (case rsplit_once CHR ''.'' name of
                   None \<Rightarrow> name | Some (a, _) \<Rightarrow> if a = [] then name else a) @ ''.'' @ ext)"

section \<open>Status\<close>

definition runtime_stopped :: "frpc_runtime_status \<Rightarrow> frpc_runtime_status" where
  "runtime_stopped r = r\<lparr>rt_running := False, rt_pid := None, rt_connected := False\<rparr>"

definition child_gone :: "string \<Rightarrow> frpc_state \<Rightarrow> frpc_state" where
  "child_gone reason m =
     m\<lparr>fm_child := None,
       fm_runtime := (runtime_stopped (fm_runtime m))\<lparr>rt_last_error := Some reason\<rparr>\<rparr>"

definition fm_generation_of :: "('w, 'e, 64 word) act" where
  "fm_generation_of = getM (\<lambda>s. fm_generation (sys_frpc s))"

definition fm_try_wait :: "'w env \<Rightarrow> ('w, 'e, wait_result option) act" where
  "fm_try_wait E =
     bindM (getM (\<lambda>s. fm_child (sys_frpc s))) (\<lambda>child.
     case child of
       None \<Rightarrow> returnM None
     | Some c \<Rightarrow> bindM (callM (x_try_wait E (cp_handle c))) (\<lambda>r. returnM (Some r)))"

definition fm_status :: "'w env \<Rightarrow> ('w, 'e, frpc_runtime_status) act" where
  "fm_status E =
     bindM (fm_try_wait E) (\<lambda>waited.
     thenM (case waited of
              Some (ExitedWith status) \<Rightarrow> frpcM (modifyM (child_gone (''FRPC exited: '' @ status)))
            | Some (WaitFailed err) \<Rightarrow> frpcM (modifyM (child_gone (''FRPC status check failed: '' @ err)))
            | _ \<Rightarrow> returnM ())
       (getM (\<lambda>s. fm_runtime (sys_frpc s))))"

section \<open>The configuration file\<close>

definition fm_read_config :: "'w env \<Rightarrow> ('w, string, string option) act" where
  "fm_read_config E =
     bindM (getM (\<lambda>s. fm_config (sys_frpc s))) (\<lambda>config.
     bindM (callM (x_read E config)) (\<lambda>r.
     thenM (awaitM E)
     (case r of
        FileText text \<Rightarrow> returnM (Some text)
      | FileMissing \<Rightarrow> returnM None
      | FileError err \<Rightarrow> failM err)))"

definition fm_config_matches :: "'w env \<Rightarrow> string \<Rightarrow> ('w, string, bool) act" where
  "fm_config_matches E expected = bindM (fm_read_config E) (\<lambda>text. returnM (text = Some expected))"

definition fm_write_config_with_revision ::
  "'w env \<Rightarrow> string \<Rightarrow> int option \<Rightarrow> ('w, string, unit) act" where
  "fm_write_config_with_revision E text revision =
     bindM (getM (\<lambda>s. fm_config (sys_frpc s))) (\<lambda>config.
     thenM (case path_parent config of
              None \<Rightarrow> returnM ()
            | Some parent \<Rightarrow> bindM (callM (x_mkdir E parent)) (\<lambda>r. thenM (awaitM E) (liftM r)))
     (let tmp = with_extension config ''tmp'' in
      thenM (bindM (callM (x_write E tmp text)) (\<lambda>r. thenM (awaitM E) (liftM r)))
      (thenM (bindM (callM (x_rename E tmp config)) (\<lambda>r. thenM (awaitM E) (liftM r)))
       (frpcM (modifyM (\<lambda>m. m\<lparr>fm_runtime := (fm_runtime m)\<lparr>rt_config_revision := revision\<rparr>\<rparr>))))))"

definition fm_write_config :: "'w env \<Rightarrow> string \<Rightarrow> int \<Rightarrow> ('w, string, unit) act" where
  "fm_write_config E text revision = fm_write_config_with_revision E text (Some revision)"

definition fm_restore_config :: "'w env \<Rightarrow> string \<Rightarrow> int option \<Rightarrow> ('w, string, unit) act" where
  "fm_restore_config E text revision = fm_write_config_with_revision E text revision"

section \<open>Starting and stopping\<close>

definition new_generation :: "frpc_state \<Rightarrow> frpc_state" where
  "new_generation m =
     m\<lparr>fm_generation := fm_generation m + 1, fm_tunnel_states := [], fm_started := {},
       fm_node_fault := None, fm_startup_fault := None\<rparr>"

definition child_running :: "child_process \<Rightarrow> string \<Rightarrow> bool \<Rightarrow> frpc_state \<Rightarrow> frpc_state" where
  "child_running child started_at local_dup m =
     (let reader = \<lparr>rd_local_dup = local_dup, rd_generation = fm_generation m\<rparr>
      in m\<lparr>fm_runtime := (fm_runtime m)\<lparr>rt_running := True, rt_pid := cp_pid child,
             rt_connected := False, rt_started_at := Some started_at, rt_last_error := None\<rparr>,
           fm_readers := fm_readers m @ [reader, reader], fm_child := Some child\<rparr>)"

definition fm_launch :: "'w env \<Rightarrow> bool \<Rightarrow> ('w, string, unit) act" where
  "fm_launch E local_dup =
     thenM (frpcM (modifyM new_generation))
     (bindM (getM sys_frpc) (\<lambda>m.
      bindM (callM (x_spawn E (fm_binary m) (fm_config m))) (\<lambda>spawned.
      case spawned of
        None \<Rightarrow> failM (''start '' @ fm_binary m)
      | Some child \<Rightarrow>
          bindM (nowM E) (\<lambda>now.
          thenM (frpcM (modifyM (child_running child (x_rfc3339 E now) local_dup)))
            (emit (FxSpawn (fm_generation m)))))))"

definition fm_start :: "'w env \<Rightarrow> ('w, string, unit) act" where
  "fm_start E =
     bindM (getM sys_frpc) (\<lambda>m.
     bindM (callM (x_exists E (fm_binary m))) (\<lambda>has_binary.
     thenM (ensureM has_binary (''FRPC binary not found: '' @ fm_binary m))
     (bindM (callM (x_exists E (fm_config m))) (\<lambda>has_config.
      thenM (ensureM has_config (''FRPC config not found: '' @ fm_config m))
      (bindM (callM (x_read E (fm_config m))) (\<lambda>r.
       thenM (awaitM E)
       (case r of
          FileMissing \<Rightarrow> failM (''read FRPC config '' @ fm_config m)
        | FileError _ \<Rightarrow> failM (''read FRPC config '' @ fm_config m)
        | FileText config_text \<Rightarrow>
            (let local_dup = config_has_duplicate_proxy_names config_text in
             bindM (fm_try_wait E) (\<lambda>waited.
             case waited of
               Some StillRunning \<Rightarrow> returnM ()
             | Some (WaitFailed err) \<Rightarrow> failM (''FRPC process status check failed: '' @ err)
             | Some (ExitedWith status) \<Rightarrow>
                 thenM (frpcM (modifyM (child_gone (''FRPC exited before start request: '' @ status))))
                   (fm_launch E local_dup)
             | None \<Rightarrow> fm_launch E local_dup)))))))))"

definition fm_stop :: "'w env \<Rightarrow> ('w, 'e, unit) act" where
  "fm_stop E =
     thenM (frpcM (modifyM (\<lambda>m. m\<lparr>fm_generation := fm_generation m + 1\<rparr>)))
     (bindM (getM (\<lambda>s. fm_child (sys_frpc s))) (\<lambda>child.
      thenM (case child of
               None \<Rightarrow> returnM ()
             | Some c \<Rightarrow> thenM (callM (x_kill E (cp_handle c))) (thenM (awaitM E) (emit FxKill)))
        (frpcM (modifyM (\<lambda>m. m\<lparr>fm_child := None, fm_runtime := runtime_stopped (fm_runtime m)\<rparr>)))))"

definition fm_restart :: "'w env \<Rightarrow> ('w, string, unit) act" where
  "fm_restart E = thenM (fm_stop E) (thenM (sleepM E (millis 300)) (fm_start E))"

section \<open>Waiting for readiness\<close>

definition readiness_fault :: "64 word \<Rightarrow> frpc_runtime_status \<Rightarrow> frpc_state \<Rightarrow> readiness_error option" where
  "readiness_fault generation runtime m =
     (case (case fm_node_fault m of
              None \<Rightarrow> None
            | Some e \<Rightarrow> if ev_generation e = generation then Some (ReadyNode (ev_raw e)) else None) of
        Some err \<Rightarrow> Some err
      | None \<Rightarrow>
         (case (case fm_startup_fault m of
                  None \<Rightarrow> None
                | Some e \<Rightarrow> if ev_generation e = generation \<and> ev_fault_domain e \<in> {FdAuth, FdConfig}
                            then Some (ReadyNonNode (ev_raw e)) else None) of
            Some err \<Rightarrow> Some err
          | None \<Rightarrow>
              if rt_running runtime then None
              else Some (ReadyNonNode (case rt_last_error runtime of
                     None \<Rightarrow> ''FRPC exited during readiness validation'' | Some t \<Rightarrow> t))))"

text \<open>One turn of the loop: an error, ready, or not ready yet and time left.\<close>

definition ready_poll ::
  "'w env \<Rightarrow> string list \<Rightarrow> nat \<Rightarrow> 64 word \<Rightarrow> nat \<Rightarrow> ('w, readiness_error, bool) act" where
  "ready_poll E expected timeout generation started =
     bindM fm_generation_of (\<lambda>current.
     thenM (ensureM (current = generation)
              (ReadyNonNode ''FRPC generation changed during readiness validation''))
     (bindM (fm_status E) (\<lambda>runtime.
      bindM (getM sys_frpc) (\<lambda>m.
      case readiness_fault generation runtime m of
        Some err \<Rightarrow> failM err
      | None \<Rightarrow>
          if rt_connected runtime \<and> (expected = [] \<or> list_all (tunnel_started m) expected)
          then returnM True
          else bindM (getM sys_instant) (\<lambda>now.
               if timeout \<le> now - started
               then failM (ReadyTimeout (rt_connected runtime)
                      (join '','' (filter (\<lambda>n. \<not> tunnel_started m n) expected)))
               else returnM False)))))"

lemma ready_poll_again:
  assumes "ready_poll E expected timeout generation started s = (Inr False, s')"
  shows "sys_instant s' = sys_instant s \<and> sys_instant s - started < timeout"
  using assms
  by (auto simp: ready_poll_def fm_generation_of_def fm_status_def fm_try_wait_def frpcM_def callM_def
      effect_simps not_le split: prod.splits sum.splits if_splits option.splits wait_result.splits)

lemma sleep_later: "sys_instant s + d \<le> sys_instant (snd (sleepM E d s))"
  by (simp add: sleepM_def awaitM_def effect_simps split: prod.splits)

text \<open>
  The loop polls, sleeps at least half a second and polls again until the time is over; it
  ends because the clock never runs backwards.
\<close>

definition half_second :: "'w env \<Rightarrow> 'w sys \<Rightarrow> 'w sys" where
  "half_second E s = snd (sleepM E (millis 500) s :: (unit + unit) \<times> 'w sys)"

function ready_loop ::
  "'w env \<Rightarrow> string list \<Rightarrow> nat \<Rightarrow> 64 word \<Rightarrow> nat \<Rightarrow> ('w, readiness_error, unit) act" where
  "ready_loop E expected timeout generation started s =
     (case ready_poll E expected timeout generation started s of
        (Inl e, s') \<Rightarrow> (Inl e, s')
      | (Inr True, s') \<Rightarrow> (Inr (), s')
      | (Inr False, s') \<Rightarrow>
          ready_loop E expected timeout generation started
            (half_second E s'))"
  by pat_completeness auto
termination
proof (relation "measure (\<lambda>(E, expected, timeout, generation, started, s). started + timeout - sys_instant s)", goal_cases)
  case 1
  then show ?case by simp
next
  case (2 E expected timeout generation started s r s' b)
  then have "ready_poll E expected timeout generation started s = (Inr False, s')" by simp
  from ready_poll_again [OF this]
  have "sys_instant s' = sys_instant s" "sys_instant s < started + timeout" by auto
  moreover have "0 < millis 500" by (simp add: millis_def)
  ultimately have "started + timeout - x < started + timeout - sys_instant s"
    if "sys_instant s' + millis 500 \<le> x" for x
    using that by simp
  then show ?case by (simp add: half_second_def sleep_later)
qed

declare ready_loop.simps [simp del]

lemma ready_loop_error:
  "ready_poll E expected timeout g started s = (Inl e, t) \<Longrightarrow>
   ready_loop E expected timeout g started s = (Inl e, t)"
  by (subst ready_loop.simps) simp

lemma ready_loop_done:
  "ready_poll E expected timeout g started s = (Inr True, t) \<Longrightarrow>
   ready_loop E expected timeout g started s = (Inr (), t)"
  by (subst ready_loop.simps) simp

lemma ready_loop_again:
  "ready_poll E expected timeout g started s = (Inr False, t) \<Longrightarrow>
   ready_loop E expected timeout g started s = ready_loop E expected timeout g started (half_second E t)"
  by (subst ready_loop.simps) simp

lemmas ready_loop_steps = ready_loop_error ready_loop_done ready_loop_again

definition fm_wait_ready ::
  "'w env \<Rightarrow> string list \<Rightarrow> nat \<Rightarrow> ('w, readiness_error, unit) act" where
  "fm_wait_ready E expected timeout =
     bindM fm_generation_of (\<lambda>generation.
     bindM (getM sys_instant) (\<lambda>started.
     thenM (ready_loop E expected timeout generation started)
       (emit (FxReady expected generation))))"

section \<open>Frames of the manager's operations\<close>

text \<open>
  The six changes the operations make to the manager's state. A frame that allows them is
  obeyed by every operation.
\<close>

locale manager_frame = reading_frame R A D F for R :: "'w sys \<Rightarrow> 'w sys \<Rightarrow> bool" and A D F +
  assumes gone: "F m (child_gone reason m)"
    and revision: "F m (m\<lparr>fm_runtime := (fm_runtime m)\<lparr>rt_config_revision := r\<rparr>\<rparr>)"
    and generation: "F m (new_generation m)"
    and running: "F m (child_running child started_at local_dup m)"
    and bump: "F m (m\<lparr>fm_generation := fm_generation m + 1\<rparr>)"
    and cleared: "F m (m\<lparr>fm_child := None, fm_runtime := runtime_stopped (fm_runtime m)\<rparr>)"
begin

lemma change: "(\<And>m. F m (f m)) \<Longrightarrow> obeys F (modifyM f)"
  by (simp add: obeys_def effect_simps)

lemma fm_try_wait: "obeys R (fm_try_wait E)"
  unfolding fm_try_wait_def by (auto intro!: primitives split: option.splits)

lemma fm_status: "obeys R (fm_status E)"
  unfolding fm_status_def
  by (auto intro!: primitives fm_try_wait change gone split: option.splits wait_result.splits)

lemma fm_read_config: "obeys R (fm_read_config E)"
  unfolding fm_read_config_def by (auto intro!: primitives split: read_result.splits)

lemma fm_config_matches: "obeys R (fm_config_matches E text)"
  unfolding fm_config_matches_def by (auto intro!: primitives fm_read_config)

lemma fm_write_config_with_revision: "obeys R (fm_write_config_with_revision E text r)"
  unfolding fm_write_config_with_revision_def Let_def
  by (auto intro!: primitives change revision split: option.splits)

lemma fm_write_config: "obeys R (fm_write_config E text r)" "obeys R (fm_restore_config E text q)"
  unfolding fm_write_config_def fm_restore_config_def by (rule fm_write_config_with_revision)+

lemma fm_launch: "(\<And>g. A (FxSpawn g)) \<Longrightarrow> obeys R (fm_launch E d)"
  unfolding fm_launch_def by (auto intro!: primitives change generation running split: option.splits)

lemma fm_start: "(\<And>g. A (FxSpawn g)) \<Longrightarrow> obeys R (fm_start E)"
  unfolding fm_start_def Let_def
  by (auto intro!: primitives change gone fm_launch fm_try_wait
      split: option.splits wait_result.splits read_result.splits)

lemma fm_stop: "A FxKill \<Longrightarrow> obeys R (fm_stop E)"
  unfolding fm_stop_def by (auto intro!: primitives change bump cleared split: option.splits)

lemma fm_restart: "A FxKill \<Longrightarrow> (\<And>g. A (FxSpawn g)) \<Longrightarrow> obeys R (fm_restart E)"
  unfolding fm_restart_def by (intro primitives fm_stop fm_start)

lemma ready_poll: "obeys R (ready_poll E expected timeout g started)"
  unfolding ready_poll_def fm_generation_of_def
  by (auto intro!: primitives fm_status split: option.splits)

lemma ready_loop: "obeys R (ready_loop E expected timeout g started)"
proof (rule obeysI)
  show "R s (snd (ready_loop E expected timeout g started s))" for s
  proof (induction E expected timeout g started s rule: ready_loop.induct)
    case (1 E expected timeout g started s)
    obtain r s' where p: "ready_poll E expected timeout g started s = (r, s')" by (metis surj_pair)
    have poll: "R s s'" using obeys_run [OF ready_poll p] .
    show ?case
    proof (cases "r = Inr False")
      case True
      have "R s' (half_second E s')" unfolding half_second_def by (rule obeysD [OF sleep])
      from poll this 1 [OF p [symmetric] True refl] True show ?thesis
        by (simp add: ready_loop.simps [of E expected timeout g started s] p) (blast intro: le_trans)
    next
      case False
      with poll show ?thesis
        by (cases r) (auto simp: ready_loop.simps [of E expected timeout g started s] p split: bool.splits)
    qed
  qed
qed

lemma fm_wait_ready: "(\<And>g. A (FxReady expected g)) \<Longrightarrow> obeys R (fm_wait_ready E expected timeout)"
  unfolding fm_wait_ready_def fm_generation_of_def by (auto intro!: primitives ready_loop)

end

interpretation traced: manager_frame "quiet (reads_or B)" "reads_or B" "\<lambda>_ _. True" "\<lambda>_ _. True"
  for B :: "effect \<Rightarrow> bool"
  by unfold_locales simp_all

interpretation db_kept: manager_frame "keeps (\<lambda>s. f (sys_db s))" "\<lambda>_. True" "keeps f" "\<lambda>_ _. True"
  for f :: "db_state \<Rightarrow> 'v"
  by unfold_locales simp_all

interpretation config_kept: manager_frame "keeps (\<lambda>s. (sys_chml s, sys_cf s, sys_job s))" "\<lambda>_. True"
    "\<lambda>_ _. True" "\<lambda>_ _. True"
  by unfold_locales simp_all

interpretation clock: manager_frame later "\<lambda>_. True" "\<lambda>_ _. True" "\<lambda>_ _. True"
  by unfold_locales simp_all

section \<open>Consistency of the manager's state\<close>

definition states_named :: "(string \<times> frpc_tunnel_state) list \<Rightarrow> bool" where
  "states_named xs \<longleftrightarrow> distinct (map fst xs) \<and> (\<forall>e \<in> set xs. ft_tunnel_name (snd e) = fst e)"

definition frpc_consistent :: "frpc_state \<Rightarrow> bool" where
  "frpc_consistent m \<longleftrightarrow>
     rt_running (fm_runtime m) = (fm_child m \<noteq> None)
     \<and> rt_pid (fm_runtime m) = (case fm_child m of None \<Rightarrow> None | Some c \<Rightarrow> cp_pid c)
     \<and> length (fm_logs m) \<le> fm_max_logs m \<and> 100 \<le> fm_max_logs m
     \<and> states_named (fm_tunnel_states m)"

definition consistent_step :: "frpc_state \<Rightarrow> frpc_state \<Rightarrow> bool" where
  "consistent_step m m' \<longleftrightarrow> (frpc_consistent m \<longrightarrow> frpc_consistent m')"

lemma consistent_step_refl: "consistent_step m m"
  by (simp add: consistent_step_def)

lemma consistent_step_trans: "consistent_step m n \<Longrightarrow> consistent_step n q \<Longrightarrow> consistent_step m q"
  by (simp add: consistent_step_def)

lemma set_update_snd: "e \<in> set (AList.update k v xs) \<Longrightarrow> e = (k, v) \<or> e \<in> set xs"
  by (induction xs) (auto split: if_splits)

lemma states_named_update:
  "states_named xs \<Longrightarrow> ft_tunnel_name st = n \<Longrightarrow> states_named (AList.update n st xs)"
  unfolding states_named_def by (auto simp: distinct_update dest: set_update_snd)

lemma states_named_map:
  "states_named xs \<Longrightarrow> (\<And>st. ft_tunnel_name (f st) = ft_tunnel_name st) \<Longrightarrow>
   states_named (map (\<lambda>(n, st). (n, f st)) xs)"
  unfolding states_named_def by (auto simp: comp_def case_prod_unfold)

lemma consistent_record_runtime: "consistent_step m (record_runtime e m)"
  by (auto simp: consistent_step_def frpc_consistent_def record_runtime_def split: frpc_event_type.splits)

lemma consistent_record_started: "consistent_step m (record_started e m)"
  by (auto simp: consistent_step_def frpc_consistent_def record_started_def
      split: frpc_event_type.splits option.splits)

lemma consistent_record_fault: "consistent_step m (record_fault e m)"
proof -
  have "states_named xs \<Longrightarrow> states_named (map (\<lambda>(n, st). (n, st\<lparr>ft_state := l, ft_last_event := Some e\<rparr>)) xs)"
    for xs l by (rule states_named_map) simp_all
  then show ?thesis
    by (simp add: consistent_step_def frpc_consistent_def record_fault_def)
qed

lemma consistent_record_tunnel: "consistent_step m (record_tunnel e m)"
  by (simp add: consistent_step_def frpc_consistent_def record_tunnel_def states_named_update
      split: option.splits)

lemma consistent_push_log: "consistent_step m (push_log e m)"
  by (auto simp: consistent_step_def frpc_consistent_def push_log_def Let_def)

lemmas consistent_record =
  consistent_record_runtime consistent_record_started consistent_record_fault
  consistent_record_tunnel consistent_push_log

lemma consistent_accept: "consistent_step m (accept_line at line dup g m)"
proof -
  have "consistent_step m (push_log e (record_tunnel e (record_fault e (record_started e (record_runtime e m)))))" for e
    by (rule consistent_step_trans [OF consistent_step_trans [OF consistent_step_trans
          [OF consistent_step_trans]]]) (rule consistent_record)+
  then show ?thesis by (simp add: accept_line_def Let_def consistent_step_refl)
qed

lemma consistent_deliver: "consistent_step m (deliver ls m)"
proof (induction ls m rule: deliver.induct)
  case (2 i line at rest m)
  have "consistent_step m (if i < length (fm_readers m)
      then accept_line at line (rd_local_dup (fm_readers m ! i)) (rd_generation (fm_readers m ! i)) m else m)"
    by (simp add: consistent_accept consistent_step_refl)
  from consistent_step_trans [OF this 2] show ?case by simp
qed (simp add: consistent_step_refl)

lemma consistent_change:
  "consistent_step m (child_gone reason m)"
  "consistent_step m (m\<lparr>fm_runtime := (fm_runtime m)\<lparr>rt_config_revision := r\<rparr>\<rparr>)"
  "consistent_step m (new_generation m)"
  "consistent_step m (child_running child t d m)"
  "consistent_step m (m\<lparr>fm_generation := fm_generation m + 1\<rparr>)"
  "consistent_step m (m\<lparr>fm_child := None, fm_runtime := runtime_stopped (fm_runtime m)\<rparr>)"
  by (simp_all add: consistent_step_def frpc_consistent_def child_gone_def runtime_stopped_def
      new_generation_def child_running_def states_named_def Let_def)

interpretation consistent: manager_frame "\<lambda>s s'. consistent_step (sys_frpc s) (sys_frpc s')" "\<lambda>_. True"
    "\<lambda>_ _. True" consistent_step
  by unfold_locales
    (simp_all add: consistent_step_refl consistent_deliver consistent_change,
     erule (1) consistent_step_trans)

text \<open>
  C21: the process manager stays consistent under every operation and every log line: the
  running flag is set exactly while a child is held, the reported pid is the child's, the
  log keeps at most the configured number of events (at least 100), and there is one
  tunnel state per proxy name, under its own name.
\<close>
theorem manager_stays_consistent:
  "frpc_consistent (frpc_new binary config max_logs)
   \<and> (frpc_consistent (sys_frpc s) \<longrightarrow>
        frpc_consistent (sys_frpc (snd (fm_status E s)))
        \<and> frpc_consistent (sys_frpc (snd (fm_start E s)))
        \<and> frpc_consistent (sys_frpc (snd (fm_stop E s)))
        \<and> frpc_consistent (sys_frpc (snd (fm_restart E s)))
        \<and> frpc_consistent (sys_frpc (snd (fm_write_config E cfg rv s)))
        \<and> frpc_consistent (sys_frpc (snd (fm_wait_ready E names timeout s)))
        \<and> frpc_consistent (deliver ls (sys_frpc s)))"
proof (intro conjI impI)
  show "frpc_consistent (frpc_new binary config max_logs)"
    by (simp add: frpc_consistent_def frpc_new_def states_named_def)
  assume c: "frpc_consistent (sys_frpc s)"
  show "frpc_consistent (sys_frpc (snd (fm_status E s)))"
    using obeysD [OF consistent.fm_status, of s E] c by (simp add: consistent_step_def)
  show "frpc_consistent (sys_frpc (snd (fm_start E s)))"
    using obeysD [OF consistent.fm_start, of s E] c by (simp add: consistent_step_def)
  show "frpc_consistent (sys_frpc (snd (fm_stop E s)))"
    using obeysD [OF consistent.fm_stop, of s E] c by (simp add: consistent_step_def)
  show "frpc_consistent (sys_frpc (snd (fm_restart E s)))"
    using obeysD [OF consistent.fm_restart, of s E] c by (simp add: consistent_step_def)
  show "frpc_consistent (sys_frpc (snd (fm_write_config E cfg rv s)))"
    unfolding fm_write_config_def
    using obeysD [OF consistent.fm_write_config_with_revision, of s E cfg "Some rv"] c
    by (simp add: consistent_step_def)
  show "frpc_consistent (sys_frpc (snd (fm_wait_ready E names timeout s)))"
    using obeysD [OF consistent.fm_wait_ready, of s E names timeout] c by (simp add: consistent_step_def)
  show "frpc_consistent (deliver ls (sys_frpc s))"
    using consistent_deliver c by (simp add: consistent_step_def)
qed

section \<open>Stopping silences the stopped process\<close>

text \<open>No reader belongs to a generation above the current one.\<close>

definition readers_bounded :: "frpc_state \<Rightarrow> bool" where
  "readers_bounded m \<longleftrightarrow> (\<forall>r \<in> set (fm_readers m). rd_generation r \<le> fm_generation m)"

lemma next_generation_above:
  assumes "g \<noteq> - 1" "r \<le> g"
  shows "r < g + (1 :: 64 word)"
proof -
  have "1 + g \<noteq> 0" using assms(1) by (metis add.commute add_eq_0_iff)
  then have "unat (1 + g) = Suc (unat g)" by (rule unatSuc)
  with assms(2) show ?thesis by (simp add: word_less_nat_alt word_le_nat_alt add.commute)
qed

lemma stop_shape:
  assumes "fm_stop E s = (r, s')"
  shows "r = Inr () \<and> (\<exists>w extra ls. s' = s\<lparr>sys_world := w, sys_instant := sys_instant s + extra,
      sys_trace := sys_trace s @ (if fm_child (sys_frpc s) = None then [] else [FxKill]),
      sys_frpc := (let m = deliver ls ((sys_frpc s)\<lparr>fm_generation := fm_generation (sys_frpc s) + 1\<rparr>)
                   in m\<lparr>fm_child := None, fm_runtime := runtime_stopped (fm_runtime m)\<rparr>)\<rparr>)"
proof (cases "fm_child (sys_frpc s)")
  case None
  then have "r = Inr ()" "s' = s\<lparr>sys_frpc := (sys_frpc s)\<lparr>fm_generation := fm_generation (sys_frpc s) + 1,
      fm_child := None, fm_runtime := runtime_stopped (fm_runtime (sys_frpc s))\<rparr>\<rparr>"
    using assms by (auto simp: fm_stop_def frpcM_def effect_simps)
  with None show ?thesis
    by (intro conjI exI [of _ "sys_world s"] exI [of _ 0] exI [of _ "[]"]) simp_all
next
  case (Some c)
  obtain u w where k: "x_kill E (cp_handle c) (sys_world s) = (u, w)" by (metis surj_pair)
  obtain extra ls w2 where p: "x_pause E w = ((extra, ls), w2)" by (metis surj_pair)
  show ?thesis
    using assms
    by (intro conjI exI [of _ w2] exI [of _ extra] exI [of _ ls])
      (auto simp: fm_stop_def frpcM_def callM_def awaitM_def emit_def effect_simps Let_def Some k p)
qed


section \<open>Readiness\<close>

text \<open>What holds when the readiness wait succeeds.\<close>

definition frpc_ready :: "string list \<Rightarrow> 64 word \<Rightarrow> frpc_state \<Rightarrow> bool" where
  "frpc_ready expected generation m \<longleftrightarrow>
     fm_generation m = generation
     \<and> rt_running (fm_runtime m) \<and> rt_connected (fm_runtime m)
     \<and> (\<forall>n \<in> set expected. tunnel_started m n)
     \<and> (\<forall>e. fm_node_fault m = Some e \<longrightarrow> ev_generation e \<noteq> generation)
     \<and> (\<forall>e. fm_startup_fault m = Some e \<longrightarrow> ev_generation e = generation \<longrightarrow>
            ev_fault_domain e \<notin> {FdAuth, FdConfig})"

lemma status_result: "fm_status E s = (r, s') \<Longrightarrow> r = Inr (fm_runtime (sys_frpc s')) \<and> sys_instant s' = sys_instant s
   \<and> fm_generation (sys_frpc s') = fm_generation (sys_frpc s)"
  by (auto simp: fm_status_def fm_try_wait_def frpcM_def callM_def child_gone_def effect_simps
      split: prod.splits option.splits wait_result.splits)

lemma ready_poll_cases:
  assumes "ready_poll E expected timeout g started s = (r, s')"
  shows "case r of
      Inr b \<Rightarrow> b \<longrightarrow> frpc_ready expected g (sys_frpc s')
    | Inl (ReadyNode raw) \<Rightarrow> \<exists>e. fm_node_fault (sys_frpc s') = Some e \<and> ev_generation e = g \<and> ev_raw e = raw
    | Inl (ReadyNonNode _) \<Rightarrow> True
    | Inl (ReadyTimeout connected missing) \<Rightarrow> timeout \<le> sys_instant s' - started
        \<and> connected = rt_connected (fm_runtime (sys_frpc s'))
        \<and> missing = join '','' (filter (\<lambda>n. \<not> tunnel_started (sys_frpc s') n) expected)"
proof (cases "fm_generation (sys_frpc s) = g")
  case False
  with assms show ?thesis
    by (auto simp: ready_poll_def fm_generation_of_def effect_simps)
next
  case True
  obtain q t where st: "fm_status E s = (q :: readiness_error + frpc_runtime_status, t)" by (metis surj_pair)
  from status_result [OF st] have q: "q = Inr (fm_runtime (sys_frpc t))"
      "fm_generation (sys_frpc t) = g" using True by auto
  show ?thesis
    using assms True q
    by (auto simp: ready_poll_def fm_generation_of_def effect_simps st readiness_fault_def frpc_ready_def
        list_all_iff split: option.splits if_splits)
qed

lemma ready_loop_cases:
  assumes "ready_loop E expected timeout g started s = (r, s')"
  shows "case r of
      Inr _ \<Rightarrow> frpc_ready expected g (sys_frpc s')
    | Inl (ReadyNode raw) \<Rightarrow> \<exists>e. fm_node_fault (sys_frpc s') = Some e \<and> ev_generation e = g \<and> ev_raw e = raw
    | Inl (ReadyNonNode _) \<Rightarrow> True
    | Inl (ReadyTimeout connected missing) \<Rightarrow> timeout \<le> sys_instant s' - started
        \<and> connected = rt_connected (fm_runtime (sys_frpc s'))
        \<and> missing = join '','' (filter (\<lambda>n. \<not> tunnel_started (sys_frpc s') n) expected)"
  using assms
proof (induction E expected timeout g started s rule: ready_loop.induct)
  case (1 E expected timeout g started s)
  obtain p t where poll: "ready_poll E expected timeout g started s = (p, t)" by (metis surj_pair)
  note cases = ready_poll_cases [OF poll]
  show ?case
  proof (cases "p = Inr False")
    case True
    have "ready_loop E expected timeout g started (half_second E t) = (r, s')"
      using 1(2) ready_loop_again [OF poll [unfolded True]] by simp
    from 1(1) [OF poll [symmetric] True refl this] show ?thesis .
  next
    case False
    show ?thesis
    proof (cases p)
      case (Inl e)
      with ready_loop_error [OF poll [unfolded Inl]] 1(2) cases show ?thesis by auto
    next
      case (Inr b)
      with False have "p = Inr True" by simp
      with ready_loop_done [OF poll [unfolded this]] 1(2) cases show ?thesis by auto
    qed
  qed
qed


text \<open>
  A started tunnel counts for every expected name that follows a dot in its own name:
  when only \<open>b.api\<close> has started, the readiness wait takes the tunnel \<open>api\<close> as started
  too.
\<close>
theorem dotted_name_counts_for_suffix:
  "proxy_name_matches (first @ ''.'' @ expected) expected
   \<and> tunnel_started (m\<lparr>fm_started := {''b.api''}\<rparr>) ''api''
   \<and> ''api'' \<notin> fm_started (m\<lparr>fm_started := {''b.api''}\<rparr>)"
proof -
  have "proxy_name_matches (a @ ''.'' @ e) e" for a e
    by (simp add: proxy_name_matches_def ends_with_def suffix_def)
  from this [of first expected] this [of "''b''" "''api''"] show ?thesis
    by (simp add: tunnel_started_def)
qed

end
