(* ===== verification/Store.thy ===== *)
theory Store
  imports Frpc_Manager
begin

text \<open>
  The database operations as the running program calls them (\<open>state.db...\<close>): with the
  current time of SQLite or chrono, and with the faults SQLite may have. A promotion that
  was carried out leaves its mark in the trace.
\<close>

definition st_list_tunnels :: "'w env \<Rightarrow> ('w, string, tunnel_plan list) act" where
  "st_list_tunnels E = dbM E list_tunnels"

definition st_get_tunnel :: "'w env \<Rightarrow> int \<Rightarrow> ('w, string, tunnel_plan) act" where
  "st_get_tunnel E tid = dbM E (get_tunnel tid)"

definition st_create_tunnel :: "'w env \<Rightarrow> tunnel_plan_input \<Rightarrow> ('w, string, tunnel_plan) act" where
  "st_create_tunnel E input = bindM (sql_nowM E) (\<lambda>now. dbM E (create_tunnel now input))"

definition st_update_tunnel :: "'w env \<Rightarrow> int \<Rightarrow> tunnel_plan_input \<Rightarrow> ('w, string, tunnel_plan) act" where
  "st_update_tunnel E tid input = bindM (sql_nowM E) (\<lambda>now. dbM E (update_tunnel now tid input))"

definition st_delete_tunnel :: "'w env \<Rightarrow> int \<Rightarrow> ('w, string, unit) act" where
  "st_delete_tunnel E tid = dbM E (delete_tunnel tid)"

definition st_set_record_id :: "'w env \<Rightarrow> int \<Rightarrow> string \<Rightarrow> ('w, string, unit) act" where
  "st_set_record_id E tid rid = bindM (sql_nowM E) (\<lambda>now. dbM E (set_cloudflare_record_id now tid rid))"

definition st_routing_state :: "'w env \<Rightarrow> ('w, string, routing_state) act" where
  "st_routing_state E = dbM E routing_state"

definition st_update_routing :: "'w env \<Rightarrow> routing_update \<Rightarrow> ('w, string, routing_state) act" where
  "st_update_routing E ru = bindM (sql_nowM E) (\<lambda>now. dbM E (update_routing now ru))"

definition st_set_phase :: "'w env \<Rightarrow> routing_phase \<Rightarrow> ('w, string, unit) act" where
  "st_set_phase E p = bindM (sql_nowM E) (\<lambda>now. dbM E (set_routing_phase now p))"

definition st_promote :: "'w env \<Rightarrow> string \<Rightarrow> string option \<Rightarrow> ('w, string, unit) act" where
  "st_promote E active standby =
     bindM (sql_nowM E) (\<lambda>now.
     thenM (dbM E (promote_active_node now active standby)) (emit (FxPromote active standby)))"

definition st_finalize :: "'w env \<Rightarrow> ('w, string, unit) act" where
  "st_finalize E = bindM (sql_nowM E) (\<lambda>now. dbM E (finalize_active_node now))"

definition st_mark_failed :: "'w env \<Rightarrow> ('w, string, unit) act" where
  "st_mark_failed E = bindM (sql_nowM E) (\<lambda>now. dbM E (mark_routing_failed now))"

definition st_quarantine ::
  "'w env \<Rightarrow> string \<Rightarrow> string option \<Rightarrow> string \<Rightarrow> string option \<Rightarrow> int \<Rightarrow> ('w, string, unit) act" where
  "st_quarantine E node ip reason trigger days =
     bindM (nowM E) (\<lambda>now. dbM E (quarantine_node (x_rfc3339 E) now node ip reason trigger days))"

definition st_clear_quarantine :: "'w env \<Rightarrow> string \<Rightarrow> ('w, string, unit) act" where
  "st_clear_quarantine E node = dbM E (clear_quarantine node)"

definition st_quarantine_until :: "'w env \<Rightarrow> string \<Rightarrow> ('w, string, string option) act" where
  "st_quarantine_until E node = bindM (nowM E) (\<lambda>now. dbM E (quarantine_until (x_rfc3339 E) now node))"

definition st_save_revision :: "'w env \<Rightarrow> string \<Rightarrow> string \<Rightarrow> string \<Rightarrow> ('w, string, int) act" where
  "st_save_revision E node sha config = dbM E (save_config_revision node sha config)"

definition st_activity ::
  "'w env \<Rightarrow> string option \<Rightarrow> string \<Rightarrow> string \<Rightarrow> string \<Rightarrow> string option \<Rightarrow> string option \<Rightarrow> json
   \<Rightarrow> ('w, string, unit) act" where
  "st_activity E job kind level message tunnel node details =
     bindM (sql_nowM E) (\<lambda>now. dbM E (activity now job kind level message tunnel node details))"

definition st_recent_activity :: "'w env \<Rightarrow> int \<Rightarrow> ('w, string, activity_event list) act" where
  "st_recent_activity E limit = dbM E (recent_activity limit)"

definition st_provider_settings :: "'w env \<Rightarrow> ('w, string, provider_settings) act" where
  "st_provider_settings E = dbM E provider_settings"

definition st_update_providers ::
  "'w env \<Rightarrow> provider_settings_update \<Rightarrow> ('w, string, provider_settings) act" where
  "st_update_providers E input = bindM (sql_nowM E) (\<lambda>now. dbM E (update_provider_settings now input))"

section \<open>Which operation touches what\<close>

lemma obeys_get_db: "step_order D \<Longrightarrow> obeys D (getM f)"
  by (rule step_order.obeys_get)

lemma routing_kept:
  "obeys (keeps db_routing) (activity now job kind level m tn nn details)"
  "obeys (keeps db_routing) (save_config_revision node sha config)"
  "obeys (keeps db_routing) (set_cloudflare_record_id now tid rid)"
  "obeys (keeps db_routing) (quarantine_node fmt t node ip reason tunnel days)"
  "obeys (keeps db_routing) (clear_quarantine node)"
  by (simp_all add: obeys_def keeps_def activity_def save_config_revision_def
      set_cloudflare_record_id_def quarantine_node_def clear_quarantine_def effect_simps Let_def)

lemma plans_kept:
  "obeys (keeps db_plans) (activity now job kind level m tn nn details)"
  "obeys (keeps db_plans) (save_config_revision node sha config)"
  "obeys (keeps db_plans) (set_routing_phase now p)"
  "obeys (keeps db_plans) (promote_active_node now a st)"
  "obeys (keeps db_plans) (mark_routing_failed now)"
  "obeys (keeps db_plans) (quarantine_node fmt t node ip reason tunnel days)"
  by (simp_all add: obeys_def keeps_def activity_def save_config_revision_def quarantine_node_def
      row_simps effect_simps Let_def split: sum.splits)

lemma quarantine_kept:
  "obeys (keeps db_quarantine) (activity now job kind level m tn nn details)"
  "obeys (keeps db_quarantine) (save_config_revision node sha config)"
  "obeys (keeps db_quarantine) (set_cloudflare_record_id now tid rid)"
  "obeys (keeps db_quarantine) (set_routing_phase now p)"
  "obeys (keeps db_quarantine) (promote_active_node now a st)"
  "obeys (keeps db_quarantine) (mark_routing_failed now)"
  by (simp_all add: obeys_def keeps_def activity_def save_config_revision_def
      set_cloudflare_record_id_def row_simps effect_simps Let_def split: sum.splits)

lemma no_change:
  "snd (list_tunnels d) = d" "snd (get_tunnel tid d) = d" "snd (routing_state d) = d"
  "snd (quarantine_until fmt t node d) = d" "snd (recent_activity n d) = d" "snd (provider_settings d) = d"
  by (simp_all add: list_tunnels_def row_simps quarantine_until_def recent_activity_def
      provider_settings_def effect_simps split: sum.splits option.splits)

text \<open>
  A frame for the calls of the database: it allows what logs and remembers configurations.
  Together with a \<open>manager_frame\<close> it is a frame for the whole program.
\<close>

locale store_frame = reading_frame R A D F for R :: "'w sys \<Rightarrow> 'w sys \<Rightarrow> bool" and A D F +
  assumes unchanged: "D d d"
    and logs: "obeys D (activity now job kind level m tn nn details)"
    and revisions: "obeys D (save_config_revision node sha config)"
begin

lemma silent: "(\<And>d. snd (m d) = d) \<Longrightarrow> obeys D m"
  by (simp add: obeys_def unchanged)

lemma store_reads:
  "obeys R (st_list_tunnels E)" "obeys R (st_get_tunnel E tid)" "obeys R (st_routing_state E)"
  "obeys R (st_quarantine_until E node)" "obeys R (st_recent_activity E n)"
  "obeys R (st_provider_settings E)"
  unfolding st_list_tunnels_def st_get_tunnel_def st_routing_state_def st_quarantine_until_def
    st_recent_activity_def st_provider_settings_def
  by (intro primitives silent no_change)+

lemma store_logs:
  "obeys R (st_activity E j kind level m tn nn details)" "obeys R (st_save_revision E node sha config)"
  unfolding st_activity_def st_save_revision_def
  by (intro primitives logs revisions)+

lemma store_set_record_id:
  "(\<And>now. obeys D (set_cloudflare_record_id now tid rid)) \<Longrightarrow> obeys R (st_set_record_id E tid rid)"
  unfolding st_set_record_id_def by (intro primitives)

lemma store_set_phase:
  "(\<And>now. obeys D (set_routing_phase now p)) \<Longrightarrow> obeys R (st_set_phase E p)"
  unfolding st_set_phase_def by (intro primitives)

lemma store_promote:
  "(\<And>now. obeys D (promote_active_node now a sb)) \<Longrightarrow> A (FxPromote a sb) \<Longrightarrow> obeys R (st_promote E a sb)"
  unfolding st_promote_def by (intro primitives)

lemma store_finalize:
  "(\<And>now. obeys D (set_routing_phase now Idle)) \<Longrightarrow> obeys R (st_finalize E)"
  unfolding st_finalize_def run_finalize by (intro primitives)

lemma store_mark_failed:
  "(\<And>now. obeys D (mark_routing_failed now)) \<Longrightarrow> obeys R (st_mark_failed E)"
  unfolding st_mark_failed_def by (intro primitives)

lemma store_quarantine:
  "(\<And>now. obeys D (quarantine_node (x_rfc3339 E) now node ip reason tr days)) \<Longrightarrow>
   obeys R (st_quarantine E node ip reason tr days)"
  unfolding st_quarantine_def by (intro primitives)

end

locale program_frame = store_frame R A D F + manager_frame R A D F
  for R :: "'w sys \<Rightarrow> 'w sys \<Rightarrow> bool" and A D F

text \<open>An order on databases that logging obeys gives a frame for the whole program.\<close>

locale db_order = step_order D for D :: "db_state \<Rightarrow> db_state \<Rightarrow> bool" +
  assumes order_logs: "obeys D (activity now job kind level m tn nn details)"
    and order_revisions: "obeys D (save_config_revision node sha config)"

sublocale db_order \<subseteq> whole: program_frame "\<lambda>s s'. D (sys_db s) (sys_db s')" "\<lambda>_. True" D "\<lambda>_ _. True"
proof
  show "D (sys_db s) (sys_db t) \<Longrightarrow> D (sys_db t) (sys_db u) \<Longrightarrow> D (sys_db s) (sys_db u)" for s t u :: "'a sys"
    by (rule le_trans)
qed (simp_all add: le_refl order_logs order_revisions)

interpretation traced: program_frame "quiet (reads_or B)" "reads_or B" "\<lambda>_ _. True" "\<lambda>_ _. True"
  for B :: "effect \<Rightarrow> bool"
  by unfold_locales (simp_all add: obeys_def quiet_def)

text \<open>The routing row, the plans and the quarantine are each a part of the database logging leaves alone.\<close>

interpretation routing_fixed: db_order "keeps db_routing"
  by unfold_locales (rule routing_kept)+

interpretation plans_fixed: db_order "keeps db_plans"
  by unfold_locales (rule plans_kept)+

interpretation clock: program_frame later "\<lambda>_. True" "\<lambda>_ _. True" "\<lambda>_ _. True"
  by unfold_locales (simp_all add: obeys_def later_def)

interpretation consistent: program_frame "\<lambda>s s'. consistent_step (sys_frpc s) (sys_frpc s')" "\<lambda>_. True"
    "\<lambda>_ _. True" consistent_step
  by unfold_locales (simp_all add: obeys_def consistent_step_refl)

interpretation control_kept: store_frame "keeps (\<lambda>s. f (control_fields (sys_frpc s)))" "\<lambda>_. True"
    "\<lambda>_ _. True" "keeps (\<lambda>m. f (control_fields m))"
  for f :: "_ \<Rightarrow> 'v"
  by unfold_locales (auto simp: obeys_def keeps_def)

end
