(* ===== verification/Reconcile.thy ===== *)
theory Reconcile
  imports Store
begin

text \<open>
  \<open>apps/server/src/reconcile.rs\<close>: the status of each plan in the three layers and
  overall, and the global reconciliation, which brings ChmlFrp, FRPC and the managed DNS
  records to the plans on the active node, in this order. A \<open>HashMap\<close> collected from a
  list is \<open>last_entry\<close>, the last element with a key.
\<close>

section \<open>Status of a plan\<close>

definition layer_status_of :: "layer_state \<Rightarrow> string \<Rightarrow> string option \<Rightarrow> layer_status" where
  "layer_status_of state label detail = \<lparr>ls_state = state, ls_label = label, ls_detail = detail\<rparr>"

definition chmlfrp_status ::
  "tunnel_plan \<Rightarrow> bool \<Rightarrow> bool \<Rightarrow> string \<Rightarrow> (string \<Rightarrow> remote_tunnel option) \<Rightarrow> layer_status" where
  "chmlfrp_status plan configured available active_node remote_by_name =
     (if \<not> configured then layer_status_of LsDisabled lbl_not_configured None
      else if \<not> available then layer_status_of LsUnknown lbl_api_unavailable None
      else case remote_by_name (tp_name plan) of
        None \<Rightarrow> layer_status_of LsMissing lbl_missing None
      | Some remote \<Rightarrow>
          if active_node \<noteq> [] \<and> rm_node remote \<noteq> active_node
          then layer_status_of LsDrift lbl_node_mismatch (Some (lbl_actual_node @ rm_node remote))
          else if rm_local_ip remote \<noteq> tp_local_ip plan
               \<or> rm_local_port remote \<noteq> tp_local_port plan
               \<or> \<not> eq_ignore_ascii_case (rm_port_type remote) (tp_protocol plan)
               \<or> (web_protocol (tp_protocol plan)
                  \<and> \<not> eq_ignore_ascii_case (effective_domain remote) (tp_domain plan))
          then layer_status_of LsDrift lbl_config_drift None
          else layer_ok lbl_exists)"

definition cloudflare_status ::
  "tunnel_plan \<Rightarrow> bool \<Rightarrow> bool \<Rightarrow> string option \<Rightarrow> (string \<Rightarrow> dns_record list) \<Rightarrow> layer_status" where
  "cloudflare_status plan configured available active_ip records_by_name =
     (if \<not> tp_dns_managed plan then layer_status_of LsDisabled lbl_not_managed None
      else if \<not> configured then layer_status_of LsDisabled lbl_not_configured None
      else if \<not> available then layer_status_of LsUnknown lbl_api_unavailable None
      else case records_by_name (to_ascii_lowercase (tp_domain plan)) of
        [] \<Rightarrow> layer_status_of LsMissing lbl_missing None
      | record # others \<Rightarrow>
          if others \<noteq> []
          then layer_status_of LsFailed lbl_a_conflict
                 (Some (lbl_found @ show_nat (length others + 1) @ lbl_same_name_a))
          else if active_ip \<noteq> None \<and> active_ip \<noteq> Some (dr_content record)
          then layer_status_of LsDrift lbl_ip_mismatch (Some (lbl_actual @ dr_content record))
          else layer_ok lbl_exists)"

definition find_frpc_state ::
  "(string \<times> frpc_tunnel_state) list \<Rightarrow> string \<Rightarrow> frpc_tunnel_state option" where
  "find_frpc_state states plan_name =
     (case map_of states plan_name of
        Some st \<Rightarrow> Some st
      | None \<Rightarrow> map_option snd (find (\<lambda>(actual, _). ends_with actual (''.'' @ plan_name)) states))"

definition fallback_frpc_status :: "frpc_runtime_status \<Rightarrow> layer_status" where
  "fallback_frpc_status runtime =
     (if \<not> rt_running runtime
      then layer_status_of LsFailed lbl_frpc_not_running (rt_last_error runtime)
      else if \<not> rt_connected runtime \<and> rt_last_error runtime \<noteq> None
      then layer_status_of LsFailed lbl_node_connection_fault (rt_last_error runtime)
      else if rt_connected runtime then layer_status_of LsWaiting lbl_waiting_logs None
      else layer_status_of LsStarting lbl_connecting None)"

definition overall_status ::
  "routing_phase \<Rightarrow> layer_status \<Rightarrow> layer_status \<Rightarrow> layer_status \<Rightarrow> bool \<Rightarrow> layer_status" where
  "overall_status phase chmlfrp frpc cloudflare dns_managed =
     (if phase \<in> {Failover, DnsSwitching} then layer_status_of LsStarting lbl_switching None
      else if phase = DegradedDns then layer_status_of LsDrift lbl_dns_pending None
      else if phase = Failed then layer_status_of LsFailed lbl_global_fault None
      else if ls_state chmlfrp = LsMissing then layer_status_of LsFailed lbl_chml_not_deployed None
      else if ls_state chmlfrp = LsDrift then layer_status_of LsDrift lbl_chml_to_sync None
      else if ls_state chmlfrp = LsUnknown then layer_status_of LsUnknown lbl_chml_unavailable None
      else if ls_state chmlfrp = LsDisabled then layer_status_of LsDisabled lbl_chml_not_configured None
      else if ls_state frpc = LsFailed then layer_status_of LsFailed lbl_frpc_fault (ls_detail frpc)
      else if dns_managed \<and> ls_state cloudflare = LsFailed
      then layer_status_of LsFailed lbl_dns_fault (ls_detail cloudflare)
      else if dns_managed \<and> ls_state cloudflare \<in> {LsMissing, LsDrift}
      then layer_status_of LsDrift lbl_dns_to_sync None
      else if dns_managed \<and> ls_state cloudflare = LsUnknown
      then layer_status_of LsUnknown lbl_cf_unavailable None
      else if dns_managed \<and> ls_state cloudflare = LsDisabled
      then layer_status_of LsDisabled lbl_cf_not_configured None
      else if ls_state chmlfrp = LsOk \<and> ls_state frpc \<in> {LsOk, LsWaiting, LsStarting}
              \<and> (\<not> dns_managed \<or> ls_state cloudflare = LsOk)
      then (if ls_state frpc = LsOk then layer_ok lbl_normal
            else layer_status_of LsStarting lbl_wait_frpc None)
      else layer_unknown lbl_checking)"

text \<open>What the rows are computed from.\<close>

record row_view =
  rw_chml_configured :: bool
  rw_chml_available :: bool
  rw_remote :: "remote_tunnel list"
  rw_cf_configured :: bool
  rw_cf_available :: bool
  rw_records :: "dns_record list"
  rw_phase :: routing_phase
  rw_active :: string
  rw_active_ip :: "string option"
  rw_runtime :: frpc_runtime_status
  rw_states :: "(string \<times> frpc_tunnel_state) list"

definition records_named :: "dns_record list \<Rightarrow> string \<Rightarrow> dns_record list" where
  "records_named records key = filter (\<lambda>r. to_ascii_lowercase (dr_name r) = key) records"

definition build_row :: "row_view \<Rightarrow> tunnel_plan \<Rightarrow> tunnel_row" where
  "build_row v plan =
     (let chmlfrp = chmlfrp_status plan (rw_chml_configured v) (rw_chml_available v) (rw_active v)
                      (last_entry rm_name (rw_remote v));
          frpc = (case find_frpc_state (rw_states v) (tp_name plan) of
                    Some st \<Rightarrow> ft_state st | None \<Rightarrow> fallback_frpc_status (rw_runtime v));
          cloudflare = cloudflare_status plan (rw_cf_configured v) (rw_cf_available v)
                         (rw_active_ip v) (records_named (rw_records v))
      in \<lparr>tr_plan = plan, tr_chmlfrp = chmlfrp, tr_frpc = frpc, tr_cloudflare = cloudflare,
          tr_overall = overall_status (rw_phase v) chmlfrp frpc cloudflare (tp_dns_managed plan)\<rparr>)"

text \<open>A provider list that is read only when configured, and whose failure is remembered.\<close>

definition read_if :: "bool \<Rightarrow> ('w, string, 'a list) act \<Rightarrow> ('w, string, 'a list \<times> bool) act" where
  "read_if configured m =
     (if configured
      then bindM (attemptM m) (\<lambda>r. returnM (case r of Inr xs \<Rightarrow> (xs, True) | Inl _ \<Rightarrow> ([], False)))
      else returnM ([], False))"

definition build_rows :: "'w env \<Rightarrow> ('w, string, tunnel_row list) act" where
  "build_rows E =
     bindM (st_list_tunnels E) (\<lambda>plans.
     bindM (getM (\<lambda>s. chml_configured (sys_chml s))) (\<lambda>chml_conf.
     bindM (read_if chml_conf (ch_list_tunnels E sys_chml)) (\<lambda>(remote, chml_available).
     bindM (getM (\<lambda>s. cf_configured (sys_cf s))) (\<lambda>cf_conf.
     bindM (read_if cf_conf (cf_list_a_records E sys_cf)) (\<lambda>(records, cf_available).
     bindM (st_routing_state E) (\<lambda>routing.
     let active = (case rs_active_node routing of None \<Rightarrow> [] | Some a \<Rightarrow> a) in
     bindM (if chml_available \<and> active \<noteq> []
            then bindM (attemptM (ch_node_info E sys_chml active)) (\<lambda>r. returnM
                   (case r of Inr node \<Rightarrow> Some (nd_real_ip node) | Inl _ \<Rightarrow> None))
            else returnM None) (\<lambda>active_ip.
     bindM (fm_status E) (\<lambda>runtime.
     bindM (getM (\<lambda>s. fm_tunnel_states (sys_frpc s))) (\<lambda>states.
     returnM (map (build_row
       \<lparr>rw_chml_configured = chml_conf, rw_chml_available = chml_available, rw_remote = remote,
        rw_cf_configured = cf_conf, rw_cf_available = cf_available, rw_records = records,
        rw_phase = rs_phase routing, rw_active = active, rw_active_ip = active_ip,
        rw_runtime = runtime, rw_states = states\<rparr>) plans))))))))))"

section \<open>Checks shared by reconciliation and failover\<close>

definition a_record_conflicts :: "tunnel_plan list \<Rightarrow> dns_record list \<Rightarrow> string list" where
  "a_record_conflicts plans records =
     concat (map (\<lambda>plan.
       let count = length (filter (\<lambda>r. eq_ignore_ascii_case (dr_name r) (tp_domain plan)) records)
       in if 1 < count then [tp_domain plan @ '' ('' @ show_nat count @ '' A records)''] else [])
       (filter tp_dns_managed plans))"

definition ensure_unique_managed_a_records :: "tunnel_plan list \<Rightarrow> dns_record list \<Rightarrow> string + unit" where
  "ensure_unique_managed_a_records plans records =
     (let conflicts = a_record_conflicts plans records
      in if conflicts = [] then Inr ()
         else Inl (''Cloudflare managed A-record conflict: '' @ join '', '' conflicts
           @ ''; exactly zero or one A record is allowed per managed domain''))"

definition plan_problems ::
  "string \<Rightarrow> (string \<Rightarrow> remote_tunnel option) \<Rightarrow> string \<Rightarrow> tunnel_plan list \<Rightarrow> string list" where
  "plan_problems missing_text by_name node plans =
     concat (map (\<lambda>plan.
       case by_name (tp_name plan) of
         Some remote \<Rightarrow>
           if matches_plan_on_node remote plan node then []
           else [tp_name plan @ '': node='' @ rm_node remote @ '' local='' @ rm_local_ip remote
                 @ '':'' @ show_int (rm_local_port remote) @ '' protocol='' @ rm_port_type remote
                 @ '' domain='' @ effective_domain remote]
       | None \<Rightarrow> [tp_name plan @ missing_text]) plans)"

definition verify_chmlfrp_desired_state ::
  "'w env \<Rightarrow> tunnel_plan list \<Rightarrow> string \<Rightarrow> ('w, string, unit) act" where
  "verify_chmlfrp_desired_state E plans active =
     bindM (ch_list_tunnels E sys_chml) (\<lambda>verified.
     let drift = plan_problems '': missing after reconcile'' (last_entry rm_name verified) active plans
     in if drift = [] then returnM ()
        else failM (''ChmlFrp reconcile verification failed: '' @ join ''; '' drift))"

section \<open>Global reconciliation\<close>

definition show_bool :: "bool \<Rightarrow> string" where
  "show_bool b = (if b then ''true'' else ''false'')"

definition job_activity ::
  "'w env \<Rightarrow> string \<Rightarrow> string \<Rightarrow> string \<Rightarrow> string \<Rightarrow> string option \<Rightarrow> string option \<Rightarrow> json \<Rightarrow> ('w, string, unit) act" where
  "job_activity E job kind level message tunnel node details =
     st_activity E (Some job) kind level message tunnel node details"

text \<open>Everything that is checked before the first change: the plans, the DNS side and the node.\<close>

definition reconcile_preflight ::
  "'w env \<Rightarrow> string \<Rightarrow> ('w, string, tunnel_plan list \<times> bool \<times> node_info) act" where
  "reconcile_preflight E active =
     bindM (st_list_tunnels E) (\<lambda>all_plans.
     let plans = filter tp_enabled all_plans in
     thenM (ensureM (plans \<noteq> []) txt_no_enabled_plan)
     (let dns_required = list_ex tp_dns_managed plans in
      bindM (getM (\<lambda>s. cf_configured (sys_cf s))) (\<lambda>cf_conf.
      thenM (ensureM (\<not> dns_required \<or> cf_conf)
        ''reconcile preflight failed: managed DNS exists but Cloudflare is not configured'')
      (thenM (whenM dns_required
         (bindM (context_err ''reconcile preflight: read Cloudflare A records''
                  (cf_list_a_records E sys_cf)) (\<lambda>records.
          liftM (ensure_unique_managed_a_records plans records))))
       (bindM (context_err ''reconcile preflight: read active ChmlFrp node''
                (ch_node_info E sys_chml active)) (\<lambda>node.
        thenM (ensureM (eq_ignore_ascii_case (nd_state node) ''online'')
                 (''active ChmlFrp node is not online: state='' @ nd_state node))
        (thenM (ensureM (\<not> (dns_required \<and> trim (nd_real_ip node) = []))
                  ''active ChmlFrp node has no realIp'')
         (returnM (plans, dns_required, node)))))))))"

text \<open>Each plan in turn: synchronise a tunnel that deviates, create a missing one.\<close>

fun reconcile_tunnels ::
  "'w env \<Rightarrow> string \<Rightarrow> tunnel_plan list \<Rightarrow> remote_tunnel list \<Rightarrow> ('w, string, unit) act" where
  "reconcile_tunnels E active [] remote = returnM ()"
| "reconcile_tunnels E active (plan # plans) remote =
     (case find (\<lambda>t. rm_name t = tp_name plan) remote of
        Some existing \<Rightarrow>
          thenM (whenM (\<not> matches_plan_on_node existing plan active)
                   (context_err (''sync tunnel '' @ tp_name plan @ '' to active node'')
                     (ch_sync_tunnel E sys_chml existing plan active)))
            (reconcile_tunnels E active plans remote)
      | None \<Rightarrow>
          bindM (context_err (''create missing tunnel '' @ tp_name plan)
                   (ch_create_tunnel E sys_chml plan active)) (\<lambda>created.
          reconcile_tunnels E active plans (remote @ [created])))"

definition reconcile_provider ::
  "'w env \<Rightarrow> string \<Rightarrow> tunnel_plan list \<Rightarrow> ('w, string, string) act" where
  "reconcile_provider E active plans =
     bindM (ch_list_tunnels E sys_chml) (\<lambda>remote.
     thenM (reconcile_tunnels E active plans remote)
     (thenM (verify_chmlfrp_desired_state E plans active)
      (bindM (ch_generated_config E sys_chml active (map tp_name plans)) (\<lambda>config.
       thenM (ensureM (\<not> config_has_duplicate_proxy_names config)
                ''ChmlFrp generated config contains duplicate proxy names'')
       (returnM config)))))"

definition readiness_text :: "readiness_error \<Rightarrow> string" where
  "readiness_text e =
     (case e of
        ReadyNode err \<Rightarrow> ''active node FRPC runtime failure: '' @ err
      | ReadyNonNode err \<Rightarrow> ''FRPC configuration/runtime failure: '' @ err
      | ReadyTimeout connected missing \<Rightarrow>
          ''FRPC readiness timeout; connected='' @ show_bool connected @ '', missing='' @ missing)"

definition reconcile_runtime ::
  "'w env \<Rightarrow> string \<Rightarrow> string \<Rightarrow> string list \<Rightarrow> string \<Rightarrow> ('w, string, unit) act" where
  "reconcile_runtime E job active names config =
     bindM (fm_config_matches E config) (\<lambda>config_unchanged.
     bindM (fm_status E) (\<lambda>runtime.
     thenM
       (if config_unchanged \<and> rt_running runtime \<and> rt_connected runtime
        then bindM fm_generation_of (\<lambda>g.
             job_activity E job ''reconcile'' ''info'' txt_restart_skipped None (Some active)
               (JObj [(''generation'', JInt (uint g))]))
        else bindM (st_save_revision E active (x_sha256_hex E config) config) (\<lambda>revision.
             thenM (fm_write_config E config revision)
               (context_err ''restart frpc with ChmlFrp generated config'' (fm_restart E))))
       (map_errM readiness_text (fm_wait_ready E names (millis 20000)))))"

definition reconcile_dns ::
  "'w env \<Rightarrow> tunnel_plan list \<Rightarrow> string \<Rightarrow> ('w, string, unit) act" where
  "reconcile_dns E plans active_ip =
     bindM (cf_list_a_records E sys_cf) (\<lambda>records.
     thenM (liftM (ensure_unique_managed_a_records plans records))
     (forM (filter tp_dns_managed plans) (\<lambda>plan.
        bindM (context_err (''sync Cloudflare A record '' @ tp_domain plan)
                 (cf_upsert_a_record E sys_cf (tp_domain plan) active_ip
                   (last_entry (\<lambda>r. to_ascii_lowercase (dr_name r)) records
                     (to_ascii_lowercase (tp_domain plan))))) (\<lambda>record.
        whenM (tp_record_id plan \<noteq> Some (dr_id record))
          (st_set_record_id E (tp_id plan) (dr_id record))))))"

text \<open>Up to the verified runtime; then DNS, the routing phase and the closing log entry.\<close>

definition reconcile_before_dns ::
  "'w env \<Rightarrow> string \<Rightarrow> string \<Rightarrow> ('w, string, tunnel_plan list \<times> bool \<times> node_info) act" where
  "reconcile_before_dns E job active =
     bindM (reconcile_preflight E active) (\<lambda>(plans, dns_required, node).
     thenM (job_activity E job ''reconcile'' ''info'' txt_reconcile_start None (Some active)
              (JObj [(''tunnels'', JInt (int (length plans)))]))
     (bindM (reconcile_provider E active plans) (\<lambda>config.
      thenM (reconcile_runtime E job active (map tp_name plans) config)
      (returnM (plans, dns_required, node)))))"

definition reconcile_finish ::
  "'w env \<Rightarrow> string \<Rightarrow> string \<Rightarrow> tunnel_plan list \<Rightarrow> bool \<Rightarrow> node_info \<Rightarrow> ('w, string, unit) act" where
  "reconcile_finish E job active plans dns_required node =
     thenM (whenM dns_required (reconcile_dns E plans (nd_real_ip node)))
     (thenM (st_finalize E)
      (job_activity E job ''reconcile'' ''info'' txt_reconcile_done None (Some active)
         (JObj [(''tunnels'', JInt (int (length plans)))])))"

definition reconcile_all :: "'w env \<Rightarrow> string \<Rightarrow> ('w, string, unit) act" where
  "reconcile_all E job =
     bindM (st_routing_state E) (\<lambda>routing.
     case rs_active_node routing of
       None \<Rightarrow> failM txt_no_active_node
     | Some active \<Rightarrow>
         bindM (reconcile_before_dns E job active) (\<lambda>(plans, dns_required, node).
         reconcile_finish E job active plans dns_required node))"

end
