(* ===== verification/Candidates.thy ===== *)
theory Candidates
  imports Domain
begin

text \<open>
  \<open>crates/failover/src/lib.rs\<close>: which nodes a global failover may move to, and in which
  order it tries them.
\<close>

definition eligible :: "node_summary \<Rightarrow> string \<Rightarrow> bool \<Rightarrow> bool" where
  "eligible node active require_web \<longleftrightarrow>
     ns_name node \<noteq> active
     \<and> (\<not> require_web \<or> ns_web_supported node)
     \<and> eq_ignore_ascii_case (ns_state node) ''online''
     \<and> ns_quarantined_until node = None"

fun push_eligible :: "string \<Rightarrow> bool \<Rightarrow> node_summary list \<Rightarrow> node_summary list \<Rightarrow> node_summary list" where
  "push_eligible active require_web out [] = out"
| "push_eligible active require_web out (node # nodes) =
     push_eligible active require_web
       (if eligible node active require_web \<and> \<not> list_ex (\<lambda>n. ns_name n = ns_name node) out
        then out @ [node] else out) nodes"

definition ordered_candidates ::
  "string \<Rightarrow> string option \<Rightarrow> node_summary list \<Rightarrow> bool \<Rightarrow> node_summary list" where
  "ordered_candidates active preferred_standby nodes require_web =
     (let out =
        (case preferred_standby of
           None \<Rightarrow> []
         | Some name \<Rightarrow>
             (case find (\<lambda>node. ns_name node = name \<and> eligible node active require_web) nodes of
                None \<Rightarrow> [] | Some node \<Rightarrow> [node]))
      in push_eligible active require_web out nodes)"

definition choose_target ::
  "string \<Rightarrow> string option \<Rightarrow> node_summary list \<Rightarrow> bool \<Rightarrow> node_summary option" where
  "choose_target active preferred_standby nodes require_web =
     (case ordered_candidates active preferred_standby nodes require_web of
        [] \<Rightarrow> None | n # _ \<Rightarrow> Some n)"

text \<open>A node for the concrete instances below.\<close>

definition example_node :: "string \<Rightarrow> string \<Rightarrow> node_summary" where
  "example_node name state =
     \<lparr>ns_id = 1, ns_name = name, ns_area = [], ns_web_supported = True, ns_state = state,
      ns_real_ip = None, ns_host = None, ns_load1 = None, ns_bandwidth = None,
      ns_quarantined_until = None\<rparr>"

section \<open>Facts about the selection\<close>

lemma push_eligible_prefix: "prefix out (push_eligible a w out nodes)"
  by (induction a w out nodes rule: push_eligible.induct)
    (auto intro: prefix_order.trans split: if_splits dest: append_prefixD)

lemma push_eligible_set:
  "set (push_eligible a w out nodes) \<subseteq> set out \<union> {n \<in> set nodes. eligible n a w}"
proof (induction a w out nodes rule: push_eligible.induct)
  case (2 a w out node nodes)
  show ?case using "2.IH" by (auto split: if_splits)
qed simp

lemma push_eligible_distinct:
  "distinct (map ns_name out) \<Longrightarrow> distinct (map ns_name (push_eligible a w out nodes))"
proof (induction a w out nodes rule: push_eligible.induct)
  case (2 a w out node nodes)
  let ?out = "if eligible node a w \<and> \<not> list_ex (\<lambda>n. ns_name n = ns_name node) out
              then out @ [node] else out"
  have "distinct (map ns_name ?out)"
    using "2.prems" by (auto simp: list_ex_iff)
  from "2.IH" [OF this] show ?case by simp
qed simp

lemma push_eligible_complete:
  "n \<in> set nodes \<Longrightarrow> eligible n a w \<Longrightarrow> ns_name n \<in> ns_name ` set (push_eligible a w out nodes)"
proof (induction a w out nodes rule: push_eligible.induct)
  case (2 a w out node nodes)
  let ?out = "if eligible node a w \<and> \<not> list_ex (\<lambda>n. ns_name n = ns_name node) out
              then out @ [node] else out"
  show ?case
  proof (cases "n = node")
    case True
    with "2.prems" have "ns_name n \<in> ns_name ` set ?out"
      by (auto simp: list_ex_iff intro: rev_image_eqI)
    moreover have "set ?out \<subseteq> set (push_eligible a w ?out nodes)"
      by (rule set_mono_prefix [OF push_eligible_prefix])
    ultimately show ?thesis by auto
  next
    case False
    with 2 show ?thesis by simp
  qed
qed simp

lemma ordered_candidates_member:
  "n \<in> set (ordered_candidates a p nodes w) \<Longrightarrow> n \<in> set nodes \<and> eligible n a w"
  unfolding ordered_candidates_def Let_def
  by (auto dest!: push_eligible_set [THEN subsetD] find_Some_in_set split: option.splits)

lemma ordered_candidates_names:
  "ns_name ` set (ordered_candidates a p nodes w) = ns_name ` {n \<in> set nodes. eligible n a w}"
proof
  show "ns_name ` set (ordered_candidates a p nodes w) \<subseteq> ns_name ` {n \<in> set nodes. eligible n a w}"
    by (auto dest: ordered_candidates_member)
  show "ns_name ` {n \<in> set nodes. eligible n a w} \<subseteq> ns_name ` set (ordered_candidates a p nodes w)"
    unfolding ordered_candidates_def Let_def by (auto intro: push_eligible_complete)
qed

text \<open>
  C20: the candidate list is sound and complete: it names exactly the nodes of the
  provider's list that are not the active node, are online, are not quarantined and
  support web tunnels where these are needed; each name occurs once, and every entry is a
  node of the provider's list that satisfies all of this.
\<close>
theorem candidates_sound_and_complete:
  "ns_name ` set (ordered_candidates active standby nodes require_web)
     = ns_name ` {n \<in> set nodes. eligible n active require_web}
   \<and> distinct (map ns_name (ordered_candidates active standby nodes require_web))
   \<and> set (ordered_candidates active standby nodes require_web)
       \<subseteq> {n \<in> set nodes. ns_name n \<noteq> active \<and> (require_web \<longrightarrow> ns_web_supported n)
                         \<and> eq_ignore_ascii_case (ns_state n) ''online'' \<and> ns_quarantined_until n = None}"
proof -
  have "distinct (map ns_name (ordered_candidates active standby nodes require_web))"
    unfolding ordered_candidates_def Let_def
    by (rule push_eligible_distinct) (auto split: option.splits)
  then show ?thesis
    by (auto simp: ordered_candidates_names eligible_def dest!: ordered_candidates_member)
qed

theorem candidates_sound_and_complete_witness:
  "map ns_name
     (ordered_candidates ''A'' (Some ''C'')
       [example_node ''A'' ''online'', example_node ''B'' ''Online'', example_node ''C'' ''online'',
        example_node ''D'' ''offline''] True) = [''C'', ''B'']
   \<and> distinct (map ns_name (ordered_candidates ''A'' (Some ''C'') [example_node ''A'' ''online''] True))"
proof
  show "map ns_name
     (ordered_candidates ''A'' (Some ''C'')
       [example_node ''A'' ''online'', example_node ''B'' ''Online'', example_node ''C'' ''online'',
        example_node ''D'' ''offline''] True) = [''C'', ''B'']"
    by code_simp
  show "distinct (map ns_name (ordered_candidates ''A'' (Some ''C'') [example_node ''A'' ''online''] True))"
    using candidates_sound_and_complete [of "''A''" "Some ''C''" "[example_node ''A'' ''online'']" True]
    by blast
qed

text \<open>
  C39: the preferred standby comes first whenever it is eligible, and the first candidate
  exists exactly when some node is eligible.
\<close>
theorem eligible_standby_is_first:
  assumes "node \<in> set nodes" "ns_name node = standby" "eligible node active require_web"
  shows "\<exists>target. choose_target active (Some standby) nodes require_web = Some target
           \<and> ns_name target = standby"
proof -
  let ?P = "\<lambda>n. ns_name n = standby \<and> eligible n active require_web"
  from assms have "\<exists>n \<in> set nodes. ?P n" by blast
  then obtain n where n: "find ?P nodes = Some n" by (auto simp: find_Some_ex)
  then have "prefix [n] (ordered_candidates active (Some standby) nodes require_web)"
    by (simp add: ordered_candidates_def push_eligible_prefix)
  with find_Some_in_set [OF n] show ?thesis
    by (auto simp: choose_target_def prefix_def)
qed

theorem eligible_standby_is_first_witness:
  "\<exists>target. choose_target ''A'' (Some ''B'')
     [example_node ''C'' ''online'', example_node ''B'' ''Online''] True = Some target \<and> ns_name target = ''B''"
  by (rule eligible_standby_is_first [of "example_node ''B'' ''Online''"])
    (simp, (simp add: example_node_def), code_simp)

lemma choose_target_None:
  "choose_target a p nodes w = None \<longleftrightarrow> (\<forall>n \<in> set nodes. \<not> eligible n a w)"
proof -
  have "choose_target a p nodes w = None \<longleftrightarrow> ns_name ` set (ordered_candidates a p nodes w) = {}"
    by (auto simp: choose_target_def split: list.splits)
  then show ?thesis by (simp add: ordered_candidates_names) blast
qed

end
