(* ===== verification/Coordinator.thy ===== *)
theory Coordinator
  imports Reconcile Candidates
begin

text \<open>
  \<open>apps/server/src/coordinator.rs\<close>: the global failover. One migration moves all enabled
  plans to a target node: preflight without any change, provider changes with
  compensation, the FRPC runtime, and only then the commit of the new active node and the
  DNS records. Automatic failover quarantines the old node and walks the candidates;
  manual failover restores the original node when it fails.
\<close>

section \<open>Errors\<close>

datatype migration_error = MigTargetNode string | MigOther string

definition migration_text :: "migration_error \<Rightarrow> string" where
  "migration_text e =
     (case e of MigTargetNode m \<Rightarrow> ''target node runtime failure: '' @ m | MigOther m \<Rightarrow> m)"

text \<open>\<open>?\<close> on an \<open>anyhow\<close> result.\<close>

definition otherM :: "('w, string, 'a) act \<Rightarrow> ('w, migration_error, 'a) act" where
  "otherM m = map_errM MigOther m"

definition failover_activity ::
  "'w env \<Rightarrow> string \<Rightarrow> string \<Rightarrow> string \<Rightarrow> string option \<Rightarrow> string option \<Rightarrow> json \<Rightarrow> ('w, string, unit) act" where
  "failover_activity E job level message tunnel node details =
     st_activity E (Some job) ''failover'' level message tunnel node details"

definition managed_records_unique :: "tunnel_plan list \<Rightarrow> dns_record list \<Rightarrow> string + unit" where
  "managed_records_unique plans records =
     (let conflicts = a_record_conflicts plans records
      in if conflicts = [] then Inr ()
         else Inl (''Cloudflare managed A-record conflict: '' @ join '', '' conflicts
           @ ''; failover requires exactly zero or one A record per managed domain''))"

section \<open>Provider changes and their compensation\<close>

fun sync_attempts ::
  "'w env \<Rightarrow> remote_tunnel \<Rightarrow> tunnel_plan \<Rightarrow> string \<Rightarrow> nat \<Rightarrow> ('w, string, unit) act" where
  "sync_attempts E remote plan target 0 = failM ''unknown ChmlFrp sync failure''"
| "sync_attempts E remote plan target (Suc n) =
     bindM (attemptM (ch_sync_tunnel E sys_chml remote plan target)) (\<lambda>r.
     case r of
       Inr _ \<Rightarrow> returnM ()
     | Inl err \<Rightarrow>
         if n = 0 then failM err
         else thenM (sleepM E (millis 1000)) (sync_attempts E remote plan target n))"

definition sync_with_retry ::
  "'w env \<Rightarrow> remote_tunnel \<Rightarrow> tunnel_plan \<Rightarrow> string \<Rightarrow> ('w, string, unit) act" where
  "sync_with_retry E remote plan target = sync_attempts E remote plan target 3"

definition verify_remote_target :: "'w env \<Rightarrow> tunnel_plan list \<Rightarrow> string \<Rightarrow> ('w, string, unit) act" where
  "verify_remote_target E plans target =
     bindM (ch_list_tunnels E sys_chml) (\<lambda>remote.
     let problems = plan_problems '': missing after migration'' (last_entry rm_name remote) target plans
     in if problems = [] then returnM ()
        else failM (''ChmlFrp target verification failed: '' @ join ''; '' problems))"

definition rollback_failures ::
  "'w env \<Rightarrow> (tunnel_plan \<times> remote_tunnel) list \<Rightarrow> ('w, 'e, string list) act" where
  "rollback_failures E changed =
     bindM (mapM (rev changed) (\<lambda>(plan, original).
       bindM (attemptM (sync_with_retry E original plan (rm_node original))) (\<lambda>r.
       returnM (case r of Inr _ \<Rightarrow> [] | Inl err \<Rightarrow> [tp_name plan @ '': '' @ err]))))
     (\<lambda>fs. returnM (concat fs))"

definition rollback_provider ::
  "'w env \<Rightarrow> string \<Rightarrow> (tunnel_plan \<times> remote_tunnel) list \<Rightarrow> ('w, 'e, unit) act" where
  "rollback_provider E job changed =
     (if changed = [] then returnM ()
      else bindM (rollback_failures E changed) (\<lambda>failures.
           ignoreM (st_activity E (Some job) ''failover_rollback''
             (if failures = [] then ''warning'' else ''error'')
             (if failures = [] then txt_rollback_done else txt_rollback_incomplete)
             None None (JObj [(''failures'', JArr (map JStr failures))]))))"

definition restore_previous_frpc :: "'w env \<Rightarrow> string option \<Rightarrow> int option \<Rightarrow> ('w, 'e, unit) act" where
  "restore_previous_frpc E config revision =
     (case config of
        None \<Rightarrow> returnM ()
      | Some text \<Rightarrow>
          bindM (attemptM (fm_restore_config E text revision)) (\<lambda>r.
          case r of Inl _ \<Rightarrow> returnM () | Inr _ \<Rightarrow> ignoreM (fm_restart E)))"

text \<open>What a failure after the restart does before it is reported.\<close>

definition undo_runtime ::
  "'w env \<Rightarrow> string \<Rightarrow> (tunnel_plan \<times> remote_tunnel) list \<Rightarrow> bool \<Rightarrow> string option \<Rightarrow> int option
   \<Rightarrow> ('w, 'e, unit) act" where
  "undo_runtime E job changed restore_previous previous_config previous_revision =
     thenM (rollback_provider E job changed)
       (if restore_previous then restore_previous_frpc E previous_config previous_revision
        else ignoreM (fm_stop E :: ('w, unit, unit) act))"

text \<open>\<open>if let Err(err) = m { undo; return Err(f err) }\<close>\<close>

definition or_undo ::
  "('w, string, 'a) act \<Rightarrow> ('w, migration_error, unit) act \<Rightarrow> (string \<Rightarrow> migration_error)
   \<Rightarrow> ('w, migration_error, 'a) act" where
  "or_undo m undo f =
     bindM (attemptM m) (\<lambda>r.
     case r of Inr x \<Rightarrow> returnM x | Inl err \<Rightarrow> thenM undo (failM (f err)))"

section \<open>One migration\<close>

definition migrate_preflight ::
  "'w env \<Rightarrow> string \<Rightarrow> ('w, migration_error, tunnel_plan list \<times> bool \<times> node_info \<times> remote_tunnel list) act" where
  "migrate_preflight E target =
     bindM (otherM (st_list_tunnels E)) (\<lambda>all_plans.
     let plans = filter tp_enabled all_plans in
     thenM (ensureM (plans \<noteq> []) (MigOther ''no enabled managed tunnels''))
     (let dns_required = list_ex tp_dns_managed plans in
      bindM (getM (\<lambda>s. cf_configured (sys_cf s))) (\<lambda>cf_conf.
      thenM (ensureM (\<not> dns_required \<or> cf_conf) (MigOther
        ''failover preflight failed: managed DNS exists but Cloudflare is not configured''))
      (thenM (otherM (whenM dns_required
         (bindM (context_err ''failover preflight: read Cloudflare A records''
                  (cf_list_a_records E sys_cf)) (\<lambda>records.
          liftM (managed_records_unique plans records)))))
       (bindM (otherM (context_err ''failover preflight: read target ChmlFrp node''
                (ch_node_info E sys_chml target))) (\<lambda>info.
        thenM (ensureM (eq_ignore_ascii_case (nd_state info) ''online'')
                 (MigTargetNode (''target node reports state '' @ nd_state info)))
        (thenM (ensureM (\<not> (dns_required \<and> trim (nd_real_ip info) = []))
                  (MigOther ''failover preflight failed: target ChmlFrp node has no realIp''))
         (bindM (otherM (ch_list_tunnels E sys_chml)) (\<lambda>remote.
          let missing = map tp_name (filter (\<lambda>p. last_entry rm_name remote (tp_name p) = None) plans) in
          thenM (ensureM (missing = [])
                   (MigOther (''failover preflight failed: ChmlFrp tunnels missing ['' @ join '','' missing
                     @ '']; run global reconcile first'')))
          (returnM (plans, dns_required, info, remote)))))))))))"

fun sync_all ::
  "'w env \<Rightarrow> string \<Rightarrow> string \<Rightarrow> (tunnel_plan \<times> remote_tunnel) list \<Rightarrow> (tunnel_plan \<times> remote_tunnel) list
   \<Rightarrow> ('w, migration_error, (tunnel_plan \<times> remote_tunnel) list) act" where
  "sync_all E job target changed [] = returnM changed"
| "sync_all E job target changed ((plan, original) # rest) =
     thenM (or_undo (sync_with_retry E original plan target) (rollback_provider E job changed)
              (\<lambda>_. MigOther (''ChmlFrp partial migration stopped at tunnel '' @ tp_name plan)))
       (sync_all E job target (changed @ [(plan, original)]) rest)"

definition migrate_provider ::
  "'w env \<Rightarrow> string \<Rightarrow> string \<Rightarrow> tunnel_plan list \<Rightarrow> remote_tunnel list
   \<Rightarrow> ('w, migration_error, (tunnel_plan \<times> remote_tunnel) list \<times> string) act" where
  "migrate_provider E job target plans remote =
     bindM (mapM plans (\<lambda>plan.
       case last_entry rm_name remote (tp_name plan) of
         Some original \<Rightarrow> returnM (plan, original)
       | None \<Rightarrow> failM (MigOther (''failover preflight changed unexpectedly: tunnel '' @ tp_name plan
                   @ '' disappeared'')))) (\<lambda>snapshots.
     bindM (sync_all E job target [] snapshots) (\<lambda>changed.
     thenM (or_undo (verify_remote_target E plans target) (rollback_provider E job changed) MigOther)
     (bindM (or_undo (ch_generated_config E sys_chml target (map tp_name plans))
               (rollback_provider E job changed) (\<lambda>_. MigOther ''generate ChmlFrp target config''))
        (\<lambda>config.
      if config_has_duplicate_proxy_names config
      then thenM (rollback_provider E job changed)
             (failM (MigOther ''ChmlFrp generated config contains duplicate proxy names''))
      else returnM (changed, config)))))"

definition after_wait ::
  "'w env \<Rightarrow> string \<Rightarrow> ('w, migration_error, unit) act \<Rightarrow> (readiness_error + unit) \<Rightarrow> ('w, migration_error, unit) act" where
  "after_wait E target undo r =
     (case r of
        Inr _ \<Rightarrow> returnM ()
      | Inl (ReadyNode err) \<Rightarrow> failM (MigTargetNode err)
      | Inl (ReadyTimeout connected missing) \<Rightarrow>
          bindM (attemptM (ch_node_info E sys_chml target)) (\<lambda>q.
          let other = thenM undo (failM (MigOther
                (''FRPC readiness timeout without confirmed node failure; connected=''
                 @ show_bool connected @ '', missing='' @ missing)))
          in case q of
               Inr info \<Rightarrow>
                 if \<not> eq_ignore_ascii_case (nd_state info) ''online''
                 then failM (MigTargetNode (''readiness timeout and node state='' @ nd_state info))
                 else other
             | Inl _ \<Rightarrow> other)
      | Inl (ReadyNonNode err) \<Rightarrow>
          thenM undo (failM (MigOther (''FRPC non-node startup failure: '' @ err))))"

definition migrate_runtime ::
  "'w env \<Rightarrow> string \<Rightarrow> string \<Rightarrow> string list \<Rightarrow> bool \<Rightarrow> (tunnel_plan \<times> remote_tunnel) list \<Rightarrow> string
   \<Rightarrow> ('w, migration_error, unit) act" where
  "migrate_runtime E job target names restore_previous changed config =
     bindM (otherM (fm_read_config E)) (\<lambda>previous_config.
     bindM (fm_status E) (\<lambda>status.
     let undo = undo_runtime E job changed restore_previous previous_config (rt_config_revision status) in
     bindM (otherM (st_save_revision E target (x_sha256_hex E config) config)) (\<lambda>revision.
     thenM (or_undo (fm_write_config E config revision) (rollback_provider E job changed)
              (\<lambda>_. MigOther ''write target FRPC config''))
     (thenM (or_undo (fm_restart E) undo (\<lambda>_. MigOther ''restart FRPC with target config''))
      (bindM fm_generation_of (\<lambda>g.
       thenM (otherM (failover_activity E job ''info'' txt_config_loaded None (Some target)
                (JObj [(''generation'', JInt (uint g)), (''revision'', JInt revision)])))
       (bindM (attemptM (fm_wait_ready E names (millis 20000)))
          (after_wait E target undo))))))))"

definition migrate_dns ::
  "'w env \<Rightarrow> string \<Rightarrow> string \<Rightarrow> string option \<Rightarrow> tunnel_plan list \<Rightarrow> string \<Rightarrow> ('w, string, unit) act" where
  "migrate_dns E job target trigger_tunnel plans ip =
     thenM (failover_activity E job ''info'' txt_dns_update trigger_tunnel (Some target)
              (JObj [(''ip'', JStr ip)]))
     (bindM (cf_list_a_records E sys_cf) (\<lambda>records.
      thenM (liftM (managed_records_unique plans records))
      (forM plans (\<lambda>plan.
        whenM (tp_dns_managed plan)
          (bindM (context_err (''update Cloudflare A record '' @ tp_domain plan)
                   (cf_upsert_a_record E sys_cf (tp_domain plan) ip
                     (last_entry dr_name records (tp_domain plan)))) (\<lambda>record.
           st_set_record_id E (tp_id plan) (dr_id record)))))))"

text \<open>Everything before the commit point, and the commit with the DNS records after it.\<close>

definition migrate_prepare ::
  "'w env \<Rightarrow> string \<Rightarrow> string \<Rightarrow> bool \<Rightarrow> ('w, migration_error, tunnel_plan list \<times> bool \<times> node_info) act" where
  "migrate_prepare E job target restore_previous =
     bindM (migrate_preflight E target) (\<lambda>(plans, dns_required, info, remote).
     thenM (otherM (failover_activity E job ''info'' txt_migrate_start None (Some target)
              (JObj [(''count'', JInt (int (length plans)))])))
     (bindM (migrate_provider E job target plans remote) (\<lambda>(changed, config).
      thenM (migrate_runtime E job target (map tp_name plans) restore_previous changed config)
      (returnM (plans, dns_required, info)))))"

definition migrate_commit ::
  "'w env \<Rightarrow> string \<Rightarrow> string \<Rightarrow> string option \<Rightarrow> string option \<Rightarrow> tunnel_plan list \<Rightarrow> bool \<Rightarrow> node_info
   \<Rightarrow> ('w, string, unit) act" where
  "migrate_commit E job target next_standby trigger_tunnel plans dns_required info =
     thenM (st_promote E target next_standby)
     (thenM (whenM dns_required
        (migrate_dns E job target trigger_tunnel plans (nd_real_ip info)))
      (st_finalize E))"

definition migrate_to ::
  "'w env \<Rightarrow> string \<Rightarrow> string \<Rightarrow> string option \<Rightarrow> string option \<Rightarrow> bool \<Rightarrow> ('w, migration_error, unit) act" where
  "migrate_to E job target next_standby trigger_tunnel restore_previous =
     bindM (migrate_prepare E job target restore_previous) (\<lambda>(plans, dns_required, info).
     otherM (migrate_commit E job target next_standby trigger_tunnel plans dns_required info))"

section \<open>Restoring the original node of a manual failover\<close>

definition recover_manual_original :: "'w env \<Rightarrow> string \<Rightarrow> string \<Rightarrow> ('w, string, unit) act" where
  "recover_manual_original E job old =
     bindM (attemptM (reconcile_all E job)) (\<lambda>r.
     case r of
       Inr _ \<Rightarrow>
         thenM (st_set_phase E Idle)
           (ignoreM (st_activity E (Some job) ''failover_recovery'' ''warning'' txt_manual_recovered None
              (Some old) (JObj [(''manual_failover_recovered'', JBool True)])))
     | Inl recovery_error \<Rightarrow>
         thenM (ignoreM (fm_stop E :: ('w, unit, unit) act))
         (thenM (ignoreM (st_activity E (Some job) ''failover_recovery'' ''critical''
                   txt_manual_recovery_failed None (Some old) (JObj [(''error'', JStr recovery_error)])))
           (failM recovery_error)))"

section \<open>Trying the candidates\<close>

definition stop_ignored :: "'w env \<Rightarrow> ('w, 'e, unit) act" where
  "stop_ignored E = ignoreM (fm_stop E :: ('w, unit, unit) act)"

text \<open>What follows when every candidate failed with a confirmed node fault.\<close>

definition no_candidate_left ::
  "'w env \<Rightarrow> string \<Rightarrow> bool \<Rightarrow> string \<Rightarrow> string option \<Rightarrow> ('w, string, unit) act" where
  "no_candidate_left E job manual old last_error =
     thenM (if manual then recover_manual_original E job old
            else thenM (stop_ignored E)
              (ignoreM (failover_activity E job ''critical'' txt_all_candidates_failed None None
                 (JObj [(''all_candidates_failed'', JBool True)]))))
       (failM (case last_error of None \<Rightarrow> ''all failover candidates failed'' | Some e \<Rightarrow> e))"

text \<open>A migration that failed without blaming the target.\<close>

definition migration_failed ::
  "'w env \<Rightarrow> string \<Rightarrow> bool \<Rightarrow> string \<Rightarrow> string \<Rightarrow> string \<Rightarrow> ('w, string, unit) act" where
  "migration_failed E job manual old target err =
     thenM (failover_activity E job ''error'' txt_migration_failed None (Some target)
              (JObj [(''error'', JStr err)]))
     (bindM (st_routing_state E) (\<lambda>current.
      thenM (whenM (rs_active_node current = Some old \<and> rs_phase current = Failover)
               (if manual then recover_manual_original E job old else stop_ignored E))
        (failM err)))"

text \<open>A candidate whose own node failed: never left running, quarantined.\<close>

definition candidate_failed ::
  "'w env \<Rightarrow> string \<Rightarrow> bool \<Rightarrow> string \<Rightarrow> string option \<Rightarrow> int \<Rightarrow> node_summary \<Rightarrow> bool \<Rightarrow> string
   \<Rightarrow> ('w, string, unit) act" where
  "candidate_failed E job manual old trigger_tunnel days target has_more message =
     thenM (stop_ignored E)
     (thenM (st_quarantine E (ns_name target) (ns_real_ip target) ''FORWARD_RECOVERY_TARGET_FAILED''
               trigger_tunnel days)
      (thenM (failover_activity E job ''error'' txt_candidate_node_fault None (Some (ns_name target))
                (JObj [(''error'', JStr message)]))
        (whenM (manual \<and> has_more)
           (thenM (recover_manual_original E job old) (st_set_phase E Failover)))))"

definition next_standby_of :: "bool \<Rightarrow> string \<Rightarrow> node_summary \<Rightarrow> node_summary list \<Rightarrow> string option" where
  "next_standby_of manual old target rest =
     (if manual then Some old
      else map_option ns_name (find (\<lambda>c. ns_name c \<noteq> ns_name target) rest))"

fun try_candidates ::
  "'w env \<Rightarrow> string \<Rightarrow> bool \<Rightarrow> string \<Rightarrow> string option \<Rightarrow> int \<Rightarrow> nat \<Rightarrow> node_summary list \<Rightarrow> string option
   \<Rightarrow> ('w, string, unit) act" where
  "try_candidates E job manual old trigger_tunnel days idx [] last_error =
     no_candidate_left E job manual old last_error"
| "try_candidates E job manual old trigger_tunnel days idx (target # rest) last_error =
     thenM (failover_activity E job ''info'' txt_candidate_chosen None (Some (ns_name target))
              (JObj [(''attempt'', JInt (int idx + 1)), (''ip'', jopt (ns_real_ip target))]))
     (bindM (attemptM (migrate_to E job (ns_name target) (next_standby_of manual old target rest)
                         trigger_tunnel manual)) (\<lambda>r.
      case r of
        Inr _ \<Rightarrow>
          failover_activity E job ''info'' txt_failover_done None (Some (ns_name target))
            (JObj [(''all_managed_tunnels'', JBool True)])
      | Inl (MigTargetNode message) \<Rightarrow>
          thenM (candidate_failed E job manual old trigger_tunnel days target (rest \<noteq> []) message)
            (try_candidates E job manual old trigger_tunnel days (idx + 1) rest (Some message))
      | Inl (MigOther err) \<Rightarrow> migration_failed E job manual old (ns_name target) err))"

section \<open>The global failover\<close>

definition event_type_debug :: "frpc_event_type \<Rightarrow> string" where
  "event_type_debug t =
     (case t of
        LoginSuccess \<Rightarrow> ''LoginSuccess'' | ProxyAdded \<Rightarrow> ''ProxyAdded'' | ProxyStarted \<Rightarrow> ''ProxyStarted''
      | LocalServiceFailure \<Rightarrow> ''LocalServiceFailure'' | ConfigMismatch \<Rightarrow> ''ConfigMismatch''
      | LocalDuplicateProxy \<Rightarrow> ''LocalDuplicateProxy'' | ServerProxyConflict \<Rightarrow> ''ServerProxyConflict''
      | ServerConnectionFailure \<Rightarrow> ''ServerConnectionFailure'' | AuthFailure \<Rightarrow> ''AuthFailure''
      | NetworkAmbiguous \<Rightarrow> ''NetworkAmbiguous'' | Info \<Rightarrow> ''Info'' | UnknownError \<Rightarrow> ''UnknownError'')"

text \<open>The beginning of a failover: an automatic one quarantines the old node and stops FRPC.\<close>

definition failover_begin ::
  "'w env \<Rightarrow> string \<Rightarrow> frpc_event option \<Rightarrow> string \<Rightarrow> int \<Rightarrow> ('w, string, unit) act" where
  "failover_begin E job trigger old days =
     (case trigger of
        Some event \<Rightarrow>
          (let reason = event_type_debug (ev_type event) in
           bindM (attemptM (ch_node_info E sys_chml old)) (\<lambda>old_info.
           thenM (st_quarantine E old
                    (case old_info of Inl _ \<Rightarrow> None | Inr n \<Rightarrow> Some (nd_real_ip n)) reason
                    (ev_proxy_name event) days)
           (thenM (failover_activity E job ''critical'' txt_node_fault_confirmed (ev_proxy_name event)
                     (Some old) (JObj [(''reason'', JStr reason)]))
             (context_err ''stop FRPC after confirmed active-node failure'' (fm_stop E)))))
      | None \<Rightarrow>
          failover_activity E job ''warning'' txt_manual_failover None (Some old)
            (JObj [(''reason'', JStr ''MANUAL_FAILOVER'')]))"

definition failover_nodes :: "'w env \<Rightarrow> bool \<Rightarrow> ('w, string, node_summary list) act" where
  "failover_nodes E manual =
     bindM (attemptM (ch_list_nodes E sys_chml)) (\<lambda>r.
     case r of
       Inl _ \<Rightarrow> thenM (whenM manual (st_set_phase E Idle)) (failM ''list ChmlFrp failover candidates'')
     | Inr nodes \<Rightarrow>
         mapM nodes (\<lambda>node.
           bindM (st_quarantine_until E (ns_name node)) (\<lambda>q.
           returnM (node\<lparr>ns_quarantined_until := q\<rparr>))))"

definition run_global_failover :: "'w env \<Rightarrow> string \<Rightarrow> frpc_event option \<Rightarrow> ('w, string, unit) act" where
  "run_global_failover E job trigger =
     bindM (st_routing_state E) (\<lambda>routing.
     let manual = (trigger = None);
         trigger_tunnel = (case trigger of None \<Rightarrow> None | Some e \<Rightarrow> ev_proxy_name e);
         days = rs_quarantine_days routing in
     thenM (ensureM (rs_failover_enabled routing \<or> manual) ''automatic failover disabled'')
     (case rs_active_node routing of
        None \<Rightarrow> failM ''no active node configured''
      | Some old \<Rightarrow>
          thenM (st_set_phase E Failover)
          (thenM (failover_begin E job trigger old days)
           (bindM (st_list_tunnels E) (\<lambda>plans.
            let require_web = list_ex (\<lambda>p. tp_enabled p \<and> web_protocol (tp_protocol p)) plans in
            bindM (failover_nodes E manual) (\<lambda>nodes.
            let candidates = ordered_candidates old (rs_standby_node routing) nodes require_web in
            if candidates = []
            then thenM (whenM manual (st_set_phase E Idle)) (failM ''no eligible standby node'')
            else try_candidates E job manual old trigger_tunnel days 0 candidates None))))))"

definition global_failover_locked :: "'w env \<Rightarrow> frpc_event option \<Rightarrow> ('w, string, string) act" where
  "global_failover_locked E trigger =
     bindM fm_generation_of (\<lambda>g.
     thenM (ensureM (trigger = None \<or> ev_generation (the trigger) = g)
              ''stale FRPC failover event ignored'')
     (bindM (callM (x_uuid E)) (\<lambda>job.
      thenM (modifyM (\<lambda>s. s\<lparr>sys_job := Some job\<rparr>))
      (bindM (attemptM (run_global_failover E job trigger)) (\<lambda>r.
       thenM (case r of
                Inr _ \<Rightarrow> returnM ()
              | Inl err \<Rightarrow>
                  thenM (ignoreM (st_mark_failed E))
                    (ignoreM (failover_activity E job ''error'' txt_failover_failed None None
                       (JObj [(''error'', JStr err)]))))
       (thenM (modifyM (\<lambda>s. s\<lparr>sys_job := None\<rparr>))
        (case r of Inr _ \<Rightarrow> returnM job | Inl err \<Rightarrow> failM err)))))))"

end
