(* ===== verification/Coordinator_Laws.thy ===== *)
theory Coordinator_Laws
  imports Coordinator
begin

text \<open>
  What reconciliation and failover guarantee: the order of the layers (DNS last, only after
  the runtime was verified and the new node was committed), which resources are touched,
  and in which state the routing row and FRPC are left on every outcome.
\<close>

section \<open>Frames of the stages\<close>

definition provider_write :: "effect \<Rightarrow> bool" where
  "provider_write e \<longleftrightarrow> (\<exists>r. e = FxHttp r \<and> chmlfrp_write r)"

definition runtime_effect :: "effect \<Rightarrow> bool" where
  "runtime_effect e \<longleftrightarrow> e = FxKill \<or> (\<exists>g. e = FxSpawn g) \<or> (\<exists>names g. e = FxReady names g)"

text \<open>The writes reconciliation and failover may make for the managed records of the plans.\<close>

definition dns_upsert :: "tunnel_plan list \<Rightarrow> string \<Rightarrow> effect \<Rightarrow> bool" where
  "dns_upsert plans ip e \<longleftrightarrow>
     (\<exists>plan c existing. plan \<in> set plans \<and> tp_dns_managed plan
        \<and> (case existing of None \<Rightarrow> True | Some r \<Rightarrow> eq_ignore_ascii_case (dr_name r) (tp_domain plan))
        \<and> e = FxHttp (upsert_request c (tp_domain plan) ip existing))"

lemma provider_write_simps [simp]:
  "provider_write (FxHttp r) = chmlfrp_write r"
  "\<not> provider_write FxKill" "\<not> provider_write (FxSpawn g)" "\<not> provider_write (FxReady n g)"
  "\<not> provider_write (FxPromote a b)"
  by (auto simp: provider_write_def)

lemma runtime_effect_simps [simp]:
  "\<not> runtime_effect (FxHttp r)" "runtime_effect FxKill" "runtime_effect (FxSpawn g)"
  "runtime_effect (FxReady n g)" "\<not> runtime_effect (FxPromote a b)"
  by (auto simp: runtime_effect_def)

context store_frame
begin

lemma job_activity: "obeys R (job_activity E job kind level m tn nn details)"
  unfolding job_activity_def by (rule store_logs)

lemma failover_activity: "obeys R (failover_activity E job level m tn nn details)"
  unfolding failover_activity_def by (rule store_logs)

lemma reconcile_preflight: "obeys R (reconcile_preflight E active)"
  unfolding reconcile_preflight_def Let_def
  by (auto intro!: primitives reading store_reads)

end

context program_frame
begin

lemma reconcile_tunnels:
  assumes "\<And>e. provider_write e \<Longrightarrow> A e"
  shows "obeys R (reconcile_tunnels E active plans remote)"
  by (induction E active plans remote rule: reconcile_tunnels.induct)
    (auto intro!: primitives ch_sync_tunnel ch_create_tunnel assms split: option.splits)

lemma reconcile_provider:
  assumes "\<And>e. provider_write e \<Longrightarrow> A e"
  shows "obeys R (reconcile_provider E active plans)"
  unfolding reconcile_provider_def verify_chmlfrp_desired_state_def Let_def
  by (auto intro!: primitives reading reconcile_tunnels assms)

lemma reconcile_runtime:
  assumes "\<And>e. runtime_effect e \<Longrightarrow> A e"
  shows "obeys R (reconcile_runtime E job active names config)"
  unfolding reconcile_runtime_def fm_generation_of_def
  by (auto intro!: primitives fm_config_matches fm_status job_activity store_logs fm_write_config
      fm_restart fm_wait_ready assms)

lemma reconcile_before_dns:
  assumes "\<And>e. provider_write e \<Longrightarrow> A e" "\<And>e. runtime_effect e \<Longrightarrow> A e"
  shows "obeys R (reconcile_before_dns E job active)"
  unfolding reconcile_before_dns_def
  by (auto intro!: primitives reconcile_preflight job_activity reconcile_provider [OF assms(1)]
      reconcile_runtime [OF assms(2)])

lemma reconcile_dns:
  assumes "\<And>e. dns_upsert plans ip e \<Longrightarrow> A e"
    and "\<And>now tid rid. obeys D (set_cloudflare_record_id now tid rid)"
  shows "obeys R (reconcile_dns E plans ip)"
proof -
  have "A (FxHttp (upsert_request c (tp_domain plan) ip
      (last_entry (\<lambda>r. to_ascii_lowercase (dr_name r)) records (to_ascii_lowercase (tp_domain plan)))))"
    if "plan \<in> set plans" "tp_dns_managed plan" for c plan records
    using that by (intro assms(1), unfold dns_upsert_def, intro exI conjI)
      (auto dest: last_entry_SomeD simp: eq_ignore_ascii_case_def split: option.splits)
  then show ?thesis
    unfolding reconcile_dns_def
    by (auto intro!: primitives reading cf_upsert_a_record store_set_record_id assms(2))
qed

lemma reconcile_finish:
  assumes "\<And>e. dns_upsert plans (nd_real_ip node) e \<Longrightarrow> A e"
    and "\<And>now tid rid. obeys D (set_cloudflare_record_id now tid rid)"
    and "\<And>now. obeys D (set_routing_phase now Idle)"
  shows "obeys R (reconcile_finish E job active plans dns_required node)"
  unfolding reconcile_finish_def
  by (auto intro!: primitives reconcile_dns store_finalize job_activity assms)

lemma other: "obeys R m \<Longrightarrow> obeys R (otherM m)"
  unfolding otherM_def by (rule obeys_map_err)

lemma undo: "obeys R m \<Longrightarrow> obeys R u \<Longrightarrow> obeys R (or_undo m u f)"
  unfolding or_undo_def by (auto intro!: primitives split: sum.splits)

lemma sync_attempts:
  "(\<And>c. A (FxHttp (ChUpdate c (sync_payload (cc_token c) remote plan target)))) \<Longrightarrow>
   obeys R (sync_attempts E remote plan target n)"
  by (induction n) (auto intro!: primitives ch_sync_tunnel split: sum.splits)

lemma sync_with_retry:
  "(\<And>c. A (FxHttp (ChUpdate c (sync_payload (cc_token c) remote plan target)))) \<Longrightarrow>
   obeys R (sync_with_retry E remote plan target)"
  unfolding sync_with_retry_def by (rule sync_attempts)

lemma verify_remote_target: "obeys R (verify_remote_target E plans target)"
  unfolding verify_remote_target_def Let_def by (auto intro!: primitives reading)

lemma rollback_provider:
  assumes "\<And>c p t. (p, t) \<in> set changed \<Longrightarrow>
      A (FxHttp (ChUpdate c (sync_payload (cc_token c) t p (rm_node t))))"
  shows "obeys R (rollback_provider E job changed)"
  unfolding rollback_provider_def rollback_failures_def
  by (auto intro!: primitives sync_with_retry store_logs assms)

lemma restore_previous_frpc:
  assumes "\<And>e. runtime_effect e \<Longrightarrow> A e"
  shows "obeys R (restore_previous_frpc E config revision)"
  unfolding restore_previous_frpc_def
  by (auto intro!: primitives fm_write_config fm_restart assms split: option.splits sum.splits)

lemma undo_runtime:
  assumes "\<And>e. provider_write e \<Longrightarrow> A e" "\<And>e. runtime_effect e \<Longrightarrow> A e"
  shows "obeys R (undo_runtime E job changed restore prev rv)"
  unfolding undo_runtime_def
  by (auto intro!: primitives rollback_provider restore_previous_frpc [OF assms(2)] fm_stop
      intro: assms)

lemma migrate_preflight: "obeys R (migrate_preflight E target)"
  unfolding migrate_preflight_def Let_def
  by (auto intro!: primitives other reading store_reads)

lemma sync_all:
  assumes "\<And>e. provider_write e \<Longrightarrow> A e"
  shows "obeys R (sync_all E job target changed todo)"
  by (induction E job target changed todo rule: sync_all.induct)
    (auto intro!: primitives undo sync_with_retry rollback_provider assms)

lemma migrate_provider:
  assumes "\<And>e. provider_write e \<Longrightarrow> A e"
  shows "obeys R (migrate_provider E job target plans remote)"
  unfolding migrate_provider_def
  by (auto intro!: primitives undo sync_all rollback_provider verify_remote_target reading assms
      split: option.splits)

lemma after_wait: "obeys R u \<Longrightarrow> obeys R (after_wait E target u r)"
  unfolding after_wait_def Let_def
  by (auto intro!: primitives reading split: sum.splits readiness_error.splits)

lemma migrate_runtime:
  assumes "\<And>e. provider_write e \<Longrightarrow> A e" "\<And>e. runtime_effect e \<Longrightarrow> A e"
  shows "obeys R (migrate_runtime E job target names restore changed config)"
  unfolding migrate_runtime_def Let_def fm_generation_of_def
  by (auto intro!: primitives other undo after_wait undo_runtime [OF assms] rollback_provider
      fm_read_config fm_status store_logs fm_write_config fm_restart failover_activity fm_wait_ready
      intro: assms)

lemma migrate_prepare:
  assumes "\<And>e. provider_write e \<Longrightarrow> A e" "\<And>e. runtime_effect e \<Longrightarrow> A e"
  shows "obeys R (migrate_prepare E job target restore)"
  unfolding migrate_prepare_def
  by (auto intro!: primitives other migrate_preflight failover_activity migrate_provider [OF assms(1)]
      migrate_runtime [OF assms])

lemma migrate_dns:
  assumes "\<And>e. dns_upsert plans ip e \<Longrightarrow> A e"
    and "\<And>now tid rid. obeys D (set_cloudflare_record_id now tid rid)"
  shows "obeys R (migrate_dns E job target tt plans ip)"
proof -
  have "A (FxHttp (upsert_request c (tp_domain plan) ip (last_entry dr_name records (tp_domain plan))))"
    if "plan \<in> set plans" "tp_dns_managed plan" for c plan records
    using that by (intro assms(1), unfold dns_upsert_def, intro exI conjI)
      (auto dest: last_entry_SomeD split: option.splits)
  then show ?thesis
    unfolding migrate_dns_def
    by (auto intro!: primitives reading failover_activity cf_upsert_a_record store_set_record_id assms(2))
qed

end

section \<open>Following a run\<close>

definition enabled_plans :: "db_state \<Rightarrow> tunnel_plan list" where
  "enabled_plans d = filter tp_enabled (map row_to_tunnel (sort_key pr_name (db_plans d)))"

lemma dbM_cases:
  assumes "dbM E m s = (r, s')"
  shows "sys_trace s' = sys_trace s
    \<and> (sys_db s' = sys_db s \<or> sys_db s' = snd (m (sys_db s)))
    \<and> (\<forall>x. r = Inr x \<longrightarrow> fst (m (sys_db s)) = Inr x \<and> sys_db s' = snd (m (sys_db s)))"
proof -
  obtain q d where m: "m (sys_db s) = (q, d)" by (metis surj_pair)
  show ?thesis
    using assms
    by (cases q) (auto simp: m dbM_def awaitM_def callM_def effect_simps split: prod.splits sum.splits if_splits)
qed

lemma dbM_Inr:
  "dbM E m s = (Inr x, s') \<Longrightarrow>
   fst (m (sys_db s)) = Inr x \<and> sys_db s' = snd (m (sys_db s)) \<and> sys_trace s' = sys_trace s"
  using dbM_cases by blast

lemma nowM_cases: "nowM E s = (r, s') \<Longrightarrow> (\<exists>t. r = Inr t) \<and> sys_db s' = sys_db s \<and> sys_trace s' = sys_trace s"
  by (auto simp: nowM_def callM_def split: prod.splits)

lemma sql_nowM_cases:
  "sql_nowM E s = (r, s') \<Longrightarrow> (\<exists>t. r = Inr t) \<and> sys_db s' = sys_db s \<and> sys_trace s' = sys_trace s"
  by (auto simp: sql_nowM_def nowM_def callM_def effect_simps split: prod.splits)

lemma st_list_tunnels_Inr:
  "st_list_tunnels E s = (Inr ps, s') \<Longrightarrow>
   filter tp_enabled ps = enabled_plans (sys_db s) \<and> sys_db s' = sys_db s \<and> sys_trace s' = sys_trace s"
  unfolding st_list_tunnels_def
  by (drule dbM_Inr) (simp add: list_tunnels_result enabled_plans_def no_change)

lemma st_routing_state_Inr:
  "st_routing_state E s = (Inr rs, s') \<Longrightarrow>
   routing_state (sys_db s) = (Inr rs, sys_db s) \<and> sys_db s' = sys_db s \<and> sys_trace s' = sys_trace s"
  unfolding st_routing_state_def
  by (drule dbM_Inr) (metis no_change(3) prod.collapse)

lemma grows: "obeys (quiet (reads_or (\<lambda>_. True))) m \<Longrightarrow> m s = (r, s') \<Longrightarrow> \<exists>t. sys_trace s' = sys_trace s @ t"
  by (drule (1) obeys_run) (auto simp: quiet_def)

lemma quiet_run:
  "obeys (quiet A) m \<Longrightarrow> m s = (r, s') \<Longrightarrow> \<exists>t. sys_trace s' = sys_trace s @ t \<and> (\<forall>e \<in> set t. A e)"
  by (drule (1) obeys_run) (auto simp: quiet_def)

text \<open>
  A computation that, when it succeeds, has left an effect in \<open>Q\<close> in the trace: one of its
  steps does, and no step takes anything off the trace.
\<close>

abbreviation growing :: "('w, 'e, 'a) act \<Rightarrow> bool" where
  "growing m \<equiv> obeys (quiet (reads_or (\<lambda>_. True))) m"

definition announces :: "(effect \<Rightarrow> bool) \<Rightarrow> ('w, 'e, 'a) act \<Rightarrow> bool" where
  "announces Q m \<longleftrightarrow>
     (\<forall>s x s'. m s = (Inr x, s') \<longrightarrow> (\<exists>t. sys_trace s' = sys_trace s @ t \<and> (\<exists>e \<in> set t. Q e)))"

lemma announcesD:
  "announces Q m \<Longrightarrow> m s = (Inr x, s') \<Longrightarrow> \<exists>t. sys_trace s' = sys_trace s @ t \<and> (\<exists>e \<in> set t. Q e)"
  by (auto simp: announces_def)

lemma announces_later:
  assumes "growing m" "\<And>x. announces Q (f x)"
  shows "announces Q (bindM m f)"
  unfolding announces_def
proof (intro allI impI)
  fix s y s'
  assume "bindM m f s = (Inr y, s')"
  then obtain x u where run: "m s = (Inr x, u)" "f x u = (Inr y, s')" by (auto simp: Inr_iffs)
  from grows [OF assms(1) run(1)] obtain a where "sys_trace u = sys_trace s @ a" by blast
  moreover from announcesD [OF assms(2) run(2)]
  obtain b where "sys_trace s' = sys_trace u @ b" "\<exists>e \<in> set b. Q e" by blast
  ultimately have "sys_trace s' = sys_trace s @ (a @ b)" "\<exists>e \<in> set (a @ b). Q e" by auto
  then show "\<exists>t. sys_trace s' = sys_trace s @ t \<and> (\<exists>e \<in> set t. Q e)" by blast
qed

lemma announces_first:
  assumes "announces Q m" "\<And>x. growing (f x)"
  shows "announces Q (bindM m f)"
  unfolding announces_def
proof (intro allI impI)
  fix s y s'
  assume "bindM m f s = (Inr y, s')"
  then obtain x u where run: "m s = (Inr x, u)" "f x u = (Inr y, s')" by (auto simp: Inr_iffs)
  from announcesD [OF assms(1) run(1)]
  obtain a where "sys_trace u = sys_trace s @ a" "\<exists>e \<in> set a. Q e" by blast
  moreover from grows [OF assms(2) run(2)] obtain b where "sys_trace s' = sys_trace u @ b" by blast
  ultimately have "sys_trace s' = sys_trace s @ (a @ b)" "\<exists>e \<in> set (a @ b). Q e" by auto
  then show "\<exists>t. sys_trace s' = sys_trace s @ t \<and> (\<exists>e \<in> set t. Q e)" by blast
qed

lemma announces_then_later: "growing m \<Longrightarrow> announces Q k \<Longrightarrow> announces Q (thenM m k)"
  unfolding thenM_def by (rule announces_later)

lemma announces_then_first: "announces Q m \<Longrightarrow> growing k \<Longrightarrow> announces Q (thenM m k)"
  unfolding thenM_def by (rule announces_first)

lemma announces_map_err: "announces Q m \<Longrightarrow> announces Q (map_errM f m)"
  by (auto simp: announces_def Inr_iffs)

lemma announces_emit: "Q e \<Longrightarrow> announces Q (emit e)"
  by (auto simp: announces_def emit_def Inr_iffs)

lemma announces_fail: "announces Q (failM e)"
  by (simp add: announces_def Inr_iffs)

definition ready_for :: "string list \<Rightarrow> effect \<Rightarrow> bool" where
  "ready_for names e \<longleftrightarrow> (\<exists>g. e = FxReady names g)"

lemma any_effect [simp]: "reads_or (\<lambda>_. True) e"
  by (simp add: reads_or_def)

lemma wait_announces: "announces (ready_for names) (fm_wait_ready E names timeout)"
  unfolding fm_wait_ready_def fm_generation_of_def
  by (intro announces_later announces_then_later announces_emit quiet_frame.primitives traced.ready_loop)
    (simp add: ready_for_def)

lemma reconcile_runtime_announces:
  "announces (ready_for names) (reconcile_runtime E job active names config)"
  unfolding reconcile_runtime_def
  by (intro announces_later announces_then_later announces_map_err wait_announces)
    (auto intro!: quiet_frame.primitives traced.fm_config_matches traced.fm_status traced.job_activity
      traced.store_logs traced.fm_write_config traced.fm_restart simp: fm_generation_of_def)

lemma preflight_Inr:
  assumes "reconcile_preflight E active s = (Inr (plans, dns_required, node), s')"
  shows "plans = enabled_plans (sys_db s) \<and> plans \<noteq> [] \<and> dns_required = list_ex tp_dns_managed plans
    \<and> eq_ignore_ascii_case (nd_state node) ''online'' \<and> (dns_required \<longrightarrow> trim (nd_real_ip node) \<noteq> [])"
  using assms unfolding reconcile_preflight_def Let_def
  by (auto simp: Inr_iffs dest!: st_list_tunnels_Inr)

text \<open>Reaching the DNS stage: the runtime was verified for exactly the enabled plans.\<close>

lemma before_dns_Inr:
  assumes "reconcile_before_dns E job active s = (Inr (plans, dns_required, node), s')"
  shows "plans = enabled_plans (sys_db s)
    \<and> (\<exists>t. sys_trace s' = sys_trace s @ t \<and> (\<exists>e \<in> set t. ready_for (map tp_name plans) e))"
proof -
  from assms obtain s1 s2 s3 u config where
    run: "reconcile_preflight E active s = (Inr (plans, dns_required, node), s1)"
      "job_activity E job ''reconcile'' ''info'' txt_reconcile_start None (Some active)
              (JObj [(''tunnels'', JInt (int (length plans)))]) s1 = (Inr u, s2)"
      "reconcile_provider E active plans s2 = (Inr config, s3)"
      "reconcile_runtime E job active (map tp_name plans) config s3 = (Inr (), s')"
    by (auto simp: reconcile_before_dns_def Inr_iffs)
  from grows [OF traced.reconcile_preflight run(1)] grows [OF traced.job_activity run(2)]
    grows [OF traced.reconcile_provider [OF any_effect] run(3)] announcesD [OF reconcile_runtime_announces run(4)]
  obtain t where "sys_trace s' = sys_trace s @ t" "\<exists>e \<in> set t. ready_for (map tp_name plans) e"
    by fastforce
  with preflight_Inr [OF run(1)] show ?thesis by blast
qed

section \<open>DNS comes last in a reconciliation\<close>

lemma reads_or_writes:
  "reads_or (\<lambda>e. provider_write e \<or> runtime_effect e) (FxHttp r) \<Longrightarrow> \<not> cloudflare_write r"
  by (cases r) (auto simp: reads_or_def)

definition cloudflare_effect :: "effect \<Rightarrow> bool" where
  "cloudflare_effect e \<longleftrightarrow> (\<exists>r. e = FxHttp r \<and> cloudflare_write r)"

lemma not_cloudflare:
  "reads_or (\<lambda>e. provider_write e \<or> runtime_effect e) e \<Longrightarrow> \<not> cloudflare_effect e \<and> (\<forall>a b. e \<noteq> FxPromote a b)"
  by (cases e) (auto simp: cloudflare_effect_def reads_or_writes, auto simp: reads_or_def)

text \<open>
  C8: a reconciliation writes DNS last and only for managed plans. Whatever happens, what
  it does splits into a first part with no Cloudflare write and a second part that only
  reads or creates or patches the A record of an enabled DNS-managed plan, at a record of
  that very name or a new one; the second part is empty unless FRPC was verified ready
  for all enabled plans in the first.
\<close>
theorem reconcile_dns_last:
  assumes "reconcile_all E job s = (r, s')"
  shows "\<exists>before after. sys_trace s' = sys_trace s @ before @ after
    \<and> (\<forall>e \<in> set before. \<not> cloudflare_effect e)
    \<and> (\<exists>ip. \<forall>e \<in> set after. harmless e \<or> dns_upsert (enabled_plans (sys_db s)) ip e)
    \<and> (after \<noteq> [] \<longrightarrow> (\<exists>g. FxReady (map tp_name (enabled_plans (sys_db s))) g \<in> set before))"
proof -
  obtain q s1 where r1: "st_routing_state E s = (q, s1)" by (metis surj_pair)
  then have t1: "sys_trace s1 = sys_trace s" and d1: "sys_db s1 = sys_db s"
    using dbM_cases [of E routing_state s q s1] by (auto simp: st_routing_state_def no_change)
  show ?thesis
  proof (cases "\<exists>routing active. q = Inr routing \<and> rs_active_node routing = Some active")
    case False
    then have "s' = s1"
      using assms r1 by (auto simp: reconcile_all_def effect_simps split: sum.splits option.splits)
    with t1 show ?thesis by (intro exI [of _ "[]"]) simp
  next
    case True
    then obtain routing active where q: "q = Inr routing" "rs_active_node routing = Some active" by blast
    obtain p s2 where r2: "reconcile_before_dns E job active s1 = (p, s2)" by (metis surj_pair)
    from quiet_run [OF traced.reconcile_before_dns [where B = "\<lambda>e. provider_write e \<or> runtime_effect e"] r2]
    obtain before where b: "sys_trace s2 = sys_trace s1 @ before" "\<forall>e \<in> set before. \<not> cloudflare_effect e"
      using not_cloudflare by (auto simp: reads_or_def)
    show ?thesis
    proof (cases p)
      case (Inl err)
      then have "s' = s2" using assms r1 q r2 by (auto simp: reconcile_all_def effect_simps)
      with b t1 show ?thesis by (intro exI [of _ before] exI [of _ "[]"]) simp
    next
      case (Inr x)
      then obtain plans dns_required node where x: "p = Inr (plans, dns_required, node)"
        by (cases x) auto
      have fin: "reconcile_finish E job active plans dns_required node s2 = (r, s')"
        using assms r1 q r2 x by (auto simp: reconcile_all_def effect_simps)
      from quiet_run [OF traced.reconcile_finish [where B = "dns_upsert plans (nd_real_ip node)"] fin]
      obtain after where a: "sys_trace s' = sys_trace s2 @ after"
          "\<forall>e \<in> set after. harmless e \<or> dns_upsert plans (nd_real_ip node) e"
        by (auto simp: reads_or_def obeys_def)
      from before_dns_Inr [OF r2 [unfolded x]] b(1)
      have "plans = enabled_plans (sys_db s)" "\<exists>g. FxReady (map tp_name plans) g \<in> set before"
        by (auto simp: d1 ready_for_def)
      with a b t1 show ?thesis by (intro exI [of _ before] exI [of _ after]) auto
    qed
  qed
qed

section \<open>A migration commits before it writes DNS\<close>

lemma after_wait_Inr: "after_wait E target u r s = (Inr y, s') \<Longrightarrow> \<exists>x. r = Inr x \<and> s' = s"
proof (cases r)
  case (Inl e)
  have no: "(case q of Inl a \<Rightarrow> thenM u (failM b) | Inr i \<Rightarrow> if P i then failM (c i) else thenM u (failM b)) t
      \<noteq> (Inr y, s')" for q :: "string + node_info" and b c P t
    by (cases q) (auto simp: Inr_iffs)
  assume "after_wait E target u r s = (Inr y, s')"
  with Inl no show ?thesis
    by (cases e) (auto simp: after_wait_def Let_def Inr_iffs)
qed (auto simp: after_wait_def Inr_iffs)

lemma migrate_runtime_announces:
  "announces (ready_for names) (migrate_runtime E job target names restore changed config)"
proof -
  have last: "announces (ready_for names) (bindM (attemptM (fm_wait_ready E names t)) (after_wait E target u))"
    for t u
    unfolding announces_def
    by (auto simp: Inr_iffs dest!: after_wait_Inr dest: announcesD [OF wait_announces])
  show ?thesis
    unfolding migrate_runtime_def Let_def
    by (intro announces_later announces_then_later last)
      (auto intro!: quiet_frame.primitives traced.other traced.undo traced.undo_runtime
        traced.rollback_provider traced.fm_read_config traced.fm_status traced.store_logs
        traced.fm_write_config traced.fm_restart traced.failover_activity simp: fm_generation_of_def)
qed

lemma migrate_preflight_Inr:
  assumes "migrate_preflight E target s = (Inr (plans, dns_required, info, remote), s')"
  shows "plans = enabled_plans (sys_db s) \<and> plans \<noteq> [] \<and> dns_required = list_ex tp_dns_managed plans
    \<and> eq_ignore_ascii_case (nd_state info) ''online'' \<and> (dns_required \<longrightarrow> trim (nd_real_ip info) \<noteq> [])
    \<and> (\<forall>p \<in> set plans. \<exists>t. last_entry rm_name remote (tp_name p) = Some t)"
proof -
  from assms obtain all t where l: "st_list_tunnels E s = (Inr all, t)" "plans = filter tp_enabled all"
    and rest: "plans \<noteq> []" "dns_required = list_ex tp_dns_managed plans"
      "eq_ignore_ascii_case (nd_state info) ''online''" "dns_required \<longrightarrow> trim (nd_real_ip info) \<noteq> []"
      "filter (\<lambda>p. last_entry rm_name remote (tp_name p) = None) plans = []"
    unfolding migrate_preflight_def Let_def otherM_def by (auto simp: Inr_iffs)
  from st_list_tunnels_Inr [OF l(1)] l(2) have "plans = enabled_plans (sys_db s)" by simp
  with rest show ?thesis by (auto simp: filter_empty_conv)
qed

lemma migrate_prepare_Inr:
  assumes "migrate_prepare E job target restore s = (Inr (plans, dns_required, info), s')"
  shows "plans = enabled_plans (sys_db s) \<and> dns_required = list_ex tp_dns_managed plans
    \<and> (\<exists>t. sys_trace s' = sys_trace s @ t \<and> (\<exists>e \<in> set t. ready_for (map tp_name plans) e))"
proof -
  from assms obtain s1 s2 s3 u remote changed config where
    run: "migrate_preflight E target s = (Inr (plans, dns_required, info, remote), s1)"
      "otherM (failover_activity E job ''info'' txt_migrate_start None (Some target)
              (JObj [(''count'', JInt (int (length plans)))])) s1 = (Inr u, s2)"
      "migrate_provider E job target plans remote s2 = (Inr (changed, config), s3)"
      "migrate_runtime E job target (map tp_name plans) restore changed config s3 = (Inr (), s')"
    by (auto simp: migrate_prepare_def Inr_iffs)
  from grows [OF traced.migrate_preflight run(1)] grows [OF traced.other [OF traced.failover_activity] run(2)]
    grows [OF traced.migrate_provider [OF any_effect] run(3)] announcesD [OF migrate_runtime_announces run(4)]
  obtain t where "sys_trace s' = sys_trace s @ t" "\<exists>e \<in> set t. ready_for (map tp_name plans) e"
    by fastforce
  with migrate_preflight_Inr [OF run(1)] show ?thesis by blast
qed

lemma st_promote_cases:
  assumes "st_promote E a sb s = (r, s')"
  shows "(\<exists>e. r = Inl e) \<and> sys_trace s' = sys_trace s
           \<and> (db_routing (sys_db s') = db_routing (sys_db s)
              \<or> (\<exists>now. sys_db s' = snd (promote_active_node now a sb (sys_db s))))
       \<or> r = Inr () \<and> sys_trace s' = sys_trace s @ [FxPromote a sb]
           \<and> (\<exists>now. sys_db s' = snd (promote_active_node now a sb (sys_db s)))"
proof -
  obtain q s1 where n: "sql_nowM E s = (q :: string + string, s1)" by (metis surj_pair)
  from sql_nowM_cases [OF n] obtain now where q: "q = Inr now" "sys_db s1 = sys_db s" "sys_trace s1 = sys_trace s"
    by blast
  obtain p s2 where d: "dbM E (promote_active_node now a sb) s1 = (p, s2)" by (metis surj_pair)
  from assms n q d have "p = Inr () \<and> r = Inr () \<and> s' = s2\<lparr>sys_trace := sys_trace s2 @ [FxPromote a sb]\<rparr>
      \<or> (\<exists>e. p = Inl e \<and> r = Inl e) \<and> s' = s2"
    by (cases p) (auto simp: st_promote_def effect_simps emit_def)
  with dbM_cases [OF d] q show ?thesis by (cases p) auto
qed

text \<open>
  C2: a migration commits first and writes DNS last. What \<open>migrate_to\<close> does splits into a
  part without any Cloudflare write or promotion, and a part that is empty or starts with
  the promotion of the target and after it only reads or creates or patches the A record
  of an enabled DNS-managed plan, at a record of that very name or a new one. The second
  part is empty unless FRPC was verified ready for all enabled plans in the first.
\<close>
theorem migration_dns_after_commit:
  assumes "migrate_to E job target standby tt restore s = (r, s')"
  shows "\<exists>before after. sys_trace s' = sys_trace s @ before @ after
    \<and> (\<forall>e \<in> set before. \<not> cloudflare_effect e \<and> (\<forall>a b. e \<noteq> FxPromote a b))
    \<and> (after = [] \<or> hd after = FxPromote target standby
         \<and> (\<exists>g. FxReady (map tp_name (enabled_plans (sys_db s))) g \<in> set before)
         \<and> (\<exists>ip. \<forall>e \<in> set (tl after). harmless e \<or> dns_upsert (enabled_plans (sys_db s)) ip e))"
proof -
  obtain p s1 where r1: "migrate_prepare E job target restore s = (p, s1)" by (metis surj_pair)
  have "obeys (quiet (reads_or (\<lambda>e. provider_write e \<or> runtime_effect e))) (migrate_prepare E job target restore)"
    by (rule traced.migrate_prepare) (simp_all add: reads_or_def)
  from quiet_run [OF this r1] obtain before where
    b: "sys_trace s1 = sys_trace s @ before"
      "\<forall>e \<in> set before. \<not> cloudflare_effect e \<and> (\<forall>a b. e \<noteq> FxPromote a b)"
    using not_cloudflare by blast
  show ?thesis
  proof (cases p)
    case (Inl err)
    then have "s' = s1" using assms r1 by (auto simp: migrate_to_def effect_simps)
    with b show ?thesis by (intro exI [of _ before] exI [of _ "[]"]) simp
  next
    case (Inr x)
    then obtain plans dns_required info where x: "p = Inr (plans, dns_required, info)" by (cases x) auto
    from migrate_prepare_Inr [OF r1 [unfolded x]] b(1)
    have plans: "plans = enabled_plans (sys_db s)" "\<exists>g. FxReady (map tp_name plans) g \<in> set before"
      by (auto simp: ready_for_def)
    have "snd (migrate_commit E job target standby tt plans dns_required info s1) = s'"
      using assms r1 x by (auto simp: migrate_to_def otherM_def effect_simps)
    then obtain q where com: "migrate_commit E job target standby tt plans dns_required info s1 = (q, s')"
      by (metis prod.collapse)
    obtain u s2 where pr: "st_promote E target standby s1 = (u, s2)" by (metis surj_pair)
    let ?rest = "thenM (whenM dns_required (migrate_dns E job target tt plans (nd_real_ip info))) (st_finalize E)"
    have rest: "obeys (quiet (reads_or (dns_upsert plans (nd_real_ip info)))) ?rest"
      by (intro quiet_frame.primitives traced.migrate_dns traced.store_finalize)
        (simp_all add: reads_or_def obeys_def)
    from st_promote_cases [OF pr] consider
        (failed) e where "u = Inl e" "sys_trace s2 = sys_trace s1" "s' = s2"
      | (committed) "u = Inr ()" "sys_trace s2 = sys_trace s1 @ [FxPromote target standby]" "?rest s2 = (q, s')"
      using com pr by (auto simp: migrate_commit_def effect_simps)
    then show ?thesis
    proof cases
      case failed
      with b show ?thesis by (intro exI [of _ before] exI [of _ "[]"]) simp
    next
      case committed
      from quiet_run [OF rest committed(3)] obtain t where
        "sys_trace s' = sys_trace s2 @ t" "\<forall>e \<in> set t. harmless e \<or> dns_upsert plans (nd_real_ip info) e"
        by (auto simp: reads_or_def)
      with b plans committed(2) show ?thesis
        by (intro exI [of _ before] exI [of _ "FxPromote target standby # t"]) auto
    qed
  qed
qed

end
