(* ===== verification/Failover_Outcome.thy ===== *)
theory Failover_Outcome
  imports Coordinator_Laws
begin

text \<open>
  In which state the routing row, FRPC and the provider are left: on every outcome of a
  reconciliation, a migration and a global failover.
\<close>

section \<open>Reconciliation and the routing row\<close>

definition idle_or_kept :: "db_state \<Rightarrow> db_state \<Rightarrow> bool" where
  "idle_or_kept d d' \<longleftrightarrow>
     db_routing d' = db_routing d
     \<or> db_phase d' = Some Idle \<and> db_active d' = db_active d \<and> db_revision d' = db_revision d"

lemma same_routing:
  "db_routing d' = db_routing d \<Longrightarrow>
   db_phase d' = db_phase d \<and> db_active d' = db_active d \<and> db_revision d' = db_revision d"
  by (simp add: db_phase_def db_active_def db_revision_def)

lemma idle_or_kept_refl: "idle_or_kept d d"
  by (simp add: idle_or_kept_def)

lemma idle_or_kept_trans: "idle_or_kept d e \<Longrightarrow> idle_or_kept e f \<Longrightarrow> idle_or_kept d f"
  unfolding idle_or_kept_def using same_routing by metis

lemma keeps_idle_or_kept: "obeys (keeps db_routing) m \<Longrightarrow> obeys idle_or_kept m"
  by (simp add: obeys_def keeps_def idle_or_kept_def)

lemma set_idle: "obeys idle_or_kept (set_routing_phase now Idle)"
  using routing.phase_set [of now Idle] routing.active_set [of now Idle] routing.revision_set [of now Idle]
  by (simp add: obeys_def idle_or_kept_def)

interpretation idle: db_order idle_or_kept
  by unfold_locales
    (rule idle_or_kept_refl, erule (1) idle_or_kept_trans, (rule keeps_idle_or_kept, rule routing_kept)+)

context program_frame
begin

lemma reconcile_all:
  assumes "\<And>e. provider_write e \<Longrightarrow> A e" "\<And>e. runtime_effect e \<Longrightarrow> A e"
    and "\<And>plans ip e. dns_upsert plans ip e \<Longrightarrow> A e"
    and "\<And>now tid rid. obeys D (set_cloudflare_record_id now tid rid)"
    and "\<And>now. obeys D (set_routing_phase now Idle)"
  shows "obeys R (reconcile_all E job)"
  unfolding reconcile_all_def
  by (auto intro!: primitives store_reads reconcile_before_dns [OF assms(1,2)]
      reconcile_finish [OF assms(3,4,5)] split: option.splits)

end

lemma idle_reconcile_all: "obeys (\<lambda>s s'. idle_or_kept (sys_db s) (sys_db s')) (reconcile_all E job)"
  by (rule idle.whole.reconcile_all) (auto intro: keeps_idle_or_kept routing_kept set_idle)

lemma st_finalize_Inr:
  assumes "st_finalize E s = (Inr u, s')"
  shows "db_phase (sys_db s') = Some Idle"
proof -
  from assms obtain now s1 where "dbM E (finalize_active_node now) s1 = (Inr u, s')"
    by (auto simp: st_finalize_def Inr_iffs)
  from dbM_Inr [OF this] show ?thesis using routing.phase_set [of now Idle] by (simp add: run_finalize)
qed

text \<open>
  C14: a reconciliation never changes the active node or the routing revision, whatever
  happens in it; when it succeeds the phase is idle, so failed and degraded phases are
  cleared; when it fails, the routing row is as before unless the phase was already set
  to idle at the very end.
\<close>
theorem reconcile_routing_outcome:
  assumes "reconcile_all E job s = (r, s')"
  shows "db_active (sys_db s') = db_active (sys_db s) \<and> db_revision (sys_db s') = db_revision (sys_db s)
    \<and> (if isl r then db_routing (sys_db s') = db_routing (sys_db s) \<or> db_phase (sys_db s') = Some Idle
       else db_phase (sys_db s') = Some Idle)"
proof -
  have kept: "idle_or_kept (sys_db s) (sys_db s')" by (rule obeys_run [OF idle_reconcile_all assms])
  have "db_phase (sys_db s') = Some Idle" if "r = Inr u" for u
  proof -
    from that assms obtain active plans dns_required node s1
      where "reconcile_finish E job active plans dns_required node s1 = (Inr u, s')"
      by (auto simp: reconcile_all_def Inr_iffs split: option.splits)
    then obtain s2 s3 v details where f: "st_finalize E s2 = (Inr v, s3)"
        and a: "job_activity E job ''reconcile'' ''info'' txt_reconcile_done None (Some active) details s3
          = (Inr u, s')"
      by (auto simp: reconcile_finish_def Inr_iffs)
    have "db_routing (sys_db s') = db_routing (sys_db s3)"
      using obeys_run [OF routing_fixed.whole.job_activity a] by (simp add: keeps_def)
    with st_finalize_Inr [OF f] same_routing show ?thesis by metis
  qed
  moreover have "db_active (sys_db s') = db_active (sys_db s) \<and> db_revision (sys_db s') = db_revision (sys_db s)"
    using kept same_routing [of "sys_db s'" "sys_db s"] by (auto simp: idle_or_kept_def)
  ultimately show ?thesis using kept by (cases r) (auto simp: idle_or_kept_def)
qed

section \<open>Migration and the routing row\<close>

text \<open>SQLite without faults of its own.\<close>

definition reliable :: "'w env \<Rightarrow> bool" where
  "reliable E \<longleftrightarrow> (\<forall>w. fst (x_db_fault E w) = NoFault)"

lemma dbM_reliable:
  assumes "reliable E" "dbM E m s = (r, s')"
  shows "r = map_sum (x_db_text E) id (fst (m (sys_db s))) \<and> sys_db s' = snd (m (sys_db s))"
proof -
  obtain q d where m: "m (sys_db s) = (q, d)" by (metis surj_pair)
  have "fst (x_db_fault E w) = NoFault" for w using assms(1) by (simp add: reliable_def)
  then have nf: "x_db_fault E w = (NoFault, snd (x_db_fault E w))" for w by (metis prod.collapse)
  show ?thesis
    using assms(2)
    by (cases q) (auto simp: m dbM_def awaitM_def callM_def effect_simps split: prod.splits sum.splits if_splits
        dest: nf [THEN trans [OF sym]])
qed

lemma routing_kept_run:
  "obeys (\<lambda>s s'. keeps db_routing (sys_db s) (sys_db s')) m \<Longrightarrow> m s = (r, s') \<Longrightarrow>
   db_routing (sys_db s') = db_routing (sys_db s)"
  by (drule (1) obeys_run) (simp add: keeps_def)

lemma migrate_prepare_routing:
  "migrate_prepare E job target restore s = (r, s') \<Longrightarrow> db_routing (sys_db s') = db_routing (sys_db s)"
  by (rule routing_kept_run [OF routing_fixed.whole.migrate_prepare]) simp_all

text \<open>The row right after the promotion of a target.\<close>

definition promoted :: "string \<Rightarrow> db_state \<Rightarrow> db_state \<Rightarrow> bool" where
  "promoted target d d' \<longleftrightarrow> db_active d' = Some target \<and> db_revision d' = db_revision d + 1"

lemma promoted_row:
  "promoted target d (snd (promote_active_node now target sb d))
   \<and> db_phase (snd (promote_active_node now target sb d)) = Some DnsSwitching"
  by (simp add: promoted_def routing.active_promote routing.revision_promote routing.phase_promote)

lemma promoted_same_routing:
  "promoted target d d' \<Longrightarrow> db_routing d'' = db_routing d' \<Longrightarrow> promoted target d d''"
  by (simp add: promoted_def db_active_def db_revision_def)

lemma promoted_finalize: "promoted target d d' \<Longrightarrow> promoted target d (snd (finalize_active_node now d'))"
  using routing.active_set [of now Idle d'] routing.revision_set [of now Idle d']
  by (simp add: promoted_def run_finalize)

lemma st_finalize_cases:
  assumes "st_finalize E s = (r, s')"
  shows "db_routing (sys_db s') = db_routing (sys_db s) \<and> isl r
    \<or> (\<exists>now. sys_db s' = snd (finalize_active_node now (sys_db s)))"
proof -
  obtain q s1 where n: "sql_nowM E s = (q :: string + string, s1)" by (metis surj_pair)
  from sql_nowM_cases [OF n] obtain now where q: "q = Inr now" "sys_db s1 = sys_db s" by blast
  from assms n q have d: "dbM E (finalize_active_node now) s1 = (r, s')"
    by (simp add: st_finalize_def effect_simps)
  from dbM_cases [OF d] q show ?thesis by (cases r) auto
qed

lemma st_finalize_reliable: "reliable E \<Longrightarrow> st_finalize E s = (r, s') \<Longrightarrow> r = Inr ()"
  by (auto simp: st_finalize_def nowM_def sql_nowM_def callM_def effect_simps run_finalize row_simps
      split: prod.splits sum.splits dest!: dbM_reliable)

lemma migrate_commit_routing:
  assumes "migrate_commit E job target sb tt plans dns_required info s = (r, s')"
  shows "isl r \<and> db_routing (sys_db s') = db_routing (sys_db s)
    \<or> promoted target (sys_db s) (sys_db s')
      \<and> (if isl r then db_phase (sys_db s') \<in> {Some DnsSwitching, Some Idle}
             \<and> (reliable E \<longrightarrow> db_phase (sys_db s') = Some DnsSwitching)
         else db_phase (sys_db s') = Some Idle)"
proof -
  obtain u s1 where pr: "st_promote E target sb s = (u, s1)" by (metis surj_pair)
  have row: "promoted target (sys_db s) (sys_db s1) \<and> db_phase (sys_db s1) = Some DnsSwitching"
    if "\<exists>now. sys_db s1 = snd (promote_active_node now target sb (sys_db s))"
    using that promoted_row by auto
  from st_promote_cases [OF pr] consider (failed) e where "u = Inl e" | (committed) "u = Inr ()" by blast
  then show ?thesis
  proof cases
    case failed
    with assms pr have "r = u" "s' = s1" by (auto simp: migrate_commit_def effect_simps)
    with failed st_promote_cases [OF pr] row show ?thesis by auto
  next
    case committed
    let ?dns = "whenM dns_required (migrate_dns E job target tt plans (nd_real_ip info))"
    obtain v s2 where dns: "?dns s1 = (v, s2)" by (metis surj_pair)
    have same: "db_routing (sys_db s2) = db_routing (sys_db s1)"
      by (rule routing_kept_run [OF routing_fixed.whole.obeys_when dns])
        (rule routing_fixed.whole.migrate_dns, simp_all add: routing_kept)
    from committed st_promote_cases [OF pr] row
    have one: "promoted target (sys_db s) (sys_db s1)" "db_phase (sys_db s1) = Some DnsSwitching" by auto
    have two: "promoted target (sys_db s) (sys_db s2)" "db_phase (sys_db s2) = Some DnsSwitching"
      using one promoted_same_routing [OF one(1) same] same_routing [OF same] by auto
    show ?thesis
    proof (cases v)
      case (Inl e)
      with assms pr committed dns have "r = Inl e" "s' = s2" by (auto simp: migrate_commit_def effect_simps)
      with two show ?thesis by simp
    next
      case (Inr w)
      with assms pr committed dns have fin: "st_finalize E s2 = (r, s')"
        by (simp add: migrate_commit_def effect_simps)
      from st_finalize_cases [OF fin] show ?thesis
      proof
        assume "db_routing (sys_db s') = db_routing (sys_db s2) \<and> isl r"
        with two promoted_same_routing [OF two(1), of "sys_db s'"] same_routing [of "sys_db s'" "sys_db s2"]
        show ?thesis by simp
      next
        assume "\<exists>now. sys_db s' = snd (finalize_active_node now (sys_db s2))"
        then show ?thesis
          using promoted_finalize [OF two(1)] routing.phase_set [of _ Idle] st_finalize_reliable [OF _ fin]
          by (auto simp: run_finalize)
      qed
    qed
  qed
qed

lemma migration_outcome:
  assumes "migrate_to E job target sb tt restore s = (r, s')"
  shows "case r of
      Inr _ \<Rightarrow> promoted target (sys_db s) (sys_db s') \<and> db_phase (sys_db s') = Some Idle
    | Inl (MigTargetNode _) \<Rightarrow> db_routing (sys_db s') = db_routing (sys_db s)
    | Inl (MigOther _) \<Rightarrow>
        db_routing (sys_db s') = db_routing (sys_db s)
        \<or> promoted target (sys_db s) (sys_db s')
          \<and> db_phase (sys_db s') \<in> {Some DnsSwitching, Some Idle}
          \<and> (reliable E \<longrightarrow> db_phase (sys_db s') = Some DnsSwitching)"
proof -
  obtain p s1 where prep: "migrate_prepare E job target restore s = (p, s1)" by (metis surj_pair)
  have same: "db_routing (sys_db s1) = db_routing (sys_db s)" by (rule migrate_prepare_routing [OF prep])
  show ?thesis
  proof (cases p)
    case (Inl e)
    with assms prep have "r = Inl e" "s' = s1" by (auto simp: migrate_to_def effect_simps)
    with same show ?thesis by (cases e) auto
  next
    case (Inr x)
    then obtain plans dns_required info where x: "p = Inr (plans, dns_required, info)" by (cases x) auto
    obtain q s2 where com: "migrate_commit E job target sb tt plans dns_required info s1 = (q, s2)"
      by (metis surj_pair)
    with assms prep x have r: "r = map_sum MigOther id q" "s' = s2"
      by (auto simp: migrate_to_def otherM_def effect_simps)
    have "promoted target (sys_db s1) d = promoted target (sys_db s) d" for d
      using same_routing [OF same] by (simp add: promoted_def)
    with migrate_commit_routing [OF com] same r show ?thesis by (cases q) auto
  qed
qed

text \<open>
  C7: the routing row tells exactly how far a migration got. Success: the target is the
  active node, the revision is one higher and the phase is idle. A node fault of the
  target: the routing row is untouched. Any other error: either the row is untouched, or
  the target was already committed with the phase still at DNS switching (or set to idle
  by the last statement); nothing else is possible.
\<close>
theorem migration_routing_outcome:
  assumes "migrate_to E job target sb tt restore s = (r, s')"
  shows "case r of
      Inr _ \<Rightarrow> promoted target (sys_db s) (sys_db s') \<and> db_phase (sys_db s') = Some Idle
    | Inl (MigTargetNode _) \<Rightarrow> db_routing (sys_db s') = db_routing (sys_db s)
    | Inl (MigOther _) \<Rightarrow>
        db_routing (sys_db s') = db_routing (sys_db s)
        \<or> promoted target (sys_db s) (sys_db s')
          \<and> db_phase (sys_db s') \<in> {Some DnsSwitching, Some Idle}
          \<and> (reliable E \<longrightarrow> db_phase (sys_db s') = Some DnsSwitching)"
  using assms by (rule migration_outcome)

section \<open>Everything but a commit keeps the active node\<close>

definition old_kept :: "db_state \<Rightarrow> db_state \<Rightarrow> bool" where
  "old_kept d d' \<longleftrightarrow>
     db_active d' = db_active d \<and> db_revision d' = db_revision d \<and> (db_phase d \<noteq> None \<longrightarrow> db_phase d' \<noteq> None)"

lemma keeps_old_kept: "obeys (keeps db_routing) m \<Longrightarrow> obeys old_kept m"
  unfolding obeys_def keeps_def old_kept_def using same_routing by metis

lemma set_phase_old_kept: "obeys old_kept (set_routing_phase now p)"
  using routing.phase_set [of now p] routing.active_set [of now p] routing.revision_set [of now p]
  by (simp add: obeys_def old_kept_def)

lemma mark_failed_old_kept: "obeys old_kept (mark_routing_failed now)"
  using routing.phase_mark [of now] routing.active_mark [of now] routing.revision_mark [of now]
  by (simp add: obeys_def old_kept_def)

interpretation old: db_order old_kept
  by unfold_locales
    (simp add: old_kept_def, force simp: old_kept_def, (rule keeps_old_kept, rule routing_kept)+)

lemmas old_kept_intros = keeps_old_kept routing_kept set_phase_old_kept mark_failed_old_kept

context program_frame
begin

lemma stop_ignored: "A FxKill \<Longrightarrow> obeys R (stop_ignored E)"
  unfolding stop_ignored_def by (intro primitives fm_stop)

lemma recover_manual_original:
  assumes "\<And>e. provider_write e \<Longrightarrow> A e" "\<And>e. runtime_effect e \<Longrightarrow> A e"
    and "\<And>plans ip e. dns_upsert plans ip e \<Longrightarrow> A e"
    and "\<And>now tid rid. obeys D (set_cloudflare_record_id now tid rid)"
    and "\<And>now. obeys D (set_routing_phase now Idle)"
  shows "obeys R (recover_manual_original E job old)"
  unfolding recover_manual_original_def
  by (auto intro!: primitives reconcile_all [OF assms] store_set_phase store_logs fm_stop assms(2,5)
      split: sum.splits)

lemma no_candidate_left:
  assumes "\<And>e. provider_write e \<Longrightarrow> A e" "\<And>e. runtime_effect e \<Longrightarrow> A e"
    and "\<And>plans ip e. dns_upsert plans ip e \<Longrightarrow> A e"
    and "\<And>now tid rid. obeys D (set_cloudflare_record_id now tid rid)"
    and "\<And>now. obeys D (set_routing_phase now Idle)"
  shows "obeys R (no_candidate_left E job manual old lst)"
  unfolding no_candidate_left_def
  by (auto intro!: primitives recover_manual_original [OF assms] stop_ignored failover_activity assms(2))

lemma migration_failed:
  assumes "\<And>e. provider_write e \<Longrightarrow> A e" "\<And>e. runtime_effect e \<Longrightarrow> A e"
    and "\<And>plans ip e. dns_upsert plans ip e \<Longrightarrow> A e"
    and "\<And>now tid rid. obeys D (set_cloudflare_record_id now tid rid)"
    and "\<And>now. obeys D (set_routing_phase now Idle)"
  shows "obeys R (migration_failed E job manual old target err)"
  unfolding migration_failed_def
  by (auto intro!: primitives recover_manual_original [OF assms] stop_ignored failover_activity store_reads
      assms(2))

lemma candidate_failed:
  assumes "\<And>e. provider_write e \<Longrightarrow> A e" "\<And>e. runtime_effect e \<Longrightarrow> A e"
    and "\<And>plans ip e. dns_upsert plans ip e \<Longrightarrow> A e"
    and "\<And>now tid rid. obeys D (set_cloudflare_record_id now tid rid)"
    and "\<And>now p. obeys D (set_routing_phase now p)"
    and "\<And>f now node ip reason tr d. obeys D (quarantine_node f now node ip reason tr d)"
  shows "obeys R (candidate_failed E job manual old tt days target has_more err)"
  unfolding candidate_failed_def
  by (auto intro!: primitives recover_manual_original [OF assms(1-5)] stop_ignored failover_activity
      store_quarantine store_set_phase assms(2,5,6))

lemma failover_begin:
  assumes "A FxKill" "\<And>f now node ip reason tr d. obeys D (quarantine_node f now node ip reason tr d)"
  shows "obeys R (failover_begin E job trigger old days)"
  unfolding failover_begin_def Let_def
  by (auto intro!: primitives reading store_quarantine failover_activity fm_stop assms split: option.splits)

end

context store_frame
begin

lemma failover_nodes:
  assumes "\<And>now. obeys D (set_routing_phase now Idle)"
  shows "obeys R (failover_nodes E manual)"
  unfolding failover_nodes_def
  by (auto intro!: primitives reading store_set_phase store_reads assms split: sum.splits)

end

section \<open>Trying the candidates\<close>

lemma stop_ignored_run:
  assumes "stop_ignored E s = (r, s')"
  shows "r = Inr () \<and> fm_child (sys_frpc s') = None \<and> sys_db s' = sys_db s"
proof -
  obtain q t where st: "fm_stop E s = (q :: unit + unit, t)" by (metis surj_pair)
  with assms have "r = Inr ()" "s' = t" by (auto simp: stop_ignored_def effect_simps)
  with stop_shape [OF st] show ?thesis by (auto simp: Let_def)
qed

lemma st_activity_reliable:
  "reliable E \<Longrightarrow> st_activity E job kind level m tn nn details s = (r, s') \<Longrightarrow>
   r = Inr () \<and> db_routing (sys_db s') = db_routing (sys_db s)"
  by (auto simp: st_activity_def nowM_def sql_nowM_def callM_def effect_simps activity_def
      split: prod.splits sum.splits dest!: dbM_reliable)

lemma st_set_phase_reliable:
  "reliable E \<Longrightarrow> st_set_phase E p s = (r, s') \<Longrightarrow>
   r = Inr () \<and> (\<exists>now. sys_db s' = snd (set_routing_phase now p (sys_db s)))"
  by (auto simp: st_set_phase_def nowM_def sql_nowM_def callM_def effect_simps row_simps
      split: prod.splits sum.splits dest!: dbM_reliable)

lemma st_quarantine_reliable:
  "reliable E \<Longrightarrow> st_quarantine E node ip reason tr days s = (r, s') \<Longrightarrow>
   r = Inr () \<and> db_routing (sys_db s') = db_routing (sys_db s)"
  by (auto simp: st_quarantine_def nowM_def callM_def effect_simps quarantine_node_def Let_def
      split: prod.splits sum.splits dest!: dbM_reliable)

lemma child_kept_run:
  "obeys (keeps (\<lambda>s. fst (snd (snd (control_fields (sys_frpc s)))))) m \<Longrightarrow> m s = (r, s') \<Longrightarrow>
   fm_child (sys_frpc s') = fm_child (sys_frpc s)"
  by (drule (1) obeys_run) (simp add: keeps_def control_fields_def)

lemma old_run:
  "obeys (\<lambda>s s'. old_kept (sys_db s) (sys_db s')) m \<Longrightarrow> m s = (r, s') \<Longrightarrow> old_kept (sys_db s) (sys_db s')"
  by (rule obeys_run)

lemma no_candidate_left_run:
  assumes "no_candidate_left E job manual old lst s = (r, s')"
  shows "isl r \<and> old_kept (sys_db s) (sys_db s') \<and> (\<not> manual \<longrightarrow> fm_child (sys_frpc s') = None)"
proof (intro conjI impI)
  show "isl r"
    using assms by (auto simp: no_candidate_left_def effect_simps split: prod.splits sum.splits)
  show "old_kept (sys_db s) (sys_db s')"
    by (rule old_run [OF old.whole.no_candidate_left assms]) (simp_all add: old_kept_intros)
  assume "\<not> manual"
  obtain q t where st: "stop_ignored E s = (q :: string + unit, t)" by (metis surj_pair)
  from assms \<open>\<not> manual\<close> st stop_ignored_run [OF st] obtain u where
    a: "failover_activity E job ''critical'' txt_all_candidates_failed None None
        (JObj [(''all_candidates_failed'', JBool True)]) t = (u, s')"
    by (cases "failover_activity E job ''critical'' txt_all_candidates_failed None None
        (JObj [(''all_candidates_failed'', JBool True)]) t") (auto simp: no_candidate_left_def effect_simps)
  from child_kept_run [OF control_kept.failover_activity a] stop_ignored_run [OF st]
  show "fm_child (sys_frpc s') = None" by simp
qed

lemma failover_activity_reliable:
  "reliable E \<Longrightarrow> failover_activity E job level m tn nn details s = (r, s') \<Longrightarrow>
   r = Inr () \<and> db_routing (sys_db s') = db_routing (sys_db s)"
  unfolding failover_activity_def by (rule st_activity_reliable)

lemma st_routing_state_reliable:
  assumes "reliable E" "st_routing_state E s = (r, s')" "db_phase (sys_db s) = Some p"
  shows "\<exists>rs. r = Inr rs \<and> rs_active_node rs = db_active (sys_db s) \<and> rs_phase rs = p
    \<and> rs_failover_enabled rs = (rr_failover_enabled (db_routing (sys_db s)) \<noteq> 0)
    \<and> rs_standby_node rs = rr_standby_node (db_routing (sys_db s)) \<and> sys_db s' = sys_db s"
  using assms(3) dbM_reliable [OF assms(1) assms(2) [unfolded st_routing_state_def]]
  by (auto simp: run_routing_state db_phase_def db_active_def split: sum.splits)

text \<open>A migration error before the commit leaves FRPC stopped when the failover is automatic.\<close>

lemma migration_failed_run:
  assumes "reliable E" "migration_failed E job manual old target err s = (r, s')"
    and "db_phase (sys_db s) \<noteq> None"
  shows "isl r \<and> old_kept (sys_db s) (sys_db s')
    \<and> (\<not> manual \<longrightarrow> db_active (sys_db s) = Some old \<longrightarrow> db_phase (sys_db s) = Some Failover \<longrightarrow>
         fm_child (sys_frpc s') = None)
    \<and> (db_active (sys_db s) \<noteq> Some old \<longrightarrow> db_routing (sys_db s') = db_routing (sys_db s))"
proof -
  obtain q s1 where a: "failover_activity E job ''error'' txt_migration_failed None (Some target)
      (JObj [(''error'', JStr err)]) s = (q, s1)" by (metis surj_pair)
  note act = failover_activity_reliable [OF assms(1) a]
  obtain p where p: "db_phase (sys_db s) = Some p" using assms(3) by blast
  obtain q2 s2 where b: "st_routing_state E s1 = (q2, s2)" by (metis surj_pair)
  from act p have p1: "db_phase (sys_db s1) = Some p" "db_active (sys_db s1) = db_active (sys_db s)"
    by (simp_all add: db_phase_def db_active_def)
  from st_routing_state_reliable [OF assms(1) b p1(1)] p1(2) obtain rs where
    rs: "q2 = Inr rs" "rs_active_node rs = db_active (sys_db s)" "rs_phase rs = p" "sys_db s2 = sys_db s1" by auto
  let ?undo = "whenM (rs_active_node rs = Some old \<and> rs_phase rs = Failover)
      (if manual then recover_manual_original E job old else stop_ignored E)"
  obtain q3 s3 where c: "?undo s2 = (q3, s3)" by (metis surj_pair)
  have fin: "isl r \<and> s' = s3"
    using assms(2) a act b rs(1) c
    by (cases q3) (auto simp: migration_failed_def effect_simps)
  have "old_kept (sys_db s) (sys_db s')"
    by (rule old_run [OF old.whole.migration_failed assms(2)]) (simp_all add: old_kept_intros)
  moreover have "fm_child (sys_frpc s3) = None"
    if "\<not> manual" "db_active (sys_db s) = Some old" "db_phase (sys_db s) = Some Failover"
    using c that rs p stop_ignored_run [of E s2 q3 s3] by (simp add: run_whenM)
  moreover have "db_routing (sys_db s3) = db_routing (sys_db s)" if "db_active (sys_db s) \<noteq> Some old"
    using c that rs act by (simp add: run_whenM)
  ultimately show ?thesis using fin by blast
qed

lemma candidate_failed_run:
  assumes "reliable E" "candidate_failed E job manual old tt days target has_more err s = (r, s')"
  shows "old_kept (sys_db s) (sys_db s')
    \<and> (\<not> isl r \<longrightarrow> db_phase (sys_db s) = Some Failover \<longrightarrow> db_phase (sys_db s') = Some Failover)
    \<and> (\<not> manual \<longrightarrow> \<not> isl r)"
proof -
  have kept: "old_kept (sys_db s) (sys_db s')"
    by (rule old_run [OF old.whole.candidate_failed assms(2)]) (simp_all add: old_kept_intros)
  obtain q s1 where a: "stop_ignored E s = (q :: string + unit, s1)" by (metis surj_pair)
  note st = stop_ignored_run [OF a]
  obtain q2 s2 where b: "st_quarantine E (ns_name target) (ns_real_ip target)
      ''FORWARD_RECOVERY_TARGET_FAILED'' tt days s1 = (q2, s2)" by (metis surj_pair)
  note qu = st_quarantine_reliable [OF assms(1) b]
  obtain q3 s3 where c: "failover_activity E job ''error'' txt_candidate_node_fault None (Some (ns_name target))
      (JObj [(''error'', JStr err)]) s2 = (q3, s3)" by (metis surj_pair)
  note act = failover_activity_reliable [OF assms(1) c]
  have rest: "whenM (manual \<and> has_more) (thenM (recover_manual_original E job old) (st_set_phase E Failover)) s3
      = (r, s')"
    using assms(2) a st b qu c act by (simp add: candidate_failed_def effect_simps)
  show ?thesis
  proof (cases "manual \<and> has_more")
    case False
    with rest have "r = Inr ()" "s' = s3" by (auto simp: run_whenM)
    with st qu act kept show ?thesis by (simp add: db_phase_def)
  next
    case True
    have "db_phase (sys_db s') = Some Failover" if "\<not> isl r"
    proof -
      from that rest True obtain u s4 v where "st_set_phase E Failover s4 = (Inr v, s')"
        by (cases r) (auto simp: run_whenM Inr_iffs)
      from st_set_phase_reliable [OF assms(1) this] show ?thesis
        using routing.phase_set [of _ Failover] by auto
    qed
    with True kept show ?thesis by blast
  qed
qed

lemma promoted_old_kept: "old_kept d d' \<Longrightarrow> promoted t d' d'' \<Longrightarrow> promoted t d d''"
  by (simp add: old_kept_def promoted_def)

lemma old_kept_same_routing: "db_routing d' = db_routing d \<Longrightarrow> old_kept d d'"
  by (drule same_routing) (simp add: old_kept_def)

text \<open>
  The outcome of trying candidates, as one predicate of the states before and after: done
  at one of them, or failed with the old node still active, or failed after one of them
  was committed.
\<close>

definition candidates_outcome ::
  "bool \<Rightarrow> string set \<Rightarrow> (string + unit) \<Rightarrow> 'w sys \<Rightarrow> 'w sys \<Rightarrow> bool" where
  "candidates_outcome manual names r s s' \<longleftrightarrow>
     (if isl r
      then old_kept (sys_db s) (sys_db s') \<and> (\<not> manual \<longrightarrow> fm_child (sys_frpc s') = None)
           \<or> (\<exists>n \<in> names. promoted n (sys_db s) (sys_db s')) \<and> db_phase (sys_db s') = Some DnsSwitching
      else (\<exists>n \<in> names. promoted n (sys_db s) (sys_db s')) \<and> db_phase (sys_db s') = Some Idle)"

lemma candidates_outcome_before:
  "old_kept (sys_db s) (sys_db t) \<Longrightarrow> names \<subseteq> names' \<Longrightarrow> candidates_outcome manual names r t s' \<Longrightarrow>
   candidates_outcome manual names' r s s'"
  unfolding candidates_outcome_def
  by (auto intro: promoted_old_kept old.le_trans split: if_splits)

lemma try_candidates_outcome:
  assumes "reliable E" "try_candidates E job manual old tt days idx cands lst s = (r, s')"
    and "\<forall>c \<in> set cands. ns_name c \<noteq> old"
    and "db_active (sys_db s) = Some old" "db_phase (sys_db s) = Some Failover"
  shows "candidates_outcome manual (ns_name ` set cands) r s s'"
  using assms
proof (induction E job manual old tt days idx cands lst arbitrary: s rule: try_candidates.induct)
  case (1 E job manual old tt days idx lst)
  then show ?case using no_candidate_left_run [of E job manual old lst s r s']
    by (simp add: candidates_outcome_def)
next
  case (2 E job manual old tt days idx target rest lst)
  obtain q s1 where a: "failover_activity E job ''info'' txt_candidate_chosen None (Some (ns_name target))
      (JObj [(''attempt'', JInt (int idx + 1)), (''ip'', jopt (ns_real_ip target))]) s = (q, s1)"
    by (metis surj_pair)
  note act = failover_activity_reliable [OF 2(2) a]
  obtain m s2 where mig: "migrate_to E job (ns_name target) (next_standby_of manual old target rest) tt manual s1
      = (m, s2)" by (metis surj_pair)
  note out = migration_outcome [OF mig]
  from same_routing [OF conjunct2 [OF act]] have at1: "db_active (sys_db s1) = Some old" "db_phase (sys_db s1) = Some Failover"
      "db_revision (sys_db s1) = db_revision (sys_db s)" "old_kept (sys_db s) (sys_db s1)"
    using 2(5,6) by (simp_all add: old_kept_def)
  have at2: "db_active (sys_db s2) = Some old" "db_phase (sys_db s2) = Some Failover" "old_kept (sys_db s) (sys_db s2)"
    if "db_routing (sys_db s2) = db_routing (sys_db s1)"
    using that same_routing [OF that] at1 old_kept_same_routing [OF that] by (auto intro: old.le_trans)
  have prom: "promoted n (sys_db s) d = promoted n (sys_db s1) d" for n d
    using at1(3) by (simp add: promoted_def)
  show ?case
  proof (cases m)
    case (Inr u)
    with 2(3) a act mig have fin: "failover_activity E job ''info'' txt_failover_done None (Some (ns_name target))
        (JObj [(''all_managed_tunnels'', JBool True)]) s2 = (r, s')"
      by (simp add: effect_simps)
    from failover_activity_reliable [OF 2(2) fin]
    have "r = Inr ()" "db_routing (sys_db s') = db_routing (sys_db s2)" by blast+
    with out Inr same_routing [OF this(2)] prom promoted_same_routing [OF _ this(2)]
    show ?thesis by (simp add: candidates_outcome_def)
  next
    case (Inl e)
    show ?thesis
    proof (cases e)
      case (MigTargetNode message)
      with out Inl have same: "db_routing (sys_db s2) = db_routing (sys_db s1)" by simp
      obtain q3 s3 where cf: "candidate_failed E job manual old tt days target (rest \<noteq> []) message s2 = (q3, s3)"
        by (metis surj_pair)
      note cfr = candidate_failed_run [OF 2(2) cf]
      have k3: "old_kept (sys_db s) (sys_db s3)" using at2(3) [OF same] cfr by (blast intro: old.le_trans)
      show ?thesis
      proof (cases q3)
        case (Inl err)
        with 2(3) a act mig \<open>m = Inl e\<close> MigTargetNode cf have "r = Inl err" "s' = s3"
          by (auto simp: effect_simps)
        with k3 cfr Inl show ?thesis by (auto simp: candidates_outcome_def)
      next
        case (Inr u)
        with 2(3) a act mig \<open>m = Inl e\<close> MigTargetNode cf
        have next_run: "try_candidates E job manual old tt days (idx + 1) rest (Some message) s3 = (r, s')"
          by (auto simp: effect_simps)
        have "db_active (sys_db s3) = Some old" "db_phase (sys_db s3) = Some Failover"
          using cfr Inr at2 [OF same] by (auto simp: old_kept_def)
        from 2(1) [OF 2(2) next_run _ this] 2(4)
        have "candidates_outcome manual (ns_name ` set rest) r s3 s'" by simp
        then show ?thesis by (rule candidates_outcome_before [OF k3, rotated]) auto
      qed
    next
      case (MigOther err)
      with 2(3) a act mig Inl have mf: "migration_failed E job manual old (ns_name target) err s2 = (r, s')"
        by (simp add: effect_simps)
      from out Inl MigOther 2(2) consider
          (kept) "db_routing (sys_db s2) = db_routing (sys_db s1)"
        | (committed) "promoted (ns_name target) (sys_db s1) (sys_db s2)" "db_phase (sys_db s2) = Some DnsSwitching"
        by auto
      then show ?thesis
      proof cases
        case kept
        have "db_phase (sys_db s2) \<noteq> None" using at2 [OF kept] by simp
        from migration_failed_run [OF 2(2) mf this] at2 [OF kept]
        show ?thesis by (auto simp: candidates_outcome_def intro: old.le_trans)
      next
        case committed
        then have "db_phase (sys_db s2) \<noteq> None" "db_active (sys_db s2) \<noteq> Some old"
          using 2(4) by (auto simp: promoted_def)
        from migration_failed_run [OF 2(2) mf this(1)] this(2)
        have "isl r" "db_routing (sys_db s') = db_routing (sys_db s2)" by blast+
        with committed same_routing [OF this(2)] prom promoted_same_routing [OF committed(1) this(2)]
        show ?thesis by (simp add: candidates_outcome_def)
      qed
    qed
  qed
qed

section \<open>The global failover\<close>

definition db_enabled :: "db_state \<Rightarrow> bool" where
  "db_enabled d \<longleftrightarrow> rr_failover_enabled (db_routing d) \<noteq> 0"

text \<open>Once the old node is set aside: FRPC stopped when automatic, the row untouched.\<close>

lemma failover_begin_run:
  assumes "reliable E" "failover_begin E job trigger old days s = (r, s')"
  shows "r = Inr () \<and> db_routing (sys_db s') = db_routing (sys_db s)
    \<and> (trigger \<noteq> None \<longrightarrow> fm_child (sys_frpc s') = None)"
proof (cases trigger)
  case None
  with assms(2) failover_activity_reliable [OF assms(1)] show ?thesis
    by (auto simp: failover_begin_def)
next
  case (Some event)
  obtain q s1 where a: "ch_node_info E sys_chml old s = (q, s1)" by (metis surj_pair)
  have same: "sys_db s1 = sys_db s"
    using obeys_run [OF db_kept.ch_node_info [where f = "\<lambda>d. d"] a] by (simp add: keeps_def)
  obtain q2 s2 where b: "st_quarantine E old (case q of Inl _ \<Rightarrow> None | Inr n \<Rightarrow> Some (nd_real_ip n))
      (event_type_debug (ev_type event)) (ev_proxy_name event) days s1 = (q2, s2)" by (metis surj_pair)
  note qu = st_quarantine_reliable [OF assms(1) b]
  obtain q3 s3 where c: "failover_activity E job ''critical'' txt_node_fault_confirmed (ev_proxy_name event)
      (Some old) (JObj [(''reason'', JStr (event_type_debug (ev_type event)))]) s2 = (q3, s3)"
    by (metis surj_pair)
  note act = failover_activity_reliable [OF assms(1) c]
  obtain q4 s4 where d: "(fm_stop E s3) = (q4 :: string + unit, s4)" by (metis surj_pair)
  note st = stop_shape [OF d]
  then have "q4 = Inr ()" by blast
  with assms(2) Some a b qu c act d have "r = Inr ()" "s' = s4"
    by (auto simp: failover_begin_def context_err_def effect_simps Let_def)
  with st act qu same show ?thesis by (auto simp: Let_def)
qed

lemma failover_nodes_run:
  assumes "reliable E" "failover_nodes E manual s = (r, s')"
  shows "old_kept (sys_db s) (sys_db s') \<and> fm_child (sys_frpc s') = fm_child (sys_frpc s)
    \<and> (\<not> isl r \<longrightarrow> db_routing (sys_db s') = db_routing (sys_db s))"
proof (intro conjI impI)
  show "old_kept (sys_db s) (sys_db s')"
    by (rule old_run [OF old.whole.failover_nodes assms(2)]) (simp_all add: old_kept_intros)
  show "fm_child (sys_frpc s') = fm_child (sys_frpc s)"
    by (rule child_kept_run [OF control_kept.failover_nodes assms(2)]) (simp add: obeys_def)
  assume "\<not> isl r"
  then obtain xs where r: "r = Inr xs" by (cases r) auto
  obtain q s1 where a: "ch_list_nodes E sys_chml s = (q, s1)" by (metis surj_pair)
  from assms(2) r a obtain nodes where "q = Inr nodes"
    and b: "mapM nodes (\<lambda>node. bindM (st_quarantine_until E (ns_name node)) (\<lambda>q.
        returnM (node\<lparr>ns_quarantined_until := q\<rparr>))) s1 = (Inr xs, s')"
    by (cases q) (auto simp: failover_nodes_def Inr_iffs)
  have "db_routing (sys_db s1) = db_routing (sys_db s)"
    by (rule routing_kept_run [OF routing_fixed.whole.ch_list_nodes a])
  moreover have "obeys (\<lambda>s s'. keeps db_routing (sys_db s) (sys_db s'))
      (mapM nodes (\<lambda>node. bindM (st_quarantine_until E (ns_name node)) (\<lambda>q.
        returnM (node\<lparr>ns_quarantined_until := q\<rparr>))))"
    by (auto intro!: routing_fixed.whole.obeys_mapM routing_fixed.whole.obeys_bind
        routing_fixed.whole.obeys_return routing_fixed.whole.store_reads)
  note routing_kept_run [OF this b]
  ultimately show "db_routing (sys_db s') = db_routing (sys_db s)" by simp
qed

text \<open>
  The run after the guards: the phase is set to failover, the old node is set aside, and
  the candidates are tried.
\<close>

definition choose_and_try ::
  "'w env \<Rightarrow> string \<Rightarrow> frpc_event option \<Rightarrow> string \<Rightarrow> string option \<Rightarrow> int \<Rightarrow> bool \<Rightarrow> ('w, string, unit) act" where
  "choose_and_try E job trigger old standby days require_web =
     bindM (failover_nodes E (trigger = None)) (\<lambda>nodes.
     let candidates = ordered_candidates old standby nodes require_web in
     if candidates = []
     then thenM (whenM (trigger = None) (st_set_phase E Idle)) (failM ''no eligible standby node'')
     else try_candidates E job (trigger = None) old
            (case trigger of None \<Rightarrow> None | Some e \<Rightarrow> ev_proxy_name e) days 0 candidates None)"

lemma run_reaches_nodes:
  assumes "reliable E"
    and "db_active (sys_db s) = Some old" "db_phase (sys_db s) \<noteq> None"
    and "db_enabled (sys_db s) \<or> trigger = None"
  obtains standby days require_web s4 where
    "run_global_failover E job trigger s = choose_and_try E job trigger old standby days require_web s4"
    "old_kept (sys_db s) (sys_db s4)" "db_phase (sys_db s4) = Some Failover"
    "trigger \<noteq> None \<longrightarrow> fm_child (sys_frpc s4) = None"
proof -
  obtain p where p: "db_phase (sys_db s) = Some p" using assms(3) by blast
  obtain q s1 where a: "st_routing_state E s = (q, s1)" by (metis surj_pair)
  from st_routing_state_reliable [OF assms(1) a p] assms(2,4) obtain rs where
    rs: "q = Inr rs" "rs_active_node rs = Some old" "rs_failover_enabled rs \<or> trigger = None" "sys_db s1 = sys_db s"
    by (auto simp: db_enabled_def)
  obtain q2 s2 where b: "st_set_phase E Failover s1 = (q2, s2)" by (metis surj_pair)
  from st_set_phase_reliable [OF assms(1) b] obtain now where
    ph: "q2 = Inr ()" "sys_db s2 = snd (set_routing_phase now Failover (sys_db s))" using rs(4) by auto
  have k2: "old_kept (sys_db s) (sys_db s2)"
    unfolding ph by (rule obeysD [OF set_phase_old_kept])
  have f2: "db_phase (sys_db s2) = Some Failover" by (simp add: ph routing.phase_set)
  obtain q3 s3 where c: "failover_begin E job trigger old (rs_quarantine_days rs) s2 = (q3, s3)"
    by (metis surj_pair)
  note beg = failover_begin_run [OF assms(1) c]
  obtain q4 s4 where d: "st_list_tunnels E s3 = (q4, s4)" by (metis surj_pair)
  from dbM_reliable [OF assms(1) d [unfolded st_list_tunnels_def]]
  obtain plans where l: "q4 = Inr plans" "sys_db s4 = sys_db s3" by (simp add: list_tunnels_result no_change)
  have child4: "fm_child (sys_frpc s4) = fm_child (sys_frpc s3)"
    by (rule child_kept_run [OF control_kept.store_reads(1) d])
  have same: "db_routing (sys_db s4) = db_routing (sys_db s2)" using beg l(2) by simp
  show thesis
  proof (rule that)
    show "run_global_failover E job trigger s = choose_and_try E job trigger old (rs_standby_node rs)
        (rs_quarantine_days rs) (list_ex (\<lambda>p. tp_enabled p \<and> web_protocol (tp_protocol p)) plans) s4"
      using a rs b ph c beg d l by (simp add: run_global_failover_def choose_and_try_def effect_simps Let_def)
    show "old_kept (sys_db s) (sys_db s4)"
      by (rule old.le_trans [OF k2 old_kept_same_routing [OF same]])
    show "db_phase (sys_db s4) = Some Failover" using same_routing [OF same] f2 by simp
    show "trigger \<noteq> None \<longrightarrow> fm_child (sys_frpc s4) = None" using beg child4 by simp
  qed
qed

lemma choose_and_try_outcome:
  assumes "reliable E" "choose_and_try E job trigger old standby days require_web s = (r, s')"
    and "db_active (sys_db s) = Some old" "db_phase (sys_db s) = Some Failover"
    and "trigger \<noteq> None \<longrightarrow> fm_child (sys_frpc s) = None"
  shows "\<exists>names. old \<notin> names \<and> candidates_outcome (trigger = None) names r s s'"
proof -
  obtain q5 s5 where e: "failover_nodes E (trigger = None) s = (q5, s5)" by (metis surj_pair)
  note nod = failover_nodes_run [OF assms(1) e]
  have k5: "old_kept (sys_db s) (sys_db s5)" and child5: "trigger \<noteq> None \<longrightarrow> fm_child (sys_frpc s5) = None"
    using nod assms(5) by simp_all
  show ?thesis
  proof (cases q5)
    case (Inl err)
    with assms(2) e have "r = Inl err" "s' = s5" by (auto simp: choose_and_try_def effect_simps)
    with k5 child5 have "candidates_outcome (trigger = None) {} r s s'" by (simp add: candidates_outcome_def)
    then show ?thesis by blast
  next
    case (Inr nodes)
    let ?cands = "ordered_candidates old standby nodes require_web"
    show ?thesis
    proof (cases "?cands = []")
      case True
      obtain q6 s6 where w: "whenM (trigger = None) (st_set_phase E Idle) s5 = (q6, s6)" by (metis surj_pair)
      have k6: "old_kept (sys_db s5) (sys_db s6)"
        by (rule old_run [OF old.whole.obeys_when w]) (rule old.whole.store_set_phase, rule set_phase_old_kept)
      have "isl r \<and> s' = s6"
        using assms(2) e Inr True w by (cases q6) (auto simp: choose_and_try_def effect_simps)
      moreover have "trigger \<noteq> None \<longrightarrow> fm_child (sys_frpc s6) = None"
        using w child5 by (auto simp: run_whenM)
      ultimately have "candidates_outcome (trigger = None) {} r s s'"
        using old.le_trans [OF k5 k6] by (simp add: candidates_outcome_def)
      then show ?thesis by blast
    next
      case False
      with assms(2) e Inr have try_run:
        "try_candidates E job (trigger = None) old (case trigger of None \<Rightarrow> None | Some e \<Rightarrow> ev_proxy_name e)
           days 0 ?cands None s5 = (r, s')"
        by (simp add: choose_and_try_def effect_simps Let_def)
      have not_old: "\<forall>c \<in> set ?cands. ns_name c \<noteq> old" by (auto dest: ordered_candidates_member simp: eligible_def)
      from nod Inr have s5: "db_routing (sys_db s5) = db_routing (sys_db s)" by simp
      have act5: "db_active (sys_db s5) = Some old"
        using same_routing [THEN conjunct2, THEN conjunct1, OF s5] assms(3) by (rule trans)
      have ph5: "db_phase (sys_db s5) = Some Failover"
        using same_routing [THEN conjunct1, OF s5] assms(4) by (rule trans)
      define cs where "cs = ?cands"
      have "candidates_outcome (trigger = None) (ns_name ` set cs) r s5 s'"
        using try_candidates_outcome [OF assms(1) try_run not_old act5 ph5] by (simp only: cs_def)
      from candidates_outcome_before [OF k5 subset_refl this]
      have "candidates_outcome (trigger = None) (ns_name ` set cs) r s s'" .
      moreover have "old \<notin> ns_name ` set cs" using not_old by (auto simp: cs_def)
      ultimately show ?thesis by blast
    qed
  qed
qed

lemma run_after_guards:
  assumes "reliable E"
    and "db_active (sys_db s) = Some old" "db_phase (sys_db s) \<noteq> None"
    and "db_enabled (sys_db s) \<or> trigger = None"
    and "run_global_failover E job trigger s = (r, s')"
  shows "\<exists>names. old \<notin> names \<and> candidates_outcome (trigger = None) names r s s'"
proof -
  obtain standby days require_web s4 where
    run: "run_global_failover E job trigger s = choose_and_try E job trigger old standby days require_web s4"
      "old_kept (sys_db s) (sys_db s4)" "db_phase (sys_db s4) = Some Failover"
      "trigger \<noteq> None \<longrightarrow> fm_child (sys_frpc s4) = None"
    by (rule run_reaches_nodes [OF assms(1-4)])
  have "db_active (sys_db s4) = Some old" using run(2) assms(2) by (simp add: old_kept_def)
  from choose_and_try_outcome [OF assms(1) _ this run(3,4)] assms(5) run(1) obtain names where
    "old \<notin> names" "candidates_outcome (trigger = None) names r s4 s'" by metis
  with candidates_outcome_before [OF run(2) subset_refl] show ?thesis by blast
qed

lemma st_mark_failed_reliable:
  "reliable E \<Longrightarrow> st_mark_failed E s = (r, s') \<Longrightarrow>
   (\<exists>now. sys_db s' = snd (mark_routing_failed now (sys_db s)))"
  by (auto simp: st_mark_failed_def nowM_def sql_nowM_def callM_def effect_simps
      split: prod.splits dest!: dbM_reliable)

definition fresh_trigger :: "frpc_event option \<Rightarrow> 'w sys \<Rightarrow> bool" where
  "fresh_trigger trigger s \<longleftrightarrow> trigger = None \<or> ev_generation (the trigger) = fm_generation (sys_frpc s)"

text \<open>What the job does after a failed run: the failure is recorded, nothing else changes.\<close>

definition record_failure :: "'w env \<Rightarrow> string \<Rightarrow> string \<Rightarrow> ('w, string, unit) act" where
  "record_failure E job err =
     thenM (ignoreM (st_mark_failed E))
       (ignoreM (failover_activity E job ''error'' txt_failover_failed None None
          (JObj [(''error'', JStr err)])))"

lemma record_failure_run:
  assumes "reliable E" "record_failure E job err s = (r, s')"
  shows "r = Inr () \<and> db_phase (sys_db s') = map_option failed_phase (db_phase (sys_db s))
    \<and> db_active (sys_db s') = db_active (sys_db s) \<and> db_revision (sys_db s') = db_revision (sys_db s)
    \<and> fm_child (sys_frpc s') = fm_child (sys_frpc s)"
proof -
  obtain q s1 where a: "st_mark_failed E s = (q, s1)" by (metis surj_pair)
  obtain q2 s2 where b: "failover_activity E job ''error'' txt_failover_failed None None
      (JObj [(''error'', JStr err)]) s1 = (q2, s2)" by (metis surj_pair)
  from st_mark_failed_reliable [OF assms(1) a] obtain now where
    m: "sys_db s1 = snd (mark_routing_failed now (sys_db s))" by blast
  have r: "r = Inr ()" "s' = s2" using assms(2) a b by (auto simp: record_failure_def effect_simps)
  have "db_routing (sys_db s') = db_routing (sys_db s1)"
    using failover_activity_reliable [OF assms(1) b] r by simp
  note kept = same_routing [OF this]
  have "fm_child (sys_frpc s1) = fm_child (sys_frpc s)"
    by (rule child_kept_run [OF control_kept.store_mark_failed a]) (simp add: obeys_def)
  moreover have "fm_child (sys_frpc s2) = fm_child (sys_frpc s1)"
    by (rule child_kept_run [OF control_kept.failover_activity b])
  ultimately show ?thesis
    using kept r(1) routing.phase_mark [of now] routing.active_mark [of now] routing.revision_mark [of now]
    by (simp add: m r(2))
qed

text \<open>A fresh failover is the run, the record of its failure, and the end of the job.\<close>

lemma global_failover_run:
  assumes "global_failover_locked E trigger s = (r, s')" "fresh_trigger trigger s"
  obtains job s1 q s2 s3 where
    "sys_db s1 = sys_db s" "run_global_failover E job trigger s1 = (q, s2)"
    "r = map_sum id (\<lambda>_. job) q" "s' = s3\<lparr>sys_job := None\<rparr>"
    "case q of Inr _ \<Rightarrow> s3 = s2 | Inl err \<Rightarrow> record_failure E job err s2 = (Inr (), s3)"
proof -
  obtain job w where u: "x_uuid E (sys_world s) = (job, w)" by (metis surj_pair)
  define s1 where "s1 = s\<lparr>sys_world := w, sys_job := Some job\<rparr>"
  obtain q s2 where g: "run_global_failover E job trigger s1 = (q, s2)" by (metis surj_pair)
  show thesis
  proof (cases q)
    case (Inr x)
    show thesis
      by (rule that [of s1 job q s2 s2])
        (use assms u g Inr in \<open>auto simp: global_failover_locked_def fm_generation_of_def fresh_trigger_def
          callM_def s1_def effect_simps\<close>)
  next
    case (Inl err)
    obtain v s3 where f: "(record_failure E job err s2 :: (string + unit) \<times> _) = (v, s3)" by (metis surj_pair)
    then have v: "v = Inr ()" by (auto simp: record_failure_def effect_simps)
    show thesis
      by (rule that [of s1 job q s2 s3])
        (use assms u g Inl f v in \<open>auto simp: global_failover_locked_def fm_generation_of_def fresh_trigger_def
          callM_def s1_def record_failure_def effect_simps\<close>)
  qed
qed

lemma failover_outcome:
  assumes "reliable E" "global_failover_locked E trigger s = (r, s')" "fresh_trigger trigger s"
    and "db_active (sys_db s) = Some old" "db_phase (sys_db s) \<noteq> None"
    and "db_enabled (sys_db s) \<or> trigger = None"
  shows "sys_job s' = None \<and> (case r of
      Inr job \<Rightarrow> \<exists>n. n \<noteq> old \<and> promoted n (sys_db s) (sys_db s') \<and> db_phase (sys_db s') = Some Idle
    | Inl _ \<Rightarrow>
        db_active (sys_db s') = Some old \<and> db_revision (sys_db s') = db_revision (sys_db s)
          \<and> db_phase (sys_db s') \<in> {Some Idle, Some Failed, Some DegradedDns}
          \<and> (trigger \<noteq> None \<longrightarrow> fm_child (sys_frpc s') = None)
        \<or> (\<exists>n. n \<noteq> old \<and> promoted n (sys_db s) (sys_db s'))
          \<and> db_phase (sys_db s') = Some DegradedDns)"
proof -
  obtain job s1 q s2 s3 where run:
    "sys_db s1 = sys_db s" "run_global_failover E job trigger s1 = (q, s2)"
    "r = map_sum id (\<lambda>_. job) q" "s' = s3\<lparr>sys_job := None\<rparr>"
    "case q of Inr _ \<Rightarrow> s3 = s2 | Inl err \<Rightarrow> record_failure E job err s2 = (Inr (), s3)"
    by (rule global_failover_run [OF assms(2,3)])
  from run_after_guards [OF assms(1) _ _ _ run(2), of old] run(1) assms(4-6) obtain names where
    names: "old \<notin> names" "candidates_outcome (trigger = None) names q s1 s2" by auto
  show ?thesis
  proof (cases q)
    case (Inr u)
    with names run show ?thesis by (auto simp: candidates_outcome_def)
  next
    case (Inl err)
    with run(5) have "record_failure E job err s2 = (Inr (), s3)" by simp
    note rec = record_failure_run [OF assms(1) this]
    from names(2) Inl consider
        (kept) "old_kept (sys_db s1) (sys_db s2)" "trigger \<noteq> None \<longrightarrow> fm_child (sys_frpc s2) = None"
      | (moved) n where "n \<in> names" "promoted n (sys_db s1) (sys_db s2)" "db_phase (sys_db s2) = Some DnsSwitching"
      by (auto simp: candidates_outcome_def)
    then show ?thesis
    proof cases
      case kept
      then obtain p where "db_phase (sys_db s2) = Some p"
        using assms(5) run(1) by (auto simp: old_kept_def)
      then have "db_phase (sys_db s') \<in> {Some Idle, Some Failed, Some DegradedDns}"
        using rec run(4) by (cases p) (simp_all add: failed_phase_def)
      with kept rec run Inl assms(4) show ?thesis by (simp add: old_kept_def)
    next
      case moved
      have "db_phase (sys_db s') = Some DegradedDns"
        using rec moved(3) run(4) by (simp add: failed_phase_def)
      moreover have "promoted n (sys_db s) (sys_db s')"
        using rec moved(2) run(1,4) by (simp add: promoted_def)
      moreover have "n \<noteq> old" using moved(1) names(1) by blast
      ultimately show ?thesis using run Inl by auto
    qed
  qed
qed

text \<open>
  C1: a global failover always settles. When it was started by a current event (or by
  hand), the failover is enabled (or manual) and an active node is set, then whatever the
  providers, FRPC and the network do, the job is no longer marked as running afterwards;
  success means a node other than the old one was promoted, exactly one revision further,
  and the phase is idle; failure means either the old node is still the active one in a
  settled phase, with FRPC stopped if the failover was automatic, or a new node was
  committed and the phase says that only its DNS is degraded.
\<close>
theorem failover_settles:
  assumes "reliable E" "global_failover_locked E trigger s = (r, s')" "fresh_trigger trigger s"
    and "db_active (sys_db s) = Some old" "db_phase (sys_db s) \<noteq> None"
    and "db_enabled (sys_db s) \<or> trigger = None"
  shows "sys_job s' = None \<and> (case r of
      Inr job \<Rightarrow> \<exists>n. n \<noteq> old \<and> promoted n (sys_db s) (sys_db s') \<and> db_phase (sys_db s') = Some Idle
    | Inl _ \<Rightarrow>
        db_active (sys_db s') = Some old \<and> db_revision (sys_db s') = db_revision (sys_db s)
          \<and> db_phase (sys_db s') \<in> {Some Idle, Some Failed, Some DegradedDns}
          \<and> (trigger \<noteq> None \<longrightarrow> fm_child (sys_frpc s') = None)
        \<or> (\<exists>n. n \<noteq> old \<and> promoted n (sys_db s) (sys_db s'))
          \<and> db_phase (sys_db s') = Some DegradedDns)"
  using assms by (rule failover_outcome)

end
