(* ===== verification/Entry_Points.thy ===== *)
theory Entry_Points
  imports Failover_Outcome
begin

text \<open>
  The coordinator's entry points (\<open>apps/server/src/coordinator.rs\<close>: \<open>global_failover\<close>,
  \<open>reconcile\<close>, \<open>apply_provider_settings\<close>, the watcher of FRPC events) and the start of
  the program (\<open>apps/server/src/main.rs\<close>). \<open>busy\<close> says that the coordinator's lock is
  held when an operation tries to take it.
\<close>

section \<open>Operations under the lock\<close>

definition global_failover :: "'w env \<Rightarrow> bool \<Rightarrow> frpc_event option \<Rightarrow> ('w, string, string) act" where
  "global_failover E busy trigger =
     thenM (ensureM (\<not> busy) ''GLOBAL_FAILOVER already running'') (global_failover_locked E trigger)"

definition coordinator_reconcile :: "'w env \<Rightarrow> bool \<Rightarrow> ('w, string, string) act" where
  "coordinator_reconcile E busy =
     thenM (ensureM (\<not> busy) ''global operation already running'')
     (bindM (callM (x_uuid E)) (\<lambda>job.
      thenM (reconcile_all E job) (returnM job)))"

datatype provider_settings_error = ProviderBusy | ProviderOther string

definition provider_error_text :: "provider_settings_error \<Rightarrow> string" where
  "provider_error_text e =
     (case e of ProviderBusy \<Rightarrow> ''global operation already running'' | ProviderOther m \<Rightarrow> m)"

definition reconfigure_chml :: "string \<Rightarrow> string \<Rightarrow> ('w, 'e, unit) act" where
  "reconfigure_chml base token = modifyM (\<lambda>s. s\<lparr>sys_chml := chml_new base token\<rparr>)"

definition reconfigure_cf :: "string \<Rightarrow> string \<Rightarrow> string \<Rightarrow> ('w, 'e, unit) act" where
  "reconfigure_cf base token zone = modifyM (\<lambda>s. s\<lparr>sys_cf := cf_new base token zone\<rparr>)"

definition apply_provider_settings ::
  "'w env \<Rightarrow> bool \<Rightarrow> provider_settings_update \<Rightarrow> ('w, provider_settings_error, provider_settings_view) act" where
  "apply_provider_settings E busy input =
     thenM (ensureM (\<not> busy) ProviderBusy)
     (bindM (map_errM ProviderOther (st_update_providers E input)) (\<lambda>saved.
      thenM (reconfigure_chml (ps_chmlfrp_base_url saved) (ps_chmlfrp_token saved))
      (thenM (reconfigure_cf (ps_cloudflare_api_base saved) (ps_cloudflare_api_token saved)
                (ps_cloudflare_zone_id saved))
       (let view = provider_view saved in
        thenM (map_errM ProviderOther
          (st_activity E None ''provider_settings'' ''info'' txt_provider_saved None None
             (JObj [(''chmlfrp_base_url'', JStr (pv_chmlfrp_base_url view)),
                    (''chmlfrp_token_configured'', JBool (pv_chmlfrp_token_configured view)),
                    (''cloudflare_api_base'', JStr (pv_cloudflare_api_base view)),
                    (''cloudflare_api_token_configured'', JBool (pv_cloudflare_api_token_configured view)),
                    (''cloudflare_zone_id'', JStr (pv_cloudflare_zone_id view))])))
        (returnM view)))))"

section \<open>The watcher of FRPC events\<close>

text \<open>What a received event makes the watcher spawn.\<close>

datatype reaction = QueueFailover frpc_event | ConfirmFault frpc_event | NoReaction

definition watcher_reaction :: "frpc_event \<Rightarrow> reaction" where
  "watcher_reaction event =
     (if ev_triggers_failover event then QueueFailover event
      else if ev_type event = NetworkAmbiguous then ConfirmFault event
      else NoReaction)"

definition queued_global_failover :: "'w env \<Rightarrow> frpc_event \<Rightarrow> ('w, string, unit) act" where
  "queued_global_failover E event =
     bindM fm_generation_of (\<lambda>g.
     if ev_generation event \<noteq> g then returnM ()
     else thenM (global_failover_locked E (Some event)) (returnM ()))"

definition confirmed_fault :: "frpc_event \<Rightarrow> frpc_event" where
  "confirmed_fault event =
     event\<lparr>ev_type := ServerConnectionFailure, ev_fault_domain := FdNode, ev_severity := ''critical'',
           ev_triggers_failover := True\<rparr>"

definition confirm_ambiguous_network_fault ::
  "'w env \<Rightarrow> frpc_event \<Rightarrow> ('w, string, frpc_event option) act" where
  "confirm_ambiguous_network_fault E event =
     bindM fm_generation_of (\<lambda>g.
     if ev_generation event \<noteq> g then returnM None
     else
       bindM (st_routing_state E) (\<lambda>routing.
       case rs_active_node routing of
         None \<Rightarrow> returnM None
       | Some active \<Rightarrow>
           bindM (attemptM (ch_node_info E sys_chml active)) (\<lambda>r.
           case r of
             Inl _ \<Rightarrow> returnM None
           | Inr info \<Rightarrow>
               if \<not> eq_ignore_ascii_case (nd_state info) ''online''
               then thenM (st_activity E None ''frpc_fault'' ''critical'' txt_ambiguous_confirmed
                             (ev_proxy_name event) (Some active)
                             (JObj [(''node_state'', JStr (nd_state info)), (''raw'', JStr (ev_raw event))]))
                      (returnM (Some (confirmed_fault event)))
               else returnM None)))"

section \<open>The start of the program\<close>

definition restore_frpc_if_possible :: "'w env \<Rightarrow> string \<Rightarrow> string \<Rightarrow> ('w, 'e, unit) act" where
  "restore_frpc_if_possible E binary config =
     bindM (callM (x_exists E binary)) (\<lambda>has_binary.
     bindM (callM (x_exists E config)) (\<lambda>has_config.
     if has_binary \<and> has_config then ignoreM (fm_start E) else returnM ()))"

section \<open>Frames\<close>

text \<open>
  The operations of the coordinator in any frame that allows every effect and the changes
  of the database a failover makes.
\<close>

locale coordinator_frame = program_frame R A D F for R :: "'w sys \<Rightarrow> 'w sys \<Rightarrow> bool" and A D F +
  assumes anything: "A e"
    and job: "R s (s\<lparr>sys_job := j\<rparr>)"
    and records: "obeys D (set_cloudflare_record_id now tid rid)"
    and phases: "obeys D (set_routing_phase now p)"
    and promotions: "obeys D (promote_active_node now a sb)"
    and failures: "obeys D (mark_routing_failed now)"
    and quarantines: "obeys D (quarantine_node f t node ip reason tr d)"
begin

lemma set_job: "obeys R (modifyM (\<lambda>s. s\<lparr>sys_job := j\<rparr>))"
  by (rule obeys_modify) (rule job)

lemma whole_reconcile: "obeys R (reconcile_all E job)"
  by (rule reconcile_all) (simp_all add: anything records phases)

lemma migrate_to: "obeys R (migrate_to E job target sb tt restore)"
  unfolding migrate_to_def migrate_commit_def
  by (auto intro!: primitives other migrate_prepare migrate_dns store_promote store_finalize
      simp: anything records phases promotions)

lemma try_candidates: "obeys R (try_candidates E job manual old tt days idx cands lst)"
proof (induction cands arbitrary: idx lst)
  case Nil
  then show ?case by (auto intro!: no_candidate_left simp: anything records phases)
next
  case (Cons target rest)
  then show ?case
    by (auto intro!: primitives failover_activity migrate_to candidate_failed migration_failed
        simp: anything records phases quarantines split: sum.splits migration_error.splits)
qed

lemma run_global_failover: "obeys R (run_global_failover E job trigger)"
  unfolding run_global_failover_def Let_def
  by (auto intro!: primitives store_reads store_set_phase failover_begin failover_nodes try_candidates
      simp: anything phases quarantines split: option.splits)

lemma global_failover_locked: "obeys R (global_failover_locked E trigger)"
  unfolding global_failover_locked_def fm_generation_of_def
  by (auto intro!: primitives set_job run_global_failover store_mark_failed failover_activity
      simp: failures split: sum.splits)

lemma entry_points:
  "obeys R (global_failover E busy trigger)" "obeys R (coordinator_reconcile E busy)"
  "obeys R (queued_global_failover E event)"
  unfolding global_failover_def coordinator_reconcile_def queued_global_failover_def fm_generation_of_def
  by (auto intro!: primitives global_failover_locked whole_reconcile split: if_splits)

end

context store_frame
begin

lemma confirm_fault: "obeys R (confirm_ambiguous_network_fault E event)"
  unfolding confirm_ambiguous_network_fault_def fm_generation_of_def
  by (auto intro!: primitives store_reads store_logs reading split: option.splits sum.splits if_splits)

end

section \<open>What every operation of the coordinator respects\<close>

text \<open>The active node changes only together with the revision, which never decreases.\<close>

definition versioned :: "db_state \<Rightarrow> db_state \<Rightarrow> bool" where
  "versioned d d' \<longleftrightarrow>
     db_revision d \<le> db_revision d' \<and> (db_revision d' = db_revision d \<longrightarrow> db_active d' = db_active d)"

lemma keeps_versioned: "obeys (keeps db_routing) m \<Longrightarrow> obeys versioned m"
  unfolding obeys_def keeps_def versioned_def using same_routing order_refl by metis

lemma versioned_steps:
  "obeys versioned (set_routing_phase now p)" "obeys versioned (mark_routing_failed now)"
  "obeys versioned (promote_active_node now a sb)"
  using routing.active_set routing.revision_set routing.active_mark routing.revision_mark
    routing.revision_promote
  by (simp_all add: obeys_def versioned_def)

lemma versioned_refl: "versioned d d"
  by (simp add: versioned_def)

lemma versioned_trans: "versioned d e \<Longrightarrow> versioned e f \<Longrightarrow> versioned d f"
  unfolding versioned_def by (metis order_antisym order_trans)

interpretation version_kept: coordinator_frame "\<lambda>s s'. versioned (sys_db s) (sys_db s')" "\<lambda>_. True"
    versioned "\<lambda>_ _. True"
proof
  show "versioned (sys_db s) (sys_db t) \<Longrightarrow> versioned (sys_db t) (sys_db u) \<Longrightarrow> versioned (sys_db s) (sys_db u)"
    for s t u :: "'a sys" by (rule versioned_trans)
qed (simp_all add: versioned_refl versioned_steps keeps_versioned routing_kept)

lemma providers_kept:
  "obeys (keeps db_providers) (activity now job kind level m tn nn details)"
  "obeys (keeps db_providers) (save_config_revision node sha config)"
  "obeys (keeps db_providers) (set_cloudflare_record_id now tid rid)"
  "obeys (keeps db_providers) (set_routing_phase now p)"
  "obeys (keeps db_providers) (promote_active_node now a sb)"
  "obeys (keeps db_providers) (mark_routing_failed now)"
  "obeys (keeps db_providers) (quarantine_node f t node ip reason tr d)"
  by (simp_all add: obeys_def keeps_def activity_def save_config_revision_def
      set_cloudflare_record_id_def quarantine_node_def row_simps effect_simps Let_def split: sum.splits)

interpretation clients_kept: coordinator_frame
    "keeps (\<lambda>s. (sys_chml s, sys_cf s, db_providers (sys_db s)))" "\<lambda>_. True" "keeps db_providers" "\<lambda>_ _. True"
  by unfold_locales (simp add: keeps_def | rule providers_kept)+

interpretation consistent_kept: coordinator_frame
    "\<lambda>s s'. consistent_step (sys_frpc s) (sys_frpc s')" "\<lambda>_. True" "\<lambda>_ _. True" consistent_step
  by unfold_locales (simp_all add: obeys_def consistent_step_refl)

section \<open>Faults of FRPC\<close>

text \<open>
  C13: a fault of an FRPC process that has been replaced is ignored. When the generation of
  the event is not the current one, the queued failover returns without an error, the
  direct one with an error, and the confirmation finds nothing, and none of the three
  changes anything.
\<close>
theorem stale_fault_ignored:
  assumes "ev_generation event \<noteq> fm_generation (sys_frpc s)"
  shows "queued_global_failover E event s = (Inr (), s)
    \<and> global_failover_locked E (Some event) s = (Inl ''stale FRPC failover event ignored'', s)
    \<and> confirm_ambiguous_network_fault E event s = (Inr None, s)"
  using assms
  by (simp add: queued_global_failover_def global_failover_locked_def confirm_ambiguous_network_fault_def
      fm_generation_of_def effect_simps)

text \<open>When the confirmation returns an event.\<close>

lemma confirm_Inr:
  assumes "confirm_ambiguous_network_fault E event s = (Inr (Some event'), s')"
  shows "ev_generation event = fm_generation (sys_frpc s) \<and> db_active (sys_db s) \<noteq> None
    \<and> event' = confirmed_fault event"
proof -
  have cases: "\<exists>i. q = Inr i \<and> \<not> P i \<and> f i t = (Inr (Some event'), s')"
    if "(case q of Inl _ \<Rightarrow> returnM None | Inr i \<Rightarrow> if \<not> P i then f i else returnM None) t = (Inr (Some event'), s')"
    for q :: "string + node_info" and P f t
    using that by (cases q) (auto simp: effect_simps split: if_splits)
  from assms obtain rs s1 active where
    cur: "ev_generation event = fm_generation (sys_frpc s)" and
    rs: "st_routing_state E s = (Inr rs, s1)" "rs_active_node rs = Some active" and
    rest: "bindM (attemptM (ch_node_info E sys_chml active)) (\<lambda>r.
           case r of
             Inl _ \<Rightarrow> returnM None
           | Inr info \<Rightarrow>
               if \<not> eq_ignore_ascii_case (nd_state info) ''online''
               then thenM (st_activity E None ''frpc_fault'' ''critical'' txt_ambiguous_confirmed
                             (ev_proxy_name event) (Some active)
                             (JObj [(''node_state'', JStr (nd_state info)), (''raw'', JStr (ev_raw event))]))
                      (returnM (Some (confirmed_fault event)))
               else returnM None) s1 = (Inr (Some event'), s')"
    by (auto simp: confirm_ambiguous_network_fault_def fm_generation_of_def bindM_Inr_iff simple_Inr_iffs
        split: if_splits option.splits)
  from rest have "event' = confirmed_fault event"
    unfolding bindM_Inr_iff by (auto dest!: cases simp: thenM_Inr_iff simple_Inr_iffs)
  moreover have "db_active (sys_db s) \<noteq> None"
    using st_routing_state_Inr [OF rs(1)] rs(2)
    by (auto simp: run_routing_state db_active_def split: sum.splits)
  ultimately show ?thesis using cur by blast
qed


section \<open>Provider settings\<close>

text \<open>The clients use the settings that are stored.\<close>

definition clients_match :: "'w sys \<Rightarrow> bool" where
  "clients_match s \<longleftrightarrow>
     (let p = pv_settings (db_providers (sys_db s)) in
      sys_chml s = chml_new (ps_chmlfrp_base_url p) (ps_chmlfrp_token p)
      \<and> sys_cf s = cf_new (ps_cloudflare_api_base p) (ps_cloudflare_api_token p) (ps_cloudflare_zone_id p))"

lemma clients_match_step:
  "keeps (\<lambda>s. (sys_chml s, sys_cf s, db_providers (sys_db s))) s s' \<Longrightarrow> clients_match s \<Longrightarrow> clients_match s'"
  by (simp add: keeps_def clients_match_def)

lemma st_update_providers_Inr:
  assumes "st_update_providers E input s = (Inr saved, s')"
  shows "saved = pv_settings (db_providers (sys_db s')) \<and> sys_chml s' = sys_chml s \<and> sys_cf s' = sys_cf s
    \<and> sys_trace s' = sys_trace s \<and> db_routing (sys_db s') = db_routing (sys_db s)
    \<and> ps_chmlfrp_token saved = chosen_token (pu_clear_chmlfrp_token input) (pu_chmlfrp_token input)
         (ps_chmlfrp_token (pv_settings (db_providers (sys_db s))))
    \<and> ps_cloudflare_api_token saved = chosen_token (pu_clear_cloudflare_api_token input)
         (pu_cloudflare_api_token input) (ps_cloudflare_api_token (pv_settings (db_providers (sys_db s))))"
  using assms
  by (auto simp: st_update_providers_def sql_nowM_def nowM_def callM_def dbM_def awaitM_def effect_simps
      update_provider_settings_def provider_settings_def write_providers_def
      split: prod.splits sum.splits if_splits)

lemma st_update_providers_routing:
  "st_update_providers E input s = (r, s') \<Longrightarrow> db_routing (sys_db s') = db_routing (sys_db s)
   \<and> (reliable E \<longrightarrow> \<not> isl r)"
proof -
  assume run: "st_update_providers E input s = (r, s')"
  obtain q s1 where n: "sql_nowM E s = (q :: string + string, s1)" by (metis surj_pair)
  from sql_nowM_cases [OF n] obtain now where q: "q = Inr now" "sys_db s1 = sys_db s" by blast
  from run n q have d: "dbM E (update_provider_settings now input) s1 = (r, s')"
    by (simp add: st_update_providers_def effect_simps)
  have "db_routing (snd (update_provider_settings now input d)) = db_routing d
      \<and> \<not> isl (fst (update_provider_settings now input d))" for d
    by (simp add: update_provider_settings_def provider_settings_def write_providers_def effect_simps)
  then have "db_routing (snd (update_provider_settings now input (sys_db s1))) = db_routing (sys_db s)"
      "\<not> isl (fst (update_provider_settings now input (sys_db s1)))" using q by simp_all
  with dbM_cases [OF d] dbM_reliable [OF _ d] q(2) show ?thesis by (metis isl_map_sum)
qed

lemma provider_settings_outcome:
  assumes "apply_provider_settings E busy input s = (r, s')"
  shows "case r of
      Inr view \<Rightarrow>
        \<not> busy \<and> clients_match s' \<and> view = provider_view (pv_settings (db_providers (sys_db s')))
        \<and> cc_token (sys_chml s') = chosen_token (pu_clear_chmlfrp_token input) (pu_chmlfrp_token input)
             (ps_chmlfrp_token (pv_settings (db_providers (sys_db s))))
        \<and> fc_token (sys_cf s') = chosen_token (pu_clear_cloudflare_api_token input)
             (pu_cloudflare_api_token input) (ps_cloudflare_api_token (pv_settings (db_providers (sys_db s))))
        \<and> db_routing (sys_db s') = db_routing (sys_db s)
    | Inl ProviderBusy \<Rightarrow> busy \<and> s' = s
    | Inl (ProviderOther _) \<Rightarrow> \<not> busy \<and> \<not> reliable E \<and> db_routing (sys_db s') = db_routing (sys_db s)"
proof (cases busy)
  case True
  with assms show ?thesis by (auto simp: apply_provider_settings_def effect_simps)
next
  case False
  obtain q s1 where u: "st_update_providers E input s = (q, s1)" by (metis surj_pair)
  note same = st_update_providers_routing [OF u]
  show ?thesis
  proof (cases q)
    case (Inl e)
    with assms False u same show ?thesis by (auto simp: apply_provider_settings_def effect_simps)
  next
    case (Inr saved)
    note saved = st_update_providers_Inr [OF u [unfolded Inr]]
    define s2 where "s2 = s1\<lparr>sys_chml := chml_new (ps_chmlfrp_base_url saved) (ps_chmlfrp_token saved),
      sys_cf := cf_new (ps_cloudflare_api_base saved) (ps_cloudflare_api_token saved)
        (ps_cloudflare_zone_id saved)\<rparr>"
    let ?log = "st_activity E None ''provider_settings'' ''info'' txt_provider_saved None None
             (JObj [(''chmlfrp_base_url'', JStr (pv_chmlfrp_base_url (provider_view saved))),
                    (''chmlfrp_token_configured'', JBool (pv_chmlfrp_token_configured (provider_view saved))),
                    (''cloudflare_api_base'', JStr (pv_cloudflare_api_base (provider_view saved))),
                    (''cloudflare_api_token_configured'', JBool (pv_cloudflare_api_token_configured (provider_view saved))),
                    (''cloudflare_zone_id'', JStr (pv_cloudflare_zone_id (provider_view saved)))])"
    obtain v s3 where log: "?log s2 = (v, s3)" by (metis surj_pair)
    have r: "r = map_sum ProviderOther (\<lambda>_. provider_view saved) v" "s' = s3"
      using assms False u Inr log
      by (cases v; simp add: apply_provider_settings_def effect_simps reconfigure_chml_def reconfigure_cf_def
          Let_def s2_def)+
    have kept: "keeps (\<lambda>s. (sys_chml s, sys_cf s, db_providers (sys_db s))) s2 s3"
      by (rule obeys_run [OF clients_kept.store_logs(1) log])
    have match: "clients_match s2" using saved by (simp add: clients_match_def s2_def Let_def)
    have routing: "db_routing (sys_db s3) = db_routing (sys_db s)"
      using routing_kept_run [OF routing_fixed.whole.store_logs(1) log] saved by (simp add: s2_def)
    show ?thesis
    proof (cases v)
      case (Inl e)
      with r False routing st_activity_reliable [OF _ log] show ?thesis by auto
    next
      case (Inr w)
      with r False routing clients_match_step [OF kept match] kept saved show ?thesis
        by (auto simp: keeps_def s2_def chml_new_def cf_new_def)
    qed
  qed
qed


end
