(* ===== verification/Api_Validation.thy ===== *)
theory Api_Validation
  imports Chmlfrp Cloudflare Literals
begin

text \<open>
  The checks the HTTP API makes on what it is given before it does anything
  (\<open>apps/server/src/api.rs\<close>): the error type of the API, the validation functions, and
  the mutation a remote tunnel is written back with.
\<close>

section \<open>Errors\<close>

record api_error =
  er_status :: nat
  er_code :: string
  er_text :: string

definition bad_request :: "string \<Rightarrow> api_error" where
  "bad_request message = \<lparr>er_status = 400, er_code = ''BAD_REQUEST'', er_text = message\<rparr>"

definition conflict :: "string \<Rightarrow> api_error" where
  "conflict message = \<lparr>er_status = 409, er_code = ''RESOURCE_CONFLICT'', er_text = message\<rparr>"

definition internal_error :: "string \<Rightarrow> api_error" where
  "internal_error message = \<lparr>er_status = 500, er_code = ''INTERNAL_ERROR'', er_text = message\<rparr>"

text \<open>The checks of a sequence of \<open>if ... { return Err(..) }\<close>: the first that fails decides.\<close>

fun first_failure :: "(bool \<times> api_error) list \<Rightarrow> api_error + unit" where
  "first_failure [] = Inr ()"
| "first_failure ((ok, e) # rest) = (if ok then first_failure rest else Inl e)"

lemma first_failure_Inr: "first_failure cs = Inr () \<longleftrightarrow> (\<forall>(ok, e) \<in> set cs. ok)"
  by (induction cs rule: first_failure.induct) auto

section \<open>Tunnels\<close>

definition known_protocol :: "string \<Rightarrow> bool" where
  "known_protocol p \<longleftrightarrow> to_ascii_lowercase p \<in> {''http'', ''https'', ''tcp'', ''udp''}"

definition valid_port :: "int \<Rightarrow> bool" where
  "valid_port p \<longleftrightarrow> 1 \<le> p \<and> p \<le> 65535"

definition validate_tunnel :: "tunnel_plan_input \<Rightarrow> api_error + unit" where
  "validate_tunnel i = first_failure
     [(trim (ti_name i) \<noteq> [] \<and> trim (ti_local_ip i) \<noteq> [], bad_request ''name and local_ip are required''),
      (valid_port (ti_local_port i), bad_request ''local_port must be 1..65535''),
      (known_protocol (ti_protocol i), bad_request ''protocol must be http, https, tcp or udp''),
      (\<not> (web_protocol (ti_protocol i) \<and> trim (ti_domain i) = []),
         bad_request ''domain is required for HTTP/HTTPS tunnels''),
      (\<not> (ti_dns_managed i \<and> trim (ti_domain i) = []),
         bad_request ''domain is required when Cloudflare DNS is managed'')]"

definition validate_remote_tunnel :: "remote_tunnel_mutation \<Rightarrow> api_error + unit" where
  "validate_remote_tunnel i = first_failure
     [(trim (mu_tunnel_name i) \<noteq> [] \<and> trim (mu_node i) \<noteq> [] \<and> trim (mu_local_ip i) \<noteq> [],
         bad_request ''tunnel_name, node and local_ip are required''),
      (valid_port (mu_local_port i), bad_request ''local_port must be 1..65535''),
      (known_protocol (mu_port_type i), bad_request ''port_type must be http, https, tcp or udp''),
      (\<not> (web_protocol (mu_port_type i) \<and> trim (mu_domain i) = []),
         bad_request ''domain is required for HTTP/HTTPS tunnels''),
      (\<not> (to_ascii_lowercase (mu_port_type i) \<in> {''tcp'', ''udp''} \<and> \<not> valid_port (mu_remote_port i)),
         bad_request ''remote_port must be 1..65535 for TCP/UDP tunnels'')]"

definition remote_boolish :: "string \<Rightarrow> bool" where
  "remote_boolish v \<longleftrightarrow> to_ascii_lowercase (trim v) \<in> {''1'', ''true'', ''yes'', ''on''}"

definition mutation_from_remote :: "remote_tunnel \<Rightarrow> api_error + remote_tunnel_mutation" where
  "mutation_from_remote t =
     (let protocol = to_ascii_lowercase (trim (rm_port_type t)) in
      case (if protocol \<in> {''tcp'', ''udp''} then parse_i64 (rm_endpoint t) else Some 0) of
        None \<Rightarrow> Inl (bad_request txt_port_unparsable)
      | Some remote_port \<Rightarrow> Inr
          \<lparr>mu_tunnel_name = rm_name t, mu_node = rm_node t, mu_port_type = protocol,
           mu_local_ip = rm_local_ip t, mu_local_port = rm_local_port t, mu_remote_port = remote_port,
           mu_domain = effective_domain t, mu_encryption = remote_boolish (rm_encryption t),
           mu_compression = remote_boolish (rm_compression t),
           mu_extra_params = (case rm_extra_params t of None \<Rightarrow> [] | Some p \<Rightarrow> p)\<rparr>)"

definition same_mutation :: "remote_tunnel_mutation \<Rightarrow> remote_tunnel_mutation \<Rightarrow> bool" where
  "same_mutation a b \<longleftrightarrow>
     mu_tunnel_name a = mu_tunnel_name b \<and> mu_node a = mu_node b \<and> mu_port_type a = mu_port_type b
     \<and> mu_local_ip a = mu_local_ip b \<and> mu_local_port a = mu_local_port b
     \<and> mu_remote_port a = mu_remote_port b \<and> eq_ignore_ascii_case (mu_domain a) (mu_domain b)
     \<and> mu_encryption a = mu_encryption b \<and> mu_compression a = mu_compression b
     \<and> mu_extra_params a = mu_extra_params b"

section \<open>Provider settings\<close>

definition candidate_value :: "string option \<Rightarrow> string \<Rightarrow> string" where
  "candidate_value candidate current =
     trim (case map_option trim candidate of
             None \<Rightarrow> current
           | Some v \<Rightarrow> if v \<noteq> [] then v else current)"

definition loopback_base :: "string \<Rightarrow> bool" where
  "loopback_base v \<longleftrightarrow>
     v = ''http://127.0.0.1'' \<or> starts_with v ''http://127.0.0.1:'' \<or> starts_with v ''http://127.0.0.1/''
     \<or> v = ''http://localhost'' \<or> starts_with v ''http://localhost:'' \<or> starts_with v ''http://localhost/''
     \<or> v = ''http://[::1]'' \<or> starts_with v ''http://[::1]:'' \<or> starts_with v ''http://[::1]/''"

definition validate_api_base :: "string \<Rightarrow> string \<Rightarrow> api_error + unit" where
  "validate_api_base label base =
     (let v = trim base in
      first_failure
        [(v \<noteq> [], bad_request (label @ txt_not_empty)),
         (starts_with v ''https://'' \<or> loopback_base v, bad_request (label @ txt_need_https))])"

definition provider_health_of :: "bool \<Rightarrow> string + unit \<Rightarrow> provider_health" where
  "provider_health_of configured result =
     (case result of
        Inr _ \<Rightarrow> \<lparr>ph_configured = configured, ph_connected = True, ph_message = txt_connected\<rparr>
      | Inl err \<Rightarrow> \<lparr>ph_configured = configured, ph_connected = False, ph_message = err\<rparr>)"

section \<open>DNS records\<close>

definition validate_dns_record :: "dns_record_mutation \<Rightarrow> api_error + unit" where
  "validate_dns_record i =
     (let record_type = to_ascii_uppercase (trim (dm_type i)) in
      first_failure
        [(record_type \<in> {''A'', ''AAAA'', ''CNAME'', ''TXT'', ''MX''},
            bad_request ''DNS type must be A, AAAA, CNAME, TXT or MX''),
         (trim (dm_name i) \<noteq> [] \<and> trim (dm_content i) \<noteq> [],
            bad_request ''DNS name and content are required''),
         (\<not> (dm_ttl i \<noteq> 1 \<and> \<not> (60 \<le> dm_ttl i \<and> dm_ttl i \<le> 86400)),
            bad_request ''TTL must be 1 (Auto) or between 60 and 86400 seconds''),
         (\<not> (record_type = ''MX'' \<and> dm_priority i = None),
            bad_request ''MX record requires priority'')])"

end
