(* ===== verification/Api.thy ===== *)
theory Api
  imports Entry_Points Api_Validation
begin

text \<open>
  The handlers of the HTTP API (\<open>apps/server/src/api.rs\<close>). A handler returns the data of
  the response or an \<open>api_error\<close>; \<open>busy\<close> says that the coordinator's lock is held. The
  router, the JSON wrappers and the event stream are the business of the web framework.
\<close>

section \<open>The error conversion\<close>

text \<open>\<open>?\<close> on an \<open>anyhow\<close> result, on a result of the API, and an early return.\<close>

definition apiM :: "('w, string, 'a) act \<Rightarrow> ('w, api_error, 'a) act" where
  "apiM m = map_errM internal_error m"

definition app_version :: string where
  "app_version = ''0.4.0''"

definition log_event ::
  "'w env \<Rightarrow> string \<Rightarrow> string \<Rightarrow> string \<Rightarrow> string option \<Rightarrow> string option \<Rightarrow> json \<Rightarrow> ('w, api_error, unit) act" where
  "log_event E kind level message tunnel node details =
     apiM (st_activity E None kind level message tunnel node details)"

section \<open>Status\<close>

definition api_health :: "'w env \<Rightarrow> ('w, api_error, json) act" where
  "api_health E =
     bindM (fm_status E) (\<lambda>status. returnM (JObj
       [(''frpc'', JBool (rt_running status)), (''status'', JStr ''ok''), (''version'', JStr app_version)]))"

definition api_ready :: "'w env \<Rightarrow> ('w, api_error, json) act" where
  "api_ready E =
     thenM (apiM (dbM E (returnM ()))) (returnM (JObj [(''status'', JStr ''ready'')]))"

record dashboard_snapshot =
  da_routing :: routing_state
  da_active_node :: "node_summary option"
  da_standby_node :: "node_summary option"
  da_frpc :: frpc_runtime_status
  da_chmlfrp_health :: provider_health
  da_cloudflare_health :: provider_health
  da_tunnel_rows :: "tunnel_row list"
  da_recent_activity :: "activity_event list"
  da_failover_job :: "string option"

definition dashboard_node :: "'w env \<Rightarrow> string option \<Rightarrow> ('w, api_error, node_summary option) act" where
  "dashboard_node E node_name =
     (case node_name of
        None \<Rightarrow> returnM None
      | Some name \<Rightarrow>
          bindM (attemptM (ch_node_summary E sys_chml name)) (\<lambda>r.
          case r of
            Inl _ \<Rightarrow> returnM None
          | Inr node \<Rightarrow>
              bindM (apiM (st_quarantine_until E (ns_name node))) (\<lambda>q.
              returnM (Some (node\<lparr>ns_quarantined_until := q\<rparr>)))))"

definition api_dashboard :: "'w env \<Rightarrow> ('w, api_error, dashboard_snapshot) act" where
  "api_dashboard E =
     bindM (apiM (st_routing_state E)) (\<lambda>routing.
     bindM (dashboard_node E (rs_active_node routing)) (\<lambda>active.
     bindM (dashboard_node E (rs_standby_node routing)) (\<lambda>standby.
     bindM (fm_status E) (\<lambda>frpc.
     bindM (getM (\<lambda>s. chml_configured (sys_chml s))) (\<lambda>chml_conf.
     bindM (attemptM (ch_health E sys_chml)) (\<lambda>chml_health.
     bindM (getM (\<lambda>s. cf_configured (sys_cf s))) (\<lambda>cf_conf.
     bindM (attemptM (cf_health E sys_cf)) (\<lambda>cf_health.
     bindM (apiM (build_rows E)) (\<lambda>rows.
     bindM (apiM (st_recent_activity E 50)) (\<lambda>recent.
     bindM (getM sys_job) (\<lambda>job.
     returnM
       \<lparr>da_routing = routing, da_active_node = active, da_standby_node = standby, da_frpc = frpc,
        da_chmlfrp_health = provider_health_of chml_conf chml_health,
        da_cloudflare_health = provider_health_of cf_conf cf_health,
        da_tunnel_rows = rows, da_recent_activity = recent, da_failover_job = job\<rparr>)))))))))))"

section \<open>Tunnel plans\<close>

definition api_list_tunnels :: "'w env \<Rightarrow> ('w, api_error, tunnel_plan list) act" where
  "api_list_tunnels E = apiM (st_list_tunnels E)"

definition api_create_tunnel :: "'w env \<Rightarrow> tunnel_plan_input \<Rightarrow> ('w, api_error, tunnel_plan) act" where
  "api_create_tunnel E input = thenM (liftM (validate_tunnel input)) (apiM (st_create_tunnel E input))"

definition api_update_tunnel :: "'w env \<Rightarrow> int \<Rightarrow> tunnel_plan_input \<Rightarrow> ('w, api_error, tunnel_plan) act" where
  "api_update_tunnel E tid input =
     thenM (liftM (validate_tunnel input)) (apiM (st_update_tunnel E tid input))"

text \<open>A plan is deleted only after both providers confirmed that nothing of it is left.\<close>

definition dns_gone :: "'w env \<Rightarrow> tunnel_plan \<Rightarrow> ('w, api_error, unit) act" where
  "dns_gone E plan =
     bindM (getM (\<lambda>s. cf_configured (sys_cf s))) (\<lambda>cf_conf.
     thenM (ensureM cf_conf (conflict txt_delete_cf_unconfigured))
     (bindM (apiM (cf_list_a_records E sys_cf)) (\<lambda>records.
      ensureM (\<not> list_ex (\<lambda>r. eq_ignore_ascii_case (dr_name r) (tp_domain plan)) records)
        (conflict (txt_delete_dns_exists_a @ tp_domain plan @ txt_delete_dns_exists_b)))))"

definition api_delete_tunnel :: "'w env \<Rightarrow> int \<Rightarrow> ('w, api_error, json) act" where
  "api_delete_tunnel E tid =
     bindM (apiM (st_get_tunnel E tid)) (\<lambda>plan.
     bindM (getM (\<lambda>s. chml_configured (sys_chml s))) (\<lambda>chml_conf.
     thenM (ensureM chml_conf (conflict txt_delete_chml_unconfigured))
     (bindM (apiM (ch_list_tunnels E sys_chml)) (\<lambda>remote.
      thenM (ensureM (\<not> list_ex (\<lambda>t. rm_name t = tp_name plan) remote)
               (conflict (txt_delete_remote_exists_a @ tp_name plan @ txt_delete_remote_exists_b)))
      (thenM (whenM (tp_dns_managed plan) (dns_gone E plan))
       (thenM (apiM (st_delete_tunnel E tid))
         (returnM (JObj [(''deleted'', JInt tid)]))))))))"

definition api_unmanage_tunnel :: "'w env \<Rightarrow> int \<Rightarrow> ('w, api_error, json) act" where
  "api_unmanage_tunnel E tid =
     bindM (apiM (st_get_tunnel E tid)) (\<lambda>plan.
     thenM (apiM (st_delete_tunnel E tid))
     (thenM (log_event E ''unmanage'' ''warning'' txt_unmanaged (Some (tp_name plan)) None
               (JObj [(''dns_was_managed'', JBool (tp_dns_managed plan)), (''plan_id'', JInt tid)]))
       (returnM (JObj [(''name'', JStr (tp_name plan)), (''unmanaged'', JInt tid)]))))"

section \<open>Provider settings\<close>

record provider_probe =
  pb_base_url :: "string option"
  pb_token :: "string option"
  pb_zone_id :: "string option"

definition api_provider_settings :: "'w env \<Rightarrow> ('w, api_error, provider_settings_view) act" where
  "api_provider_settings E = bindM (apiM (st_provider_settings E)) (\<lambda>p. returnM (provider_view p))"

definition api_update_provider_settings ::
  "'w env \<Rightarrow> bool \<Rightarrow> provider_settings_update \<Rightarrow> ('w, api_error, provider_settings_view) act" where
  "api_update_provider_settings E busy input =
     thenM (liftM (validate_api_base ''ChmlFrp API Base'' (pu_chmlfrp_base_url input)))
     (thenM (liftM (validate_api_base ''Cloudflare API Base'' (pu_cloudflare_api_base input)))
      (map_errM (\<lambda>e. case e of ProviderBusy \<Rightarrow> conflict txt_provider_busy | ProviderOther m \<Rightarrow> internal_error m)
         (apply_provider_settings E busy input)))"

definition api_test_chmlfrp :: "'w env \<Rightarrow> provider_probe \<Rightarrow> ('w, api_error, json) act" where
  "api_test_chmlfrp E input =
     bindM (apiM (st_provider_settings E)) (\<lambda>saved.
     let base = candidate_value (pb_base_url input) (ps_chmlfrp_base_url saved);
         token = candidate_value (pb_token input) (ps_chmlfrp_token saved) in
     thenM (liftM (validate_api_base ''ChmlFrp API Base'' base))
     (thenM (ensureM (token \<noteq> []) (bad_request txt_enter_chml_token))
      (bindM (apiM (ch_list_tunnels E (\<lambda>_. chml_new base token))) (\<lambda>tunnels.
       returnM (JObj [(''message'', JStr txt_chml_ok), (''ok'', JBool True),
                      (''tunnels'', JInt (int (length tunnels)))])))))"

definition api_test_cloudflare :: "'w env \<Rightarrow> provider_probe \<Rightarrow> ('w, api_error, json) act" where
  "api_test_cloudflare E input =
     bindM (apiM (st_provider_settings E)) (\<lambda>saved.
     let base = candidate_value (pb_base_url input) (ps_cloudflare_api_base saved);
         token = candidate_value (pb_token input) (ps_cloudflare_api_token saved);
         zone_id = candidate_value (pb_zone_id input) (ps_cloudflare_zone_id saved);
         client = (\<lambda>_. cf_new base token zone_id) in
     thenM (liftM (validate_api_base ''Cloudflare API Base'' base))
     (thenM (ensureM (token \<noteq> []) (bad_request txt_enter_cf_token))
      (bindM (apiM (cf_verify_token E client)) (\<lambda>token_status.
       if zone_id = []
       then bindM (apiM (cf_list_zones E client)) (\<lambda>zones.
            returnM (JObj [(''dns_read_tested'', JBool False), (''message'', JStr txt_cf_choose_zone),
              (''ok'', JBool True), (''token_status'', JStr token_status),
              (''zones'', JInt (int (length zones)))]))
       else bindM (apiM (cf_list_a_records E client)) (\<lambda>records.
            returnM (JObj [(''a_records'', JInt (int (length records))), (''dns_read_tested'', JBool True),
              (''dns_write_tested'', JBool False), (''message'', JStr txt_cf_ok),
              (''ok'', JBool True), (''token_status'', JStr token_status)]))))))"

definition api_cloudflare_zones :: "'w env \<Rightarrow> provider_probe \<Rightarrow> ('w, api_error, cloudflare_zone list) act" where
  "api_cloudflare_zones E input =
     bindM (apiM (st_provider_settings E)) (\<lambda>saved.
     let base = candidate_value (pb_base_url input) (ps_cloudflare_api_base saved);
         token = candidate_value (pb_token input) (ps_cloudflare_api_token saved);
         client = (\<lambda>_. cf_new base token []) in
     thenM (liftM (validate_api_base ''Cloudflare API Base'' base))
     (thenM (ensureM (token \<noteq> []) (bad_request txt_enter_cf_token))
      (thenM (apiM (cf_verify_token E client))
       (bindM (apiM (cf_list_zones E client)) (\<lambda>zones.
        returnM (sort_key zn_name zones))))))"

section \<open>Remote tunnels\<close>

definition api_chmlfrp_tunnels :: "'w env \<Rightarrow> ('w, api_error, remote_tunnel list) act" where
  "api_chmlfrp_tunnels E = apiM (ch_list_tunnels E sys_chml)"

definition not_managed :: "'w env \<Rightarrow> string \<Rightarrow> string \<Rightarrow> ('w, api_error, unit) act" where
  "not_managed E name message =
     bindM (apiM (st_list_tunnels E)) (\<lambda>plans.
     ensureM (\<not> list_ex (\<lambda>p. tp_name p = name) plans) (conflict message))"

definition api_chmlfrp_create_tunnel :: "'w env \<Rightarrow> remote_tunnel_mutation \<Rightarrow> ('w, api_error, remote_tunnel) act" where
  "api_chmlfrp_create_tunnel E input =
     thenM (liftM (validate_remote_tunnel input))
     (thenM (not_managed E (mu_tunnel_name input) txt_name_managed)
      (bindM (apiM (ch_create_remote_tunnel E sys_chml input)) (\<lambda>created.
       thenM (log_event E ''chmlfrp_crud'' ''info'' txt_remote_created (Some (rm_name created))
                (Some (rm_node created)) (JObj [(''tunnel_id'', JInt (rm_id created))]))
         (returnM created))))"

definition find_remote :: "'w env \<Rightarrow> int \<Rightarrow> api_error \<Rightarrow> ('w, api_error, remote_tunnel) act" where
  "find_remote E tid missing =
     bindM (apiM (ch_list_tunnels E sys_chml)) (\<lambda>remote.
     case find (\<lambda>t. rm_id t = tid) remote of None \<Rightarrow> failM missing | Some t \<Rightarrow> returnM t)"

definition api_chmlfrp_update_tunnel ::
  "'w env \<Rightarrow> int \<Rightarrow> remote_tunnel_mutation \<Rightarrow> ('w, api_error, json) act" where
  "api_chmlfrp_update_tunnel E tid input =
     thenM (liftM (validate_remote_tunnel input))
     (bindM (find_remote E tid (bad_request ''ChmlFrp tunnel not found'')) (\<lambda>current.
      thenM (ensureM (rm_name current = mu_tunnel_name input) (bad_request txt_no_rename))
      (thenM (not_managed E (rm_name current) txt_tunnel_managed)
       (thenM (apiM (ch_update_remote_tunnel E sys_chml input))
        (thenM (log_event E ''chmlfrp_crud'' ''warning'' txt_remote_updated (Some (mu_tunnel_name input))
                  (Some (mu_node input)) (JObj [(''tunnel_id'', JInt tid)]))
          (returnM (JObj [(''updated'', JInt tid)])))))))"

definition api_chmlfrp_test_write :: "'w env \<Rightarrow> int \<Rightarrow> ('w, api_error, json) act" where
  "api_chmlfrp_test_write E tid =
     bindM (find_remote E tid (bad_request ''ChmlFrp tunnel not found'')) (\<lambda>current.
     thenM (not_managed E (rm_name current) txt_no_test_on_managed)
     (bindM (liftM (mutation_from_remote current)) (\<lambda>mutation.
      thenM (apiM (ch_update_remote_tunnel E sys_chml mutation))
      (bindM (find_remote E tid (conflict txt_not_reread)) (\<lambda>after_write.
       bindM (liftM (mutation_from_remote after_write)) (\<lambda>after_mutation.
       thenM (ensureM (same_mutation after_mutation mutation) (conflict txt_not_preserved))
       (thenM (log_event E ''chmlfrp_diagnostics'' ''info'' txt_write_test_done (Some (rm_name current))
                 (Some (rm_node current)) (JObj [(''preserved'', JBool True), (''tunnel_id'', JInt tid)]))
         (returnM (JObj [(''message'', JStr txt_write_test_ok), (''node'', JStr (rm_node current)),
            (''ok'', JBool True), (''preserved'', JBool True), (''tunnel'', JStr (rm_name current)),
            (''tunnel_id'', JInt tid)])))))))))"

definition api_chmlfrp_delete_tunnel :: "int \<Rightarrow> ('w, api_error, json) act" where
  "api_chmlfrp_delete_tunnel tid =
     failM (conflict (txt_delete_unsupported_a @ show_int tid @ txt_delete_unsupported_b))"

definition delete_tunnel_supported :: bool where
  "delete_tunnel_supported = False"

definition config_test :: "'w env \<Rightarrow> remote_tunnel list \<Rightarrow> ('w, api_error, json) act" where
  "config_test E tunnels =
     (case tunnels of
        [] \<Rightarrow> returnM (JObj [(''tested'', JBool False)])
      | first # _ \<Rightarrow>
          (let names = map rm_name (filter (\<lambda>t. rm_node t = rm_node first) tunnels) in
           bindM (attemptM (ch_generated_config E sys_chml (rm_node first) names)) (\<lambda>r.
           returnM (case r of
             Inr config \<Rightarrow> JObj [(''bytes'', JInt (int (length config))), (''node'', JStr (rm_node first)),
               (''ok'', JBool True), (''tested'', JBool True), (''tunnels'', JInt (int (length names)))]
           | Inl err \<Rightarrow> JObj [(''message'', JStr err), (''node'', JStr (rm_node first)),
               (''ok'', JBool False), (''tested'', JBool True)]))))"

definition api_chmlfrp_diagnostics :: "'w env \<Rightarrow> ('w, api_error, json) act" where
  "api_chmlfrp_diagnostics E =
     bindM (apiM (ch_list_tunnels E sys_chml)) (\<lambda>tunnels.
     bindM (apiM (ch_list_nodes E sys_chml)) (\<lambda>nodes.
     bindM (config_test E tunnels) (\<lambda>tested.
     returnM (JObj [(''authentication'', JStr ''pass''), (''config_generate'', tested),
       (''delete_supported'', JBool delete_tunnel_supported),
       (''node_read'', JObj [(''count'', JInt (int (length nodes))), (''ok'', JBool True)]),
       (''tunnel_read'', JObj [(''count'', JInt (int (length tunnels))), (''ok'', JBool True)])]))))"

section \<open>Import\<close>

record tunnel_import =
  im_tunnel_id :: int
  im_dns_managed :: bool

definition plan_from_remote :: "remote_tunnel \<Rightarrow> bool \<Rightarrow> tunnel_plan_input" where
  "plan_from_remote t dns_managed =
     \<lparr>ti_name = rm_name t, ti_local_ip = rm_local_ip t, ti_local_port = rm_local_port t,
      ti_protocol = to_ascii_lowercase (rm_port_type t), ti_domain = effective_domain t,
      ti_dns_managed = dns_managed\<rparr>"

definition api_import_tunnel :: "'w env \<Rightarrow> tunnel_import \<Rightarrow> ('w, api_error, tunnel_plan) act" where
  "api_import_tunnel E input =
     bindM (find_remote E (im_tunnel_id input) (bad_request ''ChmlFrp tunnel not found'')) (\<lambda>tunnel.
     thenM (not_managed E (rm_name tunnel) txt_already_managed)
     (thenM (ensureM (\<not> (im_dns_managed input \<and> trim (effective_domain tunnel) = []))
               (bad_request txt_no_domain_for_dns))
      (let plan_input = plan_from_remote tunnel (im_dns_managed input) in
       thenM (liftM (validate_tunnel plan_input))
       (bindM (apiM (st_create_tunnel E plan_input)) (\<lambda>plan.
        thenM (log_event E ''import'' ''info'' txt_imported (Some (tp_name plan)) (Some (rm_node tunnel))
                 (JObj [(''dns_managed'', JBool (im_dns_managed input)),
                        (''remote_tunnel_id'', JInt (rm_id tunnel))]))
          (returnM plan))))))"

text \<open>The bulk import: a tunnel that is managed, invalid or refused is skipped.\<close>

fun import_each ::
  "'w env \<Rightarrow> tunnel_plan list \<Rightarrow> string list \<Rightarrow> string list \<Rightarrow> remote_tunnel list
   \<Rightarrow> ('w, api_error, string list \<times> string list) act" where
  "import_each E existing imported skipped [] = returnM (imported, skipped)"
| "import_each E existing imported skipped (t # rest) =
     (let input = plan_from_remote t False;
          skip = import_each E existing imported (skipped @ [rm_name t]) rest in
      if list_ex (\<lambda>p. tp_name p = rm_name t) existing then skip
      else if isl (validate_tunnel input) then skip
      else bindM (attemptM (st_create_tunnel E input)) (\<lambda>r.
           case r of
             Inr plan \<Rightarrow> import_each E existing (imported @ [tp_name plan]) skipped rest
           | Inl _ \<Rightarrow> skip))"

definition api_import_all :: "'w env \<Rightarrow> ('w, api_error, json) act" where
  "api_import_all E =
     bindM (apiM (ch_list_tunnels E sys_chml)) (\<lambda>remote.
     bindM (apiM (st_list_tunnels E)) (\<lambda>existing.
     bindM (import_each E existing [] [] remote) (\<lambda>(imported, skipped).
     let result = JObj [(''imported'', JArr (map JStr imported)), (''skipped'', JArr (map JStr skipped))] in
     thenM (log_event E ''import'' ''info'' txt_bulk_imported None None result) (returnM result))))"

section \<open>Routing\<close>

record routing_bootstrap =
  bo_active_node :: string
  bo_standby_node :: "string option"
  bo_quarantine_days :: int
  bo_failover_enabled :: bool

definition valid_quarantine_days :: "int \<Rightarrow> bool" where
  "valid_quarantine_days n \<longleftrightarrow> 1 \<le> n \<and> n \<le> 3650"

definition node_online :: "'w env \<Rightarrow> string \<Rightarrow> string \<Rightarrow> ('w, api_error, unit) act" where
  "node_online E name message =
     bindM (apiM (ch_node_info E sys_chml name)) (\<lambda>info.
     ensureM (eq_ignore_ascii_case (nd_state info) ''online'') (conflict (message @ nd_state info)))"

definition api_bootstrap_routing :: "'w env \<Rightarrow> routing_bootstrap \<Rightarrow> ('w, api_error, routing_state) act" where
  "api_bootstrap_routing E input =
     bindM (apiM (st_routing_state E)) (\<lambda>current.
     thenM (ensureM (rs_active_node current = None) (conflict txt_routing_initialised))
     (thenM (ensureM (valid_quarantine_days (bo_quarantine_days input))
               (bad_request ''quarantine_days must be 1..3650''))
      (let active = trim (bo_active_node input);
           standby = (case map_option trim (bo_standby_node input) of
                        None \<Rightarrow> None | Some v \<Rightarrow> if v \<noteq> [] then Some v else None) in
       thenM (ensureM (active \<noteq> []) (bad_request ''active_node is required''))
       (thenM (ensureM (standby \<noteq> Some active) (bad_request ''active_node and standby_node must differ''))
        (thenM (node_online E active txt_active_not_online)
         (thenM (case standby of None \<Rightarrow> returnM () | Some name \<Rightarrow> node_online E name txt_standby_not_online)
          (bindM (apiM (st_update_routing E
                    \<lparr>ru_active_node = Some active, ru_standby_node = standby,
                     ru_quarantine_days = bo_quarantine_days input,
                     ru_failover_enabled = bo_failover_enabled input\<rparr>)) (\<lambda>routing.
           thenM (log_event E ''routing_bootstrap'' ''warning'' txt_routing_bootstrap None (Some active)
                    (JObj [(''standby'', jopt standby)]))
             (returnM routing)))))))))"

definition api_routing :: "'w env \<Rightarrow> ('w, api_error, routing_state) act" where
  "api_routing E = apiM (st_routing_state E)"

definition api_update_routing :: "'w env \<Rightarrow> routing_update \<Rightarrow> ('w, api_error, routing_state) act" where
  "api_update_routing E input =
     thenM (ensureM (valid_quarantine_days (ru_quarantine_days input))
              (bad_request ''quarantine_days must be 1..3650''))
     (thenM (ensureM (\<not> (ru_active_node input \<noteq> None \<and> ru_active_node input = ru_standby_node input))
               (bad_request ''active_node and standby_node must differ''))
      (bindM (apiM (st_routing_state E)) (\<lambda>current.
       thenM (ensureM (\<not> (rs_active_node current \<noteq> None \<and> rs_active_node current \<noteq> ru_active_node input))
                (conflict ''active_node cannot be changed directly; use GLOBAL_FAILOVER''))
         (apiM (st_update_routing E input)))))"

definition api_nodes :: "'w env \<Rightarrow> ('w, api_error, node_summary list) act" where
  "api_nodes E =
     bindM (apiM (ch_list_nodes E sys_chml)) (\<lambda>nodes.
     mapM nodes (\<lambda>node.
       bindM (apiM (st_quarantine_until E (ns_name node))) (\<lambda>q.
       returnM (node\<lparr>ns_quarantined_until := q\<rparr>))))"

definition api_unquarantine :: "'w env \<Rightarrow> string \<Rightarrow> ('w, api_error, json) act" where
  "api_unquarantine E name =
     thenM (ensureM (trim name \<noteq> []) (bad_request ''node name is required''))
     (thenM (apiM (st_clear_quarantine E name))
      (thenM (log_event E ''quarantine'' ''warning'' txt_quarantine_cleared None (Some name)
                (JObj [(''manual_clear'', JBool True)]))
        (returnM (JObj [(''node'', JStr name), (''quarantined'', JBool False)]))))"

section \<open>DNS records\<close>

definition api_dns_records :: "'w env \<Rightarrow> ('w, api_error, dns_record list) act" where
  "api_dns_records E = apiM (cf_list_dns_records E sys_cf)"

definition manages_dns :: "string \<Rightarrow> string \<Rightarrow> tunnel_plan \<Rightarrow> bool" where
  "manages_dns record_id name plan \<longleftrightarrow>
     tp_dns_managed plan
     \<and> (tp_record_id plan = Some record_id \<or> eq_ignore_ascii_case (tp_domain plan) name)"

definition managed_plan_for_dns ::
  "'w env \<Rightarrow> string \<Rightarrow> string \<Rightarrow> ('w, api_error, tunnel_plan option) act" where
  "managed_plan_for_dns E record_id name =
     bindM (apiM (st_list_tunnels E)) (\<lambda>plans. returnM (find (manages_dns record_id name) plans))"

definition dns_unmanaged ::
  "'w env \<Rightarrow> string \<Rightarrow> dns_record \<Rightarrow> string \<Rightarrow> ('w, api_error, unit) act" where
  "dns_unmanaged E record_id current advice =
     bindM (managed_plan_for_dns E record_id (dr_name current)) (\<lambda>managed.
     case managed of
       None \<Rightarrow> returnM ()
     | Some plan \<Rightarrow> failM (conflict (txt_dns_record @ dr_name current @ txt_by_tunnel @ tp_name plan @ advice)))"

definition api_create_dns_record :: "'w env \<Rightarrow> dns_record_mutation \<Rightarrow> ('w, api_error, dns_record) act" where
  "api_create_dns_record E input =
     thenM (liftM (validate_dns_record input))
     (bindM (apiM (st_list_tunnels E)) (\<lambda>plans.
      thenM (ensureM (\<not> list_ex (\<lambda>p. tp_dns_managed p
                        \<and> eq_ignore_ascii_case (tp_domain p) (trim (dm_name input))) plans)
               (conflict txt_domain_managed))
      (bindM (apiM (cf_create_dns_record E sys_cf input)) (\<lambda>created.
       thenM (log_event E ''dns_crud'' ''info'' txt_dns_created None None
                (JObj [(''record'', dns_record_json created)]))
         (returnM created)))))"

definition api_update_dns_record ::
  "'w env \<Rightarrow> string \<Rightarrow> dns_record_mutation \<Rightarrow> ('w, api_error, dns_record) act" where
  "api_update_dns_record E record_id input =
     thenM (liftM (validate_dns_record input))
     (bindM (apiM (cf_get_dns_record E sys_cf record_id)) (\<lambda>current.
      thenM (dns_unmanaged E record_id current txt_ha_unmanage_first_plan)
      (bindM (apiM (cf_update_dns_record E sys_cf record_id input)) (\<lambda>updated.
       thenM (log_event E ''dns_crud'' ''warning'' txt_dns_updated None None
                (JObj [(''after'', dns_record_json updated), (''before'', dns_record_json current)]))
         (returnM updated)))))"

definition api_delete_dns_record :: "'w env \<Rightarrow> string \<Rightarrow> ('w, api_error, json) act" where
  "api_delete_dns_record E record_id =
     bindM (apiM (cf_get_dns_record E sys_cf record_id)) (\<lambda>current.
     thenM (dns_unmanaged E record_id current txt_ha_unmanage_first)
     (bindM (apiM (cf_delete_dns_record E sys_cf record_id)) (\<lambda>deleted_id.
      thenM (log_event E ''dns_crud'' ''warning'' txt_dns_deleted None None
               (JObj [(''deleted'', dns_record_json current)]))
        (returnM (JObj [(''deleted'', JStr deleted_id), (''snapshot'', dns_record_json current)])))))"

text \<open>
  The diagnostics write, read back, change and delete a temporary TXT record; a failure in
  the middle deletes it before it is reported.
\<close>

definition or_delete_record ::
  "'w env \<Rightarrow> string \<Rightarrow> ('w, string, dns_record) act \<Rightarrow> ('w, api_error, dns_record) act" where
  "or_delete_record E record_id m =
     bindM (attemptM m) (\<lambda>r.
     case r of
       Inr x \<Rightarrow> returnM x
     | Inl err \<Rightarrow> thenM (ignoreM (cf_delete_dns_record E sys_cf record_id)) (failM (internal_error err)))"

definition test_record :: "string \<Rightarrow> string \<Rightarrow> dns_record_mutation" where
  "test_record name content =
     \<lparr>dm_type = ''TXT'', dm_name = name, dm_content = content, dm_ttl = 60, dm_proxied = None,
      dm_priority = None, dm_comment = Some ''Temporary Ashan FRP API CRUD test''\<rparr>"

definition test_name :: "string \<Rightarrow> string \<Rightarrow> string" where
  "test_name uuid zone =
     ''_ashan-api-test-'' @ take 8 (filter (\<lambda>c. c \<noteq> CHR ''-'') uuid) @ ''.'' @ zone"

definition ok_json :: "(string \<times> json) list \<Rightarrow> bool \<Rightarrow> json" where
  "ok_json kvs b = JObj (kvs @ [(''ok'', JBool b)])"

definition dns_crud ::
  "'w env \<Rightarrow> string \<Rightarrow> ('w, api_error, dns_record \<times> dns_record \<times> dns_record \<times> bool) act" where
  "dns_crud E name =
     bindM (apiM (cf_create_dns_record E sys_cf (test_record name ''ashan-api-test''))) (\<lambda>created.
     bindM (or_delete_record E (dr_id created) (cf_get_dns_record E sys_cf (dr_id created))) (\<lambda>read_back.
     bindM (or_delete_record E (dr_id created)
              (cf_update_dns_record E sys_cf (dr_id created) (test_record name ''ashan-api-test-updated''))) (\<lambda>updated.
     thenM (apiM (cf_delete_dns_record E sys_cf (dr_id created)))
     (bindM (apiM (cf_list_dns_records E sys_cf)) (\<lambda>records.
      returnM (created, read_back, updated, \<not> list_ex (\<lambda>r. dr_id r = dr_id created) records))))))"

definition api_dns_diagnostics :: "'w env \<Rightarrow> ('w, api_error, json) act" where
  "api_dns_diagnostics E =
     bindM (apiM (cf_verify_token E sys_cf)) (\<lambda>token_status.
     bindM (apiM (st_provider_settings E)) (\<lambda>settings.
     thenM (ensureM (trim (ps_cloudflare_zone_id settings) \<noteq> []) (bad_request txt_zone_needed))
     (bindM (apiM (cf_list_zones E sys_cf)) (\<lambda>zones.
      case find (\<lambda>z. zn_id z = ps_cloudflare_zone_id settings) zones of
        None \<Rightarrow> failM (bad_request txt_zone_not_accessible)
      | Some zone \<Rightarrow>
          bindM (apiM (cf_list_dns_records E sys_cf)) (\<lambda>before_records.
          bindM (callM (x_uuid E)) (\<lambda>uuid.
          let name = test_name uuid (zn_name zone) in
          bindM (dns_crud E name) (\<lambda>(created, read_back, updated, absent).
          thenM (log_event E ''dns_diagnostics'' ''info'' txt_dns_crud_tested None None
                   (JObj [(''deleted_absent'', JBool absent), (''test_name'', JStr name)]))
          (returnM (JObj
            [(''authentication'', JStr token_status), (''cleanup'', ok_json [] absent),
             (''create'', ok_json [(''id'', JStr (dr_id created))] True), (''delete'', ok_json [] absent),
             (''read'', JObj [(''ok'', JBool True), (''records_before'', JInt (int (length before_records)))]),
             (''read_back'', ok_json [] (dr_id read_back = dr_id created)),
             (''update'', ok_json [] (dr_content updated = ''ashan-api-test-updated'')),
             (''zone'', JStr (zn_name zone))])))))))))"

section \<open>Operations\<close>

definition api_reconcile :: "'w env \<Rightarrow> bool \<Rightarrow> ('w, api_error, json) act" where
  "api_reconcile E busy =
     bindM (apiM (coordinator_reconcile E busy)) (\<lambda>job. returnM (JObj [(''job_id'', JStr job)]))"

definition api_manual_failover :: "'w env \<Rightarrow> bool \<Rightarrow> ('w, api_error, json) act" where
  "api_manual_failover E busy =
     bindM (apiM (global_failover E busy None)) (\<lambda>job. returnM (JObj [(''job_id'', JStr job)]))"

definition api_frpc_status :: "'w env \<Rightarrow> ('w, api_error, frpc_runtime_status) act" where
  "api_frpc_status E = fm_status E"

definition api_frpc_logs :: "('w, api_error, frpc_event list) act" where
  "api_frpc_logs = getM (\<lambda>s. recent_logs 500 (sys_frpc s))"

definition api_frpc_start :: "'w env \<Rightarrow> ('w, api_error, json) act" where
  "api_frpc_start E = thenM (apiM (fm_start E)) (returnM (JObj [(''ok'', JBool True)]))"

definition api_frpc_stop :: "'w env \<Rightarrow> ('w, api_error, json) act" where
  "api_frpc_stop E = thenM (apiM (fm_stop E)) (returnM (JObj [(''ok'', JBool True)]))"

definition api_frpc_restart :: "'w env \<Rightarrow> ('w, api_error, json) act" where
  "api_frpc_restart E = thenM (apiM (fm_restart E)) (returnM (JObj [(''ok'', JBool True)]))"

end
