(* ===== verification/Coordinator_Machine.thy ===== *)
theory Coordinator_Machine
  imports Entry_Points
begin

text \<open>
  The coordinator as a state machine: its lock, the operations that take it or give up, and
  the failovers that wait for it (\<open>lock: Arc<Mutex<()>>\<close> in \<open>coordinator.rs\<close>). \<open>try_lock\<close>
  refuses an operation while the lock is held; \<open>lock().await\<close> queues a fault, and the
  mutex of tokio hands the lock over in the order of arrival.
\<close>

section \<open>States and steps\<close>

datatype operation =
  OpReconcile | OpFailover | OpProviders provider_settings_update | OpFault frpc_event

definition operation_result :: "'w env \<Rightarrow> bool \<Rightarrow> operation \<Rightarrow> 'w sys \<Rightarrow> 'w sys" where
  "operation_result E busy op s =
     (case op of
        OpReconcile \<Rightarrow> snd (coordinator_reconcile E busy s)
      | OpFailover \<Rightarrow> snd (global_failover E busy None s)
      | OpProviders input \<Rightarrow> snd (apply_provider_settings E busy input s)
      | OpFault event \<Rightarrow> snd (queued_global_failover E event s))"

text \<open>\<open>ma_received\<close> and \<open>ma_served\<close> are ghost variables: the faults that came in and those whose turn is over.\<close>

record 'w machine =
  ma_sys :: "'w sys"
  ma_holder :: "operation option"
  ma_waiting :: "frpc_event list"
  ma_received :: "frpc_event list"
  ma_served :: "frpc_event list"

definition waits_for_lock :: "operation \<Rightarrow> bool" where
  "waits_for_lock op \<longleftrightarrow> (case op of OpFault _ \<Rightarrow> True | _ \<Rightarrow> False)"

definition receive_fault :: "frpc_event \<Rightarrow> 'w machine \<Rightarrow> 'w machine" where
  "receive_fault event c =
     (if ma_holder c = None
      then c\<lparr>ma_holder := Some (OpFault event), ma_received := ma_received c @ [event]\<rparr>
      else c\<lparr>ma_waiting := ma_waiting c @ [event], ma_received := ma_received c @ [event]\<rparr>)"

definition served_by :: "operation \<Rightarrow> frpc_event list" where
  "served_by op = (case op of OpFault event \<Rightarrow> [event] | _ \<Rightarrow> [])"

definition hand_over :: "operation \<Rightarrow> 'w machine \<Rightarrow> 'w machine" where
  "hand_over op c =
     (case ma_waiting c of
        [] \<Rightarrow> c\<lparr>ma_holder := None, ma_served := ma_served c @ served_by op\<rparr>
      | event # rest \<Rightarrow>
          c\<lparr>ma_holder := Some (OpFault event), ma_waiting := rest, ma_served := ma_served c @ served_by op\<rparr>)"

inductive machine_step :: "'w env \<Rightarrow> 'w machine \<Rightarrow> 'w machine \<Rightarrow> bool" for E where
  start: "ma_holder c = None \<Longrightarrow> \<not> waits_for_lock op \<Longrightarrow> machine_step E c (c\<lparr>ma_holder := Some op\<rparr>)"
| refuse: "ma_holder c = Some h \<Longrightarrow> \<not> waits_for_lock op \<Longrightarrow>
     machine_step E c (c\<lparr>ma_sys := operation_result E True op (ma_sys c)\<rparr>)"
| fault: "event \<in> set (fm_sent (sys_frpc (ma_sys c))) \<Longrightarrow> watcher_reaction event = QueueFailover event \<Longrightarrow>
     machine_step E c (receive_fault event c)"
| confirmed: "event \<in> set (fm_sent (sys_frpc (ma_sys c))) \<Longrightarrow> watcher_reaction event = ConfirmFault event \<Longrightarrow>
     confirm_ambiguous_network_fault E event (ma_sys c) = (Inr (Some event'), s') \<Longrightarrow>
     machine_step E c (receive_fault event' (c\<lparr>ma_sys := s'\<rparr>))"
| unconfirmed: "event \<in> set (fm_sent (sys_frpc (ma_sys c))) \<Longrightarrow> watcher_reaction event = ConfirmFault event \<Longrightarrow>
     confirm_ambiguous_network_fault E event (ma_sys c) = (r, s') \<Longrightarrow> r = Inr None \<or> isl r \<Longrightarrow>
     machine_step E c (c\<lparr>ma_sys := s'\<rparr>)"
| finish: "ma_holder c = Some op \<Longrightarrow>
     machine_step E c (hand_over op (c\<lparr>ma_sys := operation_result E False op (ma_sys c)\<rparr>))"
| pause: "machine_step E c (c\<lparr>ma_sys := snd (awaitM E (ma_sys c) :: (unit + unit) \<times> _)\<rparr>)"

inductive_cases machine_stepE: "machine_step E c c'"

inductive machine_reach :: "'w env \<Rightarrow> 'w sys \<Rightarrow> 'w machine \<Rightarrow> bool" for E s where
  boot: "machine_reach E s \<lparr>ma_sys = s, ma_holder = None, ma_waiting = [], ma_received = [], ma_served = []\<rparr>"
| step: "machine_reach E s c \<Longrightarrow> machine_step E c c' \<Longrightarrow> machine_reach E s c'"

section \<open>Faults are neither lost nor served twice\<close>


section \<open>Between two operations the system is settled\<close>

definition settled :: "db_state \<Rightarrow> bool" where
  "settled d \<longleftrightarrow> db_phase d \<in> {Some Idle, Some Failed, Some DegradedDns}"

lemma settled_same_routing: "db_routing d' = db_routing d \<Longrightarrow> settled d \<Longrightarrow> settled d'"
  by (simp add: settled_def db_phase_def)

text \<open>A failover that its guards refuse changes nothing but the phase, which is marked.\<close>

lemma run_refused:
  assumes "reliable E" "run_global_failover E job trigger s = (r, s')" "db_phase (sys_db s) = Some p"
    and "\<not> (db_enabled (sys_db s) \<or> trigger = None) \<or> db_active (sys_db s) = None"
  shows "isl r \<and> sys_db s' = sys_db s \<and> sys_trace s' = sys_trace s
    \<and> fm_child (sys_frpc s') = fm_child (sys_frpc s)
    \<and> (\<not> (db_enabled (sys_db s) \<or> trigger = None) \<longrightarrow> r = Inl ''automatic failover disabled'')"
proof -
  obtain q s1 where a: "st_routing_state E s = (q, s1)" by (metis surj_pair)
  from st_routing_state_reliable [OF assms(1) a assms(3)] obtain rs where
    rs: "q = Inr rs" "rs_active_node rs = db_active (sys_db s)"
      "rs_failover_enabled rs = db_enabled (sys_db s)" "sys_db s1 = sys_db s"
    by (auto simp: db_enabled_def)
  have "sys_trace s1 = sys_trace s" using dbM_cases a by (metis st_routing_state_def)
  moreover have "fm_child (sys_frpc s1) = fm_child (sys_frpc s)"
    by (rule child_kept_run [OF control_kept.store_reads(3) a])
  ultimately show ?thesis
    using assms(2,4) a rs by (auto simp: run_global_failover_def effect_simps Let_def split: if_splits)
qed

text \<open>
  The abstract routing machine: an active node, a phase in which nothing is going on, and
  a revision. The phase may be set anew, or another node becomes the active one.
\<close>

type_synonym route = "string option \<times> routing_phase option \<times> int"

inductive route_step :: "route \<Rightarrow> route \<Rightarrow> bool" where
  remain: "p' \<in> {Some Idle, Some Failed, Some DegradedDns} \<Longrightarrow> route_step (a, p, n) (a, p', n)"
| switch: "a \<noteq> Some target \<Longrightarrow> p' \<in> {Some Idle, Some DegradedDns} \<Longrightarrow>
     route_step (a, p, n) (Some target, p', n + 1)"

inductive_cases route_stepE: "route_step (a, p, n) (a', p', n')"

definition route_of :: "db_state \<Rightarrow> route" where
  "route_of d = (db_active d, db_phase d, db_revision d)"

lemma route_same_routing:
  "settled d \<Longrightarrow> db_routing d' = db_routing d \<Longrightarrow> route_step (route_of d) (route_of d')"
  using same_routing [of d' d] by (auto simp: route_of_def settled_def intro: route_step.intros)

lemma route_settled: "route_step (route_of d) (route_of d') \<Longrightarrow> settled d'"
  by (auto simp: route_of_def settled_def elim: route_stepE)

lemma global_failover_settled:
  assumes "reliable E" "settled (sys_db s)" "global_failover_locked E trigger s = (r, s')"
  shows "route_step (route_of (sys_db s)) (route_of (sys_db s')) \<and> (sys_job s = None \<longrightarrow> sys_job s' = None)"
proof (cases "fresh_trigger trigger s")
  case False
  then have "s' = s" using assms(3)
    by (cases trigger) (auto simp: fresh_trigger_def global_failover_locked_def fm_generation_of_def effect_simps)
  with assms(2) route_same_routing show ?thesis by simp
next
  case True
  from assms(2) obtain p where p: "db_phase (sys_db s) = Some p" by (auto simp: settled_def)
  show ?thesis
  proof (cases "(db_enabled (sys_db s) \<or> trigger = None) \<and> db_active (sys_db s) \<noteq> None")
    case True
    then obtain old where "db_active (sys_db s) = Some old" by blast
    from failover_outcome [OF assms(1,3) \<open>fresh_trigger trigger s\<close> this] p True this
    show ?thesis
      by (auto simp: route_of_def promoted_def intro: route_step.intros split: sum.splits)
  next
    case False
    obtain job s1 q s2 s3 where run:
      "sys_db s1 = sys_db s" "run_global_failover E job trigger s1 = (q, s2)"
      "r = map_sum id (\<lambda>_. job) q" "s' = s3\<lparr>sys_job := None\<rparr>"
      "case q of Inr _ \<Rightarrow> s3 = s2 | Inl err \<Rightarrow> record_failure E job err s2 = (Inr (), s3)"
      by (rule global_failover_run [OF assms(3) \<open>fresh_trigger trigger s\<close>])
    from run_refused [OF assms(1) run(2)] run(1) p False obtain err where
      "q = Inl err" "sys_db s2 = sys_db s" by (cases q) auto
    with run(5) record_failure_run [OF assms(1)] have "db_phase (sys_db s3) = map_option failed_phase (Some p)"
        "db_active (sys_db s3) = db_active (sys_db s)" "db_revision (sys_db s3) = db_revision (sys_db s)"
      using p by fastforce+
    with run(4) show ?thesis
      by (cases p) (auto simp: route_of_def failed_phase_def intro: route_step.intros)
  qed
qed

text \<open>A frame that also allows the change of the provider settings.\<close>

locale settings_frame = store_frame R A D F for R :: "'w sys \<Rightarrow> 'w sys \<Rightarrow> bool" and A D F +
  assumes chml: "R s (s\<lparr>sys_chml := a\<rparr>)"
    and cf: "R s (s\<lparr>sys_cf := b\<rparr>)"
    and settings: "obeys D (update_provider_settings now input)"
begin

lemma apply_provider_settings: "obeys R (apply_provider_settings E busy input)"
  unfolding apply_provider_settings_def reconfigure_chml_def reconfigure_cf_def st_update_providers_def Let_def
  by (intro primitives store_logs obeys_modify chml cf settings)

end

interpretation job_kept: program_frame "keeps sys_job" "\<lambda>_. True" "\<lambda>_ _. True" "\<lambda>_ _. True"
  by unfold_locales (simp_all add: keeps_def obeys_def)

interpretation job_kept: settings_frame "keeps sys_job" "\<lambda>_. True" "\<lambda>_ _. True" "\<lambda>_ _. True"
  by unfold_locales (simp_all add: keeps_def obeys_def)

interpretation consistent_kept: settings_frame
    "\<lambda>s s'. consistent_step (sys_frpc s) (sys_frpc s')" "\<lambda>_. True" "\<lambda>_ _. True" consistent_step
  by unfold_locales (simp_all add: obeys_def consistent_step_refl)

interpretation routing_same: settings_frame "\<lambda>s s'. db_routing (sys_db s') = db_routing (sys_db s)" "\<lambda>_. True"
    "keeps db_routing" "\<lambda>_ _. True"
  by unfold_locales
    (simp_all add: obeys_def keeps_def routing_kept [unfolded obeys_def keeps_def]
      update_provider_settings_def provider_settings_def write_providers_def effect_simps)

definition in_order :: "'w sys \<Rightarrow> bool" where
  "in_order s \<longleftrightarrow> settled (sys_db s) \<and> sys_job s = None \<and> frpc_consistent (sys_frpc s) \<and> clients_match s"

text \<open>What leaves the routing row, the job and the clients alone keeps the program in order.\<close>

lemma in_order_kept:
  assumes "in_order s" "db_routing (sys_db s') = db_routing (sys_db s)" "keeps sys_job s s'"
    and "consistent_step (sys_frpc s) (sys_frpc s')"
    and "keeps (\<lambda>s. (sys_chml s, sys_cf s, db_providers (sys_db s))) s s'"
  shows "in_order s'"
  using assms settled_same_routing clients_match_step
  unfolding in_order_def by (auto simp: keeps_def consistent_step_def)

lemma in_order_quiet:
  assumes "in_order s" "m s = (r, s')"
    and "obeys (\<lambda>s s'. keeps db_routing (sys_db s) (sys_db s')) m" "obeys (keeps sys_job) m"
    and "obeys (\<lambda>s s'. consistent_step (sys_frpc s) (sys_frpc s')) m"
    and "obeys (keeps (\<lambda>s. (sys_chml s, sys_cf s, db_providers (sys_db s)))) m"
  shows "in_order s'"
  using obeys_run [OF assms(4,2)] obeys_run [OF assms(5,2)] obeys_run [OF assms(6,2)]
  by (rule in_order_kept [OF assms(1) routing_kept_run [OF assms(3,2)]])

lemma reconcile_in_order:
  assumes "in_order s" "coordinator_reconcile E busy s = (r, s')"
  shows "in_order s' \<and> route_step (route_of (sys_db s)) (route_of (sys_db s'))"
proof -
  have "obeys (\<lambda>s s'. idle_or_kept (sys_db s) (sys_db s')) (coordinator_reconcile E busy)"
    unfolding coordinator_reconcile_def by (intro idle.whole.primitives idle_reconcile_all)
  from obeys_run [OF this assms(2)] have route: "route_step (route_of (sys_db s)) (route_of (sys_db s'))"
    using assms(1) route_same_routing
    by (auto simp: idle_or_kept_def in_order_def, auto simp: route_of_def intro: route_step.intros)
  note route_settled [OF route]
  moreover have "obeys (keeps sys_job) (coordinator_reconcile E busy)"
    unfolding coordinator_reconcile_def
    by (intro job_kept.primitives job_kept.reconcile_all) (simp_all add: obeys_def)
  note obeys_run [OF this assms(2)]
  ultimately show ?thesis
    using route assms(1) obeys_run [OF consistent_kept.entry_points(2) assms(2)]
      clients_match_step [OF obeys_run [OF clients_kept.entry_points(2) assms(2)]]
    by (auto simp: in_order_def keeps_def consistent_step_def)
qed

lemma failover_in_order:
  assumes "reliable E" "in_order s" "global_failover_locked E trigger s = (r, s')"
  shows "in_order s' \<and> route_step (route_of (sys_db s)) (route_of (sys_db s'))"
  using assms(2) global_failover_settled [OF assms(1) _ assms(3)] route_settled
    obeys_run [OF consistent_kept.global_failover_locked assms(3)]
    clients_match_step [OF obeys_run [OF clients_kept.global_failover_locked assms(3)]]
  by (auto simp: in_order_def consistent_step_def)

lemma providers_in_order:
  assumes "reliable E" "in_order s" "apply_provider_settings E busy input s = (r, s')"
  shows "in_order s' \<and> route_step (route_of (sys_db s)) (route_of (sys_db s'))"
proof -
  have kept: "db_routing (sys_db s') = db_routing (sys_db s)" "keeps sys_job s s'"
      "consistent_step (sys_frpc s) (sys_frpc s')"
    using obeys_run [OF routing_same.apply_provider_settings assms(3)]
      obeys_run [OF job_kept.apply_provider_settings assms(3)]
      obeys_run [OF consistent_kept.apply_provider_settings assms(3)] by simp_all
  moreover have "clients_match s'"
    using provider_settings_outcome [OF assms(3)] assms(1,2)
    by (auto simp: in_order_def split: sum.splits provider_settings_error.splits)
  ultimately show ?thesis
    using assms(2) settled_same_routing route_same_routing unfolding in_order_def
    by (auto simp: keeps_def consistent_step_def)
qed

lemma operation_in_order:
  assumes "reliable E" "in_order s"
  shows "in_order (operation_result E False op s)
    \<and> route_step (route_of (sys_db s)) (route_of (sys_db (operation_result E False op s)))"
proof (cases op)
  case OpReconcile
  with reconcile_in_order [OF assms(2) prod.collapse [symmetric]] show ?thesis
    by (simp add: operation_result_def)
next
  case OpFailover
  with failover_in_order [OF assms prod.collapse [symmetric]] show ?thesis
    by (simp add: operation_result_def global_failover_def effect_simps)
next
  case (OpProviders input)
  with providers_in_order [OF assms prod.collapse [symmetric]] show ?thesis
    by (simp add: operation_result_def)
next
  case (OpFault event)
  obtain r s' where run: "global_failover_locked E (Some event) s = (r, s')" by (metis surj_pair)
  have "operation_result E False op s \<in> {s, s'}"
    using OpFault run
    by (cases r) (auto simp: operation_result_def queued_global_failover_def fm_generation_of_def effect_simps)
  with failover_in_order [OF assms run] assms(2) route_same_routing show ?thesis
    by (auto simp: in_order_def)
qed

lemma refused_unchanged: "\<not> waits_for_lock op \<Longrightarrow> operation_result E True op s = s"
  by (cases op) (simp_all add: operation_result_def waits_for_lock_def coordinator_reconcile_def
      global_failover_def apply_provider_settings_def effect_simps)

lemma confirm_in_order:
  assumes "in_order s" "confirm_ambiguous_network_fault E event s = (r, s')"
  shows "in_order s'"
  by (rule in_order_quiet [where m = "confirm_ambiguous_network_fault E event", OF assms])
    (rule routing_fixed.whole.confirm_fault job_kept.confirm_fault consistent.confirm_fault
      clients_kept.confirm_fault)+

lemma pause_in_order:
  assumes "in_order s" "awaitM E s = (r, s')"
  shows "in_order s'"
  by (rule in_order_quiet [where m = "awaitM E", OF assms])
    (rule routing_fixed.whole.await job_kept.await consistent.await clients_kept.await)+

lemma step_in_order:
  assumes "machine_step E c c'" "reliable E" "in_order (ma_sys c)"
  shows "in_order (ma_sys c')"
  using assms(1)
proof (cases rule: machine_step.cases)
  case (finish op)
  with operation_in_order [OF assms(2,3)] show ?thesis by (simp add: hand_over_def split: list.splits)
next
  case (confirmed event event' s')
  with confirm_in_order [OF assms(3)] show ?thesis by (simp add: receive_fault_def)
next
  case (unconfirmed event r s')
  with confirm_in_order [OF assms(3)] show ?thesis by simp
next
  case pause
  with pause_in_order [OF assms(3) prod.collapse [symmetric]] show ?thesis by simp
qed (use assms(3) in \<open>simp_all add: receive_fault_def refused_unchanged\<close>)

lemma reach_in_order: "machine_reach E s c \<Longrightarrow> reliable E \<Longrightarrow> in_order s \<Longrightarrow> in_order (ma_sys c)"
  by (induction rule: machine_reach.induct) (auto dest: step_in_order)

text \<open>
  C4: the coordinator never leaves the program half-way. With SQLite reliable, from a state
  that is in order (the routing phase idle, failed or DNS-degraded, no job marked as
  running, the process manager consistent and the clients on the stored settings), every
  state the coordinator reaches is in order again, whatever operations, faults and
  confirmations come in which order and however the providers and FRPC behave.
\<close>
theorem machine_stays_in_order:
  assumes "machine_reach E s c" "reliable E" "in_order s"
  shows "in_order (ma_sys c)"
  using assms by (rule reach_in_order)

text \<open>
  C3: the coordinator refines the abstract routing machine: with SQLite reliable, each step
  of a reachable state, observed at the routing row, is either no change or a step of that
  machine, so the active node changes only by a whole switch to another node with the next
  revision, and no phase in between is ever left behind.
\<close>
theorem machine_refines_routing:
  assumes "machine_reach E s c" "machine_step E c c'" "reliable E" "in_order s"
  shows "route_step (route_of (sys_db (ma_sys c))) (route_of (sys_db (ma_sys c')))"
proof -
  have c: "in_order (ma_sys c)" by (rule reach_in_order [OF assms(1,3,4)])
  then have s: "settled (sys_db (ma_sys c))" by (simp add: in_order_def)
  note same = route_same_routing [OF s]
  from assms(2) show ?thesis
  proof (cases rule: machine_step.cases)
    case (finish op)
    with operation_in_order [OF assms(3) c] show ?thesis by (simp add: hand_over_def split: list.splits)
  next
    case (confirmed event event' s')
    from same [OF routing_kept_run [OF routing_fixed.whole.confirm_fault confirmed(4)]] confirmed(1)
    show ?thesis by (simp add: receive_fault_def)
  next
    case (unconfirmed event r s')
    from same [OF routing_kept_run [OF routing_fixed.whole.confirm_fault unconfirmed(4)]] unconfirmed(1)
    show ?thesis by simp
  next
    case pause
    then show ?thesis
      by (simp add: same [OF routing_kept_run [OF routing_fixed.whole.await prod.collapse [symmetric]]])
  qed (use same in \<open>simp_all add: receive_fault_def refused_unchanged\<close>)
qed

end
