(* ===== verification/Api_Laws.thy ===== *)
theory Api_Laws
  imports Api Coordinator_Machine
begin

text \<open>
  What the HTTP API may and may not do: every handler as one request, the frame all but a
  few of them obey, and the safety of the ones that write.
\<close>

section \<open>All requests\<close>

datatype api_call =
    GetHealth | GetReady | GetDashboard | GetTunnels | GetProviders
  | TestChmlfrp provider_probe | TestCloudflare provider_probe | ListZones provider_probe
  | GetRemoteTunnels | DiagnoseChmlfrp | GetDnsRecords | GetRouting | GetNodes | GetFrpcStatus | GetFrpcLogs
  | CreatePlan tunnel_plan_input | UpdatePlan int tunnel_plan_input | DeletePlan int | UnmanagePlan int
  | ImportTunnel tunnel_import | ImportAll
  | PutProviders provider_settings_update
  | CreateRemote remote_tunnel_mutation | UpdateRemote int remote_tunnel_mutation | DeleteRemote int | TestWrite int
  | BootstrapRouting routing_bootstrap | PutRouting routing_update | Unquarantine string
  | CreateDns dns_record_mutation | UpdateDns string dns_record_mutation | DeleteDns string | DiagnoseDns
  | PostReconcile | PostFailover | FrpcStart | FrpcStop | FrpcRestart

text \<open>The state after a request; its answer is not looked at here.\<close>

fun api_effect :: "'w env \<Rightarrow> bool \<Rightarrow> api_call \<Rightarrow> 'w sys \<Rightarrow> 'w sys" where
  "api_effect E busy GetHealth s = snd (api_health E s)"
| "api_effect E busy GetReady s = snd (api_ready E s)"
| "api_effect E busy GetDashboard s = snd (api_dashboard E s)"
| "api_effect E busy GetTunnels s = snd (api_list_tunnels E s)"
| "api_effect E busy GetProviders s = snd (api_provider_settings E s)"
| "api_effect E busy (TestChmlfrp i) s = snd (api_test_chmlfrp E i s)"
| "api_effect E busy (TestCloudflare i) s = snd (api_test_cloudflare E i s)"
| "api_effect E busy (ListZones i) s = snd (api_cloudflare_zones E i s)"
| "api_effect E busy GetRemoteTunnels s = snd (api_chmlfrp_tunnels E s)"
| "api_effect E busy DiagnoseChmlfrp s = snd (api_chmlfrp_diagnostics E s)"
| "api_effect E busy GetDnsRecords s = snd (api_dns_records E s)"
| "api_effect E busy GetRouting s = snd (api_routing E s)"
| "api_effect E busy GetNodes s = snd (api_nodes E s)"
| "api_effect E busy GetFrpcStatus s = snd (api_frpc_status E s)"
| "api_effect E busy GetFrpcLogs s = snd (api_frpc_logs s)"
| "api_effect E busy (CreatePlan i) s = snd (api_create_tunnel E i s)"
| "api_effect E busy (UpdatePlan tid i) s = snd (api_update_tunnel E tid i s)"
| "api_effect E busy (DeletePlan tid) s = snd (api_delete_tunnel E tid s)"
| "api_effect E busy (UnmanagePlan tid) s = snd (api_unmanage_tunnel E tid s)"
| "api_effect E busy (ImportTunnel i) s = snd (api_import_tunnel E i s)"
| "api_effect E busy ImportAll s = snd (api_import_all E s)"
| "api_effect E busy (PutProviders i) s = snd (api_update_provider_settings E busy i s)"
| "api_effect E busy (CreateRemote i) s = snd (api_chmlfrp_create_tunnel E i s)"
| "api_effect E busy (UpdateRemote tid i) s = snd (api_chmlfrp_update_tunnel E tid i s)"
| "api_effect E busy (DeleteRemote tid) s = snd (api_chmlfrp_delete_tunnel tid s)"
| "api_effect E busy (TestWrite tid) s = snd (api_chmlfrp_test_write E tid s)"
| "api_effect E busy (BootstrapRouting i) s = snd (api_bootstrap_routing E i s)"
| "api_effect E busy (PutRouting i) s = snd (api_update_routing E i s)"
| "api_effect E busy (Unquarantine name) s = snd (api_unquarantine E name s)"
| "api_effect E busy (CreateDns i) s = snd (api_create_dns_record E i s)"
| "api_effect E busy (UpdateDns rid i) s = snd (api_update_dns_record E rid i s)"
| "api_effect E busy (DeleteDns rid) s = snd (api_delete_dns_record E rid s)"
| "api_effect E busy DiagnoseDns s = snd (api_dns_diagnostics E s)"
| "api_effect E busy PostReconcile s = snd (api_reconcile E busy s)"
| "api_effect E busy PostFailover s = snd (api_manual_failover E busy s)"
| "api_effect E busy FrpcStart s = snd (api_frpc_start E s)"
| "api_effect E busy FrpcStop s = snd (api_frpc_stop E s)"
| "api_effect E busy FrpcRestart s = snd (api_frpc_restart E s)"

definition only_reads :: "api_call \<Rightarrow> bool" where
  "only_reads c \<longleftrightarrow>
     (case c of
        GetHealth \<Rightarrow> True | GetReady \<Rightarrow> True | GetDashboard \<Rightarrow> True | GetTunnels \<Rightarrow> True | GetProviders \<Rightarrow> True
      | TestChmlfrp _ \<Rightarrow> True | TestCloudflare _ \<Rightarrow> True | ListZones _ \<Rightarrow> True | GetRemoteTunnels \<Rightarrow> True
      | DiagnoseChmlfrp \<Rightarrow> True | GetDnsRecords \<Rightarrow> True | GetRouting \<Rightarrow> True | GetNodes \<Rightarrow> True
      | GetFrpcStatus \<Rightarrow> True | GetFrpcLogs \<Rightarrow> True | DeleteRemote _ \<Rightarrow> True | _ \<Rightarrow> False)"

section \<open>Frames of the handlers\<close>

context store_frame
begin

lemma api: "obeys R m \<Longrightarrow> obeys R (apiM m)"
  unfolding apiM_def by (rule obeys_map_err)

lemma log_event: "obeys R (log_event E kind level m t n d)"
  unfolding log_event_def by (intro api store_logs)

lemma ping: "obeys R (dbM E (returnM ()))"
  by (rule db) (simp add: obeys_def effect_simps unchanged)

lemma not_managed: "obeys R (not_managed E name m)"
  unfolding not_managed_def by (intro primitives api store_reads)

lemma find_remote: "obeys R (find_remote E tid e)"
  unfolding find_remote_def by (auto intro!: primitives api reading split: option.splits)

lemma dashboard_node: "obeys R (dashboard_node E n)"
  unfolding dashboard_node_def
  by (auto intro!: primitives api reading store_reads split: option.splits sum.splits)

lemma node_online: "obeys R (node_online E name m)"
  unfolding node_online_def by (intro primitives api reading)

lemma dns_gone: "obeys R (dns_gone E plan)"
  unfolding dns_gone_def by (intro primitives api reading)

lemma config_test: "obeys R (config_test E ts)"
  unfolding config_test_def Let_def by (auto intro!: primitives reading split: list.splits)

lemma dns_unmanaged: "obeys R (dns_unmanaged E rid cur advice)"
  unfolding dns_unmanaged_def managed_plan_for_dns_def
  by (auto intro!: primitives api store_reads split: option.splits)

end

context program_frame
begin

lemma read_if: "obeys R m \<Longrightarrow> obeys R (read_if b m)"
  unfolding read_if_def by (auto intro!: primitives)

lemma build_rows: "obeys R (build_rows E)"
  unfolding build_rows_def Let_def
  by (auto intro!: primitives store_reads read_if reading fm_status)

lemma reading_call: "only_reads c \<Longrightarrow> R s (api_effect E busy c s)"
proof (cases c)
  case GetHealth
  have "obeys R (api_health E)" unfolding api_health_def by (intro primitives fm_status)
  from obeysD [OF this] GetHealth show ?thesis by simp
next
  case GetDashboard
  have "obeys R (api_dashboard E)"
    unfolding api_dashboard_def by (intro primitives api dashboard_node store_reads fm_status reading build_rows)
  from obeysD [OF this] GetDashboard show ?thesis by simp
next
  case (TestCloudflare i)
  have "obeys R (api_test_cloudflare E i)"
    unfolding api_test_cloudflare_def Let_def by (auto intro!: primitives api store_reads reading)
  from obeysD [OF this] TestCloudflare show ?thesis by simp
qed (auto simp: only_reads_def api_ready_def api_list_tunnels_def api_provider_settings_def api_test_chmlfrp_def
    api_cloudflare_zones_def api_chmlfrp_tunnels_def api_chmlfrp_diagnostics_def api_dns_records_def
    api_routing_def api_nodes_def api_frpc_status_def api_frpc_logs_def api_chmlfrp_delete_tunnel_def Let_def
    intro!: obeysD [where le = R] primitives api ping store_reads reading fm_status config_test)

end

text \<open>
  The requests that change something, in any frame that allows every effect and the changes
  of plans, quarantine, settings and record ids; the three requests that may change the
  active node are left out.
\<close>

locale api_frame = settings_frame R A D F + manager_frame R A D F
  for R :: "'w sys \<Rightarrow> 'w sys \<Rightarrow> bool" and A D F +
  assumes anything: "A e"
    and records: "obeys D (set_cloudflare_record_id now tid rid)"
    and idle: "obeys D (set_routing_phase now Idle)"
    and plans: "obeys D (create_tunnel now i)" "obeys D (update_tunnel now tid i)" "obeys D (delete_tunnel tid)"
    and cleared_quarantine: "obeys D (clear_quarantine name)"

sublocale api_frame \<subseteq> program_frame
  by unfold_locales

context api_frame
begin

lemma store_plans:
  "obeys R (st_create_tunnel E i)" "obeys R (st_update_tunnel E tid i)" "obeys R (st_delete_tunnel E tid)"
  "obeys R (st_clear_quarantine E name)"
  unfolding st_create_tunnel_def st_update_tunnel_def st_delete_tunnel_def st_clear_quarantine_def
  by (intro primitives plans cleared_quarantine)+

lemma import_each: "obeys R (import_each E existing imported skipped ts)"
  by (induction E existing imported skipped ts rule: import_each.induct)
    (auto intro!: primitives store_plans simp: Let_def split: sum.splits)

lemma or_delete_record: "obeys R m \<Longrightarrow> obeys R (or_delete_record E rid m)"
  unfolding or_delete_record_def
  by (auto intro!: primitives cf_delete_dns_record split: sum.splits simp: anything)

lemma remote_writes:
  "obeys R (ch_create_remote_tunnel E self i)" "obeys R (ch_update_remote_tunnel E self i)"
  "obeys R (cf_create_dns_record E cself r)" "obeys R (cf_update_dns_record E cself rid r)"
  "obeys R (cf_delete_dns_record E cself rid)"
  by (auto intro!: ch_create_remote_tunnel ch_update_remote_tunnel cf_create_dns_record cf_update_dns_record
      cf_delete_dns_record simp: anything)

lemma dns_crud: "obeys R (dns_crud E name)"
  unfolding dns_crud_def by (intro primitives api or_delete_record remote_writes reading)

lemma reconcile: "obeys R (coordinator_reconcile E busy)"
  unfolding coordinator_reconcile_def
  by (intro primitives reconcile_all) (simp_all add: anything records idle)

lemmas handlers =
  primitives api store_reads reading store_plans log_event not_managed find_remote dns_gone dns_unmanaged
  remote_writes import_each dns_crud reconcile apply_provider_settings fm_start fm_stop fm_restart anything

lemma changing_call:
  assumes "\<not> only_reads c" "c \<noteq> PostFailover" "\<And>i. c \<noteq> PutRouting i" "\<And>i. c \<noteq> BootstrapRouting i"
  shows "R s (api_effect E busy c s)"
proof (cases c)
  case (DeletePlan tid)
  have "obeys R (api_delete_tunnel E tid)" unfolding api_delete_tunnel_def by (intro handlers)
  from obeysD [OF this] DeletePlan show ?thesis by simp
next
  case ImportAll
  have "obeys R (api_import_all E)"
    unfolding api_import_all_def Let_def by (auto intro!: handlers)
  from obeysD [OF this] ImportAll show ?thesis by simp
next
  case (ImportTunnel i)
  have "obeys R (api_import_tunnel E i)" unfolding api_import_tunnel_def Let_def by (intro handlers)
  from obeysD [OF this] ImportTunnel show ?thesis by simp
next
  case (TestWrite tid)
  have "obeys R (api_chmlfrp_test_write E tid)" unfolding api_chmlfrp_test_write_def by (intro handlers)
  from obeysD [OF this] TestWrite show ?thesis by simp
next
  case DiagnoseDns
  have "obeys R (api_dns_diagnostics E)"
    unfolding api_dns_diagnostics_def Let_def by (auto intro!: handlers split: option.splits)
  from obeysD [OF this] DiagnoseDns show ?thesis by simp
qed (use assms in \<open>auto simp: only_reads_def api_create_tunnel_def api_update_tunnel_def api_unmanage_tunnel_def
    api_update_provider_settings_def api_chmlfrp_create_tunnel_def api_chmlfrp_update_tunnel_def
    api_unquarantine_def api_create_dns_record_def api_update_dns_record_def api_delete_dns_record_def
    api_reconcile_def api_frpc_start_def api_frpc_stop_def api_frpc_restart_def
    intro!: obeysD [where le = R] handlers\<close>)

end

section \<open>Reading requests\<close>

text \<open>
  C38: a request that only reads changes nothing outside and nothing of the configuration:
  what it does to the outside are reading HTTP requests, and the routing row and the plans
  are as before. Asking the API to delete a remote tunnel is such a request: it is always
  refused.
\<close>
theorem reading_requests_are_harmless:
  assumes "only_reads c"
  shows "(\<exists>t. sys_trace (api_effect E busy c s) = sys_trace s @ t \<and> (\<forall>e \<in> set t. harmless e))
    \<and> db_routing (sys_db (api_effect E busy c s)) = db_routing (sys_db s)
    \<and> db_plans (sys_db (api_effect E busy c s)) = db_plans (sys_db s)"
proof (intro conjI)
  show "\<exists>t. sys_trace (api_effect E busy c s) = sys_trace s @ t \<and> (\<forall>e \<in> set t. harmless e)"
    using traced.reading_call [OF assms, where B = "\<lambda>_. False"] by (simp add: quiet_def reads_or_def)
  show "db_routing (sys_db (api_effect E busy c s)) = db_routing (sys_db s)"
    using routing_fixed.whole.reading_call [OF assms] by (simp add: keeps_def)
  show "db_plans (sys_db (api_effect E busy c s)) = db_plans (sys_db s)"
    using plans_fixed.whole.reading_call [OF assms] by (simp add: keeps_def)
qed

section \<open>The active node\<close>

definition active_fixed :: "db_state \<Rightarrow> db_state \<Rightarrow> bool" where
  "active_fixed d d' \<longleftrightarrow> (db_active d \<noteq> None \<longrightarrow> db_active d' = db_active d)"

lemma keeps_active_fixed: "obeys (keeps db_routing) m \<Longrightarrow> obeys active_fixed m"
  by (simp add: obeys_def keeps_def active_fixed_def db_active_def)

lemma plan_changes_keep_routing:
  "obeys (keeps db_routing) (create_tunnel now i)" "obeys (keeps db_routing) (update_tunnel now tid i)"
  "obeys (keeps db_routing) (delete_tunnel tid)"
  by (auto simp: obeys_def keeps_def create_tunnel_def update_tunnel_def delete_tunnel_def get_tunnel_def
      effect_simps Let_def split: option.splits)

interpretation active_kept: api_frame "\<lambda>s s'. active_fixed (sys_db s) (sys_db s')" "\<lambda>_. True" active_fixed
    "\<lambda>_ _. True"
proof
  show "active_fixed (sys_db s) (sys_db t) \<Longrightarrow> active_fixed (sys_db t) (sys_db u) \<Longrightarrow> active_fixed (sys_db s) (sys_db u)"
    for s t u :: "'a sys" by (auto simp: active_fixed_def)
  show "obeys active_fixed (set_routing_phase now Idle)" for now
    using routing.active_set [of now Idle] by (simp add: obeys_def active_fixed_def)
  show "obeys active_fixed (update_provider_settings now input)" for now input
    by (rule keeps_active_fixed) (rule routing_same.settings)
qed (auto simp: active_fixed_def
    intro!: keeps_active_fixed routing_kept plan_changes_keep_routing)

lemma st_update_routing_active:
  assumes "st_update_routing E input s = (r, s')"
  shows "sys_db s' = sys_db s \<or> db_active (sys_db s') = ru_active_node input"
proof -
  obtain q s1 where n: "sql_nowM E s = (q :: string + string, s1)" by (metis surj_pair)
  from sql_nowM_cases [OF n] obtain now where q: "q = Inr now" "sys_db s1 = sys_db s" by blast
  from assms n q have d: "dbM E (update_routing now input) s1 = (r, s')"
    by (simp add: st_update_routing_def effect_simps)
  have "db_active (snd (update_routing now input (sys_db s1))) = ru_active_node input"
    by (simp add: update_routing_def update_routing_row_def run_routing_state db_active_def effect_simps
        split: sum.splits)
  with dbM_cases [OF d] q(2) show ?thesis by auto
qed

lemma put_routing_active:
  assumes "db_active (sys_db s) = Some a"
  shows "db_active (sys_db (snd (api_update_routing E input s))) = Some a"
proof -
  obtain q s1 where a: "st_routing_state E s = (q, s1)" by (metis surj_pair)
  then have d: "sys_db s1 = sys_db s"
    using dbM_cases [of E routing_state s q s1] by (auto simp: st_routing_state_def no_change)
  have cur: "rs_active_node cur = Some a" if "q = Inr cur" for cur
    using st_routing_state_Inr [of E s cur s1] a that assms
    by (auto simp: run_routing_state db_active_def split: sum.splits)
  obtain p s2 where u: "st_update_routing E input s1 = (p, s2)" by (metis surj_pair)
  from st_update_routing_active [OF u] d assms
  have "ru_active_node input = Some a \<Longrightarrow> db_active (sys_db s2) = Some a" by auto
  with a d cur u assms show ?thesis
    by (cases q) (auto simp: api_update_routing_def apiM_def effect_simps)
qed

lemma bootstrap_refused:
  assumes "db_active (sys_db s) = Some a"
  shows "sys_db (snd (api_bootstrap_routing E input s)) = sys_db s"
proof -
  obtain q s1 where a: "st_routing_state E s = (q, s1)" by (metis surj_pair)
  then have d: "sys_db s1 = sys_db s"
    using dbM_cases [of E routing_state s q s1] by (auto simp: st_routing_state_def no_change)
  have "rs_active_node cur = Some a" if "q = Inr cur" for cur
    using st_routing_state_Inr [of E s cur s1] a that assms
    by (auto simp: run_routing_state db_active_def split: sum.splits)
  with a d show ?thesis by (cases q) (auto simp: api_bootstrap_routing_def apiM_def effect_simps)
qed


section \<open>Direct edits of provider resources\<close>

text \<open>What an operation does to the outside from a given state on, step by step.\<close>

definition does_only :: "(effect \<Rightarrow> bool) \<Rightarrow> ('w, 'e, 'a) act \<Rightarrow> 'w sys \<Rightarrow> bool" where
  "does_only B m s \<longleftrightarrow> quiet (reads_or B) s (snd (m s))"

lemma does_only_obeys: "obeys (quiet (reads_or B)) m \<Longrightarrow> does_only B m s"
  by (simp add: does_only_def obeys_def)

lemma does_only_bind:
  "does_only B m s \<Longrightarrow> (\<And>x t. m s = (Inr x, t) \<Longrightarrow> does_only B (f x) t) \<Longrightarrow> does_only B (bindM m f) s"
  unfolding does_only_def run_bindM
  by (cases "m s") (auto intro: quiet.le_trans split: sum.splits)

lemma does_only_then:
  "does_only B m s \<Longrightarrow> (\<And>x t. m s = (Inr x, t) \<Longrightarrow> does_only B k t) \<Longrightarrow> does_only B (thenM m k) s"
  unfolding thenM_def by (rule does_only_bind)

lemmas does_only_intros = does_only_then does_only_bind

definition plans_of :: "'w sys \<Rightarrow> tunnel_plan list" where
  "plans_of s = map row_to_tunnel (db_plans (sys_db s))"

lemma plans_of_same: "keeps db_plans (sys_db s) (sys_db s') \<Longrightarrow> plans_of s' = plans_of s"
  by (simp add: plans_of_def keeps_def)

lemma apiM_Inr: "apiM m s = (Inr x, s') \<longleftrightarrow> m s = (Inr x, s')"
  unfolding apiM_def by (rule map_errM_Inr_iff)

lemma st_list_tunnels_plans:
  "st_list_tunnels E s = (Inr ps, s') \<Longrightarrow> set ps = set (plans_of s) \<and> plans_of s' = plans_of s"
  unfolding st_list_tunnels_def
  by (drule dbM_Inr) (auto simp: list_tunnels_result plans_of_def no_change)

lemma not_managed_Inr:
  "not_managed E name m s = (Inr u, s') \<Longrightarrow>
   name \<notin> tp_name ` set (plans_of s) \<and> plans_of s' = plans_of s"
  by (auto simp: not_managed_def apiM_Inr Inr_iffs list_ex_iff dest!: st_list_tunnels_plans)

lemma find_remote_plans: "find_remote E tid e s = (r, s') \<Longrightarrow> plans_of s' = plans_of s"
  by (rule plans_of_same) (rule obeys_run [OF plans_fixed.whole.find_remote])

text \<open>An edit at a provider that leaves everything of the managed plans alone.\<close>

fun spares :: "tunnel_plan list \<Rightarrow> effect \<Rightarrow> bool" where
  "spares plans (FxHttp (ChCreate c m)) =
     (\<exists>i. m = from_remote_input (cc_token c) i \<and> mu_tunnel_name i \<notin> tp_name ` set plans)"
| "spares plans (FxHttp (ChUpdate c m)) =
     (\<exists>i. m = from_remote_input (cc_token c) i \<and> mu_tunnel_name i \<notin> tp_name ` set plans)"
| "spares plans (FxHttp (CfCreate c i)) =
     (\<forall>p \<in> set plans. tp_dns_managed p \<longrightarrow> \<not> eq_ignore_ascii_case (tp_domain p) (trim (dm_name i)))"
| "spares plans (FxHttp (CfUpdate c rid i)) =
     (\<forall>p \<in> set plans. tp_dns_managed p \<longrightarrow> tp_record_id p \<noteq> Some rid)"
| "spares plans (FxHttp (CfDelete c rid)) =
     (\<forall>p \<in> set plans. tp_dns_managed p \<longrightarrow> tp_record_id p \<noteq> Some rid)"
| "spares plans _ = False"

lemma edit_remote_spares:
  assumes "mu_tunnel_name i \<notin> tp_name ` set plans"
  shows "does_only (spares plans) (apiM (ch_create_remote_tunnel E self i)) s"
    "does_only (spares plans) (apiM (ch_update_remote_tunnel E self i)) s"
  by (rule does_only_obeys, rule traced.api, (rule traced.ch_create_remote_tunnel traced.ch_update_remote_tunnel),
      use assms in \<open>auto simp: reads_or_def\<close>)+

lemma does_only_simple:
  "does_only B (returnM x) s" "does_only B (ensureM b e) s" "does_only B (liftM r) s"
  by (cases r; simp add: does_only_def effect_simps quiet_same)+

lemma create_remote_spares: "does_only (spares (plans_of s)) (api_chmlfrp_create_tunnel E i) s"
  unfolding api_chmlfrp_create_tunnel_def
  by (intro does_only_intros does_only_simple does_only_obeys [OF traced.not_managed]
      does_only_obeys [OF traced.log_event] edit_remote_spares)
    (auto simp: Inr_iffs liftM_def dest!: not_managed_Inr split: sum.splits)

lemma update_remote_spares: "does_only (spares (plans_of s)) (api_chmlfrp_update_tunnel E tid i) s"
  unfolding api_chmlfrp_update_tunnel_def
  by (intro does_only_intros does_only_simple does_only_obeys [OF traced.not_managed]
      does_only_obeys [OF traced.find_remote] does_only_obeys [OF traced.log_event] edit_remote_spares)
    (auto simp: Inr_iffs liftM_def dest!: not_managed_Inr find_remote_plans split: sum.splits)

lemma mutation_name: "mutation_from_remote t = Inr m \<Longrightarrow> mu_tunnel_name m = rm_name t"
  by (auto simp: mutation_from_remote_def Let_def split: option.splits)

lemma test_write_spares: "does_only (spares (plans_of s)) (api_chmlfrp_test_write E tid) s"
  unfolding api_chmlfrp_test_write_def
  by (intro does_only_intros does_only_simple does_only_obeys [OF traced.not_managed]
      does_only_obeys [OF traced.find_remote] does_only_obeys [OF traced.log_event] edit_remote_spares)
    (auto simp: Inr_iffs liftM_def mutation_name dest!: not_managed_Inr find_remote_plans split: sum.splits)

lemma dns_unmanaged_Inr:
  assumes "dns_unmanaged E rid cur advice s = (Inr u, s')"
  shows "\<forall>p \<in> set (plans_of s). tp_dns_managed p \<longrightarrow> tp_record_id p \<noteq> Some rid"
proof -
  from assms obtain ps t where l: "st_list_tunnels E s = (Inr ps, t)" "find (manages_dns rid (dr_name cur)) ps = None"
    by (auto simp: dns_unmanaged_def managed_plan_for_dns_def apiM_Inr Inr_iffs split: option.splits)
  from st_list_tunnels_plans [OF l(1)] l(2) show ?thesis
    by (auto simp: find_None_iff manages_dns_def)
qed

lemma get_record_plans: "apiM (cf_get_dns_record E self rid) s = (r, s') \<Longrightarrow> plans_of s' = plans_of s"
  by (rule plans_of_same) (rule obeys_run [OF plans_fixed.whole.api [OF plans_fixed.whole.reading(9)]])

lemma edit_dns_spares:
  assumes "\<forall>p \<in> set plans. tp_dns_managed p \<longrightarrow> tp_record_id p \<noteq> Some rid"
  shows "does_only (spares plans) (apiM (cf_update_dns_record E self rid i)) s"
    "does_only (spares plans) (apiM (cf_delete_dns_record E self rid)) s"
  by (rule does_only_obeys, rule traced.api, (rule traced.cf_update_dns_record traced.cf_delete_dns_record),
      use assms in \<open>auto simp: reads_or_def\<close>)+

lemma create_dns_spares: "does_only (spares (plans_of s)) (api_create_dns_record E i) s"
proof -
  have create: "does_only (spares plans) (apiM (cf_create_dns_record E self i)) t"
    if "\<forall>p \<in> set plans. tp_dns_managed p \<longrightarrow> \<not> eq_ignore_ascii_case (tp_domain p) (trim (dm_name i))"
    for plans self t
    using that by (intro does_only_obeys traced.api traced.cf_create_dns_record) (simp add: reads_or_def)
  show ?thesis
    unfolding api_create_dns_record_def
    by (intro does_only_intros does_only_simple does_only_obeys [OF traced.api [OF traced.store_reads(1)]]
        does_only_obeys [OF traced.log_event] create)
      (auto simp: Inr_iffs liftM_def apiM_Inr list_ex_iff dest!: st_list_tunnels_plans split: sum.splits)
qed

lemma update_dns_spares: "does_only (spares (plans_of s)) (api_update_dns_record E rid i) s"
  unfolding api_update_dns_record_def
  by (intro does_only_intros does_only_simple does_only_obeys [OF traced.dns_unmanaged]
      does_only_obeys [OF traced.api [OF traced.reading(9)]]
      does_only_obeys [OF traced.log_event] edit_dns_spares)
    (auto simp: Inr_iffs liftM_def dest!: dns_unmanaged_Inr get_record_plans split: sum.splits)

lemma delete_dns_spares: "does_only (spares (plans_of s)) (api_delete_dns_record E rid) s"
  unfolding api_delete_dns_record_def
  by (intro does_only_intros does_only_simple does_only_obeys [OF traced.dns_unmanaged]
      does_only_obeys [OF traced.api [OF traced.reading(9)]]
      does_only_obeys [OF traced.log_event] edit_dns_spares)
    (auto simp: Inr_iffs dest!: dns_unmanaged_Inr get_record_plans)

definition direct_edit :: "api_call \<Rightarrow> bool" where
  "direct_edit c \<longleftrightarrow>
     (case c of
        CreateRemote _ \<Rightarrow> True | UpdateRemote _ _ \<Rightarrow> True | TestWrite _ \<Rightarrow> True
      | CreateDns _ \<Rightarrow> True | UpdateDns _ _ \<Rightarrow> True | DeleteDns _ \<Rightarrow> True | _ \<Rightarrow> False)"


end
