(* ===== verification/Api_Safety.thy ===== *)
theory Api_Safety
  imports Api_Laws
begin

text \<open>
  What the validation of the HTTP API gives the database, and what deleting a plan
  requires of the providers.
\<close>

section \<open>Validation and the schema\<close>

lemma validate_tunnel_Inr:
  "validate_tunnel i = Inr () \<longleftrightarrow>
     trim (ti_name i) \<noteq> [] \<and> trim (ti_local_ip i) \<noteq> [] \<and> valid_port (ti_local_port i)
     \<and> known_protocol (ti_protocol i)
     \<and> (trim (ti_domain i) = [] \<longrightarrow> \<not> web_protocol (ti_protocol i) \<and> \<not> ti_dns_managed i)"
  by (auto simp: validate_tunnel_def first_failure_Inr)

lemma validate_tunnel_Inl: "validate_tunnel i = Inl e \<Longrightarrow> er_status e = 400"
  by (auto simp: validate_tunnel_def bad_request_def split: if_splits)

lemma accepted_row_passes:
  assumes "validate_tunnel i = Inr ()" "pr_enabled r \<in> {0, 1}"
  shows "plan_check (updated_row now i r)"
  using assms
  by (auto simp: validate_tunnel_Inr plan_check_def updated_row_def valid_port_def known_protocol_def
      web_protocol_def int_of_bool_def)

text \<open>The row \<open>create_tunnel\<close> inserts is an updated row, too.\<close>

definition fresh_row :: "string \<Rightarrow> int \<Rightarrow> plan_row" where
  "fresh_row now tid =
     \<lparr>pr_id = tid, pr_name = [], pr_local_ip = [], pr_local_port = 0, pr_protocol = [], pr_domain = [],
      pr_dns_managed = 0, pr_record_id = None, pr_enabled = 1, pr_created_at = now, pr_updated_at = now\<rparr>"

lemma created_row:
  "\<lparr>pr_id = tid, pr_name = trim (ti_name i), pr_local_ip = trim (ti_local_ip i),
    pr_local_port = ti_local_port i, pr_protocol = to_ascii_lowercase (ti_protocol i),
    pr_domain = to_ascii_lowercase (trim (ti_domain i)), pr_dns_managed = int_of_bool (ti_dns_managed i),
    pr_record_id = None, pr_enabled = 1, pr_created_at = now, pr_updated_at = now\<rparr>
   = updated_row now i (fresh_row now tid)"
  by (simp add: updated_row_def fresh_row_def)

lemma create_not_checked:
  "validate_tunnel i = Inr () \<Longrightarrow> fst (create_tunnel now i d) \<noteq> Inl CheckViolation"
  using accepted_row_passes [of i "fresh_row now (db_plan_seq d + 1)" now]
  by (simp add: create_tunnel_def created_row Let_def effect_simps row_simps fresh_row_def split: option.splits)

lemma update_not_checked:
  assumes "db_wf d" "validate_tunnel i = Inr ()"
  shows "fst (update_tunnel now tid i d) \<noteq> Inl CheckViolation"
proof (cases "find (\<lambda>r. pr_id r = tid) (db_plans d)")
  case None
  then show ?thesis by (simp add: update_tunnel_def effect_simps row_simps)
next
  case (Some r)
  then have "r \<in> set (db_plans d)" by (auto simp: find_Some_iff)
  with assms(1) have "pr_enabled r \<in> {0, 1}" by (auto simp: db_wf_def plans_wf_def plan_check_def)
  from accepted_row_passes [OF assms(2) this] Some show ?thesis
    by (simp add: update_tunnel_def effect_simps row_simps Let_def split: option.splits)
qed

text \<open>
  C24: the checks of the API and those of the schema agree. A tunnel plan the API accepts
  never violates a CHECK constraint when it is stored, neither as a new plan nor over any
  existing one; an input it refuses is answered with status 400 by both requests, before
  the database or anything outside is touched.
\<close>
theorem accepted_tunnel_passes_schema:
  assumes "db_wf (sys_db s)"
  shows "case validate_tunnel i of
      Inr _ \<Rightarrow> fst (create_tunnel now i (sys_db s)) \<noteq> Inl CheckViolation
        \<and> fst (update_tunnel now tid i (sys_db s)) \<noteq> Inl CheckViolation
    | Inl e \<Rightarrow> er_status e = 400
        \<and> api_create_tunnel E i s = (Inl e, s) \<and> api_update_tunnel E tid i s = (Inl e, s)"
  using create_not_checked update_not_checked [OF assms] validate_tunnel_Inl
  by (auto simp: api_create_tunnel_def api_update_tunnel_def effect_simps split: sum.splits)

section \<open>Provider addresses\<close>

definition loopback_hosts :: "string set" where
  "loopback_hosts = {''http://127.0.0.1'', ''http://localhost'', ''http://[::1]''}"

lemma loopback_base_iff:
  "loopback_base v \<longleftrightarrow>
     (\<exists>host \<in> loopback_hosts. \<exists>rest. v = host @ rest \<and> (rest = [] \<or> hd rest \<in> {CHR '':'', CHR ''/''}))"
proof -
  have host: "(\<exists>rest. v = h @ rest \<and> (rest = [] \<or> hd rest \<in> {CHR '':'', CHR ''/''}))
      \<longleftrightarrow> v = h \<or> prefix (h @ '':'') v \<or> prefix (h @ ''/'') v" for h
    by (auto simp: prefix_def neq_Nil_conv)
  show ?thesis
    using host [of "''http://127.0.0.1''"] host [of "''http://localhost''"] host [of "''http://[::1]''"]
    unfolding loopback_base_def starts_with_def loopback_hosts_def by simp
qed

text \<open>
  C37: an API address that is accepted starts with \<open>https://\<close>, or with a plain HTTP
  address of this machine followed by nothing, a port or a path, and everything else is
  refused with status 400. What follows the colon is not looked at, so a user part that
  looks like a local host is accepted with any host behind it.
\<close>
theorem api_base_accepts:
  "(case validate_api_base label base of
      Inr _ \<Rightarrow> starts_with (trim base) ''https://''
        \<or> (\<exists>host \<in> loopback_hosts. \<exists>rest. trim base = host @ rest
             \<and> (rest = [] \<or> hd rest \<in> {CHR '':'', CHR ''/''}))
    | Inl e \<Rightarrow> er_status e = 400)
   \<and> validate_api_base label ''http://127.0.0.1:80@evil.example'' = Inr ()"
proof -
  have "trim ''http://127.0.0.1:80@evil.example'' = ''http://127.0.0.1:80@evil.example''" by code_simp
  moreover have "loopback_base ''http://127.0.0.1:80@evil.example''" by code_simp
  ultimately show ?thesis
    unfolding loopback_base_iff [symmetric]
    by (auto simp: validate_api_base_def Let_def bad_request_def split: sum.splits if_splits)
qed

section \<open>Deleting a plan\<close>

lemma ids_of_rows: "map row_to_tunnel (filter (\<lambda>r. pr_id r \<noteq> tid) rows)
    = filter (\<lambda>p. tp_id p \<noteq> tid) (map row_to_tunnel rows)"
  by (induction rows) (simp_all add: row_to_tunnel_def)

lemma st_delete_tunnel_plans:
  assumes "st_delete_tunnel E tid s = (r, s')"
  shows "(plans_of s' = plans_of s \<or> plans_of s' = filter (\<lambda>p. tp_id p \<noteq> tid) (plans_of s))
    \<and> (\<not> isl r \<longrightarrow> plans_of s' = filter (\<lambda>p. tp_id p \<noteq> tid) (plans_of s))
    \<and> (reliable E \<longrightarrow> \<not> isl r)"
proof -
  from assms have d: "dbM E (delete_tunnel tid) s = (r, s')" by (simp add: st_delete_tunnel_def)
  have "delete_tunnel tid (sys_db s) = (Inr (), (sys_db s)\<lparr>db_plans := filter (\<lambda>r. pr_id r \<noteq> tid) (db_plans (sys_db s))\<rparr>)"
    by (simp add: delete_tunnel_def effect_simps)
  with dbM_cases [OF d] dbM_reliable [OF _ d] dbM_Inr [of E "delete_tunnel tid" s _ s'] d show ?thesis
    by (cases r) (auto simp: plans_of_def ids_of_rows isl_map_sum)
qed

text \<open>What the providers report when they are asked for what a plan may have left there.\<close>

definition dns_left :: "'w env \<Rightarrow> tunnel_plan \<Rightarrow> 'w sys \<Rightarrow> bool" where
  "dns_left E plan s \<longleftrightarrow>
     (case fst (cf_list_a_records E sys_cf s) of
        Inl _ \<Rightarrow> True
      | Inr records \<Rightarrow> \<exists>r \<in> set records. eq_ignore_ascii_case (dr_name r) (tp_domain plan))"

definition something_left :: "'w env \<Rightarrow> tunnel_plan \<Rightarrow> 'w sys \<Rightarrow> bool" where
  "something_left E plan s \<longleftrightarrow>
     (case ch_list_tunnels E sys_chml s of
        (Inl _, _) \<Rightarrow> True
      | (Inr remote, t) \<Rightarrow> tp_name plan \<in> rm_name ` set remote \<or> (tp_dns_managed plan \<and> dns_left E plan t))"

lemma dns_gone_Inr: "dns_gone E plan u = (Inr x, v) \<Longrightarrow> \<not> dns_left E plan u"
  by (auto simp: dns_gone_def dns_left_def apiM_Inr bindM_Inr_iff thenM_Inr_iff simple_Inr_iffs list_ex_iff)

lemma deletion_Inr:
  assumes "api_delete_tunnel E tid s = (Inr j, s')"
  shows "\<exists>plan t. st_get_tunnel E tid s = (Inr plan, t) \<and> \<not> something_left E plan t"
  using assms unfolding api_delete_tunnel_def
  by (elim bindM_InrE thenM_InrE)
    (auto simp: apiM_Inr simple_Inr_iffs list_ex_iff something_left_def whenM_Inr_iff
      dest: dns_gone_Inr split: if_splits)

lemma keeps_plans_wp:
  assumes "obeys (\<lambda>s s'. keeps db_plans (sys_db s) (sys_db s')) m" "plans_of t = ps"
    and "\<And>x u. plans_of u = ps \<Longrightarrow> Q x u" "\<And>e u. plans_of u = ps \<Longrightarrow> Z e u"
  shows "wp m Q Z t"
  using plans_of_same [OF obeysD [OF assms(1), of t]] assms(2-4)
  by (cases "m t") (auto simp: wp_def split: sum.splits)

lemma st_delete_tunnel_wp:
  assumes "plans_of t = ps"
  shows "wp (st_delete_tunnel E tid)
    (\<lambda>_ u. plans_of u = filter (\<lambda>p. tp_id p \<noteq> tid) ps)
    (\<lambda>_ u. \<not> reliable E \<and> (plans_of u = ps \<or> plans_of u = filter (\<lambda>p. tp_id p \<noteq> tid) ps)) t"
  using st_delete_tunnel_plans [OF prod.collapse [symmetric], of E tid t] assms
  by (cases "st_delete_tunnel E tid t") (auto simp: wp_def split: sum.splits)

lemma deletion_wp:
  "wp (api_delete_tunnel E tid)
     (\<lambda>_ u. plans_of u = filter (\<lambda>p. tp_id p \<noteq> tid) (plans_of s))
     (\<lambda>_ u. plans_of u = plans_of s
        \<or> \<not> reliable E \<and> plans_of u = filter (\<lambda>p. tp_id p \<noteq> tid) (plans_of s)) s"
  unfolding api_delete_tunnel_def apiM_def wp_bind wp_then wp_map_err
  by (rule keeps_plans_wp [OF plans_fixed.whole.store_reads(2) refl]; simp)
    (intro impI keeps_plans_wp [OF plans_fixed.whole.reading(1)];
      auto intro!: keeps_plans_wp [OF plans_fixed.whole.dns_gone] wp_mono [OF st_delete_tunnel_wp])

text \<open>
  C16: a plan is deleted only when nothing of it is left at the providers. When deleting a
  plan succeeds, the provider's list read in this request has no tunnel of the plan's
  name, and, if its DNS is managed, the A records read in this request have none for its
  domain; then exactly that plan is gone. When it fails, the plans are as before, unless
  SQLite itself failed.
\<close>
theorem delete_tunnel_is_safe:
  assumes "api_delete_tunnel E tid s = (r, s')"
  shows "case r of
      Inr _ \<Rightarrow> (\<exists>plan t. st_get_tunnel E tid s = (Inr plan, t) \<and> \<not> something_left E plan t)
        \<and> plans_of s' = filter (\<lambda>p. tp_id p \<noteq> tid) (plans_of s)
    | Inl _ \<Rightarrow> plans_of s' = plans_of s
        \<or> \<not> reliable E \<and> plans_of s' = filter (\<lambda>p. tp_id p \<noteq> tid) (plans_of s)"
  using wp_run [OF deletion_wp assms] deletion_Inr [of E tid s _ s'] assms
  by (auto split: sum.splits)

end
