(* ===== verification/App_Start.thy ===== *)
theory App_Start
  imports Coordinator_Machine
begin

text \<open>
  The configuration the program reads from its environment
  (\<open>apps/server/src/state.rs\<close>) and its start and end (\<open>apps/server/src/main.rs\<close>). The
  environment is a map from names to values; a variable that is not valid Unicode counts
  as absent, as \<open>env::var(..)\<close> with a default does. Opening SQLite and serving HTTP are
  not part of it: the start goes from an opened database to the state the server runs in.
\<close>

section \<open>Parsing numbers\<close>

text \<open>\<open>str::parse\<close> for integers, with its four errors, and for \<open>bool\<close>.\<close>

datatype int_error = IntEmpty | IntInvalidDigit | IntPosOverflow | IntNegOverflow

definition int_error_text :: "int_error \<Rightarrow> string" where
  "int_error_text e =
     (case e of
        IntEmpty \<Rightarrow> ''cannot parse integer from empty string''
      | IntInvalidDigit \<Rightarrow> ''invalid digit found in string''
      | IntPosOverflow \<Rightarrow> ''number too large to fit in target type''
      | IntNegOverflow \<Rightarrow> ''number too small to fit in target type'')"

fun read_digits :: "int \<Rightarrow> int_error \<Rightarrow> int \<Rightarrow> string \<Rightarrow> int_error + int" where
  "read_digits limit over acc [] = Inr acc"
| "read_digits limit over acc (c # cs) =
     (case digit_value c of
        None \<Rightarrow> Inl IntInvalidDigit
      | Some d \<Rightarrow>
          (let v = 10 * acc + int d in if limit < v then Inl over else read_digits limit over v cs))"

definition parse_int :: "bool \<Rightarrow> int \<Rightarrow> int \<Rightarrow> string \<Rightarrow> int_error + int" where
  "parse_int negative_ok lo hi s =
     (case s of
        [] \<Rightarrow> Inl IntEmpty
      | c # cs \<Rightarrow>
          if cs = [] \<and> c \<in> {CHR ''+'', CHR ''-''} then Inl IntInvalidDigit
          else if c = CHR ''+'' then read_digits hi IntPosOverflow 0 cs
          else if c = CHR ''-'' \<and> negative_ok
            then map_sum id uminus (read_digits (- lo) IntNegOverflow 0 cs)
          else read_digits hi IntPosOverflow 0 s)"

definition parse_i64_env :: "string \<Rightarrow> string + int" where
  "parse_i64_env s = map_sum int_error_text id (parse_int True i64_min i64_max s)"

definition parse_usize_env :: "string \<Rightarrow> string + int" where
  "parse_usize_env s = map_sum int_error_text id (parse_int False 0 18446744073709551615 s)"

definition parse_bool_env :: "string \<Rightarrow> string + bool" where
  "parse_bool_env s =
     (if s = ''true'' then Inr True else if s = ''false'' then Inr False
      else Inl ''provided string was not `true` or `false`'')"

section \<open>The configuration\<close>

type_synonym env_vars = "string \<Rightarrow> string option"

record app_config =
  ac_http_addr :: string
  ac_data_dir :: string
  ac_database_url :: string
  ac_web_dir :: string
  ac_chmlfrp_base_url :: string
  ac_chmlfrp_token :: string
  ac_cloudflare_api_base :: string
  ac_cloudflare_api_token :: string
  ac_cloudflare_zone_id :: string
  ac_frpc_binary :: string
  ac_frpc_config :: string
  ac_frpc_log_tail :: int
  ac_active_node :: "string option"
  ac_standby_node :: "string option"
  ac_quarantine_days :: int
  ac_failover_enabled :: bool

definition env_value :: "env_vars \<Rightarrow> string \<Rightarrow> string \<Rightarrow> string" where
  "env_value vars key default_value = (case vars key of None \<Rightarrow> default_value | Some v \<Rightarrow> v)"

definition env_optional :: "env_vars \<Rightarrow> string \<Rightarrow> string option" where
  "env_optional vars key =
     (case vars key of None \<Rightarrow> None | Some v \<Rightarrow> if trim v \<noteq> [] then Some v else None)"

definition parse_env :: "(string \<Rightarrow> string + 'a) \<Rightarrow> env_vars \<Rightarrow> string \<Rightarrow> 'a \<Rightarrow> string + 'a" where
  "parse_env parse vars key default_value =
     (case vars key of
        None \<Rightarrow> Inr default_value
      | Some raw \<Rightarrow>
          (case parse raw of
             Inr x \<Rightarrow> Inr x
           | Inl err \<Rightarrow> Inl (''parse '' @ key @ ''='' @ raw @ '': '' @ err)))"

definition config_of :: "env_vars \<Rightarrow> int \<Rightarrow> int \<Rightarrow> bool \<Rightarrow> app_config" where
  "config_of vars quarantine_days frpc_log_tail failover_enabled =
     (let data_dir = env_value vars ''DATA_DIR'' ''/data'' in
      \<lparr>ac_http_addr = env_value vars ''HTTP_ADDR'' ''0.0.0.0:8080'', ac_data_dir = data_dir,
       ac_database_url = env_value vars ''DATABASE_URL'' (''sqlite://'' @ data_dir @ ''/control-center.db''),
       ac_web_dir = env_value vars ''WEB_DIR'' ''/app/web'',
       ac_chmlfrp_base_url = env_value vars ''CHMLFRP_BASE_URL'' ''https://cf-v2.uapis.cn'',
       ac_chmlfrp_token = env_value vars ''CHMLFRP_TOKEN'' [],
       ac_cloudflare_api_base = env_value vars ''CLOUDFLARE_API_BASE'' ''https://api.cloudflare.com/client/v4'',
       ac_cloudflare_api_token = env_value vars ''CLOUDFLARE_API_TOKEN'' [],
       ac_cloudflare_zone_id = env_value vars ''CLOUDFLARE_ZONE_ID'' [],
       ac_frpc_binary = env_value vars ''FRPC_BINARY'' ''/data/frpc/frpc'',
       ac_frpc_config = env_value vars ''FRPC_CONFIG'' ''/data/frpc/frpc.ini'',
       ac_frpc_log_tail = frpc_log_tail, ac_active_node = env_optional vars ''ACTIVE_NODE'',
       ac_standby_node = env_optional vars ''STANDBY_NODE'', ac_quarantine_days = quarantine_days,
       ac_failover_enabled = failover_enabled\<rparr>)"

definition from_env :: "env_vars \<Rightarrow> string + app_config" where
  "from_env vars =
     (case parse_env parse_i64_env vars ''QUARANTINE_DAYS'' 30 of
        Inl err \<Rightarrow> Inl err
      | Inr quarantine_days \<Rightarrow>
          if \<not> (1 \<le> quarantine_days \<and> quarantine_days \<le> 3650) then Inl ''QUARANTINE_DAYS must be 1..=3650''
          else (case parse_env parse_usize_env vars ''FRPC_LOG_TAIL'' 500 of
                  Inl err \<Rightarrow> Inl err
                | Inr frpc_log_tail \<Rightarrow>
                    if \<not> (100 \<le> frpc_log_tail \<and> frpc_log_tail \<le> 10000)
                    then Inl ''FRPC_LOG_TAIL must be 100..=10000''
                    else (case parse_env parse_bool_env vars ''FAILOVER_ENABLED'' True of
                            Inl err \<Rightarrow> Inl err
                          | Inr failover_enabled \<Rightarrow>
                              Inr (config_of vars quarantine_days frpc_log_tail failover_enabled))))"

section \<open>Start and end\<close>

text \<open>The state the server runs in, built from the stored provider settings.\<close>

definition install_state :: "app_config \<Rightarrow> provider_settings \<Rightarrow> ('w, 'e, unit) act" where
  "install_state config providers =
     modifyM (\<lambda>s. s
       \<lparr>sys_chml := chml_new (ps_chmlfrp_base_url providers) (ps_chmlfrp_token providers),
        sys_cf := cf_new (ps_cloudflare_api_base providers) (ps_cloudflare_api_token providers)
          (ps_cloudflare_zone_id providers),
        sys_frpc := frpc_new (ac_frpc_binary config) (ac_frpc_config config) (nat (ac_frpc_log_tail config)),
        sys_job := None\<rparr>)"

definition make_data_dir :: "'w env \<Rightarrow> app_config \<Rightarrow> ('w, string, unit) act" where
  "make_data_dir E config =
     context_err ''create data directory'' (bindM (callM (x_mkdir E (ac_data_dir config))) liftM)"

definition st_seed_routing :: "'w env \<Rightarrow> app_config \<Rightarrow> ('w, string, unit) act" where
  "st_seed_routing E config =
     bindM (sql_nowM E) (\<lambda>now. dbM E (seed_routing_from_env now (ac_active_node config)
       (ac_standby_node config) (ac_quarantine_days config) (ac_failover_enabled config)))"

definition st_seed_providers :: "'w env \<Rightarrow> app_config \<Rightarrow> ('w, string, unit) act" where
  "st_seed_providers E config =
     bindM (sql_nowM E) (\<lambda>now. dbM E (seed_provider_settings_from_env now
       (ac_chmlfrp_base_url config) (ac_chmlfrp_token config) (ac_cloudflare_api_base config)
       (ac_cloudflare_api_token config) (ac_cloudflare_zone_id config)))"

definition server_start :: "'w env \<Rightarrow> app_config \<Rightarrow> ('w, string, unit) act" where
  "server_start E config =
     thenM (make_data_dir E config)
     (thenM (st_seed_routing E config)
      (thenM (st_seed_providers E config)
       (bindM (st_provider_settings E) (\<lambda>providers.
        thenM (install_state config providers)
          (restore_frpc_if_possible E (ac_frpc_binary config) (ac_frpc_config config))))))"

definition server_end :: "'w env \<Rightarrow> ('w, 'e, unit) act" where
  "server_end E = ignoreM (fm_stop E :: ('w, string, unit) act)"

section \<open>The bounds of the configuration\<close>

lemma parse_digits_mono: "parse_digits acc cs = Some n \<Longrightarrow> acc \<le> n"
  by (induction acc cs rule: parse_digits.induct) (fastforce split: option.splits)+

text \<open>Reading digit by digit with a check at each equals reading all and checking once.\<close>

lemma read_digits_exact:
  "int acc \<le> limit \<Longrightarrow>
   read_digits limit over (int acc) cs = Inr v
   \<longleftrightarrow> (\<exists>n. parse_digits acc cs = Some n \<and> v = int n \<and> int n \<le> limit)"
proof (induction cs arbitrary: acc)
  case Nil
  then show ?case by auto
next
  case (Cons c cs)
  show ?case
  proof (cases "digit_value c")
    case None
    then show ?thesis by simp
  next
    case (Some d)
    show ?thesis
    proof (cases "int (10 * acc + d) \<le> limit")
      case True
      with Some Cons.IH [OF True] show ?thesis by (simp add: Let_def algebra_simps)
    next
      case False
      then have "\<not> int n \<le> limit" if "parse_digits (10 * acc + d) cs = Some n" for n
        using parse_digits_mono [OF that] by linarith
      with False Some show ?thesis by (auto simp: Let_def)
    qed
  qed
qed

lemma map_sum_eq_Inr: "map_sum f g x = Inr z \<longleftrightarrow> (\<exists>y. x = Inr y \<and> z = g y)"
  by (cases x) auto

lemma parse_int_i64: "parse_int True i64_min i64_max s = Inr i \<longleftrightarrow> parse_i64 s = Some i"
proof (cases s)
  case Nil
  then show ?thesis by (simp add: parse_int_def parse_i64_def)
next
  case (Cons c cs)
  have "0 \<le> i64_max" "0 \<le> - i64_min" by (simp_all add: i64_max_def i64_min_def)
  note exact = read_digits_exact [of 0, simplified, OF this(1)] read_digits_exact [of 0, simplified, OF this(2)]
  have range: "in_i64 (int n) \<longleftrightarrow> int n \<le> i64_max" "in_i64 (- int n) \<longleftrightarrow> int n \<le> - i64_min" for n
    by (auto simp: in_i64_def i64_max_def i64_min_def)
  show ?thesis
    using Cons
    by (auto simp: parse_int_def parse_i64_def Let_def exact range map_sum_eq_Inr
        simp del: read_digits.simps parse_digits.simps split: option.splits)
qed

lemma env_i64_range: "parse_i64_env s = Inr i \<Longrightarrow> in_i64 i"
  unfolding parse_i64_env_def map_sum_eq_Inr parse_int_i64
  by (auto simp: parse_i64_def Let_def split: if_splits option.splits)

lemma parse_env_Inl:
  assumes "parse_env parse vars key d = Inl e"
  shows "vars key \<noteq> None \<and> contains e key"
proof -
  from assms obtain raw err where "vars key = Some raw" "e = ''parse '' @ key @ (''='' @ raw @ '': '' @ err)"
    by (auto simp: parse_env_def split: option.splits sum.splits)
  then show ?thesis by (simp only: contains_def sublist_appendI) simp
qed

lemma parse_env_Inr: "parse_env parse vars key d = Inr x \<Longrightarrow> vars key = None \<Longrightarrow> x = d"
  by (simp add: parse_env_def)

lemma bail_texts:
  "contains ''QUARANTINE_DAYS must be 1..=3650'' ''QUARANTINE_DAYS''"
  "contains ''FRPC_LOG_TAIL must be 100..=10000'' ''FRPC_LOG_TAIL''"
  unfolding contains_def by (rule prefix_imp_sublist, simp)+

text \<open>
  C36: a configuration the program starts with is in bounds. The quarantine is between 1 and
  3650 days, the log tail between 100 and 10000 lines, a node that is named is not blank;
  reading it fails only when one of the three parsed variables is set, and the message
  then names it.
\<close>
theorem env_config_bounds:
  "case from_env vars of
      Inr c \<Rightarrow> 1 \<le> ac_quarantine_days c \<and> ac_quarantine_days c \<le> 3650
        \<and> 100 \<le> ac_frpc_log_tail c \<and> ac_frpc_log_tail c \<le> 10000
        \<and> ac_active_node c \<noteq> Some [] \<and> ac_standby_node c \<noteq> Some []
    | Inl e \<Rightarrow> \<exists>key \<in> {''QUARANTINE_DAYS'', ''FRPC_LOG_TAIL'', ''FAILOVER_ENABLED''}.
        vars key \<noteq> None \<and> contains e key"
proof (cases "from_env vars")
  case (Inr c)
  then show ?thesis
    by (auto simp: from_env_def config_of_def env_optional_def Let_def split: sum.splits if_splits option.splits)
next
  case (Inl e)
  then consider
      "parse_env parse_i64_env vars ''QUARANTINE_DAYS'' 30 = Inl e"
    | n where "parse_env parse_i64_env vars ''QUARANTINE_DAYS'' 30 = Inr n" "\<not> (1 \<le> n \<and> n \<le> 3650)"
        "e = ''QUARANTINE_DAYS must be 1..=3650''"
    | "parse_env parse_usize_env vars ''FRPC_LOG_TAIL'' 500 = Inl e"
    | n where "parse_env parse_usize_env vars ''FRPC_LOG_TAIL'' 500 = Inr n" "\<not> (100 \<le> n \<and> n \<le> 10000)"
        "e = ''FRPC_LOG_TAIL must be 100..=10000''"
    | "parse_env parse_bool_env vars ''FAILOVER_ENABLED'' True = Inl e"
    by (auto simp: from_env_def split: sum.splits if_splits)
  then have "\<exists>key \<in> {''QUARANTINE_DAYS'', ''FRPC_LOG_TAIL'', ''FAILOVER_ENABLED''}.
      vars key \<noteq> None \<and> contains e key"
  proof cases
    case 2
    with parse_env_Inr [OF 2(1)] bail_texts(1) show ?thesis by fastforce
  next
    case 4
    with parse_env_Inr [OF 4(1)] bail_texts(2) show ?thesis by fastforce
  qed (auto dest: parse_env_Inl)
  with Inl show ?thesis by simp
qed

section \<open>The state the server runs in\<close>

context program_frame
begin

lemma restore_frpc: "(\<And>g. A (FxSpawn g)) \<Longrightarrow> obeys R (restore_frpc_if_possible E binary config)"
  unfolding restore_frpc_if_possible_def by (auto intro!: primitives fm_start)

end

lemma new_manager_consistent: "frpc_consistent (frpc_new binary config n)"
  by (simp add: frpc_consistent_def frpc_new_def states_named_def)

lemma seed_routing_effect:
  assumes "fst (seed_routing_from_env now active standby days enabled d) = Inr ()"
  shows "let d' = snd (seed_routing_from_env now active standby days enabled d) in
    db_phase d' = db_phase d \<and> db_providers d' = db_providers d
    \<and> db_active d' = (case db_active d of None \<Rightarrow> active | Some a \<Rightarrow> Some a)"
  using assms
  by (auto simp: seed_routing_from_env_def update_routing_row_def run_routing_state db_phase_def db_active_def
      effect_simps Let_def split: sum.splits option.splits)

definition seeded_providers :: "app_config \<Rightarrow> string \<Rightarrow> provider_settings" where
  "seeded_providers c now =
     \<lparr>ps_chmlfrp_base_url = clean_url (ac_chmlfrp_base_url c), ps_chmlfrp_token = trim (ac_chmlfrp_token c),
      ps_cloudflare_api_base = clean_url (ac_cloudflare_api_base c),
      ps_cloudflare_api_token = trim (ac_cloudflare_api_token c),
      ps_cloudflare_zone_id = trim (ac_cloudflare_zone_id c), ps_updated_at = now\<rparr>"

lemma seed_providers_effect:
  "let d' = snd (seed_provider_settings_from_env now (ac_chmlfrp_base_url c) (ac_chmlfrp_token c)
       (ac_cloudflare_api_base c) (ac_cloudflare_api_token c) (ac_cloudflare_zone_id c) d) in
    db_routing d' = db_routing d
    \<and> pv_settings (db_providers d') =
        (if pv_bootstrap_complete (db_providers d) \<noteq> 0 then pv_settings (db_providers d)
         else seeded_providers c now)"
  by (simp add: seed_provider_settings_from_env_def write_providers_def seeded_providers_def effect_simps Let_def)

lemma sql_now_then_Inr:
  assumes "bindM (sql_nowM E) (\<lambda>now. dbM E (m now)) s = (Inr x, s')"
  shows "\<exists>now. fst (m now (sys_db s)) = Inr x \<and> sys_db s' = snd (m now (sys_db s))"
proof -
  from assms obtain now t where n: "sql_nowM E s = (Inr now :: string + string, t)" and d: "dbM E (m now) t = (Inr x, s')"
    by (elim bindM_InrE)
  from sql_nowM_cases [OF n] dbM_Inr [OF d] show ?thesis by auto
qed

lemma restored_in_order:
  assumes "in_order s" "restore_frpc_if_possible E binary config s = (r, s')"
  shows "in_order s' \<and> db_routing (sys_db s') = db_routing (sys_db s)
    \<and> db_providers (sys_db s') = db_providers (sys_db s)"
proof
  show "in_order s'"
    by (rule in_order_quiet [where m = "restore_frpc_if_possible E binary config", OF assms])
      (rule routing_fixed.whole.restore_frpc job_kept.restore_frpc consistent.restore_frpc
        clients_kept.restore_frpc, simp)+
  show "db_routing (sys_db s') = db_routing (sys_db s) \<and> db_providers (sys_db s') = db_providers (sys_db s)"
    using routing_kept_run [OF routing_fixed.whole.restore_frpc assms(2)]
      obeys_run [OF clients_kept.restore_frpc assms(2)] by (simp add: keeps_def)
qed

text \<open>
  C17: the program starts in order. Over a database whose phase is idle, failed or
  DNS-degraded, a completed start leaves the system in order (both clients on the stored
  settings, no job, a consistent process manager), from where the coordinator keeps it in
  order; the stored active node wins over the environment, and so do the stored provider
  settings once they have been seeded.
\<close>
theorem start_is_in_order:
  assumes "server_start E c s = (Inr (), s')" "settled (sys_db s)"
  shows "in_order s' \<and> db_phase (sys_db s') = db_phase (sys_db s)
    \<and> db_active (sys_db s') = (case db_active (sys_db s) of None \<Rightarrow> ac_active_node c | Some a \<Rightarrow> Some a)
    \<and> (\<exists>now. pv_settings (db_providers (sys_db s')) =
         (if pv_bootstrap_complete (db_providers (sys_db s)) \<noteq> 0 then pv_settings (db_providers (sys_db s))
          else seeded_providers c now))
    \<and> (\<forall>m. machine_reach E s' m \<longrightarrow> reliable E \<longrightarrow> in_order (ma_sys m))"
proof -
  from assms(1) obtain s1 s2 s3 s4 p x where
    m: "make_data_dir E c s = (Inr x, s1)" and a: "st_seed_routing E c s1 = (Inr (), s2)"
    and b: "st_seed_providers E c s2 = (Inr (), s3)" and p: "st_provider_settings E s3 = (Inr p, s4)"
    and r: "restore_frpc_if_possible E (ac_frpc_binary c) (ac_frpc_config c)
         (snd (install_state c p s4 :: (string + unit) \<times> _)) = (Inr () :: string + unit, s')"
    unfolding server_start_def by (elim bindM_InrE thenM_InrE) (rule that, auto simp: install_state_def effect_simps)
  have 0: "sys_db s1 = sys_db s"
    using m by (auto simp: make_data_dir_def context_err_def map_errM_Inr_iff bindM_Inr_iff callM_def liftM_def effect_simps
        split: prod.splits sum.splits)
  have 1: "db_phase (sys_db s2) = db_phase (sys_db s)" "db_providers (sys_db s2) = db_providers (sys_db s)"
    "db_active (sys_db s2) = (case db_active (sys_db s) of None \<Rightarrow> ac_active_node c | Some a \<Rightarrow> Some a)"
    using sql_now_then_Inr [OF a [unfolded st_seed_routing_def]] 0 by (auto dest!: seed_routing_effect simp: Let_def)
  obtain now where now: "sys_db s3 = snd (seed_provider_settings_from_env now (ac_chmlfrp_base_url c)
      (ac_chmlfrp_token c) (ac_cloudflare_api_base c) (ac_cloudflare_api_token c)
      (ac_cloudflare_zone_id c) (sys_db s2))"
    using sql_now_then_Inr [OF b [unfolded st_seed_providers_def]] by blast
  have 2: "db_routing (sys_db s3) = db_routing (sys_db s2)"
    "pv_settings (db_providers (sys_db s3)) =
        (if pv_bootstrap_complete (db_providers (sys_db s)) \<noteq> 0 then pv_settings (db_providers (sys_db s))
         else seeded_providers c now)"
    using seed_providers_effect [of now c "sys_db s2"] by (simp_all add: now 1(2) Let_def)
  have 3: "sys_db s4 = sys_db s3" "p = pv_settings (db_providers (sys_db s3))"
    using dbM_Inr [of E provider_settings s3 p s4] p
    by (simp_all add: st_provider_settings_def provider_settings_def effect_simps)
  let ?s5 = "snd (install_state c p s4 :: (string + unit) \<times> _)"
  have 5: "sys_db ?s5 = sys_db s3" by (simp add: install_state_def effect_simps 3)
  have "in_order ?s5"
    using assms(2) 1 2(1) same_routing [OF 2(1)] 3
    by (simp add: in_order_def settled_def 5)
      (simp add: install_state_def effect_simps clients_match_def new_manager_consistent)
  from restored_in_order [OF this r] 1 2 5 same_routing [OF 2(1)] same_routing [of "sys_db s'" "sys_db s3"]
  show ?thesis using reach_in_order by auto
qed

end
