(* ===== verification/Compensation.thy ===== *)
theory Compensation
  imports Entry_Points
begin

text \<open>
  What the provider stage of a migration leaves at ChmlFrp when it fails
  (\<open>migrate_to\<close>, \<open>rollback_provider\<close> in \<open>apps/server/src/coordinator.rs\<close>): every tunnel
  that was moved is moved back to its original node, in reverse order.
\<close>

section \<open>Requests that move tunnels\<close>

definition move_request :: "chml_config \<Rightarrow> string \<Rightarrow> tunnel_plan \<times> remote_tunnel \<Rightarrow> effect" where
  "move_request c target = (\<lambda>(plan, original).
     FxHttp (ChUpdate c (sync_payload (cc_token c) original plan target)))"

definition restore_request :: "chml_config \<Rightarrow> tunnel_plan \<times> remote_tunnel \<Rightarrow> effect" where
  "restore_request c = (\<lambda>(plan, original).
     FxHttp (ChUpdate c (sync_payload (cc_token c) original plan (rm_node original))))"

lemma restore_is_move: "restore_request c (plan, original) = move_request c (rm_node original) (plan, original)"
  by (simp add: restore_request_def move_request_def)

text \<open>A request for each element in order, each sent once, twice or three times.\<close>

inductive tried :: "('x \<Rightarrow> effect) \<Rightarrow> 'x list \<Rightarrow> effect list \<Rightarrow> bool" for f where
  none: "tried f [] []"
| next_one: "1 \<le> n \<Longrightarrow> n \<le> 3 \<Longrightarrow> tried f xs t \<Longrightarrow> tried f (x # xs) (replicate n (f x) @ t)"

inductive_simps tried_simps: "tried f [] t" "tried f (x # xs) t"

lemma tried_append: "tried f xs t \<Longrightarrow> tried f ys u \<Longrightarrow> tried f (xs @ ys) (t @ u)"
  by (induction rule: tried.induct) (auto intro: tried.intros)

section \<open>One tunnel\<close>

text \<open>The trace and the ChmlFrp client after an operation that only appends \<open>t\<close>.\<close>

definition appends :: "effect list \<Rightarrow> 'w sys \<Rightarrow> 'w sys \<Rightarrow> bool" where
  "appends t s s' \<longleftrightarrow> sys_trace s' = sys_trace s @ t \<and> sys_chml s' = sys_chml s"

lemma appends_Nil [simp]: "appends [] s s"
  by (simp add: appends_def)

lemma appends_trans: "appends t s s1 \<Longrightarrow> appends u s1 s2 \<Longrightarrow> appends (t @ u) s s2"
  by (simp add: appends_def)

lemma chml_same: "obeys (keeps (\<lambda>s. (sys_chml s, sys_cf s, sys_job s))) m \<Longrightarrow> m s = (r, s') \<Longrightarrow> sys_chml s' = sys_chml s"
  by (drule (1) obeys_run) (simp add: keeps_def)

lemma awaitM_appends: "awaitM E s = (r, s') \<Longrightarrow> appends [] s s'"
  by (auto simp: appends_def awaitM_def split: prod.splits)

lemma sleepM_appends: "sleepM E d s = (r, s') \<Longrightarrow> appends [] s s'"
  by (auto simp: appends_def sleepM_def awaitM_def effect_simps split: prod.splits)

lemma st_activity_appends:
  assumes "st_activity E j kind level m tn nn details s = (r, s')"
  shows "appends [] s s'"
proof -
  obtain q s1 where n: "sql_nowM E s = (q :: string + string, s1)" by (metis surj_pair)
  from sql_nowM_cases [OF n] obtain now where q: "q = Inr now" "sys_trace s1 = sys_trace s" by blast
  from assms n q have d: "dbM E (activity now j kind level m tn nn details) s1 = (r, s')"
    by (simp add: st_activity_def effect_simps)
  show ?thesis
    using dbM_cases [OF d] q(2) chml_same [OF config_frame.now(2) n]
      chml_same [OF config_frame.db d] by (simp add: appends_def obeys_def)
qed

lemma ch_sync_tunnel_appends:
  assumes "chml_configured (sys_chml s)" "ch_sync_tunnel E sys_chml original plan target s = (r, s')"
  shows "appends [move_request (sys_chml s) target (plan, original)] s s'"
  using assms
  by (auto simp: ch_sync_tunnel_def ch_require_token_def chml_configured_def httpM_def emit_def callM_def
      context_err_def awaitM_def appends_def move_request_def effect_simps liftM_def
      split: prod.splits reply.splits sum.splits)

lemma sync_attempts_appends:
  assumes "chml_configured (sys_chml s)" "sync_attempts E original plan target (Suc n) s = (r, s')"
  shows "\<exists>k. 1 \<le> k \<and> k \<le> Suc n \<and> (isl r \<longrightarrow> k = Suc n)
    \<and> appends (replicate k (move_request (sys_chml s) target (plan, original))) s s'"
  using assms
proof (induction n arbitrary: s)
  case 0
  obtain q s1 where one: "ch_sync_tunnel E sys_chml original plan target s = (q, s1)" by (metis surj_pair)
  from ch_sync_tunnel_appends [OF 0(1) one] 0(2) one show ?case
    by (intro exI [of _ 1]) (auto simp: effect_simps split: sum.splits)
next
  case (Suc n)
  obtain q s1 where one: "ch_sync_tunnel E sys_chml original plan target s = (q, s1)" by (metis surj_pair)
  note first = ch_sync_tunnel_appends [OF Suc.prems(1) one]
  show ?case
  proof (cases q)
    case (Inr x)
    with first Suc.prems(2) one show ?thesis
      by (intro exI [of _ 1]) (auto simp: effect_simps)
  next
    case (Inl err)
    obtain p s2 where nap: "sleepM E (millis 1000) s1 = (p :: string + unit, s2)" by (metis surj_pair)
    have "p = Inr ()" using nap by (auto simp: sleepM_def awaitM_def effect_simps split: prod.splits)
    with Suc.prems(2) one Inl nap have more: "sync_attempts E original plan target (Suc n) s2 = (r, s')"
      by (simp add: effect_simps)
    from first sleepM_appends [OF nap] have two: "appends [move_request (sys_chml s) target (plan, original)] s s2"
      using appends_trans by fastforce
    then have "sys_chml s2 = sys_chml s" by (simp add: appends_def)
    with Suc.IH [OF _ more] Suc.prems(1) obtain k where
      "1 \<le> k" "k \<le> Suc n" "isl r \<longrightarrow> k = Suc n"
      "appends (replicate k (move_request (sys_chml s) target (plan, original))) s2 s'" by auto
    with appends_trans [OF two] show ?thesis
      by (intro exI [of _ "Suc k"]) auto
  qed
qed

lemma sync_with_retry_appends:
  assumes "chml_configured (sys_chml s)" "sync_with_retry E original plan target s = (r, s')"
  shows "\<exists>k. 1 \<le> k \<and> k \<le> 3 \<and> (isl r \<longrightarrow> k = 3)
    \<and> appends (replicate k (move_request (sys_chml s) target (plan, original))) s s'"
  using sync_attempts_appends [of s E original plan target 2] assms
  by (simp add: sync_with_retry_def numeral_3_eq_3 numeral_2_eq_2)

section \<open>Moving back\<close>

lemma mapM_Cons_run:
  "f x s = (Inr y, t) \<Longrightarrow> mapM xs f t = (Inr ys, u) \<Longrightarrow> mapM (x # xs) f s = (Inr (y # ys), u)"
  by (simp add: effect_simps)

lemma none_tried: "\<exists>t. appends t s s \<and> tried f [] t"
  by (intro exI [of _ "[]"]) (simp add: tried.none)

lemma rollback_loop:
  assumes "chml_configured (sys_chml s)"
    "mapM xs (\<lambda>(plan, original).
       bindM (attemptM (sync_with_retry E original plan (rm_node original))) (\<lambda>r.
       returnM (case r of Inr _ \<Rightarrow> [] | Inl err \<Rightarrow> [tp_name plan @ '': '' @ err]))) s = (r :: 'e + string list list, s')"
  shows "\<not> isl r \<and> (\<exists>t. appends t s s' \<and> tried (restore_request (sys_chml s)) xs t)"
  using assms
proof (induction xs arbitrary: s r s')
  case Nil
  then show ?case using none_tried by (auto simp: effect_simps)
next
  case (Cons x xs)
  obtain plan original where x: "x = (plan, original)" by force
  obtain q s1 where one: "sync_with_retry E original plan (rm_node original) s = (q, s1)" by (metis surj_pair)
  from sync_with_retry_appends [OF Cons.prems(1) one] obtain k where
    k: "1 \<le> k" "k \<le> 3" "appends (replicate k (restore_request (sys_chml s) x)) s s1"
    by (auto simp: x restore_is_move)
  then have same: "sys_chml s1 = sys_chml s" by (simp add: appends_def)
  let ?f = "\<lambda>(plan, original).
       bindM (attemptM (sync_with_retry E original plan (rm_node original))) (\<lambda>r.
       returnM (case r of Inr _ \<Rightarrow> [] | Inl err \<Rightarrow> [tp_name plan @ '': '' @ err]))"
  obtain p s2 where rest: "mapM xs ?f s1 = (p :: 'e + string list list, s2)" by (rule prod.exhaust)
  from Cons.IH [OF _ rest] Cons.prems(1) same obtain t where
    t: "\<not> isl p" "appends t s1 s2" "tried (restore_request (sys_chml s)) xs t" by auto
  from t(1) obtain ys where p: "p = Inr ys" by (cases p) auto
  have "?f x s = (Inr (case q of Inr _ \<Rightarrow> [] | Inl err \<Rightarrow> [tp_name plan @ '': '' @ err]) :: 'e + string list, s1)"
    by (simp add: effect_simps x one)
  from mapM_Cons_run [OF this rest [unfolded p]] Cons.prems(2) have "\<not> isl r \<and> s' = s2" by auto
  with appends_trans [OF k(3) t(2)] tried.next_one [OF k(1,2) t(3)] show ?case by blast
qed

lemma rollback_provider_appends:
  assumes "chml_configured (sys_chml s)" "rollback_provider E job changed s = (r, s')"
  shows "r = Inr () \<and> (\<exists>t. appends t s s' \<and> tried (restore_request (sys_chml s)) (rev changed) t)"
proof (cases "changed = []")
  case True
  with assms(2) none_tried show ?thesis by (auto simp: rollback_provider_def effect_simps)
next
  case False
  let ?m = "mapM (rev changed) (\<lambda>(plan, original).
       bindM (attemptM (sync_with_retry E original plan (rm_node original))) (\<lambda>r.
       returnM (case r of Inr _ \<Rightarrow> [] | Inl err \<Rightarrow> [tp_name plan @ '': '' @ err])))"
  obtain q s1 where loop: "(?m s :: ('b + _) \<times> _) = (q, s1)" by (rule prod.exhaust)
  from rollback_loop [OF assms(1) loop] obtain ys t where
    q: "q = Inr ys" and t: "appends t s s1" "tried (restore_request (sys_chml s)) (rev changed) t"
    by (cases q) auto
  have "\<exists>m. r = Inr () \<and> s' = snd (st_activity E (Some job) ''failover_rollback''
      (if concat ys = [] then ''warning'' else ''error'') m None None
      (JObj [(''failures'', JArr (map JStr (concat ys)))]) s1)"
    using assms(2) False loop q
    by (auto simp: rollback_provider_def rollback_failures_def effect_simps)
  then obtain m u where "r = Inr ()" "appends [] s1 s'"
    by (metis st_activity_appends prod.collapse)
  with appends_trans [OF t(1)] t(2) show ?thesis by fastforce
qed

section \<open>Moving all tunnels\<close>

lemma or_undo_cases:
  assumes "or_undo m undo f s = (r, s')"
  obtains x where "m s = (Inr x, s')" "r = Inr x"
  | err t q where "m s = (Inl err, t)" "undo t = (q, s')" "r = (case q of Inl e \<Rightarrow> Inl e | Inr _ \<Rightarrow> Inl (f err))"
  using assms by (cases "m s") (auto simp: or_undo_def effect_simps split: sum.splits prod.splits)

definition stage_failed ::
  "chml_config \<Rightarrow> string \<Rightarrow> (tunnel_plan \<times> remote_tunnel) list \<Rightarrow> effect list \<Rightarrow> effect list \<Rightarrow> bool" where
  "stage_failed c target moved middle t \<longleftrightarrow>
     (\<exists>forward back. t = forward @ middle @ back \<and> tried (move_request c target) moved forward
        \<and> tried (restore_request c) (rev moved) back)"

lemma sync_all_appends:
  assumes "chml_configured (sys_chml s)" "sync_all E job target changed snaps s = (r, s')"
    "tried (move_request (sys_chml s) target) changed before"
  shows "case r of
      Inr ch \<Rightarrow> ch = changed @ snaps
        \<and> (\<exists>t. appends t s s' \<and> tried (move_request (sys_chml s) target) (changed @ snaps) (before @ t))
    | Inl _ \<Rightarrow> (\<exists>moved failed rest t. changed @ snaps = moved @ failed # rest \<and> appends t s s'
        \<and> stage_failed (sys_chml s) target moved (replicate 3 (move_request (sys_chml s) target failed)) (before @ t))"
  using assms
proof (induction snaps arbitrary: s changed before r)
  case Nil
  then show ?case by (auto simp: effect_simps intro!: exI [of _ "[]"])
next
  case (Cons x snaps)
  obtain plan original where x: "x = (plan, original)" by force
  let ?m = "or_undo (sync_with_retry E original plan target) (rollback_provider E job changed)
      (\<lambda>_. MigOther (''ChmlFrp partial migration stopped at tunnel '' @ tp_name plan))"
  obtain q s1 where one: "?m s = (q, s1)" by (metis surj_pair)
  from one show ?case
  proof (cases rule: or_undo_cases)
    case (1 u)
    from sync_with_retry_appends [OF Cons.prems(1) 1(1)] obtain k where
      k: "1 \<le> k" "k \<le> 3" "appends (replicate k (move_request (sys_chml s) target x)) s s1"
      by (auto simp: x)
    then have same: "sys_chml s1 = sys_chml s" by (simp add: appends_def)
    have "tried (move_request (sys_chml s) target) [x] (replicate k (move_request (sys_chml s) target x))"
      using tried.next_one [OF k(1,2) tried.none] by simp
    from tried_append [OF Cons.prems(3) this] same
    have so_far: "tried (move_request (sys_chml s1) target) (changed @ [x])
        (before @ replicate k (move_request (sys_chml s) target x))" by simp
    from Cons.prems(2) one 1 have more: "sync_all E job target (changed @ [x]) snaps s1 = (r, s')"
      by (simp add: x effect_simps)
    from Cons.IH [OF _ more so_far] Cons.prems(1) same have rest: "case r of
        Inr ch \<Rightarrow> ch = changed @ x # snaps
          \<and> (\<exists>t. appends t s1 s' \<and> tried (move_request (sys_chml s) target) (changed @ x # snaps)
                (before @ replicate k (move_request (sys_chml s) target x) @ t))
      | Inl _ \<Rightarrow> (\<exists>moved failed rest t. changed @ x # snaps = moved @ failed # rest \<and> appends t s1 s'
          \<and> stage_failed (sys_chml s) target moved (replicate 3 (move_request (sys_chml s) target failed))
              (before @ replicate k (move_request (sys_chml s) target x) @ t))"
      by (cases r) simp_all
    then show ?thesis
      by (cases r) (simp, blast intro: appends_trans [OF k(3)])+
  next
    case (2 err t p)
    from sync_with_retry_appends [OF Cons.prems(1) 2(1)] have
      k: "appends (replicate 3 (move_request (sys_chml s) target x)) s t" by (auto simp: x)
    then have same: "sys_chml t = sys_chml s" by (simp add: appends_def)
    from rollback_provider_appends [OF _ 2(2)] Cons.prems(1) same obtain u where
      u: "p = Inr ()" "appends u t s1" "tried (restore_request (sys_chml s)) (rev changed) u" by auto
    from Cons.prems(2) one 2(3) u(1) have r: "isl r" "s' = s1" by (auto simp: x effect_simps)
    have "stage_failed (sys_chml s) target changed (replicate 3 (move_request (sys_chml s) target x))
        (before @ replicate 3 (move_request (sys_chml s) target x) @ u)"
      using Cons.prems(3) u(3) unfolding stage_failed_def by blast
    with appends_trans [OF k u(2)] r have "\<exists>moved failed rest t. changed @ x # snaps = moved @ failed # rest
        \<and> appends t s s'
        \<and> stage_failed (sys_chml s) target moved (replicate 3 (move_request (sys_chml s) target failed)) (before @ t)"
      by blast
    with r(1) show ?thesis by (cases r) simp_all
  qed
qed

section \<open>The provider stage\<close>

lemma snapshot_cases:
  assumes "mapM plans (\<lambda>plan. case by_name (tp_name plan) of Some original \<Rightarrow> returnM (plan, original)
      | None \<Rightarrow> failM (f plan)) s = (r, s')"
  shows "s' = s \<and> (\<forall>xs. r = Inr xs \<longrightarrow> map fst xs = plans)"
  using assms
proof (induction plans arbitrary: r s')
  case Nil
  then show ?case by (auto simp: effect_simps)
next
  case (Cons plan plans)
  then show ?case by (auto simp: effect_simps split: option.splits prod.splits sum.splits)
qed

text \<open>The tunnels of \<open>changed\<close> are moved and nothing but reads followed; and the same undone.\<close>

definition stage_moved :: "'w sys \<Rightarrow> string \<Rightarrow> (tunnel_plan \<times> remote_tunnel) list \<Rightarrow> 'w sys \<Rightarrow> bool" where
  "stage_moved s target changed s' \<longleftrightarrow>
     (\<exists>t u. appends (t @ u) s s' \<and> tried (move_request (sys_chml s) target) changed t
        \<and> (\<forall>e \<in> set u. harmless e))"

definition stage_undone :: "'w sys \<Rightarrow> string \<Rightarrow> (tunnel_plan \<times> remote_tunnel) list \<Rightarrow> 'w sys \<Rightarrow> bool" where
  "stage_undone s target changed s' \<longleftrightarrow>
     (\<exists>t u. appends t s s' \<and> stage_failed (sys_chml s) target changed u t \<and> (\<forall>e \<in> set u. harmless e))"

lemma reads_append:
  assumes "obeys (quiet (reads_or (\<lambda>_. False))) m" "m s = (r, s')"
    "obeys (keeps (\<lambda>s. (sys_chml s, sys_cf s, db_providers (sys_db s)))) m"
  shows "\<exists>u. appends u s s' \<and> (\<forall>e \<in> set u. harmless e)"
  using quiet_run [OF assms(1,2)] obeys_run [OF assms(3,2)]
  by (auto simp: appends_def keeps_def reads_or_def)

lemma undone_by_rollback:
  assumes "stage_moved s target changed s1" "chml_configured (sys_chml s)"
    "rollback_provider E job changed s1 = (r, s')"
  shows "r = Inr () \<and> stage_undone s target changed s'"
proof -
  from assms(1) obtain t u where t: "appends (t @ u) s s1" "tried (move_request (sys_chml s) target) changed t"
      "\<forall>e \<in> set u. harmless e" by (auto simp: stage_moved_def)
  then have "sys_chml s1 = sys_chml s" by (simp add: appends_def)
  with rollback_provider_appends [OF _ assms(3)] assms(2) obtain v where
    v: "r = Inr ()" "appends v s1 s'" "tried (restore_request (sys_chml s)) (rev changed) v" by auto
  have "stage_failed (sys_chml s) target changed u (t @ u @ v)"
    using t(2) v(3) unfolding stage_failed_def by blast
  with appends_trans [OF t(1) v(2)] t(3) v(1) show ?thesis by (auto simp: stage_undone_def)
qed

lemma checked_stage:
  assumes "stage_moved s target changed s1" "chml_configured (sys_chml s)"
    "or_undo m (rollback_provider E job changed) f s1 = (r, s')"
    "obeys (quiet (reads_or (\<lambda>_. False))) m"
    "obeys (keeps (\<lambda>s. (sys_chml s, sys_cf s, db_providers (sys_db s)))) m"
  shows "case r of Inr _ \<Rightarrow> stage_moved s target changed s' | Inl _ \<Rightarrow> stage_undone s target changed s'"
proof -
  have step: "stage_moved s target changed t" if run: "m s1 = (q, t)" for q t
  proof -
    from reads_append [OF assms(4) run assms(5)] obtain v where v: "appends v s1 t" "\<forall>e \<in> set v. harmless e" by blast
    from assms(1) obtain w u where w: "appends (w @ u) s s1" "tried (move_request (sys_chml s) target) changed w"
        "\<forall>e \<in> set u. harmless e" by (auto simp: stage_moved_def)
    from appends_trans [OF w(1) v(1)] have "appends (w @ (u @ v)) s t" by simp
    moreover have "\<forall>e \<in> set (u @ v). harmless e" using v(2) w(3) by auto
    ultimately show ?thesis using w(2) unfolding stage_moved_def by blast
  qed
  from assms(3) show ?thesis
  proof (cases rule: or_undo_cases)
    case (1 x)
    with step show ?thesis by auto
  next
    case (2 err t q)
    with undone_by_rollback [OF step [OF 2(1)] assms(2) 2(2)] show ?thesis by auto
  qed
qed

lemmas provider_checks =
  traced.verify_remote_target [where B = "\<lambda>_. False"] clients_kept.verify_remote_target
  traced.ch_generated_config [where B = "\<lambda>_. False"] clients_kept.ch_generated_config

text \<open>The rest of the stage, once the tunnels are moved.\<close>

definition checked_config ::
  "'w env \<Rightarrow> string \<Rightarrow> string \<Rightarrow> tunnel_plan list \<Rightarrow> (tunnel_plan \<times> remote_tunnel) list
   \<Rightarrow> ('w, migration_error, (tunnel_plan \<times> remote_tunnel) list \<times> string) act" where
  "checked_config E job target plans changed =
     thenM (or_undo (verify_remote_target E plans target) (rollback_provider E job changed) MigOther)
     (bindM (or_undo (ch_generated_config E sys_chml target (map tp_name plans))
               (rollback_provider E job changed) (\<lambda>_. MigOther ''generate ChmlFrp target config''))
        (\<lambda>config.
      if config_has_duplicate_proxy_names config
      then thenM (rollback_provider E job changed)
             (failM (MigOther ''ChmlFrp generated config contains duplicate proxy names''))
      else returnM (changed, config)))"

lemma config_stage:
  assumes "stage_moved s target snaps s2" "chml_configured (sys_chml s)"
    "checked_config E job target plans snaps s2 = (r, s')"
  shows "case r of Inr (changed, _) \<Rightarrow> changed = snaps \<and> stage_moved s target snaps s'
    | Inl _ \<Rightarrow> stage_undone s target snaps s'"
proof -
  let ?undo = "rollback_provider E job snaps"
  obtain v s3 where verify: "or_undo (verify_remote_target E plans target) ?undo MigOther s2 = (v, s3)"
    by (rule prod.exhaust)
  note checked = checked_stage [OF assms(1,2) verify provider_checks(1,2)]
  show ?thesis
  proof (cases v)
    case (Inl e)
    with assms(3) verify checked show ?thesis by (auto simp: checked_config_def run_bindM run_thenM)
  next
    case (Inr x)
    let ?gen = "or_undo (ch_generated_config E sys_chml target (map tp_name plans)) ?undo
        (\<lambda>_. MigOther ''generate ChmlFrp target config'')"
    obtain w s4 where gen: "?gen s3 = (w, s4)" by (rule prod.exhaust)
    from checked Inr have "stage_moved s target snaps s3" by simp
    note generated = checked_stage [OF this assms(2) gen provider_checks(3,4)]
    show ?thesis
    proof (cases w)
      case (Inl e)
      with generated assms(3) verify \<open>v = Inr x\<close> gen show ?thesis
        by (auto simp: checked_config_def run_bindM run_thenM)
    next
      case (Inr config)
      obtain z s5 where undo: "?undo s4 = (z :: migration_error + unit, s5)" by (rule prod.exhaust)
      from generated Inr have m4: "stage_moved s target snaps s4" by simp
      from undone_by_rollback [OF this assms(2) undo] assms(3) verify \<open>v = Inr x\<close> gen Inr undo m4 show ?thesis
        by (auto simp: checked_config_def run_bindM run_thenM run_failM run_returnM split: if_splits)
    qed
  qed
qed

lemma provider_stage_outcome:
  assumes "migrate_provider E job target plans remote s = (r, s')" "chml_configured (sys_chml s)"
  shows "case r of
      Inr (changed, _) \<Rightarrow> map fst changed = plans \<and> stage_moved s target changed s'
    | Inl _ \<Rightarrow> s' = s
        \<or> (\<exists>moved. map fst moved = plans \<and> stage_undone s target moved s')
        \<or> (\<exists>moved failed rest t. map fst (moved @ failed # rest) = plans \<and> appends t s s'
             \<and> stage_failed (sys_chml s) target moved (replicate 3 (move_request (sys_chml s) target failed)) t)"
proof -
  let ?snap = "mapM plans (\<lambda>plan. case last_entry rm_name remote (tp_name plan) of
       Some original \<Rightarrow> returnM (plan, original)
     | None \<Rightarrow> failM (MigOther (''failover preflight changed unexpectedly: tunnel '' @ tp_name plan @ '' disappeared'')))"
  obtain q s1 where snap: "?snap s = (q, s1)" by (rule prod.exhaust)
  note same = snapshot_cases [OF snap]
  show ?thesis
  proof (cases q)
    case (Inl e)
    with assms(1) snap same show ?thesis by (auto simp: migrate_provider_def run_bindM)
  next
    case (Inr snaps)
    obtain p s2 where sync: "sync_all E job target [] snaps s = (p, s2)" by (metis surj_pair)
    note moves = sync_all_appends [OF assms(2) sync tried.none]
    show ?thesis
    proof (cases p)
      case (Inl e)
      with assms(1) snap same \<open>q = Inr snaps\<close> sync have r: "r = Inl e" "s' = s2"
        by (auto simp: migrate_provider_def run_bindM)
      from moves Inl obtain moved failed rest t where
        "snaps = moved @ failed # rest" "appends t s s2"
        "stage_failed (sys_chml s) target moved (replicate 3 (move_request (sys_chml s) target failed)) t"
        by auto
      with same \<open>q = Inr snaps\<close> show ?thesis unfolding r sum.case by blast
    next
      case (Inr changed)
      from moves Inr obtain t where ch: "changed = snaps" and
        "appends t s s2" "tried (move_request (sys_chml s) target) snaps t" by auto
      then have moved: "stage_moved s target snaps s2"
        unfolding stage_moved_def by (intro exI [of _ t] exI [of _ "[]"]) simp
      from snap same \<open>q = Inr snaps\<close> sync Inr ch assms(1) have
        "checked_config E job target plans snaps s2 = (r, s')"
        by (auto simp: migrate_provider_def checked_config_def run_bindM)
      from config_stage [OF moved assms(2) this] same \<open>q = Inr snaps\<close> show ?thesis
        by (auto split: sum.splits)
    qed
  qed
qed

text \<open>
  C5: a migration whose provider stage fails undoes what it changed. On success exactly the
  tunnels of the plans were moved, in order, and nothing but reads followed. On failure
  either no tunnel was touched, or every tunnel moved so far is moved back to its original
  node in reverse order, each move with up to three requests, whatever the requests
  answer; the one tunnel this does not cover is the one whose own move failed three times.
\<close>
theorem provider_stage_compensated:
  assumes "migrate_provider E job target plans remote s = (r, s')" "chml_configured (sys_chml s)"
  shows "case r of
      Inr (changed, _) \<Rightarrow> map fst changed = plans \<and> stage_moved s target changed s'
    | Inl _ \<Rightarrow> s' = s
        \<or> (\<exists>moved. map fst moved = plans \<and> stage_undone s target moved s')
        \<or> (\<exists>moved failed rest t. map fst (moved @ failed # rest) = plans \<and> appends t s s'
             \<and> stage_failed (sys_chml s) target moved (replicate 3 (move_request (sys_chml s) target failed)) t)"
  using assms by (rule provider_stage_outcome)

end
