(* ===== verification/Failover_Errors.thy ===== *)
theory Failover_Errors
  imports Compensation
begin

text \<open>
  Two error paths of the failover that leave less behind than the code around them means
  to (\<open>apps/server/src/coordinator.rs\<close>, \<open>run_global_failover\<close> and \<open>migrate_to\<close>).
\<close>

section \<open>A manual failover that finds no nodes\<close>

lemma no_nodes_run:
  assumes "reliable E" "choose_and_try E job None old standby days require_web s = (r, s')"
    and "isl (fst (ch_list_nodes E sys_chml s))"
  shows "r = Inl ''list ChmlFrp failover candidates'' \<and> db_phase (sys_db s') = Some Idle
    \<and> old_kept (sys_db s) (sys_db s')"
proof -
  obtain e s1 where nodes: "ch_list_nodes E sys_chml s = (Inl e, s1)"
    using assms(3) by (metis isl_def prod.collapse)
  obtain q s2 where idle: "st_set_phase E Idle s1 = (q, s2)" by (metis surj_pair)
  from st_set_phase_reliable [OF assms(1) idle] obtain now where
    ph: "q = Inr ()" "sys_db s2 = snd (set_routing_phase now Idle (sys_db s1))" by blast
  have "r = Inl ''list ChmlFrp failover candidates''" "s' = s2"
    using assms(2) nodes idle ph(1) by (auto simp: choose_and_try_def failover_nodes_def effect_simps)
  moreover have "sys_db s1 = sys_db s"
    using obeys_run [OF db_kept.ch_list_nodes [where f = "\<lambda>d. d"] nodes] by (simp add: keeps_def)
  ultimately show ?thesis
    using routing.phase_set [of now Idle] obeysD [OF set_phase_old_kept] by (simp add: ph(2))
qed

text \<open>
  C34: a manual failover that cannot list the nodes ends idle, whatever the phase was
  before. With an active node whose DNS is still degraded from an earlier switch, the
  failed attempt therefore erases that mark: the phase is idle although nothing was
  repaired.
\<close>
theorem manual_failover_without_nodes:
  assumes "reliable E" "global_failover_locked E None s = (r, s')"
    and "db_active (sys_db s) = Some old" "db_phase (sys_db s) = Some DegradedDns"
    and "\<And>t. isl (fst (ch_list_nodes E sys_chml t))"
  shows "r = Inl ''list ChmlFrp failover candidates'' \<and> db_phase (sys_db s') = Some Idle
    \<and> db_active (sys_db s') = Some old \<and> db_revision (sys_db s') = db_revision (sys_db s)"
proof -
  have "fresh_trigger None s" by (simp add: fresh_trigger_def)
  obtain job s1 q s2 s3 where run:
    "sys_db s1 = sys_db s" "run_global_failover E job None s1 = (q, s2)"
    "r = map_sum id (\<lambda>_. job) q" "s' = s3\<lparr>sys_job := None\<rparr>"
    "case q of Inr _ \<Rightarrow> s3 = s2 | Inl err \<Rightarrow> record_failure E job err s2 = (Inr (), s3)"
    by (rule global_failover_run [OF assms(2) \<open>fresh_trigger None s\<close>])
  obtain standby days require_web s4 where reach:
    "run_global_failover E job None s1 = choose_and_try E job None old standby days require_web s4"
    "old_kept (sys_db s1) (sys_db s4)"
    by (rule run_reaches_nodes [OF assms(1), of s1 old None job]) (use assms run(1) in auto)
  from no_nodes_run [OF assms(1) _ assms(5)] run(2) reach(1) have
    q: "q = Inl ''list ChmlFrp failover candidates''" "db_phase (sys_db s2) = Some Idle"
      "old_kept (sys_db s4) (sys_db s2)" by metis+
  from run(5) q(1) have "record_failure E job ''list ChmlFrp failover candidates'' s2 = (Inr (), s3)" by simp
  note rec = record_failure_run [OF assms(1) this]
  have "old_kept (sys_db s) (sys_db s2)" using old.le_trans [OF reach(2) q(3)] run(1) by simp
  with rec q run(3,4) assms(3) show ?thesis by (simp add: old_kept_def failed_phase_def)
qed

section \<open>A configuration file that cannot be read\<close>

text \<open>
  C35: when the FRPC configuration on disk cannot be read after the tunnels were moved at
  ChmlFrp, the migration fails with that error and the tunnels stay moved: this error is
  returned before the compensation that all later ones run.
\<close>
theorem unreadable_config_leaves_tunnels_moved:
  assumes "chml_configured (sys_chml s)"
    and "migrate_provider E job target plans remote s = (Inr (changed, config), s1)"
    and "fm_read_config E s1 = (Inl e, s2)"
  shows "bindM (migrate_provider E job target plans remote) (\<lambda>(changed, config).
      migrate_runtime E job target (map tp_name plans) restore_previous changed config) s = (Inl (MigOther e), s2)
    \<and> map fst changed = plans \<and> stage_moved s target changed s2"
proof -
  have "appends [] s1 s2"
    using assms(3)
    by (auto simp: fm_read_config_def callM_def awaitM_def effect_simps appends_def
        split: prod.splits read_result.splits)
  moreover have "map fst changed = plans \<and> stage_moved s target changed s1"
    using provider_stage_outcome [OF assms(2,1)] by simp
  ultimately have "map fst changed = plans \<and> stage_moved s target changed s2"
    by (simp add: stage_moved_def appends_def)
  with assms(2,3) show ?thesis by (simp add: migrate_runtime_def otherM_def effect_simps)
qed

end
