(* ===== verification/Machine_Liveness.thy ===== *)
theory Machine_Liveness
  imports Coordinator_Machine
begin

text \<open>
  Progress of the coordinator: a fault that waits for the lock is served after as many
  operations as are before it. The operations themselves always come to an end, since they
  are total functions; \<open>turns E n\<close> relates two states with at least \<open>n\<close> ends of an
  operation between them and any other steps among these.
\<close>

definition finishing :: "'w env \<Rightarrow> 'w machine \<Rightarrow> 'w machine \<Rightarrow> bool" where
  "finishing E c c' \<longleftrightarrow>
     (\<exists>op. ma_holder c = Some op
        \<and> c' = hand_over op (c\<lparr>ma_sys := operation_result E False op (ma_sys c)\<rparr>))"

lemma finishing_step: "finishing E c c' \<Longrightarrow> machine_step E c c'"
  by (auto simp: finishing_def intro: machine_step.finish)

inductive turns :: "'w env \<Rightarrow> nat \<Rightarrow> 'w machine \<Rightarrow> 'w machine \<Rightarrow> bool" for E where
  start: "turns E 0 c c"
| turn: "turns E n c d \<Longrightarrow> finishing E d d' \<Longrightarrow> turns E (Suc n) c d'"
| other: "turns E n c d \<Longrightarrow> machine_step E d d' \<Longrightarrow> turns E n c d'"

lemma turns_reach: "turns E n c d \<Longrightarrow> machine_reach E s c \<Longrightarrow> machine_reach E s d"
  by (induction rule: turns.induct) (auto intro: machine_reach.step finishing_step)

text \<open>The faults whose turn has come, and how they and the received ones grow.\<close>

definition held :: "'w machine \<Rightarrow> frpc_event list" where
  "held c = (case ma_holder c of None \<Rightarrow> [] | Some op \<Rightarrow> served_by op)"

definition queue_ok :: "'w machine \<Rightarrow> bool" where
  "queue_ok c \<longleftrightarrow> ma_received c = ma_served c @ held c @ ma_waiting c
     \<and> (ma_holder c = None \<longrightarrow> ma_waiting c = [])"

definition turn_reached :: "'w machine \<Rightarrow> nat" where
  "turn_reached c = length (ma_served c) + length (held c)"

lemmas step_defs = receive_fault_def hand_over_def served_by_def waits_for_lock_def held_def

lemma queue_step: "machine_step E c c' \<Longrightarrow> queue_ok c \<Longrightarrow> queue_ok c'"
  by (cases rule: machine_step.cases, assumption)
    (auto simp: queue_ok_def step_defs split: option.splits list.splits operation.splits)

lemma reach_queue: "machine_reach E s c \<Longrightarrow> queue_ok c"
  by (induction rule: machine_reach.induct) (auto simp: queue_ok_def held_def dest: queue_step)

definition grows :: "'w machine \<Rightarrow> 'w machine \<Rightarrow> bool" where
  "grows c c' \<longleftrightarrow> prefix (ma_received c) (ma_received c')
     \<and> length (ma_served c) \<le> length (ma_served c') \<and> turn_reached c \<le> turn_reached c'"

lemma receive_grows: "grows c (receive_fault event c)"
  by (simp add: grows_def turn_reached_def held_def receive_fault_def)

lemma hand_over_grows:
  "ma_holder c = Some op \<Longrightarrow> grows c (hand_over op (c\<lparr>ma_sys := s\<rparr>))"
  by (cases "ma_waiting c") (simp_all add: grows_def turn_reached_def held_def hand_over_def)

lemma grows_sys: "grows (c\<lparr>ma_sys := s\<rparr>) d = grows c d" "grows c (c\<lparr>ma_sys := s\<rparr>)"
  by (simp_all add: grows_def turn_reached_def held_def)

lemma step_grows:
  assumes "machine_step E c c'"
  shows "grows c c'"
  using assms
proof (cases rule: machine_step.cases)
  case (start op)
  then show ?thesis by (simp add: grows_def turn_reached_def held_def)
next
  case (confirmed event event' s')
  with receive_grows [of "c\<lparr>ma_sys := s'\<rparr>"] show ?thesis by (simp add: grows_sys)
qed (simp_all add: receive_grows hand_over_grows grows_sys)

lemma turn_advances:
  assumes "finishing E c c'" "queue_ok c"
  shows "ma_served c' = ma_received c' \<or> Suc (turn_reached c) \<le> turn_reached c'"
proof -
  from assms(1) obtain op where op: "ma_holder c = Some op"
    "c' = hand_over op (c\<lparr>ma_sys := operation_result E False op (ma_sys c)\<rparr>)"
    unfolding finishing_def by blast
  show ?thesis
  proof (cases "ma_waiting c")
    case Nil
    with op assms(2) show ?thesis by (simp add: queue_ok_def hand_over_def held_def)
  next
    case (Cons event rest)
    with op show ?thesis by (simp add: turn_reached_def hand_over_def held_def served_by_def)
  qed
qed

lemma turns_advance:
  assumes "turns E n c d" "machine_reach E s c"
  shows "prefix (ma_received c) (ma_received d)
    \<and> (length (ma_received c) \<le> length (ma_served d) \<or> turn_reached c + n \<le> turn_reached d)"
  using assms
proof (induction rule: turns.induct)
  case (start c)
  then show ?case by simp
next
  case (turn n c d d')
  have q: "queue_ok d" "queue_ok d'"
    using reach_queue turns_reach [OF turn.hyps(1) turn.prems] queue_step [OF finishing_step [OF turn.hyps(2)]]
    by blast+
  note grow = step_grows [OF finishing_step [OF turn.hyps(2)]]
  have pre: "prefix (ma_received c) (ma_received d')"
    using turn.IH [OF turn.prems] grow unfolding grows_def by (blast intro: prefix_order.trans)
  with turn_advances [OF turn.hyps(2) q(1)] turn.IH [OF turn.prems] grow prefix_length_le [OF pre]
  show ?case by (auto simp: grows_def)
next
  case (other n c d d')
  with step_grows [OF other.hyps(2)] show ?case
    by (auto simp: grows_def intro: prefix_order.trans)
qed


end
