(* ===== verification/Status_Rows.thy ===== *)
theory Status_Rows
  imports Reconcile
begin

text \<open>
  What the overall status of a row on the dashboard means (\<open>overall_status\<close>,
  \<open>chmlfrp_status\<close>, \<open>cloudflare_status\<close> in \<open>apps/server/src/reconcile.rs\<close>).
\<close>

lemma layer_states [simp]:
  "ls_state (layer_status_of st l d) = st" "ls_state (layer_ok l) = LsOk" "ls_state (layer_unknown l) = LsUnknown"
  by (simp_all add: layer_status_of_def layer_ok_def layer_unknown_def)

lemma overall_ok:
  "ls_state (overall_status phase chmlfrp frpc cloudflare managed) = LsOk \<longleftrightarrow>
     phase = Idle \<and> ls_state chmlfrp = LsOk \<and> ls_state frpc = LsOk \<and> (managed \<longrightarrow> ls_state cloudflare = LsOk)"
  by (cases phase; cases "ls_state chmlfrp"; cases "ls_state frpc"; cases "ls_state cloudflare")
    (simp_all add: overall_status_def)

lemma chmlfrp_ok:
  "ls_state (chmlfrp_status plan configured available active by_name) = LsOk \<longleftrightarrow>
     configured \<and> available
     \<and> (\<exists>r. by_name (tp_name plan) = Some r \<and> matches_plan_on_node r plan (if active = [] then rm_node r else active))"
  by (auto simp: chmlfrp_status_def matches_plan_on_node_def split: option.splits)

lemma cloudflare_ok:
  "ls_state (cloudflare_status plan configured available ip named) = LsOk \<longleftrightarrow>
     tp_dns_managed plan \<and> configured \<and> available
     \<and> (\<exists>r. named (to_ascii_lowercase (tp_domain plan)) = [r] \<and> (ip = None \<or> ip = Some (dr_content r)))"
  by (auto simp: cloudflare_status_def split: list.splits)

lemma last_entry_member: "last_entry key xs k = Some x \<Longrightarrow> x \<in> set xs \<and> key x = k"
  unfolding last_entry_def by (drule find_Some_in_set) simp


end
