(* ===== verification/Readiness_Time.thy ===== *)
theory Readiness_Time
  imports Frpc_Manager
begin

text \<open>
  How long the readiness wait may take (\<open>wait_ready\<close> in
  \<open>crates/frpc-runtime/src/lib.rs\<close>): it polls every half second, so it ends half a second
  and one late wake-up after its time at the latest.
\<close>

lemma ready_poll_instant:
  "ready_poll E expected timeout g started s = (r, s') \<Longrightarrow> sys_instant s' = sys_instant s"
  by (auto simp: ready_poll_def fm_generation_of_def fm_status_def fm_try_wait_def frpcM_def callM_def
      effect_simps split: prod.splits sum.splits if_splits option.splits wait_result.splits)

lemma half_second_instant:
  assumes "\<And>w. fst (fst (x_pause E w)) \<le> late"
  shows "sys_instant (half_second E s) \<le> sys_instant s + millis 500 + late"
  using assms [of "sys_world s"]
  by (cases "x_pause E (sys_world s)") (auto simp: half_second_def sleepM_def awaitM_def effect_simps)

lemma ready_loop_deadline:
  assumes late: "\<And>w. fst (fst (x_pause E w)) \<le> late"
    and "sys_instant s \<le> started + timeout + millis 500 + late"
    and "ready_loop E expected timeout g started s = (r, s')"
  shows "sys_instant s' \<le> started + timeout + millis 500 + late"
  using assms
proof (induction E expected timeout g started s rule: ready_loop.induct)
  case (1 E expected timeout g started s)
  obtain p t where poll: "ready_poll E expected timeout g started s = (p, t)" by (metis surj_pair)
  note same = ready_poll_instant [OF poll]
  show ?case
  proof (cases "p = Inr False")
    case True
    from ready_poll_again [OF poll [unfolded True]] have "sys_instant t \<le> started + timeout" by linarith
    with half_second_instant [of E late t] 1(2)
    have "sys_instant (half_second E t) \<le> started + timeout + millis 500 + late"
      by (meson add_le_mono1 order_trans)
    moreover have "ready_loop E expected timeout g started (half_second E t) = (r, s')"
      using 1(4) ready_loop_again [OF poll [unfolded True]] by simp
    ultimately show ?thesis by (rule 1(1) [OF poll [symmetric] True refl 1(2)])
  next
    case False
    then consider e where "p = Inl e" | "p = Inr True" by (cases p) auto
    then have "s' = t"
      using 1(4) ready_loop_error ready_loop_done poll by cases fastforce+
    with same 1(3) show ?thesis by simp
  qed
qed

text \<open>
  C23: the readiness wait ends in time. If every wake-up is at most \<open>late\<close> nanoseconds late,
  the wait is over, with success or an error, at most half a second and \<open>late\<close> after the
  timeout it was given, whatever FRPC prints meanwhile.
\<close>
theorem wait_ready_deadline:
  assumes "\<And>w. fst (fst (x_pause E w)) \<le> late"
    and "fm_wait_ready E expected timeout s = (r, s')"
  shows "sys_instant s' \<le> sys_instant s + timeout + millis 500 + late"
proof -
  obtain q t where l: "ready_loop E expected timeout (fm_generation (sys_frpc s)) (sys_instant s) s = (q, t)"
    by (metis surj_pair)
  from ready_loop_deadline [OF assms(1) _ l]
  have "sys_instant t \<le> sys_instant s + timeout + millis 500 + late" by simp
  moreover have "sys_instant s' = sys_instant t"
    using assms(2) l
    by (cases q) (auto simp: fm_wait_ready_def fm_generation_of_def effect_simps emit_def)
  ultimately show ?thesis by simp
qed

end
