(* ===== verification/Example_World.thy ===== *)
theory Example_World
  imports Api_Safety App_Start Failover_Errors Machine_Liveness Status_Rows Readiness_Time
begin

text \<open>
  A small outside the program can run in: two nodes that are online, one web tunnel with
  its DNS record, providers that store what they are sent, a file system with one file, an
  FRPC that logs in and starts its tunnel. The witnesses apply the general theorems here.
\<close>

section \<open>The outside\<close>

record toy_world =
  tw_node :: string
  tw_ip :: string
  tw_file :: "string option"
  tw_lines :: "(nat \<times> string \<times> int) list"

definition toy_tunnel :: "string \<Rightarrow> remote_tunnel" where
  "toy_tunnel node =
     \<lparr>rm_id = 7, rm_name = ''web'', rm_node = node, rm_local_ip = ''10.0.0.2'', rm_local_port = 80,
      rm_endpoint = ''a.example'', rm_port_type = ''http'', rm_band_domain = Some ''a.example'',
      rm_encryption = ''false'', rm_compression = ''true'', rm_extra_params = None, rm_state = ''true''\<rparr>"

definition toy_node :: "string \<Rightarrow> node_info" where
  "toy_node name =
     \<lparr>nd_id = 1, nd_name = name, nd_area = ''x'', nd_state = ''online'',
      nd_real_ip = (if name = ''n1'' then ''192.0.2.1'' else ''192.0.2.2''), nd_ip = name,
      nd_load1 = 0, nd_bandwidth = 0, nd_web = ''yes''\<rparr>"

definition toy_record :: "string \<Rightarrow> dns_record" where
  "toy_record ip =
     \<lparr>dr_id = ''r1'', dr_name = ''a.example'', dr_type = ''A'', dr_content = ip, dr_proxied = False,
      dr_ttl = 60, dr_priority = None, dr_comment = None, dr_created_on = None, dr_modified_on = None\<rparr>"

definition good :: "'a \<Rightarrow> 'a envelope reply" where
  "good x = Reply \<lparr>en_msg = [], en_code = 200, en_state = ''success'', en_data = Some x\<rparr>"

definition fine :: "'a \<Rightarrow> 'a cf_envelope reply" where
  "fine x = Reply \<lparr>ce_success = True, ce_result = Some x, ce_errors = [], ce_total_pages = Some 1\<rparr>"

definition toy_update :: "request \<Rightarrow> toy_world \<Rightarrow> toy_world" where
  "toy_update r w =
     (case r of
        ChUpdate c m \<Rightarrow> w\<lparr>tw_node := tm_node m\<rparr>
      | CfPatchContent c rid ip \<Rightarrow> w\<lparr>tw_ip := ip\<rparr>
      | _ \<Rightarrow> w)"

definition toy_lines :: "(nat \<times> string \<times> int) list" where
  "toy_lines = [(0, ''login to server success'', 1), (0, ''[web] start proxy success'', 2)]"

definition toy_env :: "toy_world env" where
  "toy_env =
     \<lparr>x_ch_tunnels = \<lambda>r w. (good [toy_tunnel (tw_node w)], w),
      x_ch_nodes = \<lambda>r w. (good [\<lparr>ni_id = 1, ni_name = ''n1'', ni_area = ''x'', ni_web = ''yes''\<rparr>,
        \<lparr>ni_id = 2, ni_name = ''n2'', ni_area = ''x'', ni_web = ''yes''\<rparr>], w),
      x_ch_node_info = \<lambda>r w. (good (toy_node (case r of ChNodeInfo c n \<Rightarrow> n | _ \<Rightarrow> [])), w),
      x_ch_created = \<lambda>r w. (SendFailed, w),
      x_ch_updated = \<lambda>r w. (good JNull, toy_update r w),
      x_ch_config = \<lambda>r w. (good ''[web]'', w),
      x_cf_records = \<lambda>r w. (fine [toy_record (tw_ip w)], w),
      x_cf_record = \<lambda>r w. (fine (toy_record (tw_ip (toy_update r w))), toy_update r w),
      x_cf_text = \<lambda>r w. (SendFailed, w),
      x_cf_zones = \<lambda>r w. (SendFailed, w),
      x_db_fault = \<lambda>w. (NoFault, w),
      x_db_text = \<lambda>e. ''database error'',
      x_now = \<lambda>w. (0, w),
      x_rfc3339 = \<lambda>t. ''1970-01-01T00:00:00+00:00'',
      x_sql_time = \<lambda>t. ''1970-01-01 00:00:00'',
      x_uuid = \<lambda>w. (''job-1'', w),
      x_sha256_hex = \<lambda>t. ''sha'',
      x_exists = \<lambda>p w. (True, w),
      x_read = \<lambda>p w. (case tw_file w of None \<Rightarrow> FileMissing | Some t \<Rightarrow> FileText t, w),
      x_mkdir = \<lambda>p w. (Inr (), w),
      x_write = \<lambda>p t w. (Inr (), w\<lparr>tw_file := Some t\<rparr>),
      x_rename = \<lambda>p q w. (Inr (), w),
      x_spawn = \<lambda>b c w. (Some \<lparr>cp_handle = 1, cp_pid = Some 42\<rparr>, w\<lparr>tw_lines := toy_lines\<rparr>),
      x_try_wait = \<lambda>h w. (StillRunning, w),
      x_kill = \<lambda>h w. ((), w),
      x_pause = \<lambda>w. ((0, tw_lines w), w\<lparr>tw_lines := []\<rparr>)\<rparr>"

section \<open>The program in it\<close>

definition toy_plan :: plan_row where
  "toy_plan =
     \<lparr>pr_id = 1, pr_name = ''web'', pr_local_ip = ''10.0.0.2'', pr_local_port = 80,
      pr_protocol = ''http'', pr_domain = ''a.example'', pr_dns_managed = 1, pr_record_id = None,
      pr_enabled = 1, pr_created_at = [], pr_updated_at = []\<rparr>"

definition toy_settings :: provider_settings where
  "toy_settings =
     \<lparr>ps_chmlfrp_base_url = ''https://c'', ps_chmlfrp_token = ''t'',
      ps_cloudflare_api_base = ''https://f'', ps_cloudflare_api_token = ''u'',
      ps_cloudflare_zone_id = ''z'', ps_updated_at = []\<rparr>"

definition toy_db :: db_state where
  "toy_db =
     \<lparr>db_plans = [toy_plan], db_plan_seq = 1,
      db_routing = \<lparr>rr_active_node = Some ''n1'', rr_standby_node = None, rr_quarantine_days = 30,
        rr_failover_enabled = 1, rr_state = ''idle'', rr_revision = 1, rr_updated_at = []\<rparr>,
      db_quarantine = [], db_revisions = [], db_activity = [],
      db_providers = \<lparr>pv_settings = toy_settings, pv_bootstrap_complete = 1\<rparr>\<rparr>"

definition toy_sys :: "toy_world sys" where
  "toy_sys =
     \<lparr>sys_db = toy_db, sys_chml = chml_new ''https://c'' ''t'', sys_cf = cf_new ''https://f'' ''u'' ''z'',
      sys_frpc = frpc_new ''frpc'' ''frpc.ini'' 100, sys_job = None,
      sys_world = \<lparr>tw_node = ''n1'', tw_ip = ''192.0.2.1'', tw_file = None, tw_lines = []\<rparr>,
      sys_instant = 0, sys_trace = []\<rparr>"

lemma toy_reliable: "reliable toy_env"
  by (simp add: reliable_def toy_env_def)

lemma toy_rows:
  "db_active toy_db = Some ''n1''" "db_phase toy_db = Some Idle" "db_enabled toy_db"
  by (simp_all add: toy_db_def db_active_def db_phase_def db_enabled_def phase_from_str_def)

lemma toy_state [simp]:
  "sys_db toy_sys = toy_db" "sys_job toy_sys = None" "sys_trace toy_sys = []"
  "sys_frpc toy_sys = frpc_new ''frpc'' ''frpc.ini'' 100" "fm_generation (sys_frpc toy_sys) = 0"
  by (simp_all add: toy_sys_def frpc_new_def)

lemma toy_in_order: "in_order toy_sys"
proof -
  have "frpc_consistent (frpc_new b c n)" for b c n
    by (simp add: frpc_consistent_def frpc_new_def states_named_def)
  moreover have "clients_match toy_sys"
    by (simp add: clients_match_def toy_sys_def toy_db_def toy_settings_def)
  ultimately show ?thesis by (simp add: in_order_def settled_def toy_rows)
qed

section \<open>Witnesses\<close>

definition toy_pages :: "nat \<Rightarrow> dns_record list" where
  "toy_pages p = replicate p (toy_record ''192.0.2.9'')"

definition paged_env :: "toy_world env" where
  "paged_env = toy_env\<lparr>x_cf_records := \<lambda>r w.
     (Reply \<lparr>ce_success = True, ce_result = Some (case r of CfRecords c p \<Rightarrow> toy_pages (unat p) | _ \<Rightarrow> []),
        ce_errors = [], ce_total_pages = Some 2\<rparr>, w)\<rparr>"

theorem cf_list_reads_every_page_witness:
  "fst (cf_list_dns_records paged_env sys_cf toy_sys) = Inr (replicate 3 (toy_record ''192.0.2.9''))"
proof -
  have "fst (cf_list_dns_records paged_env sys_cf toy_sys) = Inr (concat (map toy_pages [1 ..< unat (2 :: 64 word) + 1]))"
    by (rule cf_list_reads_every_page) (simp_all add: paged_env_def toy_sys_def cf_new_def, code_simp+)
  also have "[1 ..< unat (2 :: 64 word) + 1] = [1, 2]" by code_simp
  finally show ?thesis by (simp add: toy_pages_def numeral_eq_Suc)
qed

theorem manager_stays_consistent_witness:
  "frpc_consistent (sys_frpc (snd (fm_start toy_env toy_sys)))
   \<and> frpc_consistent (sys_frpc (snd (fm_stop toy_env toy_sys)))"
  using manager_stays_consistent [of "[]" "[]" 0 toy_sys toy_env] toy_in_order
  unfolding in_order_def by blast


theorem reconcile_dns_last_witness:
  "\<exists>before after. sys_trace (snd (reconcile_all toy_env ''job'' toy_sys)) = before @ after
    \<and> (\<forall>e \<in> set before. \<not> cloudflare_effect e)
    \<and> (after = [] \<or> (\<exists>g. FxReady (map tp_name (enabled_plans toy_db)) g \<in> set before))"
  using reconcile_dns_last [OF prod.collapse [symmetric], of toy_env "''job''" toy_sys]
  unfolding toy_state append_Nil by blast

theorem migration_dns_after_commit_witness:
  "\<exists>before after.
     sys_trace (snd (migrate_to toy_env ''job'' ''n2'' (Some ''n1'') None True toy_sys)) = before @ after
     \<and> (\<forall>e \<in> set before. \<not> cloudflare_effect e)
     \<and> (after = [] \<or> hd after = FxPromote ''n2'' (Some ''n1''))"
  using migration_dns_after_commit [OF prod.collapse [symmetric], of toy_env "''job''" "''n2''" "Some ''n1''" None True toy_sys]
  unfolding toy_state append_Nil by blast

theorem reconcile_routing_outcome_witness:
  "db_active (sys_db (snd (reconcile_all toy_env ''job'' toy_sys))) = Some ''n1''"
  using reconcile_routing_outcome [OF prod.collapse [symmetric], of toy_env "''job''" toy_sys]
  by (simp add: toy_rows)

theorem migration_routing_outcome_witness:
  "case fst (migrate_to toy_env ''job'' ''n2'' (Some ''n1'') None True toy_sys) of
     Inr _ \<Rightarrow> db_active (sys_db (snd (migrate_to toy_env ''job'' ''n2'' (Some ''n1'') None True toy_sys))) = Some ''n2''
   | Inl _ \<Rightarrow> True"
  using migration_routing_outcome [OF prod.collapse [symmetric], of toy_env "''job''" "''n2''" "Some ''n1''" None True toy_sys]
  by (auto simp: promoted_def split: sum.splits)

theorem failover_settles_witness:
  "sys_job (snd (global_failover_locked toy_env None toy_sys)) = None"
proof -
  have "fresh_trigger None toy_sys" by (simp add: fresh_trigger_def)
  from failover_settles [OF toy_reliable prod.collapse [symmetric] this] show ?thesis
    by (simp add: toy_rows)
qed

definition toy_fault :: "64 word \<Rightarrow> frpc_event" where
  "toy_fault g =
     \<lparr>ev_at = 5, ev_generation = g, ev_raw = ''session shutdown'', ev_proxy_name = None,
      ev_type = ServerConnectionFailure, ev_fault_domain = FdNode, ev_severity = ''critical'',
      ev_triggers_failover = True\<rparr>"

theorem stale_fault_ignored_witness:
  "queued_global_failover toy_env (toy_fault 9) toy_sys = (Inr (), toy_sys)"
  using stale_fault_ignored [of "toy_fault 9" toy_sys] by (simp add: toy_fault_def frpc_new_def)


definition toy_input :: provider_settings_update where
  "toy_input =
     \<lparr>pu_chmlfrp_base_url = ''https://d/'', pu_chmlfrp_token = None, pu_clear_chmlfrp_token = False,
      pu_cloudflare_api_base = ''https://f'', pu_cloudflare_api_token = None,
      pu_clear_cloudflare_api_token = True, pu_cloudflare_zone_id = ''z''\<rparr>"


text \<open>A fault that comes in while the lock is free takes it, a second one waits.\<close>

definition toy_machine :: "toy_world machine" where
  "toy_machine = receive_fault (toy_fault 0)
     \<lparr>ma_sys = toy_sys\<lparr>sys_frpc := (sys_frpc toy_sys)\<lparr>fm_sent := [toy_fault 0]\<rparr>\<rparr>, ma_holder = None,
      ma_waiting = [], ma_received = [], ma_served = []\<rparr>"

lemma toy_machine_reach:
  "machine_reach toy_env (toy_sys\<lparr>sys_frpc := (sys_frpc toy_sys)\<lparr>fm_sent := [toy_fault 0]\<rparr>\<rparr>) toy_machine"
  unfolding toy_machine_def
  by (rule machine_reach.step [OF machine_reach.boot machine_step.fault])
    (simp_all add: watcher_reaction_def toy_fault_def)


lemma toy_sent_in_order: "in_order (toy_sys\<lparr>sys_frpc := (sys_frpc toy_sys)\<lparr>fm_sent := [e]\<rparr>\<rparr>)"
  using toy_in_order by (simp add: in_order_def clients_match_def frpc_consistent_def)

theorem machine_stays_in_order_witness: "in_order (ma_sys toy_machine)"
  by (rule machine_stays_in_order [OF toy_machine_reach toy_reliable toy_sent_in_order])

theorem machine_refines_routing_witness:
  "route_step (route_of toy_db) (route_of (sys_db (ma_sys
     (hand_over (OpFault (toy_fault 0)) (toy_machine\<lparr>ma_sys :=
        operation_result toy_env False (OpFault (toy_fault 0)) (ma_sys toy_machine)\<rparr>)))))"
proof -
  have "ma_holder toy_machine = Some (OpFault (toy_fault 0))" "sys_db (ma_sys toy_machine) = toy_db"
    by (simp_all add: toy_machine_def receive_fault_def)
  with machine_refines_routing [OF toy_machine_reach machine_step.finish toy_reliable toy_sent_in_order]
  show ?thesis by metis
qed


section \<open>Witnesses of the API, the start and the error paths\<close>

definition toy_routing :: "string \<Rightarrow> routing_update" where
  "toy_routing node =
     \<lparr>ru_active_node = Some node, ru_standby_node = None, ru_quarantine_days = 7, ru_failover_enabled = False\<rparr>"

theorem reading_requests_are_harmless_witness:
  "db_routing (sys_db (api_effect toy_env False (DeleteRemote 7) toy_sys)) = db_routing toy_db
   \<and> db_plans (sys_db (api_effect toy_env False GetDashboard toy_sys)) = [toy_plan]"
  using reading_requests_are_harmless [of "DeleteRemote 7" toy_env False toy_sys]
    reading_requests_are_harmless [of GetDashboard toy_env False toy_sys]
  by (simp add: only_reads_def) (simp add: toy_db_def)



lemma toy_db_wf: "db_wf toy_db"
  by (simp add: db_wf_def plans_wf_def plan_check_def toy_db_def toy_plan_def db_phase_def phase_from_str_def)

definition toy_plan_input :: "string \<Rightarrow> tunnel_plan_input" where
  "toy_plan_input protocol =
     \<lparr>ti_name = ''api'', ti_local_ip = ''10.0.0.3'', ti_local_port = 8080, ti_protocol = protocol,
      ti_domain = [], ti_dns_managed = False\<rparr>"

theorem accepted_tunnel_passes_schema_witness:
  "fst (create_tunnel ''t'' (toy_plan_input ''TCP'') toy_db) \<noteq> Inl CheckViolation
   \<and> (case validate_tunnel (toy_plan_input ''HTTP'') of
        Inr _ \<Rightarrow> False
      | Inl e \<Rightarrow> api_create_tunnel toy_env (toy_plan_input ''HTTP'') toy_sys = (Inl e, toy_sys))"
proof -
  have "validate_tunnel (toy_plan_input ''TCP'') = Inr ()" by code_simp
  moreover have "isl (validate_tunnel (toy_plan_input ''HTTP''))" by code_simp
  ultimately show ?thesis
    using accepted_tunnel_passes_schema [where s = toy_sys and i = "toy_plan_input ''TCP''" and now = "''t''" and E = toy_env]
      accepted_tunnel_passes_schema [where s = toy_sys and i = "toy_plan_input ''HTTP''" and now = "''t''" and E = toy_env] toy_db_wf
    by (auto split: sum.splits)
qed

theorem delete_tunnel_is_safe_witness:
  "case api_delete_tunnel toy_env 1 toy_sys of
     (Inr _, s') \<Rightarrow> plans_of s' = [] | (Inl _, s') \<Rightarrow> plans_of s' = plans_of toy_sys"
  using delete_tunnel_is_safe [of toy_env 1 toy_sys, OF prod.collapse [symmetric]]
  by (cases "api_delete_tunnel toy_env 1 toy_sys")
    (auto simp: toy_reliable plans_of_def toy_db_def toy_plan_def row_to_tunnel_def split: sum.splits)

lemma toy_start: "fst (server_start toy_env (config_of Map.empty 30 500 True) toy_sys) = Inr ()"
  by (simp add: server_start_def make_data_dir_def st_seed_routing_def st_seed_providers_def
      st_provider_settings_def restore_frpc_if_possible_def install_state_def sql_nowM_def nowM_def callM_def
      dbM_def awaitM_def toy_env_def toy_db_def seed_routing_from_env_def run_routing_state phase_from_str_def
      seed_provider_settings_from_env_def provider_settings_def context_err_def liftM_def effect_simps
      split: prod.splits)

theorem start_is_in_order_witness:
  "in_order (snd (server_start toy_env (config_of Map.empty 30 500 True) toy_sys))
   \<and> db_active (sys_db (snd (server_start toy_env (config_of Map.empty 30 500 True) toy_sys))) = Some ''n1''"
proof -
  have "server_start toy_env (config_of Map.empty 30 500 True) toy_sys
      = (Inr (), snd (server_start toy_env (config_of Map.empty 30 500 True) toy_sys))"
    using toy_start by (metis prod.collapse)
  from start_is_in_order [OF this] show ?thesis by (simp add: settled_def toy_rows)
qed

text \<open>An outside whose configuration file is unreadable, and one that does not list its nodes.\<close>

definition denied_env :: "toy_world env" where
  "denied_env = toy_env\<lparr>x_read := \<lambda>p w. (FileError ''denied'', w)\<rparr>"

definition no_nodes_env :: "toy_world env" where
  "no_nodes_env = toy_env\<lparr>x_ch_nodes := \<lambda>r w. (SendFailed, w)\<rparr>"

lemma toy_matches: "matches_plan_on_node (toy_tunnel ''n2'') (row_to_tunnel toy_plan) ''n2''"
  by code_simp

lemma toy_config_fine: "\<not> config_has_duplicate_proxy_names ''[web]''"
  by code_simp

lemma toy_token: "trim (cc_token (chml_new ''https://c'' ''t'')) = ''t''"
  by code_simp

lemma toy_names: "tp_name (row_to_tunnel toy_plan) = ''web''" "rm_name (toy_tunnel n) = ''web''"
  by (simp_all add: row_to_tunnel_def toy_plan_def toy_tunnel_def)

lemma toy_configured: "chml_configured (sys_chml toy_sys)"
  by (simp add: toy_sys_def chml_configured_def toy_token)

text \<open>The provider stage evaluated: the tunnel is moved, read back, and the configuration fetched.\<close>

lemma toy_moved:
  "fst (migrate_provider denied_env ''job'' ''n2'' [row_to_tunnel toy_plan] [toy_tunnel ''n1''] toy_sys)
   = Inr ([(row_to_tunnel toy_plan, toy_tunnel ''n1'')], ''[web]'')"
  by (simp add: migrate_provider_def effect_simps last_entry_def toy_names or_undo_def sync_with_retry_def
      numeral_3_eq_3 ch_sync_tunnel_def ch_require_token_def toy_sys_def toy_token httpM_def emit_def callM_def
      awaitM_def denied_env_def toy_env_def good_def liftM_def ensure_success_def context_err_def toy_update_def
      sync_payload_def Let_def verify_remote_target_def ch_list_tunnels_def plan_problems_def toy_matches
      ch_generated_config_def toy_config_fine)

lemma toy_moved_run:
  "migrate_provider denied_env ''job'' ''n2'' [row_to_tunnel toy_plan] [toy_tunnel ''n1''] toy_sys
   = (Inr ([(row_to_tunnel toy_plan, toy_tunnel ''n1'')], ''[web]''),
      snd (migrate_provider denied_env ''job'' ''n2'' [row_to_tunnel toy_plan] [toy_tunnel ''n1''] toy_sys))"
  using toy_moved by (metis prod.collapse)

theorem provider_stage_compensated_witness:
  "stage_moved toy_sys ''n2'' [(row_to_tunnel toy_plan, toy_tunnel ''n1'')]
     (snd (migrate_provider denied_env ''job'' ''n2'' [row_to_tunnel toy_plan] [toy_tunnel ''n1''] toy_sys))"
  using provider_stage_compensated [OF toy_moved_run toy_configured] by simp

lemma denied_read: "fst (fm_read_config denied_env s) = Inl ''denied''"
  by (simp add: fm_read_config_def callM_def awaitM_def effect_simps denied_env_def split: prod.splits)

theorem unreadable_config_leaves_tunnels_moved_witness:
  "\<exists>s2. bindM (migrate_provider denied_env ''job'' ''n2'' [row_to_tunnel toy_plan] [toy_tunnel ''n1''])
      (\<lambda>(changed, config). migrate_runtime denied_env ''job'' ''n2'' [''web''] True changed config) toy_sys
        = (Inl (MigOther ''denied''), s2)
    \<and> stage_moved toy_sys ''n2'' [(row_to_tunnel toy_plan, toy_tunnel ''n1'')] s2"
proof -
  obtain s2 where "fm_read_config denied_env (snd (migrate_provider denied_env ''job'' ''n2''
      [row_to_tunnel toy_plan] [toy_tunnel ''n1''] toy_sys)) = (Inl ''denied'', s2)"
    by (metis denied_read prod.collapse)
  from unreadable_config_leaves_tunnels_moved [OF toy_configured toy_moved_run this, of True] show ?thesis
    by (auto simp: toy_names)
qed

definition degraded_sys :: "toy_world sys" where
  "degraded_sys = toy_sys\<lparr>sys_db := snd (set_routing_phase ''t'' DegradedDns toy_db)\<rparr>"

theorem manual_failover_without_nodes_witness:
  "db_phase (sys_db (snd (global_failover_locked no_nodes_env None degraded_sys))) = Some Idle"
proof -
  have "reliable no_nodes_env" using toy_reliable by (simp add: reliable_def no_nodes_env_def)
  moreover have "db_active (sys_db degraded_sys) = Some ''n1''" "db_phase (sys_db degraded_sys) = Some DegradedDns"
    using routing.active_set [of "''t''" DegradedDns toy_db] routing.phase_set [of "''t''" DegradedDns toy_db] toy_rows
    by (simp_all add: degraded_sys_def)
  moreover have "isl (fst (ch_list_nodes no_nodes_env sys_chml s))" for s
    by (simp add: ch_list_nodes_def ch_require_token_def httpM_def emit_def callM_def awaitM_def no_nodes_env_def
        effect_simps split: prod.splits)
  ultimately show ?thesis
    using manual_failover_without_nodes [OF _ prod.collapse [symmetric]] by blast
qed

definition toy_view :: row_view where
  "toy_view =
     \<lparr>rw_chml_configured = True, rw_chml_available = True, rw_remote = [toy_tunnel ''n2''],
      rw_cf_configured = True, rw_cf_available = True, rw_records = [toy_record ''192.0.2.2''],
      rw_phase = Idle, rw_active = ''n2'', rw_active_ip = Some ''192.0.2.2'',
      rw_runtime = \<lparr>rt_running = True, rt_pid = None, rt_connected = True, rt_config_path = [],
        rt_config_revision = None, rt_started_at = None, rt_last_error = None\<rparr>,
      rw_states = [(''web'', \<lparr>ft_tunnel_name = ''web'', ft_state = layer_ok lbl_normal, ft_last_event = None\<rparr>)]\<rparr>"


text \<open>Nothing is ever late in this outside: a wait for three seconds ends within three and a half.\<close>

theorem wait_ready_deadline_witness:
  "sys_instant (snd (fm_wait_ready toy_env [''web''] (millis 3000) toy_sys)) \<le> millis 3000 + millis 500"
proof -
  have "fst (fst (x_pause toy_env w)) \<le> 0" for w by (simp add: toy_env_def)
  from wait_ready_deadline [OF this prod.collapse [symmetric], of "[''web'']" "millis 3000" toy_sys]
  have "sys_instant (snd (fm_wait_ready toy_env [''web''] (millis 3000) toy_sys))
      \<le> sys_instant toy_sys + millis 3000 + millis 500 + 0" .
  moreover have "sys_instant toy_sys = 0" by (simp add: toy_sys_def)
  ultimately show ?thesis by simp
qed

end
