(* ===== verification/Spec2Isabelle.thy ===== *)
theory Spec2Isabelle
  imports Example_World
begin

text \<open>
  A verification development of the Ashan FRP control center, a server that keeps a set of
  tunnels of the hosted FRP service ChmlFrp running through one active node, moves all of
  them to another node when that node fails, and points the managed Cloudflare A records
  at the node in use.

  \<^bold>\<open>The program and how its parts interact.\<close> The server (\<open>src/apps/server\<close>) owns four
  resources, one per crate under \<open>src/crates\<close>: the SQLite database (desired tunnel plans,
  the routing row, quarantine windows, configuration revisions, the activity log), the
  clients of ChmlFrp and Cloudflare, and the manager of the local FRPC process. Every line
  FRPC prints is classified (\<open>frpc-log\<close>); a line that shows a failure of the node is sent
  as an event. The watcher of the coordinator turns such an event into a global failover
  and an ambiguous one into a check with the provider first. A global failover selects a
  node (\<open>failover\<close>), moves every enabled tunnel at ChmlFrp, installs the configuration
  generated for the target, restarts FRPC and waits until it is ready, commits the new
  active node, and only then writes DNS; provider changes are compensated when a step
  before the commit fails. A reconciliation does the same for the current active node. The
  HTTP API edits the plans and the routing row, reads status, edits provider resources that
  no plan manages, and starts the coordinator's operations, which exclude each other by
  one lock.

  \<^bold>\<open>Theories and the code they model.\<close> Definitions carry the names of the code; record
  fields carry a short prefix (\<open>tp_name\<close> for \<open>TunnelPlan::name\<close>).

  \<^item> \<open>Prelude\<close>, \<open>Rust_Text\<close>, \<open>Literals\<close>: collections of facts and list lemmas; the functions
    of \<open>str\<close> and the integer formatting the program uses, on UTF-8 bytes; the non-ASCII
    literals as bytes.
  \<^item> \<open>Domain\<close> (\<open>crates/domain/src/lib.rs\<close>): the shared enums as datatypes, the structs as
    records, JSON values.
  \<^item> \<open>Database\<close>, \<open>Database_Laws\<close> (\<open>crates/database/src/lib.rs\<close>, \<open>migrations/*.sql\<close>): a record
    of tables (\<open>db_state\<close>) with one function per method of \<open>Database\<close>, the constraints of
    the schema as checks. The laws give the invariant of the tables (\<open>db_step\<close>,
    \<open>db_reachable\<close>), lookup after update, the windows of the quarantine, and the contract of
    the routing row as the locale \<open>routing_store\<close>, interpreted on the tables.
  \<^item> \<open>Frpc_Log\<close> (\<open>crates/frpc-log/src/lib.rs\<close>): the classifier, and the duplicate scan of a
    generated configuration.
  \<^item> \<open>Candidates\<close> (\<open>crates/failover/src/lib.rs\<close>): which nodes may be tried, in which order.
  \<^item> \<open>Fallible\<close>: \<open>async fn .. -> Result\<close> as functions from a state to an error or value and
    a state, with the combinators \<open>?\<close>, \<open>match\<close>, \<open>let _ =\<close>, \<open>for\<close>; the locale \<open>step_order\<close> for
    before/after relations that are closed under them.
  \<^item> \<open>Chmlfrp\<close>, \<open>Cloudflare\<close>, \<open>System\<close>, \<open>Clients\<close> (\<open>crates/chmlfrp/src/lib.rs\<close>,
    \<open>crates/cloudflare/src/lib.rs\<close>): the data of the two services and the pure functions on
    it; the state of the whole program (\<open>sys\<close>, that is \<open>AppState\<close>) and its outside (\<open>env\<close>);
    the operations of the two clients, with the page loops.
  \<^item> \<open>Frpc_Runtime\<close>, \<open>Frpc_Manager\<close>, \<open>Readiness_Time\<close> (\<open>crates/frpc-runtime/src/lib.rs\<close>): the
    state of \<open>FrpcManager\<close>, what a line does to it, start, stop, restart, the configuration
    file and the readiness wait; how long that wait may take.
  \<^item> \<open>Store\<close>: the calls of the database as the running program makes them.
  \<^item> \<open>Reconcile\<close>, \<open>Status_Rows\<close> (\<open>apps/server/src/reconcile.rs\<close>): the rows of the dashboard
    and the global reconciliation.
  \<^item> \<open>Coordinator\<close>, \<open>Entry_Points\<close>, \<open>Coordinator_Machine\<close>
    (\<open>apps/server/src/coordinator.rs\<close>): one migration and the global failover; the entry
    points under the lock, the watcher and the start; the lock itself as the step relation
    \<open>machine_step\<close> of the operation that holds it and the queued failovers.
  \<^item> \<open>Coordinator_Laws\<close>, \<open>Failover_Outcome\<close>, \<open>Failover_Errors\<close>, \<open>Compensation\<close>,
    \<open>Machine_Liveness\<close>: what these guarantee (below).
  \<^item> \<open>Api_Validation\<close>, \<open>Api\<close>, \<open>Api_Laws\<close>, \<open>Api_Safety\<close> (\<open>apps/server/src/api.rs\<close>): the checks of
    the input, one function per handler, and what requests may do.
  \<^item> \<open>App_Start\<close> (\<open>apps/server/src/state.rs\<close>, \<open>main.rs\<close>): the configuration from the
    environment, the start on an opened database and the stop.
  \<^item> \<open>Example_World\<close>: a small outside, in which the theorems are applied.
\<close>

text \<open>
  \<^bold>\<open>What the lemmas show.\<close>

  \<^item> \<^emph>\<open>Routing.\<close> The locale \<open>routing_store\<close> states the three ways the routing row changes;
    \<open>Failover_Outcome\<close> follows them through a reconciliation, a migration and a failover, on
    every outcome; \<open>Coordinator_Machine\<close> lifts this to all interleavings of operations, as an
    invariant (\<open>in_order\<close>) and as a refinement of an abstract machine that either keeps the
    active node or switches to another one with the next revision (\<open>route_step\<close>).
  \<^item> \<^emph>\<open>Order of effects.\<close> A ghost trace records requests, process starts, readiness and
    commits. \<open>Coordinator_Laws\<close> shows that DNS is written last, only after readiness and
    commit, and only for managed plans; \<open>Compensation\<close> that tunnels already moved are moved
    back in reverse order; \<open>Api_Laws\<close> that requests that read write nothing, and that direct
    edits spare what the plans manage.
  \<^item> \<^emph>\<open>Frames.\<close> The locales \<open>frame\<close>, \<open>reading_frame\<close>, \<open>manager_frame\<close>, \<open>store_frame\<close>,
    \<open>program_frame\<close>, \<open>coordinator_frame\<close>, \<open>settings_frame\<close>, \<open>api_frame\<close> each add the operations of
    one layer: from a relation that the primitive steps obey they derive that every
    operation obeys it. Their interpretations are the frames used everywhere: the trace
    grows by allowed effects only, a part of the tables is kept, time does not run backwards,
    the manager stays consistent.
  \<^item> \<^emph>\<open>FRPC.\<close> Lines of a stopped process are ignored (the generation counter); readiness is
    reported only when true, and the wait ends in time.
  \<^item> \<^emph>\<open>Faults.\<close> The faults that wait for the lock are served in the order they came, none
    lost, none twice, each after a bounded number of operations.
  \<^item> \<^emph>\<open>Pure parts.\<close> The classifier's triggers, the duplicate scan against its
    specification, the candidate list, the sync payload, the bounds of the configuration.

  \<^bold>\<open>Modelling decisions.\<close>

  \<^item> An \<open>anyhow\<close> error is the text it displays: adding context replaces the text.
  \<^item> The outside is a type \<open>'w\<close> with one function per kind of call (\<open>env\<close>); nothing is
    assumed of it unless a theorem says so. A reply is \<open>SendFailed\<close>, \<open>BadStatus\<close>,
    \<open>Undecodable\<close> or a decoded body; a timeout is a request that could not be sent. A
    database statement is atomic and may fail before or after it takes effect; \<open>reliable\<close>
    is the absence of such faults.
  \<^item> At every await (\<open>awaitM\<close>) time passes and FRPC's readers deliver lines, as many as the
    outside chooses; accepting one line and polling the child are single steps. Inside one
    operation no other task of the API runs; the operations of the coordinator interleave
    with faults, confirmations and lines in \<open>machine_step\<close>. The lock of tokio is handed over
    in the order of waiting.
  \<^item> A \<open>HashMap\<close> collected from a list is the lookup of the last entry; objects of
    \<open>serde_json\<close> have sorted keys; paths have no repeated or trailing separators. 64-bit
    counters (generation, page) are words; the database's integers are \<open>int\<close>.
  \<^item> A variable of the environment that is not Unicode counts as absent. The version the API
    reports is the one in \<open>Cargo.toml\<close>.

  \<^bold>\<open>Bounds and termination.\<close> No definition has fuel for a loop of the program. The page
  loop ends because it only goes on while the 64-bit page number is below the reported number
  of pages, so the number never wraps, the readiness loop because each round sleeps at least half a second
  before a fixed deadline, all other loops run over lists. Only trimming uses fuel: the
  length of the string, and every round removes a character.

  \<^bold>\<open>Not modelled.\<close> The router, JSON extraction and response wrappers, the server-sent event
  stream, static files, the listener and signals of \<open>main\<close>, opening the SQLite file, tracing
  output, and the lag of the broadcast channel: they belong to libraries the sources only
  call, or have no effect on the state. The web panel (another language), build files,
  scripts and documents carry none of the program's logic.
\<close>

end
